(* ===== verification/Prelude.thy ===== *)
theory Prelude
  imports Main "HOL-Library.Word"
begin

text \<open>
  Shared vocabulary of the development.

  \<^item> Machine integers: Go's \<open>uint64\<close> and \<open>int64\<close> are 64-bit words; an \<open>int64\<close> is read
    with \<^term>\<open>sint\<close> and compared with the signed comparisons, a \<open>uint64\<close> with
    \<^term>\<open>unat\<close> and the unsigned ones. The conversion \<open>int64(x)\<close> of a \<open>uint64\<close> keeps the bits.
  \<^item> Errors: the values the code returns as Go errors (registered module errors, wrapped
    errors, gRPC statuses, errors of other packages).
  \<^item> Go calls: a call takes a state and ends with a value, an error or a panic, and with
    the state it has reached by then. The state survives an error, as a mutated store does.
  \<^item> The parts of \<open>fmt\<close> the code uses (decimal printing of integers, booleans).
\<close>

section \<open>Machine integers, bytes, strings\<close>

type_synonym u64 = "64 word"
type_synonym i64 = "64 word"
type_synonym byte = "8 word"
type_synonym bytes = "8 word list"

named_theorems go_defs "the combinators of Go calls, unfolded"

fun show_nat :: "nat \<Rightarrow> string" where
  "show_nat n = (if n < 10 then [char_of (48 + n)]
                 else show_nat (n div 10) @ [char_of (48 + n mod 10)])"

declare show_nat.simps [simp del]

definition Sprint_u64 :: "u64 \<Rightarrow> string" where
  "Sprint_u64 w = show_nat (unat w)"

definition Sprint_i64 :: "i64 \<Rightarrow> string" where
  "Sprint_i64 w = (if sint w < 0 then ''-'' @ show_nat (nat (- sint w)) else show_nat (nat (sint w)))"

definition Sprint_bool :: "bool \<Rightarrow> string" where
  "Sprint_bool b = (if b then ''true'' else ''false'')"

section \<open>Errors\<close>

datatype grpc_code = InvalidArgument | NotFound | Internal | Unimplemented | Unknown

datatype error =
    Registered string nat string   \<comment> \<open>\<open>errors.Register(module, code, text)\<close>\<close>
  | ErrNotFound                    \<comment> \<open>\<open>collections.ErrNotFound\<close>\<close>
  | ErrKeyNotFound                 \<comment> \<open>\<open>sdkerrors.ErrKeyNotFound\<close>\<close>
  | StatusError grpc_code string   \<comment> \<open>\<open>status.Error(code, text)\<close>\<close>
  | Errorf string                  \<comment> \<open>\<open>fmt.Errorf\<close> or \<open>errors.New\<close>, nothing wrapped\<close>
  | Wrapped error string           \<comment> \<open>\<open>errorsmod.Wrap(err, text)\<close>, or \<open>fmt.Errorf("text: %w", err)\<close>\<close>
  | Foreign string                 \<comment> \<open>an error of another package, with its text\<close>

text \<open>\<open>errors.Is\<close>: the error itself or something it wraps.\<close>

fun errors_Is :: "error \<Rightarrow> error \<Rightarrow> bool" where
  "errors_Is (Wrapped e m) t = (Wrapped e m = t \<or> errors_Is e t)"
| "errors_Is e t = (e = t)"

text \<open>The text of an error (\<open>err.Error()\<close>).\<close>

fun error_text :: "error \<Rightarrow> string" where
  "error_text (Registered _ _ s) = s"
| "error_text ErrNotFound = ''collections: not found''"
| "error_text ErrKeyNotFound = ''key not found''"
| "error_text (StatusError _ s) = s"
| "error_text (Errorf s) = s"
| "error_text (Wrapped e m) = m @ '': '' @ error_text e"
| "error_text (Foreign s) = s"

text \<open>A chain of checks passes when every check passes.\<close>

lemma first_error_None:
  "(case a of Some e \<Rightarrow> Some e | None \<Rightarrow> b) = None \<longleftrightarrow> a = None \<and> b = None"
  by (cases a) auto

section \<open>Go calls\<close>

datatype 'a res = Ok 'a | Err error | Panic string

type_synonym ('s, 'a) go = "'s \<Rightarrow> 'a res \<times> 's"

definition ret :: "'a \<Rightarrow> ('s, 'a) go" where
  "ret a s = (Ok a, s)"

definition fail :: "error \<Rightarrow> ('s, 'a) go" where
  "fail e s = (Err e, s)"

text \<open>Sequencing: go on with the value, return early on an error, unwind on a panic.\<close>

definition bind :: "('s, 'a) go \<Rightarrow> ('a \<Rightarrow> ('s, 'b) go) \<Rightarrow> ('s, 'b) go" where
  "bind m f s = (case m s of
      (Ok a, s') \<Rightarrow> f a s'
    | (Err e, s') \<Rightarrow> (Err e, s')
    | (Panic t, s') \<Rightarrow> (Panic t, s'))"

text \<open>\<open>if err != nil { return nil, w(err) }\<close>: the call with its error mapped.\<close>

definition on_err :: "(error \<Rightarrow> error) \<Rightarrow> ('s, 'a) go \<Rightarrow> ('s, 'a) go" where
  "on_err w m s = (case m s of (Err e, s') \<Rightarrow> (Err (w e), s') | r \<Rightarrow> r)"

text \<open>A pure call that returns a value or an error.\<close>

definition pure_call :: "error + 'a \<Rightarrow> ('s, 'a) go" where
  "pure_call r s = (case r of Inl e \<Rightarrow> (Err e, s) | Inr a \<Rightarrow> (Ok a, s))"

text \<open>A pure call whose only result is an error or nil.\<close>

definition check_call :: "error option \<Rightarrow> ('s, unit) go" where
  "check_call r s = (case r of Some e \<Rightarrow> (Err e, s) | None \<Rightarrow> (Ok (), s))"

lemmas go_simps = ret_def fail_def bind_def on_err_def pure_call_def check_call_def

declare go_simps [go_defs]

lemma bind_ret [simp]: "bind (ret a) f = f a"
  by (rule ext) (simp add: go_defs)

lemma bind_fail [simp]: "bind (fail e) f = fail e"
  by (rule ext) (simp add: go_defs)

lemma bind_assoc: "bind (bind m f) g = bind m (\<lambda>a. bind (f a) g)"
  by (rule ext) (simp add: go_defs split: prod.split res.split)

text \<open>Evaluation of the first call of a sequence.\<close>

lemma bind_pure_Inr [simp]: "bind (pure_call (Inr a)) f = f a"
  by (rule ext) (simp add: go_defs)

lemma bind_pure_Inl [simp]: "bind (pure_call (Inl e)) f = fail e"
  by (rule ext) (simp add: go_defs)

lemma bind_check_None [simp]: "bind (check_call None) f = f ()"
  by (rule ext) (simp add: go_defs)

lemma bind_check_Some [simp]: "bind (check_call (Some e)) f = fail e"
  by (rule ext) (simp add: go_defs)

lemma on_err_pure_Inr [simp]: "on_err w (pure_call (Inr a)) = pure_call (Inr a)"
  by (rule ext) (simp add: go_defs)

lemma on_err_pure_Inl [simp]: "on_err w (pure_call (Inl e)) = pure_call (Inl (w e))"
  by (rule ext) (simp add: go_defs)

lemma ret_apply [simp]: "ret a s = (Ok a, s)"
  by (simp add: ret_def)

lemma fail_apply [simp]: "fail e s = (Err e, s)"
  by (simp add: fail_def)

lemma bind_OkI: "m s = (Ok a, s') \<Longrightarrow> bind m f s = f a s'"
  by (simp add: bind_def)

lemma bind_ErrI: "m s = (Err e, s') \<Longrightarrow> bind m f s = (Err e, s')"
  by (simp add: bind_def)

lemma bind_OkE:
  assumes "bind m f s = (Ok b, s'')"
  obtains a s' where "m s = (Ok a, s')" and "f a s' = (Ok b, s'')"
  using assms by (auto simp: bind_def split: prod.splits res.splits)

end
