(* ===== verification/Types.thy ===== *)
theory Types
  imports Prelude
begin

text \<open>
  The data of the undo module (package \<open>x/undo/types\<close>): the registered errors
  (\<open>errors.go\<close>), the names and store prefixes (\<open>keys.go\<close>, \<open>key_record.go\<close>), the messages and
  stored values (the structs of \<open>*.pb.go\<close>), the parameters with their validation
  (\<open>params.go\<close>) and the genesis state with its validation (\<open>genesis.go\<close>).
  A field is named after the Go field, with a short prefix where two structs share a name.
\<close>

section \<open>Names, errors\<close>

definition ModuleName :: string where
  "ModuleName = ''undo''"

definition StoreKey :: string where
  "StoreKey = ModuleName"

definition GovModuleName :: string where
  "GovModuleName = ''gov''"

definition ErrInvalidSigner :: error where
  "ErrInvalidSigner = Registered ModuleName 1100 ''expected gov account as only signer for proposal message''"

definition ErrInvalidRecipient :: error where
  "ErrInvalidRecipient = Registered ModuleName 1101 ''recipient is not a valid address''"

definition ErrSendToSelf :: error where
  "ErrSendToSelf = Registered ModuleName 1102 ''cannot send to yourself''"

definition ErrInvalidAmount :: error where
  "ErrInvalidAmount = Registered ModuleName 1103 ''amount must be a positive number of coins''"

definition ErrWindowTooShort :: error where
  "ErrWindowTooShort = Registered ModuleName 1104 ''undo window is shorter than the chain minimum''"

definition ErrWindowTooLong :: error where
  "ErrWindowTooLong = Registered ModuleName 1105 ''undo window is longer than the chain maximum''"

definition ErrFinalOnly :: error where
  "ErrFinalOnly = Registered ModuleName 1106 ''this address only accepts final payments: resend with window 0''"

definition ErrTooManyPending :: error where
  "ErrTooManyPending = Registered ModuleName 1107 ''too many undoable sends in flight from this address''"

definition ErrNoSuchPending :: error where
  "ErrNoSuchPending = Registered ModuleName 1108 ''no pending send with that id''"

definition ErrNotSender :: error where
  "ErrNotSender = Registered ModuleName 1109 ''only the sender can undo a send''"

lemmas error_defs = ErrInvalidSigner_def ErrInvalidRecipient_def ErrSendToSelf_def
  ErrInvalidAmount_def ErrWindowTooShort_def ErrWindowTooLong_def ErrFinalOnly_def
  ErrTooManyPending_def ErrNoSuchPending_def ErrNotSender_def

definition ParamsKey :: string where
  "ParamsKey = ''p_undo''"

definition PendingKey :: string where
  "PendingKey = ''pending/value/''"

definition PendingCountKey :: string where
  "PendingCountKey = ''pending/count/''"

definition RecordKey :: string where
  "RecordKey = ''record/value/''"

section \<open>Coins\<close>

text \<open>
  \<open>sdk.Coin\<close> of the Cosmos SDK: a denomination and a \<open>math.Int\<close>, whose integer is absent
  (a nil pointer) in a zero value. \<open>sdk.Coins\<close> is a slice of coins. \<open>units cs d\<close> is how many
  units of denomination \<open>d\<close> the coins \<open>cs\<close> hold.
\<close>

record Coin =
  Denom :: string
  Amount :: "int option"

type_synonym Coins = "Coin list"

definition coin_units :: "Coin \<Rightarrow> string \<Rightarrow> int" where
  "coin_units c d = (if Denom c = d then (case Amount c of None \<Rightarrow> 0 | Some n \<Rightarrow> n) else 0)"

definition units :: "Coins \<Rightarrow> string \<Rightarrow> int" where
  "units cs d = (\<Sum>c\<leftarrow>cs. coin_units c d)"

section \<open>Stored values\<close>

record Params =
  Minwindow :: u64
  Defaultwindow :: u64
  Maxwindow :: u64

record Pending =
  pId :: u64
  pSender :: string
  pRecipient :: string
  pAmount :: Coin
  pExecuteat :: i64

record Record =
  rIndex :: string
  rSent :: u64
  rCancelled :: u64
  rFinalonly :: bool

record GenesisState =
  gsParams :: Params
  gsPendingList :: "Pending list"
  gsPendingCount :: u64
  gsRecordMap :: "Record list"

section \<open>Messages\<close>

record MsgUpdateParams =
  upAuthority :: string
  upParams :: Params

record MsgDelayedSend =
  dsCreator :: string
  dsRecipient :: string
  dsAmount :: Coin
  dsWindow :: u64

record MsgDelayedSendResponse =
  dsrId :: u64
  dsrFinal :: bool

record MsgCancelSend =
  csCreator :: string
  csId :: u64

record MsgSetFinalOnly =
  sfCreator :: string
  sfFinalonly :: bool

section \<open>Parameters\<close>

definition DefaultMinwindow :: u64 where
  "DefaultMinwindow = 120"

definition DefaultDefaultwindow :: u64 where
  "DefaultDefaultwindow = 600"

definition DefaultMaxwindow :: u64 where
  "DefaultMaxwindow = 86400"

definition MaxOpenPerSender :: nat where
  "MaxOpenPerSender = 20"

definition NewParams :: "u64 \<Rightarrow> u64 \<Rightarrow> u64 \<Rightarrow> Params" where
  "NewParams minwindow defaultwindow maxwindow =
     \<lparr>Minwindow = minwindow, Defaultwindow = defaultwindow, Maxwindow = maxwindow\<rparr>"

definition DefaultParams :: Params where
  "DefaultParams = NewParams DefaultMinwindow DefaultDefaultwindow DefaultMaxwindow"

text \<open>\<open>Params.Validate\<close>: nil (here \<^const>\<open>None\<close>) or the first violated bound.\<close>

definition Params_Validate :: "Params \<Rightarrow> error option" where
  "Params_Validate p =
     (if Minwindow p = 0 then Some (Errorf ''minwindow must be a positive number of seconds'')
      else if Defaultwindow p < Minwindow p then
        Some (Errorf (''defaultwindow ('' @ Sprint_u64 (Defaultwindow p) @ '') must be at least minwindow ('' @
                      Sprint_u64 (Minwindow p) @ '')''))
      else if Maxwindow p < Defaultwindow p then
        Some (Errorf (''maxwindow ('' @ Sprint_u64 (Maxwindow p) @ '') must be at least defaultwindow ('' @
                      Sprint_u64 (Defaultwindow p) @ '')''))
      else None)"

lemma Params_Validate_None:
  "Params_Validate p = None \<longleftrightarrow>
     Minwindow p \<noteq> 0 \<and> Minwindow p \<le> Defaultwindow p \<and> Defaultwindow p \<le> Maxwindow p"
  by (auto simp: Params_Validate_def not_less)

lemma DefaultParams_simps [simp]:
  "Minwindow DefaultParams = 120" "Defaultwindow DefaultParams = 600" "Maxwindow DefaultParams = 86400"
  by (simp_all add: DefaultParams_def NewParams_def DefaultMinwindow_def DefaultDefaultwindow_def
      DefaultMaxwindow_def)

section \<open>Genesis state\<close>

definition DefaultGenesis :: GenesisState where
  "DefaultGenesis = \<lparr>gsParams = DefaultParams, gsPendingList = [], gsPendingCount = 0, gsRecordMap = []\<rparr>"

text \<open>
  The two loops of \<open>GenesisState.Validate\<close>. The Go maps \<open>pendingIdMap\<close> and
  \<open>recordIndexMap\<close> are only asked whether a key is present, so each is the list of its keys.
\<close>

fun validate_pendings :: "u64 \<Rightarrow> u64 list \<Rightarrow> Pending list \<Rightarrow> error option" where
  "validate_pendings pendingCount seen [] = None"
| "validate_pendings pendingCount seen (elem # rest) =
     (if pId elem \<in> set seen then Some (Errorf ''duplicated id for pending'')
      else if pId elem \<ge> pendingCount then Some (Errorf ''pending id should be lower or equal than the last id'')
      else validate_pendings pendingCount (pId elem # seen) rest)"

fun validate_records :: "string list \<Rightarrow> Record list \<Rightarrow> error option" where
  "validate_records seen [] = None"
| "validate_records seen (elem # rest) =
     (if rIndex elem \<in> set seen then Some (Errorf ''duplicated index for record'')
      else validate_records (rIndex elem # seen) rest)"

definition GenesisState_Validate :: "GenesisState \<Rightarrow> error option" where
  "GenesisState_Validate gs =
     (case validate_pendings (gsPendingCount gs) [] (gsPendingList gs) of
        Some e \<Rightarrow> Some e
      | None \<Rightarrow> (case validate_records [] (gsRecordMap gs) of
          Some e \<Rightarrow> Some e
        | None \<Rightarrow> Params_Validate (gsParams gs)))"

lemma validate_pendings_None:
  "validate_pendings n seen ps = None \<longleftrightarrow>
     distinct (map pId ps) \<and> set (map pId ps) \<inter> set seen = {} \<and> (\<forall>p\<in>set ps. pId p < n)"
  by (induction ps arbitrary: seen) (auto simp: not_le)

lemma validate_records_None:
  "validate_records seen rs = None \<longleftrightarrow>
     distinct (map rIndex rs) \<and> set (map rIndex rs) \<inter> set seen = {}"
  by (induction rs arbitrary: seen) auto

lemma GenesisState_Validate_None:
  "GenesisState_Validate gs = None \<longleftrightarrow>
     distinct (map pId (gsPendingList gs)) \<and> (\<forall>p\<in>set (gsPendingList gs). pId p < gsPendingCount gs) \<and>
     distinct (map rIndex (gsRecordMap gs)) \<and> Params_Validate (gsParams gs) = None"
  by (simp add: GenesisState_Validate_def first_error_None validate_pendings_None validate_records_None)

end
