(* ===== verification/Sdk.thy ===== *)
theory Sdk
  imports Types
begin

text \<open>
  What the module's code uses of the Cosmos SDK. None of that code is in the repository, so it
  is a parameter of the model: a record of functions per Go interface, over an opaque store
  state \<open>'st\<close>. The laws the code relies on are stated, as locales, in theory \<open>Contracts\<close>.

  \<^item> \<open>ctx\<close>: what the code reads and writes through \<open>sdk.Context\<close>: the block time, the event
    manager, the logger, and the store behind it.
  \<^item> \<open>collMap\<close>, \<open>collItem\<close>, \<open>collSeq\<close>: \<open>collections.Map\<close>, \<open>collections.Item\<close>,
    \<open>collections.Sequence\<close>; \<open>Walk\<close> is the loop over the entries in iteration order, with the
    callback's early stop and error.
  \<^item> \<open>BankKeeper\<close>: the interface of \<open>x/undo/types/expected_keepers.go\<close>.
  \<^item> \<open>AddressCodec\<close>: \<open>address.Codec\<close>; \<open>CoinOps\<close>: the functions of \<open>sdk.Coin\<close> and
    \<open>sdk.Coins\<close> the code calls. \<open>NewCoins\<close> gives \<^const>\<open>None\<close> where it panics.
\<close>

section \<open>The context\<close>

datatype event = Event string "(string \<times> string) list"

record 'st ctx =
  blockTimeUnix :: i64
  events :: "event list"
  logs :: "(string \<times> u64 \<times> error) list"
  store :: 'st

section \<open>Interfaces\<close>

record ('st, 'k, 'v) collMap =
  map_Get :: "'k \<Rightarrow> 'st \<Rightarrow> error + 'v"
  map_Set :: "'k \<Rightarrow> 'v \<Rightarrow> 'st \<Rightarrow> error option \<times> 'st"
  map_Remove :: "'k \<Rightarrow> 'st \<Rightarrow> error option \<times> 'st"
  map_Iterate :: "'st \<Rightarrow> error + ('k \<times> 'v) list"

record ('st, 'v) collItem =
  item_Get :: "'st \<Rightarrow> error + 'v"
  item_Set :: "'v \<Rightarrow> 'st \<Rightarrow> error option \<times> 'st"

record 'st collSeq =
  seq_Peek :: "'st \<Rightarrow> error + u64"
  seq_Next :: "'st \<Rightarrow> (error + u64) \<times> 'st"
  seq_Set :: "u64 \<Rightarrow> 'st \<Rightarrow> error option \<times> 'st"

record 'st BankKeeper =
  SpendableCoins :: "bytes \<Rightarrow> 'st \<Rightarrow> Coins"
  SendCoins :: "bytes \<Rightarrow> bytes \<Rightarrow> Coins \<Rightarrow> 'st \<Rightarrow> error option \<times> 'st"
  SendCoinsFromAccountToModule :: "bytes \<Rightarrow> string \<Rightarrow> Coins \<Rightarrow> 'st \<Rightarrow> error option \<times> 'st"
  SendCoinsFromModuleToAccount :: "string \<Rightarrow> bytes \<Rightarrow> Coins \<Rightarrow> 'st \<Rightarrow> error option \<times> 'st"

record AddressCodec =
  StringToBytes :: "string \<Rightarrow> error + bytes"
  BytesToString :: "bytes \<Rightarrow> error + string"

record CoinOps =
  coin_Validate :: "Coin \<Rightarrow> error option"
  coin_IsZero :: "Coin \<Rightarrow> bool"
  NewCoins :: "Coin list \<Rightarrow> Coins option"
  coins_String :: "Coins \<Rightarrow> string"

section \<open>Calls on the store behind a context\<close>

definition call_read :: "('st \<Rightarrow> error + 'a) \<Rightarrow> ('st ctx, 'a) go" where
  "call_read f c = (case f (store c) of Inl e \<Rightarrow> (Err e, c) | Inr a \<Rightarrow> (Ok a, c))"

definition call_write :: "('st \<Rightarrow> error option \<times> 'st) \<Rightarrow> ('st ctx, unit) go" where
  "call_write f c =
     (case f (store c) of
        (None, st) \<Rightarrow> (Ok (), c\<lparr>store := st\<rparr>)
      | (Some e, st) \<Rightarrow> (Err e, c\<lparr>store := st\<rparr>))"

definition call_update :: "('st \<Rightarrow> (error + 'a) \<times> 'st) \<Rightarrow> ('st ctx, 'a) go" where
  "call_update f c =
     (case f (store c) of
        (Inr a, st) \<Rightarrow> (Ok a, c\<lparr>store := st\<rparr>)
      | (Inl e, st) \<Rightarrow> (Err e, c\<lparr>store := st\<rparr>))"

text \<open>\<open>sdk.NewCoins\<close> panics on an invalid coin set.\<close>

definition new_coins :: "CoinOps \<Rightarrow> Coin list \<Rightarrow> ('s, Coins) go" where
  "new_coins S cs s = (case NewCoins S cs of None \<Rightarrow> (Panic ''invalid coins'', s) | Some v \<Rightarrow> (Ok v, s))"

text \<open>
  \<open>Walk(ctx, nil, cb)\<close>: the callback gets each entry in iteration order and updates the local
  variables it captures, here the accumulator; it may stop the walk (\<open>Ok True\<close>) or fail it.
\<close>

fun walk_entries :: "('k \<Rightarrow> 'v \<Rightarrow> 'a \<Rightarrow> bool res \<times> 'a) \<Rightarrow> ('k \<times> 'v) list \<Rightarrow> 'a \<Rightarrow> unit res \<times> 'a" where
  "walk_entries cb [] a = (Ok (), a)"
| "walk_entries cb ((k, v) # xs) a =
     (case cb k v a of
        (Ok True, a') \<Rightarrow> (Ok (), a')
      | (Ok False, a') \<Rightarrow> walk_entries cb xs a'
      | (Err e, a') \<Rightarrow> (Err e, a')
      | (Panic t, a') \<Rightarrow> (Panic t, a'))"

definition Walk :: "('st, 'k, 'v) collMap \<Rightarrow> ('k \<Rightarrow> 'v \<Rightarrow> 'a \<Rightarrow> bool res \<times> 'a) \<Rightarrow> 'a \<Rightarrow> ('st ctx, 'a) go" where
  "Walk M cb a c =
     (case map_Iterate M (store c) of
        Inl e \<Rightarrow> (Err e, c)
      | Inr xs \<Rightarrow> (case walk_entries cb xs a of
            (Ok _, a') \<Rightarrow> (Ok a', c)
          | (Err e, a') \<Rightarrow> (Err e, c)
          | (Panic t, a') \<Rightarrow> (Panic t, c)))"

lemmas call_defs = call_read_def call_write_def call_update_def new_coins_def

declare call_defs [go_defs]

text \<open>Evaluation of a call on the store at the head of a sequence.\<close>

lemma bind_call_read:
  "bind (call_read g) f c = (case g (store c) of Inl e \<Rightarrow> (Err e, c) | Inr a \<Rightarrow> f a c)"
  by (simp add: go_defs split: sum.split)

lemma bind_call_write:
  "bind (call_write g) f c =
     (case g (store c) of
        (None, st) \<Rightarrow> f () (c\<lparr>store := st\<rparr>)
      | (Some e, st) \<Rightarrow> (Err e, c\<lparr>store := st\<rparr>))"
  by (simp add: go_defs split: prod.split option.split)

lemma bind_call_update:
  "bind (call_update g) f c =
     (case g (store c) of
        (Inr a, st) \<Rightarrow> f a (c\<lparr>store := st\<rparr>)
      | (Inl e, st) \<Rightarrow> (Err e, c\<lparr>store := st\<rparr>))"
  by (simp add: go_defs split: prod.split sum.split)

lemma bind_on_err_read:
  "bind (on_err w (call_read g)) f c = (case g (store c) of Inl e \<Rightarrow> (Err (w e), c) | Inr a \<Rightarrow> f a c)"
  by (simp add: go_defs split: sum.split)

lemma bind_on_err_write:
  "bind (on_err w (call_write g)) f c =
     (case g (store c) of
        (None, st) \<Rightarrow> f () (c\<lparr>store := st\<rparr>)
      | (Some e, st) \<Rightarrow> (Err (w e), c\<lparr>store := st\<rparr>))"
  by (simp add: go_defs split: prod.split option.split)

lemma bind_new_coins:
  "bind (new_coins S cs) f c =
     (case NewCoins S cs of None \<Rightarrow> (Panic ''invalid coins'', c) | Some v \<Rightarrow> f v c)"
  by (simp add: go_defs split: option.split)

lemmas call_evals = bind_call_read bind_call_write bind_call_update bind_on_err_read
  bind_on_err_write bind_new_coins

text \<open>A callback that neither stops nor fails folds over the entries.\<close>

lemma walk_entries_fold:
  "walk_entries (\<lambda>k v a. (Ok False, f k v a)) xs a = (Ok (), fold (\<lambda>(k, v). f k v) xs a)"
  by (induction xs arbitrary: a) auto

lemma Walk_fold:
  "Walk M (\<lambda>k v a. (Ok False, f k v a)) a c =
     (case map_Iterate M (store c) of
        Inl e \<Rightarrow> (Err e, c)
      | Inr xs \<Rightarrow> (Ok (fold (\<lambda>(k, v). f k v) xs a), c))"
  by (simp add: Walk_def walk_entries_fold split: sum.split)

end
