(* ===== verification/Keeper.thy ===== *)
theory Keeper
  imports Sdk
begin

text \<open>
  The keeper of the undo module: its state (\<open>keeper/keeper.go\<close>), the shared helpers
  (\<open>keeper/helpers.go\<close>), the message handlers (\<open>keeper/msg_*.go\<close>) and the end-of-block payout
  (\<open>keeper/abci.go\<close>). A handler is a Go call over \<open>ctx\<close>; it stops at the first error with the
  context as it is by then, as the Go code does. The lemmas of this theory hold for every
  keeper, whatever its collections and its bank do; those that rest on their contracts are in
  \<open>Refinement\<close>.
\<close>

section \<open>The keeper\<close>

record 'st Keeper =
  addressCodec :: AddressCodec
  authority :: bytes
  kParams :: "('st, Params) collItem"
  bankKeeper :: "'st BankKeeper"
  kPendingSeq :: "'st collSeq"
  kPending :: "('st, u64, Pending) collMap"
  kRecord :: "('st, string, Record) collMap"

text \<open>
  \<open>NewKeeper\<close> panics when the authority has no address string, or when the schema builder
  refuses the four prefixes (\<open>build\<close> stands for \<open>SchemaBuilder.Build\<close>, which sees the prefixes and
  names of the collections; \<open>NewItem\<close> etc. are given by the collections built on them).
\<close>

definition NewKeeper ::
  "((string \<times> string) list \<Rightarrow> error option) \<Rightarrow>
   (string \<Rightarrow> ('st, Params) collItem) \<Rightarrow> (string \<Rightarrow> ('st, u64, Pending) collMap) \<Rightarrow>
   (string \<Rightarrow> 'st collSeq) \<Rightarrow> (string \<Rightarrow> ('st, string, Record) collMap) \<Rightarrow>
   AddressCodec \<Rightarrow> bytes \<Rightarrow> 'st BankKeeper \<Rightarrow> 'st Keeper res" where
  "NewKeeper build newItem newPending newSequence newRecord codec auth bank =
     (case BytesToString codec auth of
        Inl e \<Rightarrow> Panic (''invalid authority address '' @ map (\<lambda>w. char_of (unat w)) auth @ '': '' @ error_text e)
      | Inr _ \<Rightarrow>
         (case build [(ParamsKey, ''params''), (PendingKey, ''pending''),
                      (PendingCountKey, ''pendingSequence''), (RecordKey, ''record'')] of
            Some e \<Rightarrow> Panic (error_text e)
          | None \<Rightarrow> Ok \<lparr>addressCodec = codec, authority = auth, kParams = newItem ParamsKey,
                       bankKeeper = bank, kPendingSeq = newSequence PendingCountKey,
                       kPending = newPending PendingKey, kRecord = newRecord RecordKey\<rparr>))"

definition GetAuthority :: "'st Keeper \<Rightarrow> bytes" where
  "GetAuthority k = authority k"

section \<open>Helpers\<close>

definition blockTime :: "('st ctx, i64) go" where
  "blockTime c = (Ok (blockTimeUnix c), c)"

definition empty_record :: "string \<Rightarrow> Record" where
  "empty_record addr = \<lparr>rIndex = addr, rSent = 0, rCancelled = 0, rFinalonly = False\<rparr>"

definition getRecord :: "'st Keeper \<Rightarrow> string \<Rightarrow> ('st ctx, Record) go" where
  "getRecord k addr c =
     (case call_read (map_Get (kRecord k) addr) c of
        (Err e, c') \<Rightarrow> (if errors_Is e ErrNotFound then (Ok (empty_record addr), c') else (Err e, c'))
      | (r, c') \<Rightarrow> (r, c'))"

definition bump :: "'st Keeper \<Rightarrow> string \<Rightarrow> (Record \<Rightarrow> Record) \<Rightarrow> ('st ctx, unit) go" where
  "bump k addr change =
     bind (getRecord k addr) (\<lambda>r. call_write (map_Set (kRecord k) addr (change r)))"

definition countOpen :: "'st Keeper \<Rightarrow> string \<Rightarrow> ('st ctx, nat) go" where
  "countOpen k sender =
     Walk (kPending k) (\<lambda>_ p n. (Ok False, if pSender p = sender then n + 1 else n)) 0"

text \<open>The loop of \<open>emit\<close>: attributes are consecutive pairs; a last odd one is dropped.\<close>

fun emit_attrs :: "string list \<Rightarrow> (string \<times> string) list" where
  "emit_attrs (key # val # rest) = (key, val) # emit_attrs rest"
| "emit_attrs _ = []"

definition emit :: "string \<Rightarrow> string list \<Rightarrow> ('st ctx, unit) go" where
  "emit eventType attrs c = (Ok (), c\<lparr>events := events c @ [Event eventType (emit_attrs attrs)]\<rparr>)"

declare blockTime_def [go_defs] emit_def [go_defs]

lemma bind_blockTime [simp]: "bind blockTime f c = f (blockTimeUnix c) c"
  by (simp add: go_defs)

lemma bind_emit [simp]:
  "bind (emit t as) f c = f () (c\<lparr>events := events c @ [Event t (emit_attrs as)]\<rparr>)"
  by (simp add: go_defs)

lemma emit_apply [simp]:
  "emit t as c = (Ok (), c\<lparr>events := events c @ [Event t (emit_attrs as)]\<rparr>)"
  by (simp add: go_defs)

section \<open>The message handlers\<close>

definition UpdateParams :: "'st Keeper \<Rightarrow> MsgUpdateParams \<Rightarrow> ('st ctx, unit) go" where
  "UpdateParams k req =
     bind (on_err (\<lambda>e. Wrapped e ''invalid authority address'')
            (pure_call (StringToBytes (addressCodec k) (upAuthority req)))) (\<lambda>auth.
     if GetAuthority k \<noteq> auth then
       fail (Wrapped ErrInvalidSigner
         (''invalid authority; expected '' @
          (case BytesToString (addressCodec k) (GetAuthority k) of Inl _ \<Rightarrow> '''' | Inr s \<Rightarrow> s) @
          '', got '' @ upAuthority req))
     else
       bind (check_call (Params_Validate (upParams req))) (\<lambda>_.
       call_write (item_Set (kParams k) (upParams req))))"

definition SetFinalOnly :: "'st Keeper \<Rightarrow> MsgSetFinalOnly \<Rightarrow> ('st ctx, unit) go" where
  "SetFinalOnly k msg =
     bind (on_err (\<lambda>e. Wrapped e ''invalid address'')
            (pure_call (StringToBytes (addressCodec k) (sfCreator msg)))) (\<lambda>_.
     bind (bump k (sfCreator msg) (\<lambda>r. r\<lparr>rFinalonly := sfFinalonly msg\<rparr>)) (\<lambda>_.
     emit ''final_only_set'' [''address'', sfCreator msg, ''finalonly'', Sprint_bool (sfFinalonly msg)]))"

definition CancelSend :: "CoinOps \<Rightarrow> 'st Keeper \<Rightarrow> MsgCancelSend \<Rightarrow> ('st ctx, unit) go" where
  "CancelSend S k msg =
     bind (on_err (\<lambda>e. Wrapped e ''invalid sender address'')
            (pure_call (StringToBytes (addressCodec k) (csCreator msg)))) (\<lambda>sender.
     bind (on_err (\<lambda>e. if errors_Is e ErrNotFound then ErrNoSuchPending else e)
            (call_read (map_Get (kPending k) (csId msg)))) (\<lambda>p.
     if pSender p \<noteq> csCreator msg then fail ErrNotSender
     else
       bind (new_coins S [pAmount p]) (\<lambda>coins.
       bind (call_write (SendCoinsFromModuleToAccount (bankKeeper k) ModuleName sender coins)) (\<lambda>_.
       bind (call_write (map_Remove (kPending k) (csId msg))) (\<lambda>_.
       bind (bump k (csCreator msg) (\<lambda>r. r\<lparr>rCancelled := rCancelled r + 1\<rparr>)) (\<lambda>_.
       emit ''send_cancelled''
         [''id'', Sprint_u64 (csId msg), ''sender'', pSender p, ''recipient'', pRecipient p,
          ''amount'', coins_String S coins]))))))"

text \<open>
  \<open>DelayedSend\<close>. The window is converted by \<open>int64(window)\<close>, which keeps the 64 bits, and
  added to the block time modulo $2^{64}$.
\<close>

definition DelayedSend ::
  "CoinOps \<Rightarrow> 'st Keeper \<Rightarrow> MsgDelayedSend \<Rightarrow> ('st ctx, MsgDelayedSendResponse) go" where
  "DelayedSend S k msg =
     bind (on_err (\<lambda>e. Wrapped e ''invalid sender address'')
            (pure_call (StringToBytes (addressCodec k) (dsCreator msg)))) (\<lambda>sender.
     bind (on_err (\<lambda>e. Wrapped ErrInvalidRecipient (error_text e))
            (pure_call (StringToBytes (addressCodec k) (dsRecipient msg)))) (\<lambda>recipient.
     if dsCreator msg = dsRecipient msg then fail ErrSendToSelf
     else if coin_Validate S (dsAmount msg) \<noteq> None \<or> coin_IsZero S (dsAmount msg) then fail ErrInvalidAmount
     else
       bind (new_coins S [dsAmount msg]) (\<lambda>coins.
       bind (getRecord k (dsRecipient msg)) (\<lambda>target.
       if rFinalonly target then
         (if dsWindow msg \<noteq> 0 then fail ErrFinalOnly
          else
            bind (call_write (SendCoins (bankKeeper k) sender recipient coins)) (\<lambda>_.
            bind (emit ''final_send'' [''sender'', dsCreator msg, ''recipient'', dsRecipient msg,
                    ''amount'', coins_String S coins]) (\<lambda>_.
            ret \<lparr>dsrId = 0, dsrFinal = True\<rparr>)))
       else
         bind (call_read (item_Get (kParams k))) (\<lambda>params.
         let window = (if dsWindow msg = 0 then Defaultwindow params else dsWindow msg) in
         if window < Minwindow params then
           fail (Wrapped ErrWindowTooShort (''minimum is '' @ Sprint_u64 (Minwindow params) @ '' seconds''))
         else if window > Maxwindow params then
           fail (Wrapped ErrWindowTooLong (''maximum is '' @ Sprint_u64 (Maxwindow params) @ '' seconds''))
         else
           bind (countOpen k (dsCreator msg)) (\<lambda>open.
           if open \<ge> MaxOpenPerSender then
             fail (Wrapped ErrTooManyPending (''limit is '' @ show_nat MaxOpenPerSender))
           else
             bind (call_write (SendCoinsFromAccountToModule (bankKeeper k) sender ModuleName coins)) (\<lambda>_.
             bind (call_update (seq_Next (kPendingSeq k))) (\<lambda>id.
             bind blockTime (\<lambda>now.
             let p = \<lparr>pId = id, pSender = dsCreator msg, pRecipient = dsRecipient msg,
                      pAmount = dsAmount msg, pExecuteat = now + window\<rparr> in
             bind (call_write (map_Set (kPending k) id p)) (\<lambda>_.
             bind (bump k (dsCreator msg) (\<lambda>r. r\<lparr>rSent := rSent r + 1\<rparr>)) (\<lambda>_.
             bind (emit ''delayed_send''
               [''id'', Sprint_u64 id, ''sender'', dsCreator msg, ''recipient'', dsRecipient msg,
                ''amount'', coins_String S coins, ''execute_at'', Sprint_i64 (pExecuteat p)]) (\<lambda>_.
             ret \<lparr>dsrId = id, dsrFinal = False\<rparr>))))))))))))"

section \<open>The end of a block\<close>

definition execute :: "CoinOps \<Rightarrow> 'st Keeper \<Rightarrow> Pending \<Rightarrow> ('st ctx, unit) go" where
  "execute S k p =
     bind (on_err (\<lambda>e. Wrapped e ''bad recipient address'')
            (pure_call (StringToBytes (addressCodec k) (pRecipient p)))) (\<lambda>to.
     bind (new_coins S [pAmount p]) (\<lambda>coins.
     bind (on_err (\<lambda>e. Wrapped e ''paying out'')
            (call_write (SendCoinsFromModuleToAccount (bankKeeper k) ModuleName to coins))) (\<lambda>_.
     bind (call_write (map_Remove (kPending k) (pId p))) (\<lambda>_.
     emit ''send_final''
       [''id'', Sprint_u64 (pId p), ''sender'', pSender p, ''recipient'', pRecipient p,
        ''amount'', coins_String S coins]))))"

text \<open>The second loop of \<open>EndBlocker\<close>: a failed payout is logged and the loop goes on.\<close>

fun pay_all :: "CoinOps \<Rightarrow> 'st Keeper \<Rightarrow> Pending list \<Rightarrow> ('st ctx, unit) go" where
  "pay_all S k [] c = (Ok (), c)"
| "pay_all S k (p # ps) c =
     (case execute S k p c of
        (Ok _, c') \<Rightarrow> pay_all S k ps c'
      | (Err e, c') \<Rightarrow> pay_all S k ps (c'\<lparr>logs := logs c' @ [(''undo: payout failed'', pId p, e)]\<rparr>)
      | (Panic t, c') \<Rightarrow> (Panic t, c'))"

definition EndBlocker :: "CoinOps \<Rightarrow> 'st Keeper \<Rightarrow> ('st ctx, unit) go" where
  "EndBlocker S k =
     bind blockTime (\<lambda>now.
     bind (Walk (kPending k) (\<lambda>_ p due. (Ok False, if pExecuteat p <=s now then due @ [p] else due)) [])
       (\<lambda>due. pay_all S k due))"

end
