(* ===== verification/Contracts.thy ===== *)
theory Contracts
  imports Keeper "HOL-Library.List_Lexorder" "HOL-Library.Char_ord"
begin

text \<open>
  The contracts of the packages the keeper is built on, as locales, and the abstract state they
  speak about. \<open>ledger\<close> is what the undo module's store and the bank hold, seen as
  mathematics; \<open>view\<close> maps a store state to it. Each locale states documented behaviour of
  one interface: a collection returns what was stored, as its codec reads it back, \<open>ErrNotFound\<close>
  otherwise, iterates in key order and changes nothing else; the bank either moves the coins or fails and changes no
  balance, and pays out of a module account that holds enough unless the recipient is
  blocked; \<open>Validate\<close>, \<open>IsZero\<close> and \<open>NewCoins\<close> agree on what a valid coin is.
  \<open>undo_contracts\<close> joins them for one keeper.
\<close>

section \<open>The abstract state\<close>

record ledger =
  lPending :: "u64 \<Rightarrow> Pending option"
  lRecord :: "string \<Rightarrow> Record option"
  lSeq :: u64
  lParams :: "Params option"
  lBal :: "bytes \<Rightarrow> string \<Rightarrow> int"

text \<open>An account covers an amount; moving coins between accounts.\<close>

definition covers :: "(bytes \<Rightarrow> string \<Rightarrow> int) \<Rightarrow> bytes \<Rightarrow> Coins \<Rightarrow> bool" where
  "covers b a cs \<longleftrightarrow> (\<forall>c\<in>set cs. units cs (Denom c) \<le> b a (Denom c))"

definition move :: "bytes \<Rightarrow> bytes \<Rightarrow> Coins \<Rightarrow> (bytes \<Rightarrow> string \<Rightarrow> int) \<Rightarrow> (bytes \<Rightarrow> string \<Rightarrow> int)" where
  "move from to cs b = (\<lambda>a d. b a d - (if a = from then units cs d else 0) + (if a = to then units cs d else 0))"

lemma move_other: "a \<noteq> from \<Longrightarrow> a \<noteq> to \<Longrightarrow> move from to cs b a = b a"
  by (simp add: move_def)

lemma move_back [simp]: "move to from cs (move from to cs b) = b"
  by (auto simp: move_def fun_eq_iff)

lemma units_Nil [simp]: "units [] d = 0"
  by (simp add: units_def)

lemma units_single [simp]: "units [c] d = coin_units c d"
  by (simp add: units_def)

section \<open>Collections\<close>

text \<open>
  A value is stored as bytes, and \<open>stored\<close> says what is read back of it. For a payment that is the
  payment itself, but for an amount that is nil: \<open>math.Int\<close> writes it as zero.
\<close>

definition stored_coin :: "Coin \<Rightarrow> Coin" where
  "stored_coin c = c\<lparr>Amount := Some (case Amount c of None \<Rightarrow> 0 | Some n \<Rightarrow> n)\<rparr>"

definition stored_pending :: "Pending \<Rightarrow> Pending" where
  "stored_pending p = p\<lparr>pAmount := stored_coin (pAmount p)\<rparr>"

lemma stored_coin_id [simp]: "Amount c = Some n \<Longrightarrow> stored_coin c = c"
  by (simp add: stored_coin_def)

lemma stored_pending_sel [simp]:
  "pId (stored_pending p) = pId p" "pSender (stored_pending p) = pSender p"
  "pRecipient (stored_pending p) = pRecipient p" "pExecuteat (stored_pending p) = pExecuteat p"
  "pAmount (stored_pending p) = stored_coin (pAmount p)"
  by (simp_all add: stored_pending_def)

lemma stored_pending_id [simp]: "Amount (pAmount p) = Some n \<Longrightarrow> stored_pending p = p"
  by (simp add: stored_pending_def)

locale coll_map =
  fixes M :: "('st, 'k::linorder, 'v) collMap"
    and view :: "'st \<Rightarrow> 'a"
    and getm :: "'a \<Rightarrow> 'k \<Rightarrow> 'v option"
    and putm :: "('k \<Rightarrow> 'v option) \<Rightarrow> 'a \<Rightarrow> 'a"
    and stored :: "'v \<Rightarrow> 'v"
  assumes Get: "map_Get M key st = (case getm (view st) key of None \<Rightarrow> Inl ErrNotFound | Some v \<Rightarrow> Inr v)"
    and Set_ok: "fst (map_Set M key v st) = None"
    and Set_view: "view (snd (map_Set M key v st)) = putm ((getm (view st))(key \<mapsto> stored v)) (view st)"
    and Remove_ok: "fst (map_Remove M key st) = None"
    and Remove_view: "view (snd (map_Remove M key st)) = putm ((getm (view st))(key := None)) (view st)"
    and Iterate: "\<exists>xs. map_Iterate M st = Inr xs \<and> map_of xs = getm (view st) \<and> sorted_wrt (<) (map fst xs)"
begin

lemma Get_Some: "getm (view st) key = Some v \<Longrightarrow> map_Get M key st = Inr v"
  by (simp add: Get)

lemma Get_None: "getm (view st) key = None \<Longrightarrow> map_Get M key st = Inl ErrNotFound"
  by (simp add: Get)

lemma Set_pair: "\<exists>st'. map_Set M key v st = (None, st') \<and> view st' = putm ((getm (view st))(key \<mapsto> stored v)) (view st)"
  using Set_ok Set_view by (metis prod.collapse)

lemma Remove_pair: "\<exists>st'. map_Remove M key st = (None, st') \<and> view st' = putm ((getm (view st))(key := None)) (view st)"
  using Remove_ok Remove_view by (metis prod.collapse)

text \<open>The entries, as a function of the abstract state.\<close>

definition entries :: "'st \<Rightarrow> ('k \<times> 'v) list" where
  "entries st = (case map_Iterate M st of Inl e \<Rightarrow> [] | Inr xs \<Rightarrow> xs)"

lemma Iterate_entries: "map_Iterate M st = Inr (entries st)"
  using Iterate [of st] by (auto simp: entries_def)

lemma map_of_entries: "map_of (entries st) = getm (view st)"
  using Iterate [of st] by (auto simp: entries_def)

lemma sorted_entries: "sorted_wrt (<) (map fst (entries st))"
  using Iterate [of st] by (auto simp: entries_def)

lemma distinct_entries: "distinct (map fst (entries st))"
  using sorted_entries strict_sorted_iff by blast

lemma set_entries: "(key, v) \<in> set (entries st) \<longleftrightarrow> getm (view st) key = Some v"
  using distinct_entries map_of_entries by (metis map_of_eq_Some_iff)

lemma dom_entries: "fst ` set (entries st) = dom (getm (view st))"
  by (metis dom_map_of_conv_image_fst map_of_entries)

lemma keys_entries: "map fst (entries st) = sorted_list_of_set (dom (getm (view st)))"
  using sorted_entries [of st] dom_entries [of st]
  by (metis sorted_list_of_set.idem_if_sorted_distinct list.set_map strict_sorted_iff)

lemma entries_eq:
  "entries st = map (\<lambda>k. (k, the (getm (view st) k))) (sorted_list_of_set (dom (getm (view st))))"
proof -
  have "entries st = map (\<lambda>k. (k, the (getm (view st) k))) (map fst (entries st))"
    by (simp add: comp_def, rule map_idI [symmetric]) (auto simp: set_entries)
  then show ?thesis by (simp only: keys_entries)
qed

end

locale coll_item =
  fixes I :: "('st, 'v) collItem"
    and view :: "'st \<Rightarrow> 'a"
    and geti :: "'a \<Rightarrow> 'v option"
    and puti :: "'v option \<Rightarrow> 'a \<Rightarrow> 'a"
  assumes iGet: "item_Get I st = (case geti (view st) of None \<Rightarrow> Inl ErrNotFound | Some v \<Rightarrow> Inr v)"
    and iSet_ok: "fst (item_Set I v st) = None"
    and iSet_view: "view (snd (item_Set I v st)) = puti (Some v) (view st)"
begin

lemma iSet_pair: "\<exists>st'. item_Set I v st = (None, st') \<and> view st' = puti (Some v) (view st)"
  using iSet_ok iSet_view by (metis prod.collapse)

end

locale coll_seq =
  fixes Q :: "'st collSeq"
    and view :: "'st \<Rightarrow> 'a"
    and getq :: "'a \<Rightarrow> u64"
    and putq :: "u64 \<Rightarrow> 'a \<Rightarrow> 'a"
  assumes Peek: "seq_Peek Q st = Inr (getq (view st))"
    and Next_ok: "fst (seq_Next Q st) = Inr (getq (view st))"
    and Next_view: "view (snd (seq_Next Q st)) = putq (getq (view st) + 1) (view st)"
    and qSet_ok: "fst (seq_Set Q n st) = None"
    and qSet_view: "view (snd (seq_Set Q n st)) = putq n (view st)"
begin

lemma Next_pair: "\<exists>st'. seq_Next Q st = (Inr (getq (view st)), st') \<and> view st' = putq (getq (view st) + 1) (view st)"
  using Next_ok Next_view by (metis prod.collapse)

lemma qSet_pair: "\<exists>st'. seq_Set Q n st = (None, st') \<and> view st' = putq n (view st)"
  using qSet_ok qSet_view by (metis prod.collapse)

end

section \<open>Bank and coins\<close>

locale bank_contract =
  fixes B :: "'st BankKeeper"
    and view :: "'st \<Rightarrow> 'a"
    and getb :: "'a \<Rightarrow> bytes \<Rightarrow> string \<Rightarrow> int"
    and putb :: "(bytes \<Rightarrow> string \<Rightarrow> int) \<Rightarrow> 'a \<Rightarrow> 'a"
    and maddr :: "string \<Rightarrow> bytes"
    and blocked :: "bytes \<Rightarrow> bool"
  assumes send_ok: "SendCoins B from to cs st = (None, st') \<Longrightarrow>
      covers (getb (view st)) from cs \<and> view st' = putb (move from to cs (getb (view st))) (view st)"
    and send_err: "SendCoins B from to [cn] st = (Some e, st') \<Longrightarrow> view st' = view st"
    and a2m_ok: "SendCoinsFromAccountToModule B from ModuleName cs st = (None, st') \<Longrightarrow>
      covers (getb (view st)) from cs \<and> view st' = putb (move from (maddr ModuleName) cs (getb (view st))) (view st)"
    and a2m_err: "SendCoinsFromAccountToModule B from ModuleName [cn] st = (Some e, st') \<Longrightarrow> view st' = view st"
    and m2a_ok: "SendCoinsFromModuleToAccount B ModuleName to cs st = (None, st') \<Longrightarrow>
      covers (getb (view st)) (maddr ModuleName) cs \<and> view st' = putb (move (maddr ModuleName) to cs (getb (view st))) (view st)"
    and m2a_err: "SendCoinsFromModuleToAccount B ModuleName to [cn] st = (Some e, st') \<Longrightarrow> view st' = view st"
    and m2a_pays: "covers (getb (view st)) (maddr ModuleName) [cn] \<Longrightarrow> Amount cn = Some n \<Longrightarrow> 0 < n \<Longrightarrow> \<not> blocked to \<Longrightarrow>
      fst (SendCoinsFromModuleToAccount B ModuleName to [cn] st) = None"
    and m2a_blocked: "blocked to \<Longrightarrow> fst (SendCoinsFromModuleToAccount B ModuleName to cs st) \<noteq> None"

text \<open>A coin as \<open>Validate\<close> accepts it; a payment must also be positive.\<close>

definition valid_coin :: "(string \<Rightarrow> bool) \<Rightarrow> Coin \<Rightarrow> bool" where
  "valid_coin denom_ok c \<longleftrightarrow> denom_ok (Denom c) \<and> (\<exists>n. Amount c = Some n \<and> 0 \<le> n)"

definition payable_coin :: "(string \<Rightarrow> bool) \<Rightarrow> Coin \<Rightarrow> bool" where
  "payable_coin denom_ok c \<longleftrightarrow> denom_ok (Denom c) \<and> (\<exists>n. Amount c = Some n \<and> 0 < n)"

locale coin_contract =
  fixes S :: CoinOps
    and denom_ok :: "string \<Rightarrow> bool"
  assumes Validate: "coin_Validate S c = None \<longleftrightarrow> valid_coin denom_ok c"
    and IsZero: "Amount c = Some n \<Longrightarrow> coin_IsZero S c = (n = 0)"
    and NewCoins_pay: "payable_coin denom_ok c \<Longrightarrow> NewCoins S [c] = Some [c]"
    and NewCoins_zero: "Amount c = Some 0 \<Longrightarrow> NewCoins S [c] = Some []"
    and NewCoins_bad: "\<not> valid_coin denom_ok c \<Longrightarrow> Amount c \<noteq> Some 0 \<Longrightarrow> NewCoins S [c] = None"
begin

lemma accepted_iff_payable: "coin_Validate S c = None \<and> \<not> coin_IsZero S c \<longleftrightarrow> payable_coin denom_ok c"
  by (auto simp: Validate valid_coin_def payable_coin_def IsZero)

lemma coin_guard: "(coin_Validate S c \<noteq> None \<or> coin_IsZero S c) = (\<not> payable_coin denom_ok c)"
  using accepted_iff_payable [of c] by auto

lemma NewCoins_Some_units: "NewCoins S [c] = Some cs \<Longrightarrow> units cs = coin_units c"
proof (cases "payable_coin denom_ok c")
  case True
  moreover assume "NewCoins S [c] = Some cs"
  ultimately show ?thesis by (auto simp: NewCoins_pay fun_eq_iff)
next
  case False
  moreover assume cs: "NewCoins S [c] = Some cs"
  ultimately have "Amount c = Some 0"
    using NewCoins_bad by (fastforce simp: valid_coin_def payable_coin_def)
  with cs show ?thesis
    by (auto simp: NewCoins_zero fun_eq_iff coin_units_def)
qed

end

lemma payable_coin_units: "payable_coin denom_ok c \<Longrightarrow> 0 \<le> coin_units c d"
  by (auto simp: payable_coin_def coin_units_def)

section \<open>All the contracts of one keeper\<close>

locale undo_contracts =
  pend: coll_map "kPending K" view lPending "\<lambda>m. lPending_update (\<lambda>_. m)" stored_pending +
  recd: coll_map "kRecord K" view lRecord "\<lambda>m. lRecord_update (\<lambda>_. m)" "\<lambda>r. r" +
  parm: coll_item "kParams K" view lParams "\<lambda>v. lParams_update (\<lambda>_. v)" +
  sequ: coll_seq "kPendingSeq K" view lSeq "\<lambda>n. lSeq_update (\<lambda>_. n)" +
  bank: bank_contract "bankKeeper K" view lBal "\<lambda>b. lBal_update (\<lambda>_. b)" maddr blocked +
  coin: coin_contract S denom_ok
  for S :: CoinOps
    and K :: "'st Keeper"
    and view :: "'st \<Rightarrow> ledger"
    and maddr :: "string \<Rightarrow> bytes"
    and blocked :: "bytes \<Rightarrow> bool"
    and denom_ok :: "string \<Rightarrow> bool"

end
