(* ===== verification/Ledger.thy ===== *)
theory Ledger
  imports Contracts
begin

text \<open>
  The abstract specification of the undo module: what each operation promises, as a function
  on the \<open>ledger\<close>, with no store, no bank calls and no loops. A payment is parked in the
  module's account under the next id; while it is pending its sender may take it back; once its
  time has come the end of a block hands it over. Theory \<open>Refinement\<close> shows that the handlers
  implement it; theory \<open>Machine\<close> proves its invariants.
\<close>

section \<open>Observations\<close>

definition record_of :: "ledger \<Rightarrow> string \<Rightarrow> Record" where
  "record_of l a = (case lRecord l a of None \<Rightarrow> empty_record a | Some r \<Rightarrow> r)"

definition open_ids :: "ledger \<Rightarrow> string \<Rightarrow> u64 set" where
  "open_ids l s = {i. \<exists>p. lPending l i = Some p \<and> pSender p = s}"

definition open_count :: "ledger \<Rightarrow> string \<Rightarrow> nat" where
  "open_count l s = card (open_ids l s)"

text \<open>How much the pending payments add up to.\<close>

definition pending_total :: "(u64 \<Rightarrow> Pending option) \<Rightarrow> string \<Rightarrow> int" where
  "pending_total m d = (\<Sum>i\<in>dom m. coin_units (pAmount (the (m i))) d)"

section \<open>Sending\<close>

datatype send_plan = Instant bytes bytes | Park bytes u64

text \<open>The checks of a send, in their order, against the ledger.\<close>

definition plan_send :: "AddressCodec \<Rightarrow> (string \<Rightarrow> bool) \<Rightarrow> ledger \<Rightarrow> MsgDelayedSend \<Rightarrow> error + send_plan" where
  "plan_send A denom_ok l msg =
     (case StringToBytes A (dsCreator msg) of
        Inl e \<Rightarrow> Inl (Wrapped e ''invalid sender address'')
      | Inr sender \<Rightarrow>
     (case StringToBytes A (dsRecipient msg) of
        Inl e \<Rightarrow> Inl (Wrapped ErrInvalidRecipient (error_text e))
      | Inr recipient \<Rightarrow>
     (if dsCreator msg = dsRecipient msg then Inl ErrSendToSelf
      else if \<not> payable_coin denom_ok (dsAmount msg) then Inl ErrInvalidAmount
      else if rFinalonly (record_of l (dsRecipient msg)) then
        (if dsWindow msg \<noteq> 0 then Inl ErrFinalOnly else Inr (Instant sender recipient))
      else (case lParams l of
          None \<Rightarrow> Inl ErrNotFound
        | Some p \<Rightarrow>
           (let w = (if dsWindow msg = 0 then Defaultwindow p else dsWindow msg) in
            if w < Minwindow p then
              Inl (Wrapped ErrWindowTooShort (''minimum is '' @ Sprint_u64 (Minwindow p) @ '' seconds''))
            else if Maxwindow p < w then
              Inl (Wrapped ErrWindowTooLong (''maximum is '' @ Sprint_u64 (Maxwindow p) @ '' seconds''))
            else if MaxOpenPerSender \<le> open_count l (dsCreator msg) then
              Inl (Wrapped ErrTooManyPending (''limit is '' @ show_nat MaxOpenPerSender))
            else Inr (Park sender w))))))"

definition promised :: "ledger \<Rightarrow> i64 \<Rightarrow> u64 \<Rightarrow> MsgDelayedSend \<Rightarrow> Pending" where
  "promised l now w msg =
     \<lparr>pId = lSeq l, pSender = dsCreator msg, pRecipient = dsRecipient msg,
      pAmount = dsAmount msg, pExecuteat = now + w\<rparr>"

text \<open>The coins move to the holding account \<open>h\<close>, the payment is recorded, the tally goes up.\<close>

definition park :: "bytes \<Rightarrow> i64 \<Rightarrow> bytes \<Rightarrow> u64 \<Rightarrow> MsgDelayedSend \<Rightarrow> ledger \<Rightarrow> ledger" where
  "park h now sender w msg l =
     l\<lparr>lBal := move sender h [dsAmount msg] (lBal l),
       lPending := (lPending l)(lSeq l \<mapsto> promised l now w msg),
       lSeq := lSeq l + 1,
       lRecord := (lRecord l)(dsCreator msg \<mapsto>
         (record_of l (dsCreator msg))\<lparr>rSent := rSent (record_of l (dsCreator msg)) + 1\<rparr>)\<rparr>"

definition pay_now :: "bytes \<Rightarrow> bytes \<Rightarrow> MsgDelayedSend \<Rightarrow> ledger \<Rightarrow> ledger" where
  "pay_now sender recipient msg l = l\<lparr>lBal := move sender recipient [dsAmount msg] (lBal l)\<rparr>"

section \<open>Taking a payment out of holding\<close>

definition release :: "bytes \<Rightarrow> bytes \<Rightarrow> u64 \<Rightarrow> Pending \<Rightarrow> ledger \<Rightarrow> ledger" where
  "release h to i p l =
     l\<lparr>lBal := move h to [pAmount p] (lBal l), lPending := (lPending l)(i := None)\<rparr>"

definition plan_cancel :: "AddressCodec \<Rightarrow> ledger \<Rightarrow> MsgCancelSend \<Rightarrow> error + (bytes \<times> Pending)" where
  "plan_cancel A l msg =
     (case StringToBytes A (csCreator msg) of
        Inl e \<Rightarrow> Inl (Wrapped e ''invalid sender address'')
      | Inr sender \<Rightarrow> (case lPending l (csId msg) of
          None \<Rightarrow> Inl ErrNoSuchPending
        | Some p \<Rightarrow> if pSender p \<noteq> csCreator msg then Inl ErrNotSender else Inr (sender, p)))"

definition take_back :: "bytes \<Rightarrow> bytes \<Rightarrow> MsgCancelSend \<Rightarrow> Pending \<Rightarrow> ledger \<Rightarrow> ledger" where
  "take_back h sender msg p l =
     (release h sender (csId msg) p l)
       \<lparr>lRecord := (lRecord l)(csCreator msg \<mapsto>
          (record_of l (csCreator msg))\<lparr>rCancelled := rCancelled (record_of l (csCreator msg)) + 1\<rparr>)\<rparr>"

section \<open>The switch and the parameters\<close>

definition switch_final :: "string \<Rightarrow> bool \<Rightarrow> ledger \<Rightarrow> ledger" where
  "switch_final a b l = l\<lparr>lRecord := (lRecord l)(a \<mapsto> (record_of l a)\<lparr>rFinalonly := b\<rparr>)\<rparr>"

section \<open>The end of a block\<close>

definition due :: "i64 \<Rightarrow> Pending \<Rightarrow> bool" where
  "due now p \<longleftrightarrow> pExecuteat p <=s now"

text \<open>Whom a due payment goes to; nobody, if the address is none or the account may not receive.\<close>

definition payee :: "AddressCodec \<Rightarrow> (bytes \<Rightarrow> bool) \<Rightarrow> Pending \<Rightarrow> bytes option" where
  "payee A blocked p =
     (case StringToBytes A (pRecipient p) of
        Inl _ \<Rightarrow> None
      | Inr to \<Rightarrow> if blocked to then None else Some to)"

fun settle :: "AddressCodec \<Rightarrow> (bytes \<Rightarrow> bool) \<Rightarrow> bytes \<Rightarrow> Pending list \<Rightarrow> ledger \<Rightarrow> ledger" where
  "settle A blocked h [] l = l"
| "settle A blocked h (p # ps) l =
     settle A blocked h ps
       (case payee A blocked p of
          None \<Rightarrow> l
        | Some to \<Rightarrow> if covers (lBal l) h [pAmount p] then release h to (pId p) p l else l)"

text \<open>The due payments, in the order of their ids.\<close>

definition due_payments :: "i64 \<Rightarrow> ledger \<Rightarrow> Pending list" where
  "due_payments now l =
     filter (due now) (map (\<lambda>i. the (lPending l i)) (sorted_list_of_set (dom (lPending l))))"

definition end_block :: "AddressCodec \<Rightarrow> (bytes \<Rightarrow> bool) \<Rightarrow> bytes \<Rightarrow> i64 \<Rightarrow> ledger \<Rightarrow> ledger" where
  "end_block A blocked h now l = settle A blocked h (due_payments now l) l"

section \<open>Basic facts\<close>

lemma plan_send_Park:
  "plan_send A denom_ok l msg = Inr (Park sender w) \<longleftrightarrow>
     StringToBytes A (dsCreator msg) = Inr sender \<and>
     (\<exists>recipient. StringToBytes A (dsRecipient msg) = Inr recipient) \<and>
     dsCreator msg \<noteq> dsRecipient msg \<and> payable_coin denom_ok (dsAmount msg) \<and>
     \<not> rFinalonly (record_of l (dsRecipient msg)) \<and>
     (\<exists>p. lParams l = Some p \<and> w = (if dsWindow msg = 0 then Defaultwindow p else dsWindow msg) \<and>
          Minwindow p \<le> w \<and> w \<le> Maxwindow p) \<and>
     open_count l (dsCreator msg) < MaxOpenPerSender"
  unfolding plan_send_def Let_def by (auto split: sum.splits if_splits option.splits)

lemma plan_send_Instant:
  "plan_send A denom_ok l msg = Inr (Instant sender recipient) \<longleftrightarrow>
     StringToBytes A (dsCreator msg) = Inr sender \<and> StringToBytes A (dsRecipient msg) = Inr recipient \<and>
     dsCreator msg \<noteq> dsRecipient msg \<and> payable_coin denom_ok (dsAmount msg) \<and>
     rFinalonly (record_of l (dsRecipient msg)) \<and> dsWindow msg = 0"
  unfolding plan_send_def Let_def by (auto split: sum.splits if_splits option.splits)

lemma finite_ids [simp]: "finite (A :: u64 set)"
  by (rule finite)

lemma finite_dom_pending [simp]: "finite (dom (m :: u64 \<Rightarrow> Pending option))"
  by (rule finite)

lemma pending_total_empty [simp]: "pending_total Map.empty d = 0"
  by (simp add: pending_total_def)

lemma pending_total_remove:
  assumes "m i = Some p"
  shows "pending_total (m(i := None)) d = pending_total m d - coin_units (pAmount p) d"
proof -
  have "dom m = insert i (dom m - {i})"
    using assms by auto
  then have "pending_total m d = coin_units (pAmount p) d + (\<Sum>j\<in>dom m - {i}. coin_units (pAmount (the (m j))) d)"
    unfolding pending_total_def using assms by (subst (1) \<open>dom m = _\<close>, subst sum.insert) auto
  moreover have "pending_total (m(i := None)) d = (\<Sum>j\<in>dom m - {i}. coin_units (pAmount (the (m j))) d)"
    unfolding pending_total_def by (rule sum.cong) auto
  ultimately show ?thesis by simp
qed

lemma pending_total_add:
  assumes "m i = None"
  shows "pending_total (m(i \<mapsto> p)) d = pending_total m d + coin_units (pAmount p) d"
proof -
  have "(m(i \<mapsto> p))(i := None) = m"
    using assms by auto
  then show ?thesis
    using pending_total_remove [of "m(i \<mapsto> p)" i p d] by simp
qed

lemma pending_total_pos:
  assumes "\<And>i p. m i = Some p \<Longrightarrow> 0 \<le> coin_units (pAmount p) d"
  shows "0 \<le> pending_total m d"
  unfolding pending_total_def by (rule sum_nonneg) (auto dest: assms)

lemma pending_total_ge:
  assumes "m i = Some p" and "\<And>j q. m j = Some q \<Longrightarrow> 0 \<le> coin_units (pAmount q) d"
  shows "coin_units (pAmount p) d \<le> pending_total m d"
proof -
  have "0 \<le> pending_total (m(i := None)) d"
    by (rule pending_total_pos) (auto split: if_splits dest: assms(2))
  then show ?thesis using pending_total_remove [of m i p d] assms(1) by simp
qed

end
