(* ===== verification/Refinement.thy ===== *)
theory Refinement
  imports Ledger
begin

text \<open>
  The handlers implement the abstract specification. Inside the locale \<open>undo_contracts\<close> each
  helper and each handler is evaluated on the ledger: which error it returns, and what the
  ledger is afterwards. The properties at the end state the same with the contracts as a named
  hypothesis.
\<close>

context undo_contracts
begin

abbreviation hold :: bytes where
  "hold \<equiv> maddr ModuleName"

section \<open>Helpers\<close>

lemma getRecord_eval: "getRecord K a c = (Ok (record_of (view (store c)) a), c)"
  by (simp add: getRecord_def call_read_def recd.Get record_of_def split: option.split)

lemma bump_eval:
  "\<exists>st'. bump K a ch c = (Ok (), c\<lparr>store := st'\<rparr>) \<and>
     view st' = (view (store c))\<lparr>lRecord := (lRecord (view (store c)))(a \<mapsto> ch (record_of (view (store c)) a))\<rparr>"
  using recd.Set_pair [of a "ch (record_of (view (store c)) a)" "store c"]
  by (auto simp: bump_def bind_def getRecord_eval call_write_def)

lemma fold_count: "fold (\<lambda>(k, p) n. if Q p then n + 1 else n) xs m = m + length (filter (Q \<circ> snd) xs)"
  by (induction xs arbitrary: m) auto

lemma entries_count: "length (filter (Q \<circ> snd) (pend.entries st)) = card {i. \<exists>p. lPending (view st) i = Some p \<and> Q p}"
proof -
  let ?ys = "filter (Q \<circ> snd) (pend.entries st)"
  have d: "distinct (map fst ?ys)"
    using pend.distinct_entries by (simp add: distinct_map_filter)
  have "fst ` set ?ys = {i. \<exists>p. lPending (view st) i = Some p \<and> Q p}"
    by (auto simp: image_iff Bex_def pend.set_entries)
  moreover have "card (fst ` set ?ys) = length ?ys"
    using distinct_card [OF d] by simp
  ultimately show ?thesis by simp
qed

lemma countOpen_eval: "countOpen K s c = (Ok (open_count (view (store c)) s), c)"
  by (simp add: countOpen_def Walk_fold pend.Iterate_entries fold_count [where Q = "\<lambda>p. pSender p = s", simplified]
      entries_count [where Q = "\<lambda>p. pSender p = s"] open_count_def open_ids_def)

lemma bind_getRecord [simp]: "bind (getRecord K a) f c = f (record_of (view (store c)) a) c"
  by (simp add: bind_def getRecord_eval)

lemma bind_countOpen [simp]: "bind (countOpen K s) f c = f (open_count (view (store c)) s) c"
  by (simp add: bind_def countOpen_eval)

lemma bind_bump: "bump K a ch c = (Ok (), c') \<Longrightarrow> bind (bump K a ch) f c = f () c'"
  by (simp add: bind_def)

lemma payable_new_coins: "payable_coin denom_ok cn \<Longrightarrow> bind (new_coins S [cn]) f c = f [cn] c"
  by (simp add: bind_new_coins coin.NewCoins_pay)

section \<open>Sending\<close>

lemma DelayedSend_refused:
  assumes "plan_send (addressCodec K) denom_ok (view (store c)) msg = Inl e"
  shows "DelayedSend S K msg c = (Err e, c)"
proof (cases "StringToBytes (addressCodec K) (dsCreator msg)")
  case (Inl e1)
  with assms show ?thesis by (simp add: plan_send_def DelayedSend_def)
next
  case sender: (Inr sender)
  show ?thesis
  proof (cases "StringToBytes (addressCodec K) (dsRecipient msg)")
    case (Inl e1)
    with sender assms show ?thesis by (simp add: plan_send_def DelayedSend_def)
  next
    case (Inr recipient)
    note ev = DelayedSend_def coin.coin_guard
    show ?thesis
    proof (cases "dsCreator msg = dsRecipient msg \<or> \<not> payable_coin denom_ok (dsAmount msg) \<or>
        rFinalonly (record_of (view (store c)) (dsRecipient msg))")
      case True
      with sender Inr assms show ?thesis
        unfolding ev by (auto simp: plan_send_def payable_new_coins split: if_splits)
    next
      case False
      with sender Inr assms show ?thesis
        unfolding ev plan_send_def
        by (cases "lParams (view (store c))")
          (auto simp: payable_new_coins bind_call_read parm.iGet Let_def not_less split: if_splits)
    qed
  qed
qed

lemma DelayedSend_instant:
  assumes plan: "plan_send (addressCodec K) denom_ok (view (store c)) msg = Inr (Instant sender recipient)"
  shows "DelayedSend S K msg c =
     (case SendCoins (bankKeeper K) sender recipient [dsAmount msg] (store c) of
        (Some e, st) \<Rightarrow> (Err e, c\<lparr>store := st\<rparr>)
      | (None, st) \<Rightarrow> (Ok \<lparr>dsrId = 0, dsrFinal = True\<rparr>, c\<lparr>store := st, events := events c @
          [Event ''final_send'' [(''sender'', dsCreator msg), (''recipient'', dsRecipient msg),
             (''amount'', coins_String S [dsAmount msg])]]\<rparr>))"
  using plan unfolding DelayedSend_def coin.coin_guard
  by (simp add: plan_send_Instant payable_new_coins bind_call_write
      split: prod.split option.split)

lemma DelayedSend_park:
  assumes plan: "plan_send (addressCodec K) denom_ok (view (store c)) msg = Inr (Park sender w)"
  shows "DelayedSend S K msg c =
     (case SendCoinsFromAccountToModule (bankKeeper K) sender ModuleName [dsAmount msg] (store c) of
        (Some e, st) \<Rightarrow> (Err e, c\<lparr>store := st\<rparr>)
      | (None, st) \<Rightarrow>
          bind (call_update (seq_Next (kPendingSeq K))) (\<lambda>id.
          bind (call_write (map_Set (kPending K) id
                  \<lparr>pId = id, pSender = dsCreator msg, pRecipient = dsRecipient msg,
                   pAmount = dsAmount msg, pExecuteat = blockTimeUnix c + w\<rparr>)) (\<lambda>_.
          bind (bump K (dsCreator msg) (\<lambda>r. r\<lparr>rSent := rSent r + 1\<rparr>)) (\<lambda>_.
          bind (emit ''delayed_send''
            [''id'', Sprint_u64 id, ''sender'', dsCreator msg, ''recipient'', dsRecipient msg,
             ''amount'', coins_String S [dsAmount msg],
             ''execute_at'', Sprint_i64 (blockTimeUnix c + w)]) (\<lambda>_.
          ret \<lparr>dsrId = id, dsrFinal = False\<rparr>)))) (c\<lparr>store := st\<rparr>))"
  using plan unfolding DelayedSend_def coin.coin_guard
  by (auto simp: plan_send_Park payable_new_coins bind_call_read bind_call_write
      bind_call_update parm.iGet Let_def split: prod.split option.split sum.split)

lemma DelayedSend_park_ok:
  assumes plan: "plan_send (addressCodec K) denom_ok (view (store c)) msg = Inr (Park sender w)"
    and paid: "SendCoinsFromAccountToModule (bankKeeper K) sender ModuleName [dsAmount msg] (store c) = (None, st)"
  shows "\<exists>st'. DelayedSend S K msg c =
       (Ok \<lparr>dsrId = lSeq (view (store c)), dsrFinal = False\<rparr>, c\<lparr>store := st', events := events c @
          [Event ''delayed_send'' [(''id'', Sprint_u64 (lSeq (view (store c)))), (''sender'', dsCreator msg),
             (''recipient'', dsRecipient msg), (''amount'', coins_String S [dsAmount msg]),
             (''execute_at'', Sprint_i64 (blockTimeUnix c + w))]]\<rparr>) \<and>
     view st' = park hold (blockTimeUnix c) sender w msg (view (store c)) \<and>
     covers (lBal (view (store c))) sender [dsAmount msg]"
proof -
  let ?l = "view (store c)"
  let ?p = "promised ?l (blockTimeUnix c) w msg"
  from bank.a2m_ok [OF paid] have st: "covers (lBal ?l) sender [dsAmount msg]"
    "view st = ?l\<lparr>lBal := move sender hold [dsAmount msg] (lBal ?l)\<rparr>" by auto
  then have seq: "lSeq (view st) = lSeq ?l" by simp
  obtain st1 where n: "seq_Next (kPendingSeq K) st = (Inr (lSeq ?l), st1)"
    and st1: "view st1 = (view st)\<lparr>lSeq := lSeq ?l + 1\<rparr>"
    using sequ.Next_pair [of st] seq by auto
  from plan obtain n where "Amount (pAmount ?p) = Some n"
    by (auto simp: plan_send_Park payable_coin_def promised_def)
  then obtain st2 where m: "map_Set (kPending K) (lSeq ?l) ?p st1 = (None, st2)"
    and st2: "view st2 = (view st1)\<lparr>lPending := (lPending (view st1))(lSeq ?l \<mapsto> ?p)\<rparr>"
    using pend.Set_pair [of "lSeq ?l" ?p st1] by auto
  obtain st3 where b: "bump K (dsCreator msg) (\<lambda>r. r\<lparr>rSent := rSent r + 1\<rparr>) (c\<lparr>store := st2\<rparr>) = (Ok (), c\<lparr>store := st3\<rparr>)"
    and st3: "view st3 = (view st2)\<lparr>lRecord := (lRecord (view st2))(dsCreator msg \<mapsto>
        (record_of (view st2) (dsCreator msg))\<lparr>rSent := rSent (record_of (view st2) (dsCreator msg)) + 1\<rparr>)\<rparr>"
    using bump_eval [of "dsCreator msg" "\<lambda>r. r\<lparr>rSent := rSent r + 1\<rparr>" "c\<lparr>store := st2\<rparr>"] by auto
  have "view st3 = park hold (blockTimeUnix c) sender w msg ?l"
    by (simp add: st3 st2 st1 st park_def record_of_def)
  with st(1) show ?thesis
    using m by (intro exI [of _ st3])
      (simp add: DelayedSend_park [OF plan] paid bind_call_update n bind_call_write promised_def
        bind_bump [OF b])
qed

text \<open>What a send may end with, and the ledger then.\<close>

lemma DelayedSend_refines:
  "case plan_send (addressCodec K) denom_ok (view (store c)) msg of
     Inl e \<Rightarrow> DelayedSend S K msg c = (Err e, c)
   | Inr plan \<Rightarrow>
       (\<exists>e st. DelayedSend S K msg c = (Err e, c\<lparr>store := st\<rparr>) \<and> view st = view (store c)) \<or>
       (\<exists>st ev. DelayedSend S K msg c =
            (Ok (case plan of Instant _ _ \<Rightarrow> \<lparr>dsrId = 0, dsrFinal = True\<rparr>
                 | Park _ _ \<Rightarrow> \<lparr>dsrId = lSeq (view (store c)), dsrFinal = False\<rparr>),
             c\<lparr>store := st, events := events c @ [ev]\<rparr>) \<and>
          (case plan of
             Instant from to \<Rightarrow> covers (lBal (view (store c))) from [dsAmount msg] \<and>
               view st = pay_now from to msg (view (store c))
           | Park from w \<Rightarrow> covers (lBal (view (store c))) from [dsAmount msg] \<and>
               view st = park hold (blockTimeUnix c) from w msg (view (store c))))"
proof (cases "plan_send (addressCodec K) denom_ok (view (store c)) msg")
  case (Inl e)
  then show ?thesis by (simp add: DelayedSend_refused)
next
  case plan: (Inr plan)
  show ?thesis
  proof (cases plan)
    case (Instant sender recipient)
    obtain r st where send: "SendCoins (bankKeeper K) sender recipient [dsAmount msg] (store c) = (r, st)"
      by fastforce
    show ?thesis
      using plan Instant send DelayedSend_instant [of c msg sender recipient]
      by (cases r) (auto simp: pay_now_def dest: bank.send_ok bank.send_err)
  next
    case (Park sender w)
    obtain r st where send:
      "SendCoinsFromAccountToModule (bankKeeper K) sender ModuleName [dsAmount msg] (store c) = (r, st)"
      by fastforce
    show ?thesis
    proof (cases r)
      case None
      with plan Park send DelayedSend_park_ok [of c msg sender w st] show ?thesis by auto
    next
      case (Some e)
      with plan Park send DelayedSend_park [of c msg sender w] show ?thesis
        by (auto dest: bank.a2m_err)
    qed
  qed
qed

section \<open>Cancelling\<close>

lemma CancelSend_refused:
  assumes "plan_cancel (addressCodec K) (view (store c)) msg = Inl e"
  shows "CancelSend S K msg c = (Err e, c)"
  using assms unfolding plan_cancel_def CancelSend_def
  by (auto simp: bind_on_err_read pend.Get split: sum.splits option.splits if_splits)

lemma CancelSend_accepted:
  assumes plan: "plan_cancel (addressCodec K) (view (store c)) msg = Inr (sender, p)"
    and ok: "payable_coin denom_ok (pAmount p)"
  shows "(\<exists>e st. SendCoinsFromModuleToAccount (bankKeeper K) ModuleName sender [pAmount p] (store c) = (Some e, st) \<and>
            CancelSend S K msg c = (Err e, c\<lparr>store := st\<rparr>) \<and> view st = view (store c)) \<or>
         (\<exists>st st'. SendCoinsFromModuleToAccount (bankKeeper K) ModuleName sender [pAmount p] (store c) = (None, st) \<and>
            CancelSend S K msg c =
              (Ok (), c\<lparr>store := st', events := events c @
                [Event ''send_cancelled'' [(''id'', Sprint_u64 (csId msg)), (''sender'', pSender p),
                   (''recipient'', pRecipient p), (''amount'', coins_String S [pAmount p])]]\<rparr>) \<and>
            view st' = take_back hold sender msg p (view (store c)))"
proof -
  let ?l = "view (store c)"
  from plan have a: "StringToBytes (addressCodec K) (csCreator msg) = Inr sender"
    and b: "lPending ?l (csId msg) = Some p" and s: "pSender p = csCreator msg"
    by (auto simp: plan_cancel_def split: sum.splits option.splits if_splits)
  note start = a s pend.Get_Some [OF b] and coins = payable_new_coins [OF ok]
  obtain r st where send: "SendCoinsFromModuleToAccount (bankKeeper K) ModuleName sender [pAmount p] (store c) = (r, st)"
    by fastforce
  show ?thesis
  proof (cases r)
    case (Some e)
    with send start show ?thesis
      by (auto simp: CancelSend_def bind_on_err_read bind_call_write coins dest: bank.m2a_err)
  next
    case None
    with send have st: "view st = ?l\<lparr>lBal := move hold sender [pAmount p] (lBal ?l)\<rparr>"
      using bank.m2a_ok by blast
    obtain st1 where m: "map_Remove (kPending K) (csId msg) st = (None, st1)"
      and st1: "view st1 = (view st)\<lparr>lPending := (lPending (view st))(csId msg := None)\<rparr>"
      using pend.Remove_pair by blast
    obtain st2 where bu: "bump K (csCreator msg) (\<lambda>r. r\<lparr>rCancelled := rCancelled r + 1\<rparr>) (c\<lparr>store := st1\<rparr>) = (Ok (), c\<lparr>store := st2\<rparr>)"
      and st2: "view st2 = (view st1)\<lparr>lRecord := (lRecord (view st1))(csCreator msg \<mapsto>
          (record_of (view st1) (csCreator msg))\<lparr>rCancelled := rCancelled (record_of (view st1) (csCreator msg)) + 1\<rparr>)\<rparr>"
      using bump_eval [of "csCreator msg" "\<lambda>r. r\<lparr>rCancelled := rCancelled r + 1\<rparr>" "c\<lparr>store := st1\<rparr>"] by auto
    have "view st2 = take_back hold sender msg p ?l"
      by (simp add: st2 st1 st take_back_def release_def record_of_def)
    with send None start m show ?thesis
      by (auto simp: CancelSend_def bind_on_err_read bind_call_write coins bind_bump [OF bu])
  qed
qed

section \<open>The switch and the parameters\<close>

lemma SetFinalOnly_refines:
  "case StringToBytes (addressCodec K) (sfCreator msg) of
     Inl e \<Rightarrow> SetFinalOnly K msg c = (Err (Wrapped e ''invalid address''), c)
   | Inr _ \<Rightarrow> \<exists>st. SetFinalOnly K msg c = (Ok (), c\<lparr>store := st, events := events c @
         [Event ''final_only_set'' [(''address'', sfCreator msg), (''finalonly'', Sprint_bool (sfFinalonly msg))]]\<rparr>) \<and>
       view st = switch_final (sfCreator msg) (sfFinalonly msg) (view (store c))"
proof (cases "StringToBytes (addressCodec K) (sfCreator msg)")
  case (Inr b)
  obtain st where bu: "bump K (sfCreator msg) (\<lambda>r. r\<lparr>rFinalonly := sfFinalonly msg\<rparr>) c = (Ok (), c\<lparr>store := st\<rparr>)"
    and st: "view st = (view (store c))\<lparr>lRecord := (lRecord (view (store c)))(sfCreator msg \<mapsto>
        (record_of (view (store c)) (sfCreator msg))\<lparr>rFinalonly := sfFinalonly msg\<rparr>)\<rparr>"
    using bump_eval by blast
  with Inr show ?thesis
    by (auto simp: SetFinalOnly_def bind_bump [OF bu] switch_final_def)
qed (simp add: SetFinalOnly_def)

lemma UpdateParams_refines:
  "case StringToBytes (addressCodec K) (upAuthority req) of
     Inl e \<Rightarrow> UpdateParams K req c = (Err (Wrapped e ''invalid authority address''), c)
   | Inr a \<Rightarrow>
       if a \<noteq> authority K then \<exists>m. UpdateParams K req c = (Err (Wrapped ErrInvalidSigner m), c)
       else (case Params_Validate (upParams req) of
           Some e \<Rightarrow> UpdateParams K req c = (Err e, c)
         | None \<Rightarrow> \<exists>st. UpdateParams K req c = (Ok (), c\<lparr>store := st\<rparr>) \<and>
             view st = (view (store c))\<lparr>lParams := Some (upParams req)\<rparr>)"
  using parm.iSet_pair [of "upParams req" "store c"]
  by (auto simp: UpdateParams_def GetAuthority_def call_write_def split: sum.split option.split)

section \<open>The end of a block\<close>

lemma execute_refines:
  assumes ok: "payable_coin denom_ok (pAmount p)"
  shows "(\<exists>to st. payee (addressCodec K) blocked p = Some to \<and> covers (lBal (view (store c))) hold [pAmount p] \<and>
            execute S K p c = (Ok (), c\<lparr>store := st, events := events c @
              [Event ''send_final'' [(''id'', Sprint_u64 (pId p)), (''sender'', pSender p),
                 (''recipient'', pRecipient p), (''amount'', coins_String S [pAmount p])]]\<rparr>) \<and>
            view st = release hold to (pId p) p (view (store c))) \<or>
         ((payee (addressCodec K) blocked p = None \<or> \<not> covers (lBal (view (store c))) hold [pAmount p]) \<and>
          (\<exists>e st. execute S K p c = (Err e, c\<lparr>store := st\<rparr>) \<and> view st = view (store c)))"
proof (cases "StringToBytes (addressCodec K) (pRecipient p)")
  case (Inl e)
  then show ?thesis by (auto simp: execute_def payee_def intro: exI [of _ "store c"])
next
  case to: (Inr to)
  obtain r st where send: "SendCoinsFromModuleToAccount (bankKeeper K) ModuleName to [pAmount p] (store c) = (r, st)"
    by fastforce
  note ev = execute_def bind_on_err_write bind_call_write payable_new_coins [OF ok]
  show ?thesis
  proof (cases r)
    case (Some e)
    from ok obtain n where n: "Amount (pAmount p) = Some n" "0 < n" by (auto simp: payable_coin_def)
    have "blocked to \<or> \<not> covers (lBal (view (store c))) hold [pAmount p]"
      using bank.m2a_pays [OF _ n] send Some by fastforce
    with Some send to show ?thesis by (auto simp: ev payee_def dest: bank.m2a_err)
  next
    case None
    with send have cov: "covers (lBal (view (store c))) hold [pAmount p]"
      and st: "view st = (view (store c))\<lparr>lBal := move hold to [pAmount p] (lBal (view (store c)))\<rparr>"
      using bank.m2a_ok by blast+
    from None send have "\<not> blocked to"
      using bank.m2a_blocked [of to "[pAmount p]" "store c"] by auto
    moreover obtain st1 where "map_Remove (kPending K) (pId p) st = (None, st1)"
      and "view st1 = (view st)\<lparr>lPending := (lPending (view st))(pId p := None)\<rparr>"
      using pend.Remove_pair by blast
    ultimately show ?thesis
      using None send to cov st by (auto simp: ev payee_def release_def)
  qed
qed

lemma pay_all_refines:
  assumes "\<forall>p\<in>set ps. payable_coin denom_ok (pAmount p)"
  shows "\<exists>c'. pay_all S K ps c = (Ok (), c') \<and> blockTimeUnix c' = blockTimeUnix c \<and>
     view (store c') = settle (addressCodec K) blocked hold ps (view (store c))"
  using assms
proof (induction ps arbitrary: c)
  case Nil
  show ?case by simp
next
  case (Cons p ps)
  then have ok: "payable_coin denom_ok (pAmount p)" by simp
  let ?step = "case payee (addressCodec K) blocked p of None \<Rightarrow> view (store c)
     | Some to \<Rightarrow> if covers (lBal (view (store c))) hold [pAmount p]
                 then release hold to (pId p) p (view (store c)) else view (store c)"
  from execute_refines [OF ok, of c]
  consider (paid) to st ev where "payee (addressCodec K) blocked p = Some to"
      "covers (lBal (view (store c))) hold [pAmount p]"
      "execute S K p c = (Ok (), c\<lparr>store := st, events := events c @ [ev]\<rparr>)"
      "view st = release hold to (pId p) p (view (store c))"
    | (failed) e st where "payee (addressCodec K) blocked p = None \<or> \<not> covers (lBal (view (store c))) hold [pAmount p]"
      "execute S K p c = (Err e, c\<lparr>store := st\<rparr>)" "view st = view (store c)"
    by blast
  then obtain c1 where c1: "pay_all S K (p # ps) c = pay_all S K ps c1" "view (store c1) = ?step"
      "blockTimeUnix c1 = blockTimeUnix c"
  proof cases
    case paid
    then show thesis
      by (intro that [of "c\<lparr>store := st, events := events c @ [ev]\<rparr>"]) simp_all
  next
    case failed
    then show thesis
      by (intro that [of "c\<lparr>store := st, logs := logs c @ [(''undo: payout failed'', pId p, e)]\<rparr>"])
        (auto split: option.split)
  qed
  from Cons.IH [of c1] Cons.prems c1 show ?case by auto
qed

lemma due_collected:
  "fold (\<lambda>(k, p) ps. if pExecuteat p <=s now then ps @ [p] else ps) (pend.entries st) [] = due_payments now (view st)"
proof -
  have "fold (\<lambda>(k, p) ps. if pExecuteat p <=s now then ps @ [p] else ps) xs a = a @ filter (due now) (map snd xs)"
    for xs :: "(u64 \<times> Pending) list" and a
    by (induction xs arbitrary: a) (auto simp: due_def)
  then show ?thesis
    by (simp add: due_payments_def pend.entries_eq comp_def)
qed

lemma EndBlocker_refines:
  assumes "\<forall>i p. lPending (view (store c)) i = Some p \<longrightarrow> payable_coin denom_ok (pAmount p)"
  shows "\<exists>c'. EndBlocker S K c = (Ok (), c') \<and> blockTimeUnix c' = blockTimeUnix c \<and>
     view (store c') = end_block (addressCodec K) blocked hold (blockTimeUnix c) (view (store c))"
proof -
  have "EndBlocker S K c = pay_all S K (due_payments (blockTimeUnix c) (view (store c))) c"
    by (simp add: EndBlocker_def bind_def blockTime_def Walk_fold pend.Iterate_entries due_collected)
  moreover have "\<forall>p\<in>set (due_payments (blockTimeUnix c) (view (store c))). payable_coin denom_ok (pAmount p)"
    using assms by (auto simp: due_payments_def)
  ultimately show ?thesis
    using pay_all_refines by (simp add: end_block_def)
qed

end

end
