(* ===== verification/Invariants.thy ===== *)
theory Invariants
  imports Ledger
begin

text \<open>
  The invariant of the abstract ledger and its preservation by each abstract operation, and the
  closed form of the end of a block.

  \<^item> \<open>wf_pending\<close>: a pending payment is stored under its own id, below the sequence, with a
    positive valid amount, two different parties and addresses that decode.
  \<^item> \<open>wf_rest\<close>: a tally is stored under its own address; stored parameters are valid.
  \<^item> \<open>solvent\<close>: the holding account covers everything that is pending.
  \<^item> \<open>capped\<close>: nobody has more than \<open>MaxOpenPerSender\<close> payments in flight.
  \<^item> \<open>tallied\<close>: cancelled plus open is at most sent, and sent at most the sequence (so none of
    these counters has wrapped).
\<close>

section \<open>The invariant\<close>

definition wf_pending :: "AddressCodec \<Rightarrow> (string \<Rightarrow> bool) \<Rightarrow> ledger \<Rightarrow> bool" where
  "wf_pending A denom_ok l \<longleftrightarrow> (\<forall>i p. lPending l i = Some p \<longrightarrow>
     pId p = i \<and> i < lSeq l \<and> payable_coin denom_ok (pAmount p) \<and> pSender p \<noteq> pRecipient p \<and>
     (\<exists>b. StringToBytes A (pSender p) = Inr b) \<and> (\<exists>b. StringToBytes A (pRecipient p) = Inr b))"

definition wf_rest :: "ledger \<Rightarrow> bool" where
  "wf_rest l \<longleftrightarrow> (\<forall>a r. lRecord l a = Some r \<longrightarrow> rIndex r = a) \<and>
     (\<forall>p. lParams l = Some p \<longrightarrow> Params_Validate p = None)"

definition solvent :: "bytes \<Rightarrow> ledger \<Rightarrow> bool" where
  "solvent h l \<longleftrightarrow> (\<forall>d. pending_total (lPending l) d \<le> lBal l h d)"

definition capped :: "ledger \<Rightarrow> bool" where
  "capped l \<longleftrightarrow> (\<forall>s. open_count l s \<le> MaxOpenPerSender)"

definition tallied :: "ledger \<Rightarrow> bool" where
  "tallied l \<longleftrightarrow> (\<forall>s. unat (rCancelled (record_of l s)) + open_count l s \<le> unat (rSent (record_of l s)) \<and>
                    unat (rSent (record_of l s)) \<le> unat (lSeq l))"

definition ledger_inv :: "AddressCodec \<Rightarrow> (string \<Rightarrow> bool) \<Rightarrow> bytes \<Rightarrow> ledger \<Rightarrow> bool" where
  "ledger_inv A denom_ok h l \<longleftrightarrow>
     wf_pending A denom_ok l \<and> wf_rest l \<and> solvent h l \<and> capped l \<and> tallied l"

named_theorems inv_defs
declare ledger_inv_def [inv_defs] wf_pending_def [inv_defs] wf_rest_def [inv_defs]
  solvent_def [inv_defs] capped_def [inv_defs] tallied_def [inv_defs]

lemma wf_pendingD:
  assumes "wf_pending A denom_ok l" and "lPending l i = Some p"
  shows "pId p = i" "i < lSeq l" "payable_coin denom_ok (pAmount p)" "pSender p \<noteq> pRecipient p"
  using assms by (auto simp: wf_pending_def)

lemma wf_pending_units: "wf_pending A denom_ok l \<Longrightarrow> lPending l i = Some p \<Longrightarrow> 0 \<le> coin_units (pAmount p) d"
  by (metis payable_coin_units wf_pendingD(3))

lemma wf_pending_fresh: "wf_pending A denom_ok l \<Longrightarrow> lPending l (lSeq l) = None"
  by (metis not_None_eq less_irrefl wf_pendingD(2))

lemma solvent_covers:
  assumes "wf_pending A denom_ok l" and "solvent h l" and "lPending l i = Some p"
  shows "covers (lBal l) h [pAmount p]"
proof -
  have "coin_units (pAmount p) d \<le> pending_total (lPending l) d" for d
    using assms by (intro pending_total_ge) (auto intro: wf_pending_units)
  with assms(2) show ?thesis
    by (auto simp: covers_def solvent_def intro: order_trans)
qed

section \<open>Preservation\<close>

text \<open>The sequence number goes up by one without wrapping.\<close>

lemma u64_succ:
  assumes "n \<noteq> (-1 :: u64)"
  shows "unat (n + 1) = Suc (unat n)" and "n < n + 1"
proof -
  have "n + 1 \<noteq> 0" using assms by (metis add_eq_0_iff add.commute)
  then show "unat (n + 1) = Suc (unat n)" by (metis add.commute unatSuc)
  then show "n < n + 1" by (simp add: word_less_nat_alt)
qed

lemma open_ids_park:
  "open_ids (park h now from w msg l) s =
     (if s = dsCreator msg then insert (lSeq l) (open_ids l s) else open_ids l s - {lSeq l})"
  by (auto simp: open_ids_def park_def promised_def)

lemma open_count_park:
  assumes "wf_pending A denom_ok l"
  shows "open_count (park h now from w msg l) s = open_count l s + (if s = dsCreator msg then 1 else 0)"
proof -
  have "lSeq l \<notin> open_ids l s"
    using wf_pending_fresh [OF assms] by (auto simp: open_ids_def)
  then show ?thesis by (cases "s = dsCreator msg") (auto simp: open_count_def open_ids_park)
qed

lemma open_ids_release: "open_ids (release h to i p l) s = open_ids l s - {i}"
  by (auto simp: open_ids_def release_def)

lemma open_count_release:
  assumes "lPending l i = Some p"
  shows "open_count (release h to i p l) s = open_count l s - (if s = pSender p then 1 else 0)"
proof -
  have "i \<in> open_ids l s \<longleftrightarrow> s = pSender p"
    using assms by (auto simp: open_ids_def)
  then show ?thesis by (cases "s = pSender p") (auto simp: open_count_def open_ids_release)
qed

lemma open_count_pos: "lPending l i = Some p \<Longrightarrow> 0 < open_count l (pSender p)"
  by (auto simp: open_count_def open_ids_def card_gt_0_iff)

lemma record_of_simps [simp]:
  "record_of (l\<lparr>lRecord := (lRecord l)(a \<mapsto> r)\<rparr>) s = (if s = a then r else record_of l s)"
  "record_of (l\<lparr>lBal := b\<rparr>) s = record_of l s"
  "record_of (l\<lparr>lParams := v\<rparr>) s = record_of l s"
  "record_of (release h to i p l) s = record_of l s"
  by (simp_all add: record_of_def release_def)

lemma record_of_index: "wf_rest l \<Longrightarrow> rIndex (record_of l a) = a"
  by (auto simp: wf_rest_def record_of_def empty_record_def split: option.split)

lemma wf_rest_record:
  "wf_rest l \<Longrightarrow> rIndex r = a \<Longrightarrow> wf_rest (l\<lparr>lRecord := (lRecord l)(a \<mapsto> r)\<rparr>)"
  by (auto simp: wf_rest_def)

text \<open>Parking keeps the table well-formed, and the tallies right.\<close>

lemma park_wf:
  assumes wf: "wf_pending A denom_ok l" and plan: "plan_send A denom_ok l msg = Inr (Park from w)" and room: "lSeq l \<noteq> -1"
  shows "wf_pending A denom_ok (park h now from w msg l)"
  unfolding wf_pending_def
proof (intro allI impI)
  let ?l = "park h now from w msg l"
  fix i p assume "lPending ?l i = Some p"
  then consider "i = lSeq l" "p = promised l now w msg" | "i \<noteq> lSeq l" "lPending l i = Some p"
    by (auto simp: park_def split: if_splits)
  then show "pId p = i \<and> i < lSeq ?l \<and> payable_coin denom_ok (pAmount p) \<and> pSender p \<noteq> pRecipient p \<and>
      (\<exists>b. StringToBytes A (pSender p) = Inr b) \<and> (\<exists>b. StringToBytes A (pRecipient p) = Inr b)"
  proof cases
    case 1
    with plan u64_succ [OF room] show ?thesis by (auto simp: plan_send_Park promised_def park_def)
  next
    case 2
    with wf have "i < lSeq l" by (auto simp: wf_pending_def)
    then have "i < lSeq l + 1" using u64_succ(2) [OF room] by (rule order_less_trans)
    with 2 wf show ?thesis by (simp add: wf_pending_def park_def)
  qed
qed

lemma park_tallied:
  assumes wf: "wf_pending A denom_ok l" and tal: "tallied l" and room: "lSeq l \<noteq> -1"
  shows "tallied (park h now from w msg l)"
  unfolding tallied_def
proof
  let ?l = "park h now from w msg l"
  fix s
  from tal have t: "unat (rCancelled (record_of l s)) + open_count l s \<le> unat (rSent (record_of l s))"
    "unat (rSent (record_of l s)) \<le> unat (lSeq l)" by (auto simp: tallied_def)
  have q: "unat (lSeq ?l) = Suc (unat (lSeq l))" using u64_succ [OF room] by (simp add: park_def)
  show "unat (rCancelled (record_of ?l s)) + open_count ?l s \<le> unat (rSent (record_of ?l s)) \<and>
      unat (rSent (record_of ?l s)) \<le> unat (lSeq ?l)"
  proof (cases "s = dsCreator msg")
    case True
    have "unat (lSeq l) \<noteq> unat (-1 :: u64)" using room by (auto dest: unsigned_word_eqI)
    moreover have "unat (lSeq l) \<le> unat (-1 :: u64)" by (simp add: word_le_nat_alt [symmetric])
    ultimately have "rSent (record_of l s) \<noteq> -1" using t(2) by auto
    then have "unat (rSent (record_of l s) + 1) = Suc (unat (rSent (record_of l s)))" by (rule u64_succ)
    with True t q show ?thesis
      by (simp add: open_count_park [OF wf]) (simp add: park_def record_of_def)
  next
    case False
    with t q show ?thesis
      by (simp add: open_count_park [OF wf]) (simp add: park_def record_of_def)
  qed
qed

lemma park_inv:
  assumes inv: "ledger_inv A denom_ok h l"
    and plan: "plan_send A denom_ok l msg = Inr (Park from w)"
    and room: "lSeq l \<noteq> -1" and signer: "from \<noteq> h"
  shows "ledger_inv A denom_ok h (park h now from w msg l)"
proof -
  let ?l = "park h now from w msg l"
  from inv have wf: "wf_pending A denom_ok l" and rest: "wf_rest l" and solv: "solvent h l"
    and cap: "capped l" and tal: "tallied l" by (auto simp: ledger_inv_def)
  note wf_pending_fresh [OF wf]
  with solv signer have "solvent h ?l"
    by (auto simp: solvent_def park_def pending_total_add promised_def move_def)
  moreover have "wf_rest ?l"
    using rest record_of_index [OF rest] by (auto simp: wf_rest_def park_def)
  moreover have "capped ?l"
    using cap plan by (auto simp: plan_send_Park capped_def open_count_park [OF wf] Suc_le_eq)
  ultimately show ?thesis
    using park_wf [OF wf plan room] park_tallied [OF wf tal room] by (simp add: ledger_inv_def)
qed

lemma release_inv:
  assumes inv: "ledger_inv A denom_ok h l" and p: "lPending l i = Some p"
  shows "ledger_inv A denom_ok h (release h to i p l)"
proof -
  let ?l = "release h to i p l"
  from inv have wf: "wf_pending A denom_ok l" and rest: "wf_rest l" and solv: "solvent h l"
    and cap: "capped l" and tal: "tallied l" by (auto simp: ledger_inv_def)
  have "wf_pending A denom_ok ?l" using wf by (auto simp: wf_pending_def release_def)
  moreover have "wf_rest ?l" using rest by (simp add: wf_rest_def release_def)
  moreover have "solvent h ?l"
    unfolding solvent_def
  proof
    fix d
    have "0 \<le> coin_units (pAmount p) d" using wf p by (rule wf_pending_units)
    moreover have "pending_total (lPending l) d \<le> lBal l h d" using solv by (simp add: solvent_def)
    ultimately show "pending_total (lPending ?l) d \<le> lBal ?l h d"
      using pending_total_remove [of "lPending l" i p d] p by (cases "to = h") (auto simp: release_def move_def)
  qed
  moreover have "capped ?l"
    using cap by (simp add: capped_def open_count_release [OF p] le_diff_conv trans_le_add1)
  moreover have "tallied ?l"
  proof -
    have "open_count ?l s \<le> open_count l s" for s by (simp add: open_count_release [OF p])
    with tal show ?thesis
      unfolding tallied_def by (auto simp: release_def record_of_def) (meson add_left_mono order_trans)+
  qed
  ultimately show ?thesis by (simp add: ledger_inv_def)
qed

text \<open>Changes of the other balances, of the parameters and of the switch.\<close>

lemma balance_inv:
  assumes "ledger_inv A denom_ok h l" and "\<And>d. lBal l h d \<le> b h d"
  shows "ledger_inv A denom_ok h (l\<lparr>lBal := b\<rparr>)"
  using assms
  by (auto simp: ledger_inv_def wf_pending_def wf_rest_def solvent_def capped_def tallied_def
      open_count_def open_ids_def intro: order_trans)

lemma pay_now_inv:
  assumes "ledger_inv A denom_ok h l" and "payable_coin denom_ok (dsAmount msg)" and "from \<noteq> h"
  shows "ledger_inv A denom_ok h (pay_now from to msg l)"
  unfolding pay_now_def using assms
  by (intro balance_inv) (auto simp: move_def payable_coin_units)

lemma params_inv:
  assumes "ledger_inv A denom_ok h l" and "Params_Validate p = None"
  shows "ledger_inv A denom_ok h (l\<lparr>lParams := Some p\<rparr>)"
  using assms
  by (auto simp: ledger_inv_def wf_pending_def wf_rest_def solvent_def capped_def tallied_def
      open_count_def open_ids_def)

lemma open_count_record [simp]: "open_count (l\<lparr>lRecord := m\<rparr>) s = open_count l s"
  by (simp add: open_count_def open_ids_def)

lemma record_inv:
  assumes "ledger_inv A denom_ok h l" and "rIndex r = a"
    and "unat (rCancelled r) + open_count l a \<le> unat (rSent r)" and "unat (rSent r) \<le> unat (lSeq l)"
  shows "ledger_inv A denom_ok h (l\<lparr>lRecord := (lRecord l)(a \<mapsto> r)\<rparr>)"
  using assms
  by (auto simp: ledger_inv_def wf_pending_def wf_rest_def solvent_def capped_def tallied_def)

lemma switch_inv:
  assumes "ledger_inv A denom_ok h l"
  shows "ledger_inv A denom_ok h (switch_final a b l)"
  unfolding switch_final_def using assms record_of_index [of l a]
  by (intro record_inv) (auto simp: ledger_inv_def tallied_def)

lemma take_back_inv:
  assumes inv: "ledger_inv A denom_ok h l" and p: "lPending l (csId msg) = Some p"
    and own: "pSender p = csCreator msg"
  shows "ledger_inv A denom_ok h (take_back h to msg p l)"
proof -
  let ?l = "release h to (csId msg) p l" and ?s = "csCreator msg"
  let ?r = "record_of l ?s"
  have rel: "ledger_inv A denom_ok h ?l" using inv p by (rule release_inv)
  from inv have tal: "unat (rCancelled ?r) + open_count l ?s \<le> unat (rSent ?r)"
    "unat (rSent ?r) \<le> unat (lSeq l)" and rest: "wf_rest l"
    by (auto simp: ledger_inv_def tallied_def)
  have pos: "0 < open_count l ?s" using open_count_pos [OF p] own by simp
  have "unat (rCancelled ?r) < unat (rSent ?r)" using tal(1) pos by simp
  then have "rCancelled ?r \<noteq> -1"
    by (metis leD word_le_nat_alt word_order.extremum)
  then have succ: "unat (rCancelled ?r + 1) = Suc (unat (rCancelled ?r))" by (rule u64_succ)
  have "ledger_inv A denom_ok h (?l\<lparr>lRecord := (lRecord ?l)(?s \<mapsto> ?r\<lparr>rCancelled := rCancelled ?r + 1\<rparr>)\<rparr>)"
    using rel
  proof (rule record_inv)
    show "rIndex (?r\<lparr>rCancelled := rCancelled ?r + 1\<rparr>) = ?s" using record_of_index [OF rest] by simp
    show "unat (rCancelled (?r\<lparr>rCancelled := rCancelled ?r + 1\<rparr>)) + open_count ?l ?s
        \<le> unat (rSent (?r\<lparr>rCancelled := rCancelled ?r + 1\<rparr>))"
      using tal(1) pos own succ by (simp add: open_count_release [OF p])
    show "unat (rSent (?r\<lparr>rCancelled := rCancelled ?r + 1\<rparr>)) \<le> unat (lSeq ?l)"
      using tal(2) by (simp add: release_def)
  qed
  moreover have "take_back h to msg p l = ?l\<lparr>lRecord := (lRecord ?l)(?s \<mapsto> ?r\<lparr>rCancelled := rCancelled ?r + 1\<rparr>)\<rparr>"
    by (simp add: take_back_def release_def)
  ultimately show ?thesis by simp
qed

section \<open>The end of a block, in closed form\<close>

definition paid_ids :: "AddressCodec \<Rightarrow> (bytes \<Rightarrow> bool) \<Rightarrow> i64 \<Rightarrow> ledger \<Rightarrow> u64 set" where
  "paid_ids A blocked now l =
     {i. \<exists>p. lPending l i = Some p \<and> due now p \<and> payee A blocked p \<noteq> None}"

definition paid_to :: "AddressCodec \<Rightarrow> (bytes \<Rightarrow> bool) \<Rightarrow> i64 \<Rightarrow> ledger \<Rightarrow> bytes \<Rightarrow> string \<Rightarrow> int" where
  "paid_to A blocked now l a d =
     (\<Sum>i \<in> {i \<in> paid_ids A blocked now l. payee A blocked (the (lPending l i)) = Some a}.
        coin_units (pAmount (the (lPending l i))) d)"

definition paid_out :: "AddressCodec \<Rightarrow> (bytes \<Rightarrow> bool) \<Rightarrow> i64 \<Rightarrow> ledger \<Rightarrow> string \<Rightarrow> int" where
  "paid_out A blocked now l d =
     (\<Sum>i \<in> paid_ids A blocked now l. coin_units (pAmount (the (lPending l i))) d)"

text \<open>A list of stored payments, each once.\<close>

definition stored :: "ledger \<Rightarrow> Pending list \<Rightarrow> bool" where
  "stored l ps \<longleftrightarrow> distinct (map pId ps) \<and> (\<forall>p\<in>set ps. lPending l (pId p) = Some p)"

lemma stored_Cons: "stored l (p # ps) \<Longrightarrow> lPending l (pId p) = Some p \<and> pId p \<notin> pId ` set ps \<and> stored l ps"
  unfolding stored_def by simp

lemma stored_release: "stored l (p # ps) \<Longrightarrow> stored (release h to (pId p) p l) ps"
  unfolding stored_def release_def by simp (metis image_eqI)

text \<open>From a state with the invariant every payment with a payee is made: none lacks cover.\<close>

lemma settle_closed:
  assumes "ledger_inv A denom_ok h l" and "stored l ps"
  shows "ledger_inv A denom_ok h (settle A blocked h ps l) \<and>
    settle A blocked h ps l = l\<lparr>
      lPending := (\<lambda>i. if i \<in> pId ` {p \<in> set ps. payee A blocked p \<noteq> None} then None else lPending l i),
      lBal := (\<lambda>a d. lBal l a d
        - (if a = h then (\<Sum>p\<leftarrow>filter (\<lambda>p. payee A blocked p \<noteq> None) ps. coin_units (pAmount p) d) else 0)
        + (\<Sum>p\<leftarrow>filter (\<lambda>p. payee A blocked p = Some a) ps. coin_units (pAmount p) d))\<rparr>"
  using assms
proof (induction ps arbitrary: l)
  case Nil
  then show ?case by (auto simp: fun_eq_iff intro!: ledger.equality)
next
  case (Cons p ps)
  note st = stored_Cons [OF Cons.prems(2)]
  show ?case
  proof (cases "payee A blocked p")
    case None
    note IH = Cons.IH [OF Cons.prems(1), THEN conjunct1] Cons.IH [OF Cons.prems(1), THEN conjunct2]
    have same: "settle A blocked h (p # ps) l = settle A blocked h ps l"
      "{q \<in> set (p # ps). payee A blocked q \<noteq> None} = {q \<in> set ps. payee A blocked q \<noteq> None}"
      "filter (\<lambda>q. payee A blocked q \<noteq> None) (p # ps) = filter (\<lambda>q. payee A blocked q \<noteq> None) ps"
      "filter (\<lambda>q. payee A blocked q = Some a) (p # ps) = filter (\<lambda>q. payee A blocked q = Some a) ps" for a
      using None by auto
    show ?thesis unfolding same using IH st by blast
  next
    case (Some to)
    let ?l = "release h to (pId p) p l"
    have cov: "covers (lBal l) h [pAmount p]"
      using Cons.prems(1) st by (auto simp: ledger_inv_def intro: solvent_covers)
    have IH: "ledger_inv A denom_ok h (settle A blocked h ps ?l)" "settle A blocked h ps ?l = ?l\<lparr>
      lPending := (\<lambda>i. if i \<in> pId ` {p \<in> set ps. payee A blocked p \<noteq> None} then None else lPending ?l i),
      lBal := (\<lambda>a d. lBal ?l a d
        - (if a = h then (\<Sum>p\<leftarrow>filter (\<lambda>p. payee A blocked p \<noteq> None) ps. coin_units (pAmount p) d) else 0)
        + (\<Sum>p\<leftarrow>filter (\<lambda>p. payee A blocked p = Some a) ps. coin_units (pAmount p) d))\<rparr>"
      using Cons.IH [of ?l] release_inv [OF Cons.prems(1)] st stored_release [OF Cons.prems(2)] by auto
    have ids: "pId ` {q \<in> set (p # ps). payee A blocked q \<noteq> None} = insert (pId p) (pId ` {q \<in> set ps. payee A blocked q \<noteq> None})"
      using Some by auto
    have "settle A blocked h (p # ps) l = settle A blocked h ps ?l"
      using Some cov by simp
    with IH show ?thesis
      unfolding ids using Some by (auto simp: release_def move_def fun_eq_iff)
  qed
qed

lemma due_payments_stored:
  assumes "wf_pending A denom_ok l"
  shows "stored l (due_payments now l)"
    and "set (due_payments now l) = {p. due now p \<and> (\<exists>i. lPending l i = Some p)}"
proof -
  let ?ps = "map (\<lambda>i. the (lPending l i)) (sorted_list_of_set (dom (lPending l)))"
  have set: "p \<in> set ?ps \<longleftrightarrow> (\<exists>i. lPending l i = Some p)" for p
    by (auto simp: image_iff dom_def)
  have "map pId ?ps = sorted_list_of_set (dom (lPending l))"
    using assms by (auto simp: wf_pending_def intro!: map_idI)
  then have "distinct (map pId ?ps)" by simp
  then have "distinct (map pId (filter (due now) ?ps))" by (rule distinct_map_filter)
  moreover have "\<forall>p\<in>set ?ps. lPending l (pId p) = Some p"
    using assms set by (auto simp: wf_pending_def)
  ultimately show "stored l (due_payments now l)" by (auto simp: stored_def due_payments_def)
  show "set (due_payments now l) = {p. due now p \<and> (\<exists>i. lPending l i = Some p)}"
    using set by (auto simp: due_payments_def)
qed

lemma due_sum:
  assumes "wf_pending A denom_ok l"
  shows "(\<Sum>p\<leftarrow>filter Q (due_payments now l). coin_units (pAmount p) d) =
     (\<Sum>i \<in> {i. \<exists>p. lPending l i = Some p \<and> due now p \<and> Q p}. coin_units (pAmount (the (lPending l i))) d)"
proof -
  let ?ps = "filter Q (due_payments now l)"
  from due_payments_stored [OF assms, of now] have st: "stored l (due_payments now l)"
    and set: "set (due_payments now l) = {p. due now p \<and> (\<exists>i. lPending l i = Some p)}" by auto
  from st have "distinct (map pId ?ps)"
    by (auto simp: stored_def intro: distinct_map_filter)
  then have dist: "distinct ?ps" and inj: "inj_on pId (set ?ps)" by (auto simp: distinct_map)
  have img: "pId ` set ?ps = {i. \<exists>p. lPending l i = Some p \<and> due now p \<and> Q p}"
    using assms by (auto simp: set wf_pending_def image_iff)
  have "(\<Sum>p\<leftarrow>?ps. coin_units (pAmount p) d) = (\<Sum>p\<in>set ?ps. coin_units (pAmount p) d)"
    using dist by (rule sum_list_distinct_conv_sum_set)
  also have "\<dots> = (\<Sum>p\<in>set ?ps. coin_units (pAmount (the (lPending l (pId p)))) d)"
    using st by (intro sum.cong) (auto simp: stored_def)
  also have "\<dots> = (\<Sum>i\<in>pId ` set ?ps. coin_units (pAmount (the (lPending l i))) d)"
    using inj by (simp add: sum.reindex)
  finally show ?thesis by (simp only: img)
qed

lemma end_block_closed:
  assumes "ledger_inv A denom_ok h l"
  shows "ledger_inv A denom_ok h (end_block A blocked h now l)"
    and "end_block A blocked h now l = l\<lparr>
      lPending := (\<lambda>i. if i \<in> paid_ids A blocked now l then None else lPending l i),
      lBal := (\<lambda>a d. lBal l a d - (if a = h then paid_out A blocked now l d else 0) + paid_to A blocked now l a d)\<rparr>"
proof -
  let ?ps = "due_payments now l"
  from assms have wf: "wf_pending A denom_ok l" by (simp add: ledger_inv_def)
  note due = due_payments_stored [OF wf, of now]
  note closed = settle_closed [OF assms due(1), of blocked]
  show "ledger_inv A denom_ok h (end_block A blocked h now l)"
    unfolding end_block_def by (rule closed [THEN conjunct1])
  have ids: "pId ` {p \<in> set ?ps. payee A blocked p \<noteq> None} = paid_ids A blocked now l"
    using wf by (auto simp: due(2) paid_ids_def wf_pending_def image_iff)
  have out: "(\<Sum>p\<leftarrow>filter (\<lambda>p. payee A blocked p \<noteq> None) ?ps. coin_units (pAmount p) d) = paid_out A blocked now l d" for d
    by (simp only: due_sum [OF wf] paid_out_def paid_ids_def)
  have "{i. \<exists>p. lPending l i = Some p \<and> due now p \<and> payee A blocked p = Some a} =
      {i \<in> paid_ids A blocked now l. payee A blocked (the (lPending l i)) = Some a}" for a
    by (auto simp: paid_ids_def)
  then have to: "(\<Sum>p\<leftarrow>filter (\<lambda>p. payee A blocked p = Some a) ?ps. coin_units (pAmount p) d) = paid_to A blocked now l a d" for a d
    by (simp only: due_sum [OF wf] paid_to_def)
  show "end_block A blocked h now l = l\<lparr>
      lPending := (\<lambda>i. if i \<in> paid_ids A blocked now l then None else lPending l i),
      lBal := (\<lambda>a d. lBal l a d - (if a = h then paid_out A blocked now l d else 0) + paid_to A blocked now l a d)\<rparr>"
    unfolding end_block_def closed [THEN conjunct2] ids out to by (rule refl)
qed

end
