(* ===== verification/Machine.thy ===== *)
theory Machine
  imports Refinement Invariants
begin

text \<open>
  The chain as a state machine. A step is one call of a handler with any message (whatever it
  returns: the state it leaves is kept, so nothing rests on the roll-back of failed
  transactions), the end of a block, the passing of time, or any change of balances by other
  modules that takes nothing from the holding account. Two facts about the outside are
  premises of the sending step: a message is signed, and nobody can sign for the module's
  account; and fewer than $2^{64}-1$ payments have been parked.
\<close>

section \<open>Steps\<close>

inductive chain_step ::
  "CoinOps \<Rightarrow> 'st Keeper \<Rightarrow> ('st \<Rightarrow> ledger) \<Rightarrow> bytes \<Rightarrow> 'st ctx \<Rightarrow> 'st ctx \<Rightarrow> bool"
  for S :: CoinOps and K :: "'st Keeper" and view :: "'st \<Rightarrow> ledger" and h :: bytes where
  send: "DelayedSend S K msg c = (r, c') \<Longrightarrow> StringToBytes (addressCodec K) (dsCreator msg) \<noteq> Inr h \<Longrightarrow>
     lSeq (view (store c)) \<noteq> -1 \<Longrightarrow> chain_step S K view h c c'"
| cancel: "CancelSend S K msg c = (r, c') \<Longrightarrow> chain_step S K view h c c'"
| switch: "SetFinalOnly K msg c = (r, c') \<Longrightarrow> chain_step S K view h c c'"
| params: "UpdateParams K req c = (r, c') \<Longrightarrow> chain_step S K view h c c'"
| end_block: "EndBlocker S K c = (r, c') \<Longrightarrow> chain_step S K view h c c'"
| tick: "sint (blockTimeUnix c) \<le> sint t \<Longrightarrow> chain_step S K view h c (c\<lparr>blockTimeUnix := t\<rparr>)"
| others: "view st = (view (store c))\<lparr>lBal := b\<rparr> \<Longrightarrow> (\<forall>d. lBal (view (store c)) h d \<le> b h d) \<Longrightarrow>
     chain_step S K view h c (c\<lparr>store := st\<rparr>)"

inductive chain_steps ::
  "CoinOps \<Rightarrow> 'st Keeper \<Rightarrow> ('st \<Rightarrow> ledger) \<Rightarrow> bytes \<Rightarrow> 'st ctx \<Rightarrow> 'st ctx \<Rightarrow> bool"
  for S :: CoinOps and K :: "'st Keeper" and view :: "'st \<Rightarrow> ledger" and h :: bytes where
  here: "chain_steps S K view h c c"
| more: "chain_steps S K view h c c' \<Longrightarrow> chain_step S K view h c' c'' \<Longrightarrow> chain_steps S K view h c c''"

inductive_cases chain_stepE: "chain_step S K view h c c'"

section \<open>The effect of each step on the ledger\<close>

text \<open>What a step does to the ledger, in terms of the abstract operations.\<close>

datatype effect =
    NoEffect
  | Parked MsgDelayedSend bytes u64
  | PaidNow MsgDelayedSend bytes bytes
  | TakenBack MsgCancelSend bytes Pending
  | Switched string bool
  | Retuned Params
  | BlockEnded
  | OtherBalances "bytes \<Rightarrow> string \<Rightarrow> int"

fun apply_effect :: "AddressCodec \<Rightarrow> (bytes \<Rightarrow> bool) \<Rightarrow> bytes \<Rightarrow> i64 \<Rightarrow> effect \<Rightarrow> ledger \<Rightarrow> ledger" where
  "apply_effect A blocked h now NoEffect l = l"
| "apply_effect A blocked h now (Parked msg src w) l = park h now src w msg l"
| "apply_effect A blocked h now (PaidNow msg src to) l = pay_now src to msg l"
| "apply_effect A blocked h now (TakenBack msg to p) l = take_back h to msg p l"
| "apply_effect A blocked h now (Switched a b) l = switch_final a b l"
| "apply_effect A blocked h now (Retuned p) l = l\<lparr>lParams := Some p\<rparr>"
| "apply_effect A blocked h now BlockEnded l = end_block A blocked h now l"
| "apply_effect A blocked h now (OtherBalances b) l = l\<lparr>lBal := b\<rparr>"

text \<open>When an effect is possible.\<close>

fun enabled :: "AddressCodec \<Rightarrow> (string \<Rightarrow> bool) \<Rightarrow> bytes \<Rightarrow> effect \<Rightarrow> ledger \<Rightarrow> bool" where
  "enabled A denom_ok h NoEffect l = True"
| "enabled A denom_ok h (Parked msg src w) l =
     (plan_send A denom_ok l msg = Inr (Park src w) \<and> covers (lBal l) src [dsAmount msg] \<and>
      src \<noteq> h \<and> lSeq l \<noteq> -1)"
| "enabled A denom_ok h (PaidNow msg src to) l =
     (plan_send A denom_ok l msg = Inr (Instant src to) \<and> covers (lBal l) src [dsAmount msg] \<and> src \<noteq> h)"
| "enabled A denom_ok h (TakenBack msg to p) l = (plan_cancel A l msg = Inr (to, p))"
| "enabled A denom_ok h (Switched a b) l = (\<exists>x. StringToBytes A a = Inr x)"
| "enabled A denom_ok h (Retuned p) l = (Params_Validate p = None)"
| "enabled A denom_ok h BlockEnded l = True"
| "enabled A denom_ok h (OtherBalances b) l = (\<forall>d. lBal l h d \<le> b h d)"

text \<open>Which call had the effect.\<close>

fun origin :: "CoinOps \<Rightarrow> 'st Keeper \<Rightarrow> 'st ctx \<Rightarrow> 'st ctx \<Rightarrow> effect \<Rightarrow> bool" where
  "origin S K c c' (Parked msg src w) = (\<exists>r. DelayedSend S K msg c = (Ok r, c'))"
| "origin S K c c' (PaidNow msg src to) = (\<exists>r. DelayedSend S K msg c = (Ok r, c'))"
| "origin S K c c' (TakenBack msg to p) = (CancelSend S K msg c = (Ok (), c'))"
| "origin S K c c' (Switched a b) = (SetFinalOnly K \<lparr>sfCreator = a, sfFinalonly = b\<rparr> c = (Ok (), c'))"
| "origin S K c c' (Retuned p) =
     (\<exists>req. upParams req = p \<and> UpdateParams K req c = (Ok (), c') \<and>
            StringToBytes (addressCodec K) (upAuthority req) = Inr (authority K))"
| "origin S K c c' BlockEnded = (EndBlocker S K c = (Ok (), c'))"
| "origin S K c c' _ = True"

text \<open>A step that has an enabled effect, and the call it comes from.\<close>

definition has_effect ::
  "CoinOps \<Rightarrow> 'st Keeper \<Rightarrow> ('st \<Rightarrow> ledger) \<Rightarrow> (string \<Rightarrow> bool) \<Rightarrow> (bytes \<Rightarrow> bool) \<Rightarrow> bytes \<Rightarrow> 'st ctx \<Rightarrow> 'st ctx \<Rightarrow> bool" where
  "has_effect S K view denom_ok blocked h c c' \<longleftrightarrow>
     (\<exists>e. enabled (addressCodec K) denom_ok h e (view (store c)) \<and> origin S K c c' e \<and>
        view (store c') = apply_effect (addressCodec K) blocked h (blockTimeUnix c) e (view (store c)))"

lemma plan_send_cases:
  "plan_send A denom_ok l msg = Inr plan \<Longrightarrow>
     payable_coin denom_ok (dsAmount msg) \<and>
     (case plan of Instant src to \<Rightarrow> StringToBytes A (dsCreator msg) = Inr src
      | Park src w \<Rightarrow> StringToBytes A (dsCreator msg) = Inr src)"
  by (cases plan) (auto simp: plan_send_Park plan_send_Instant)

lemma effect_inv:
  assumes inv: "ledger_inv A denom_ok h l" and en: "enabled A denom_ok h e l"
  shows "ledger_inv A denom_ok h (apply_effect A blocked h now e l)"
proof (cases e)
  case (Parked msg src w)
  with inv en show ?thesis by (auto intro: park_inv)
next
  case (PaidNow msg src to)
  with inv en show ?thesis by (auto intro!: pay_now_inv dest: plan_send_cases)
next
  case (TakenBack msg to p)
  with inv en show ?thesis
    by (auto simp: plan_cancel_def intro!: take_back_inv split: sum.splits option.splits if_splits)
next
  case (OtherBalances b)
  with inv en show ?thesis by (auto intro: balance_inv)
next
  case BlockEnded
  with inv show ?thesis by (auto intro: end_block_closed(1))
next
  case (Retuned p)
  with inv en show ?thesis by (auto intro: params_inv)
next
  case (Switched a b)
  with inv show ?thesis by (auto intro: switch_inv)
qed (simp add: inv)

context undo_contracts
begin

lemma wf_payable: "wf_pending A denom_ok l \<Longrightarrow> lPending l i = Some p \<Longrightarrow> payable_coin denom_ok (pAmount p)"
  by (rule wf_pendingD(3))

text \<open>A step of each kind has an enabled effect.\<close>

lemma has_effectI:
  "enabled (addressCodec K) denom_ok hold e (view (store c)) \<Longrightarrow> origin S K c c' e \<Longrightarrow>
     view (store c') = apply_effect (addressCodec K) blocked hold (blockTimeUnix c) e (view (store c)) \<Longrightarrow>
     has_effect S K view denom_ok blocked hold c c'"
  unfolding has_effect_def by blast

lemma no_effect: "view (store c') = view (store c) \<Longrightarrow> has_effect S K view denom_ok blocked hold c c'"
  by (rule has_effectI [of NoEffect]) simp_all

lemma send_effect:
  assumes run: "DelayedSend S K msg c = (r, c')" and signer: "StringToBytes (addressCodec K) (dsCreator msg) \<noteq> Inr hold"
    and room: "lSeq (view (store c)) \<noteq> -1"
  shows "has_effect S K view denom_ok blocked hold c c'"
proof (cases "plan_send (addressCodec K) denom_ok (view (store c)) msg")
  case (Inl e)
  with run show ?thesis by (simp add: DelayedSend_refused no_effect)
next
  case (Inr plan)
  from DelayedSend_refines [where c = c and msg = msg] Inr run
  consider (none) "view (store c') = view (store c)"
    | (instant) src to rp where "plan = Instant src to" "DelayedSend S K msg c = (Ok rp, c')" "covers (lBal (view (store c))) src [dsAmount msg]"
      "view (store c') = pay_now src to msg (view (store c))"
    | (park) src w rp where "plan = Park src w" "DelayedSend S K msg c = (Ok rp, c')" "covers (lBal (view (store c))) src [dsAmount msg]"
      "view (store c') = park hold (blockTimeUnix c) src w msg (view (store c))"
    by (auto split: send_plan.splits)
  then show ?thesis
  proof cases
    case none
    then show ?thesis by (rule no_effect)
  next
    case instant
    with Inr signer show ?thesis
      by (intro has_effectI [of "PaidNow msg src to"]) (auto dest: plan_send_cases)
  next
    case park
    with Inr signer room show ?thesis
      by (intro has_effectI [of "Parked msg src w"]) (auto dest: plan_send_cases)
  qed
qed

lemma cancel_effect:
  assumes run: "CancelSend S K msg c = (r, c')" and inv: "ledger_inv (addressCodec K) denom_ok hold (view (store c))"
  shows "has_effect S K view denom_ok blocked hold c c'"
proof (cases "plan_cancel (addressCodec K) (view (store c)) msg")
  case (Inl e)
  with run show ?thesis by (simp add: CancelSend_refused no_effect)
next
  case (Inr tp)
  obtain to p where tp: "tp = (to, p)" by (cases tp)
  from Inr tp have "lPending (view (store c)) (csId msg) = Some p"
    by (auto simp: plan_cancel_def split: sum.splits option.splits if_splits)
  with inv have ok: "payable_coin denom_ok (pAmount p)" by (auto simp: ledger_inv_def intro: wf_payable)
  from CancelSend_accepted [OF _ ok, where c = c and msg = msg and sender = to] Inr tp run
  consider "view (store c') = view (store c)"
    | "CancelSend S K msg c = (Ok (), c')" "view (store c') = take_back hold to msg p (view (store c))"
    by auto
  then show ?thesis
    by cases (use Inr tp in \<open>auto intro: no_effect has_effectI [of "TakenBack msg to p"]\<close>)
qed

lemma switch_effect:
  assumes run: "SetFinalOnly K msg c = (r, c')"
  shows "has_effect S K view denom_ok blocked hold c c'"
proof (cases "StringToBytes (addressCodec K) (sfCreator msg)")
  case (Inl e)
  with run SetFinalOnly_refines [where c = c and msg = msg] show ?thesis by (intro no_effect) auto
next
  case (Inr b)
  with run SetFinalOnly_refines [where c = c and msg = msg] show ?thesis
    by (intro has_effectI [of "Switched (sfCreator msg) (sfFinalonly msg)"]; cases msg; auto)
qed

lemma params_effect:
  assumes run: "UpdateParams K req c = (r, c')"
  shows "has_effect S K view denom_ok blocked hold c c'"
proof (cases "view (store c') = view (store c)")
  case False
  with run UpdateParams_refines [where c = c and req = req] show ?thesis
    by (intro has_effectI [of "Retuned (upParams req)"]) (auto split: sum.splits if_splits option.splits)
qed (rule no_effect)

lemma block_effect:
  assumes run: "EndBlocker S K c = (r, c')" and inv: "ledger_inv (addressCodec K) denom_ok hold (view (store c))"
  shows "has_effect S K view denom_ok blocked hold c c'"
  using run EndBlocker_refines [of c] inv
  by (intro has_effectI [of BlockEnded]) (auto simp: ledger_inv_def dest: wf_payable)

text \<open>Every step has an enabled effect.\<close>

lemma step_effect:
  assumes step: "chain_step S K view hold c c'"
    and inv: "ledger_inv (addressCodec K) denom_ok hold (view (store c))"
  shows "\<exists>e. enabled (addressCodec K) denom_ok hold e (view (store c)) \<and> origin S K c c' e \<and>
     view (store c') = apply_effect (addressCodec K) blocked hold (blockTimeUnix c) e (view (store c))"
proof -
  from step have "has_effect S K view denom_ok blocked hold c c'"
  proof cases
    case (others st b)
    then show ?thesis by (intro has_effectI [of "OtherBalances b"]) simp_all
  qed (auto intro: send_effect cancel_effect switch_effect params_effect block_effect no_effect inv)
  then show ?thesis unfolding has_effect_def .
qed

lemma step_inv:
  assumes "chain_step S K view hold c c'" and "ledger_inv (addressCodec K) denom_ok hold (view (store c))"
  shows "ledger_inv (addressCodec K) denom_ok hold (view (store c'))"
  using step_effect [OF assms] assms(2) by (auto intro: effect_inv)

lemma steps_inv:
  assumes "chain_steps S K view hold c c'" and "ledger_inv (addressCodec K) denom_ok hold (view (store c))"
  shows "ledger_inv (addressCodec K) denom_ok hold (view (store c'))"
  using assms by (induction rule: chain_steps.induct) (auto intro: step_inv)

end

end
