(* ===== verification/Guarantees.thy ===== *)
theory Guarantees
  imports Machine
begin

text \<open>
  What the machine guarantees about one payment: how it can leave the pending table, that it
  never comes back, that its sender can take it back as long as it is there, and that the end
  of a block hands it over once its time has come. Proved once from the contracts.
\<close>

section \<open>The time of a payment\<close>

lemma sint_shift: "sint (x :: i64) = (uint x + 2 ^ 63) mod 2 ^ 64 - 2 ^ 63"
  using int_word_sint [where ?'a = 64, of "uint x"] by simp

lemma sint_small: "uint (x :: i64) < 2 ^ 63 \<Longrightarrow> sint x = uint x"
  by (simp add: sint_shift)

lemma sint_large:
  assumes "2 ^ 63 \<le> uint (x :: i64)"
  shows "sint x = uint x - 2 ^ 64"
proof -
  have "uint x < 2 ^ 64" using uint_lt2p [of x] by simp
  then have "(uint x - 2 ^ 63) mod 2 ^ 64 = uint x - 2 ^ 63"
    using assms by (intro mod_pos_pos_trivial) auto
  moreover have "(uint x + 2 ^ 63) mod 2 ^ 64 = (uint x - 2 ^ 63) mod 2 ^ 64"
    using mod_add_self2 [of "uint x - 2 ^ 63" "2 ^ 64 :: int"] by (simp add: add.commute)
  ultimately show ?thesis by (simp add: sint_shift)
qed

lemma sint_add_exact:
  fixes x y :: i64
  assumes "- (2 ^ 63) \<le> sint x + sint y" and "sint x + sint y < 2 ^ 63"
  shows "sint (x + y) = sint x + sint y"
  using assms by (simp add: sint_word_add signed_take_bit_int_eq_self)

text \<open>The window is added exactly when the sum fits 63 bits.\<close>

lemma sint_add_window:
  fixes now w :: i64
  assumes "0 \<le> sint now" and "sint now + uint w < 2 ^ 63"
  shows "sint (now + w) = sint now + uint w"
proof -
  have "0 \<le> uint w" by simp
  then have "uint w < 2 ^ 63" and "- (2 ^ 63) \<le> sint now + uint w"
    using assms by linarith+
  then show ?thesis
    using sint_add_exact [of now w] sint_small [of w] assms(2) by (metis)
qed

text \<open>A window of $2^{63}$ seconds or more, read as an \<open>int64\<close>, is negative.\<close>

lemma sint_sum_huge:
  fixes now w :: i64
  assumes "0 \<le> sint now" and "2 ^ 63 \<le> uint w"
  shows "sint (now + w) = sint now + uint w - 2 ^ 64"
proof -
  have "uint w < 2 ^ 64" using uint_lt2p [of w] by simp
  moreover have "sint now < 2 ^ 63" using sint_lt [of now] by simp
  ultimately show ?thesis
    using assms sint_large [of w] sint_add_exact [of now w] by simp
qed

lemma sint_add_huge:
  fixes now w :: i64
  assumes "0 \<le> sint now" and "2 ^ 63 \<le> uint w"
  shows "sint (now + w) < sint now"
  using sint_sum_huge [OF assms] uint_lt2p [of w] by simp

section \<open>Calls that fail cleanly\<close>

text \<open>A call ends with a value or an error, never a panic, and with an error the ledger is as it was.\<close>

definition no_trace :: "('st \<Rightarrow> ledger) \<Rightarrow> 'st ctx \<Rightarrow> 'a res \<times> 'st ctx \<Rightarrow> bool" where
  "no_trace view c r \<longleftrightarrow> (case r of
      (Ok _, _) \<Rightarrow> True
    | (Err _, c') \<Rightarrow> view (store c') = view (store c)
    | (Panic _, _) \<Rightarrow> False)"

context undo_contracts
begin

section \<open>How a payment leaves the pending table\<close>

lemma effect_pending:
  assumes inv: "ledger_inv A denom_ok h l" and en: "enabled A denom_ok h e l"
    and p: "lPending l i = Some p"
    and gone: "lPending (apply_effect A blkd h now e l) i \<noteq> Some p"
  shows "lPending (apply_effect A blkd h now e l) i = None \<and>
    ((\<exists>msg to. e = TakenBack msg to p \<and> csId msg = i \<and> csCreator msg = pSender p) \<or>
     (e = BlockEnded \<and> due now p \<and> payee A blkd p \<noteq> None))"
proof (cases e)
  case (Parked msg src w)
  with gone p inv show ?thesis
    by (auto simp: park_def ledger_inv_def dest: wf_pending_fresh split: if_splits)
next
  case (TakenBack msg to q)
  with gone p en show ?thesis
    by (auto simp: take_back_def release_def plan_cancel_def split: if_splits sum.splits option.splits)
next
  case BlockEnded
  with gone p show ?thesis
    by (auto simp: end_block_closed(2) [OF inv] paid_ids_def split: if_splits)
qed (insert gone p, auto simp: pay_now_def switch_final_def)

lemma effect_gone:
  assumes inv: "ledger_inv A denom_ok h l" and en: "enabled A denom_ok h e l"
    and old: "i < lSeq l" "lPending l i = None"
  shows "lPending (apply_effect A blkd h now e l) i = None"
    and "i < lSeq (apply_effect A blkd h now e l)"
proof -
  have "lPending (apply_effect A blkd h now e l) i = None \<and> i < lSeq (apply_effect A blkd h now e l)"
  proof (cases e)
    case (Parked msg src w)
    with en old u64_succ(2) [of "lSeq l"] show ?thesis by (auto simp: park_def)
  next
    case BlockEnded
    with old show ?thesis by (simp add: end_block_closed(2) [OF inv])
  qed (insert old, auto simp: pay_now_def switch_final_def take_back_def release_def)
  then show "lPending (apply_effect A blkd h now e l) i = None"
    and "i < lSeq (apply_effect A blkd h now e l)" by auto
qed

lemma step_leaves:
  assumes "chain_step S K view hold c c'" and "ledger_inv (addressCodec K) denom_ok hold (view (store c))"
    and "lPending (view (store c)) i = Some p" and "lPending (view (store c')) i \<noteq> Some p"
  shows "lPending (view (store c')) i = None \<and>
    ((\<exists>msg. CancelSend S K msg c = (Ok (), c') \<and> csId msg = i \<and> csCreator msg = pSender p) \<or>
     (EndBlocker S K c = (Ok (), c') \<and> pExecuteat p <=s blockTimeUnix c))"
proof -
  obtain e where e: "enabled (addressCodec K) denom_ok hold e (view (store c))" "origin S K c c' e"
    "view (store c') = apply_effect (addressCodec K) blocked hold (blockTimeUnix c) e (view (store c))"
    using step_effect [OF assms(1,2)] by blast
  from effect_pending [OF assms(2) e(1) assms(3), of blocked "blockTimeUnix c"] assms(4) e(2,3)
  show ?thesis by (auto simp: due_def)
qed

lemma steps_gone:
  assumes "chain_steps S K view hold c c'" and "ledger_inv (addressCodec K) denom_ok hold (view (store c))"
    and "i < lSeq (view (store c))" and "lPending (view (store c)) i = None"
  shows "i < lSeq (view (store c')) \<and> lPending (view (store c')) i = None"
  using assms
proof (induction rule: chain_steps.induct)
  case (more c c' c'')
  then have inv: "ledger_inv (addressCodec K) denom_ok hold (view (store c'))"
    and old: "i < lSeq (view (store c'))" "lPending (view (store c')) i = None"
    by (auto intro: steps_inv)
  obtain e where e: "enabled (addressCodec K) denom_ok hold e (view (store c'))"
    "view (store c'') = apply_effect (addressCodec K) blocked hold (blockTimeUnix c') e (view (store c'))"
    using step_effect [OF more.hyps(2) inv] by blast
  show ?case unfolding e(2) using effect_gone [OF inv e(1) old] by blast
qed simp

text \<open>The sequence never goes back.\<close>

lemma effect_seq:
  assumes inv: "ledger_inv A denom_ok h l" and en: "enabled A denom_ok h e l"
  shows "lSeq l \<le> lSeq (apply_effect A blkd h now e l)"
proof (cases e)
  case (Parked msg src w)
  with en u64_succ(2) [of "lSeq l"] show ?thesis by (auto simp: park_def)
next
  case BlockEnded
  then show ?thesis by (simp add: end_block_closed(2) [OF inv])
qed (auto simp: pay_now_def switch_final_def take_back_def release_def)

lemma steps_seq:
  assumes "chain_steps S K view hold c c'" and "ledger_inv (addressCodec K) denom_ok hold (view (store c))"
  shows "lSeq (view (store c)) \<le> lSeq (view (store c'))"
  using assms
proof (induction rule: chain_steps.induct)
  case (more c c' c'')
  then have inv: "ledger_inv (addressCodec K) denom_ok hold (view (store c'))"
    by (auto intro: steps_inv)
  obtain e where e: "enabled (addressCodec K) denom_ok hold e (view (store c'))"
    "view (store c'') = apply_effect (addressCodec K) blocked hold (blockTimeUnix c') e (view (store c'))"
    using step_effect [OF more.hyps(2) inv] by blast
  from effect_seq [OF inv e(1)] more show ?case unfolding e(2) by (auto intro: order_trans)
qed simp

section \<open>A payment is never altered\<close>

lemma steps_same:
  assumes "chain_steps S K view hold c c'" and "ledger_inv (addressCodec K) denom_ok hold (view (store c))"
    and "lPending (view (store c)) i = Some p"
  shows "lPending (view (store c')) i \<in> {Some p, None}"
  using assms
proof (induction rule: chain_steps.induct)
  case (more c c' c'')
  then have inv: "ledger_inv (addressCodec K) denom_ok hold (view (store c))"
    "ledger_inv (addressCodec K) denom_ok hold (view (store c'))"
    by (auto intro: steps_inv)
  show ?case
  proof (cases "lPending (view (store c')) i")
    case None
    have "i < lSeq (view (store c))"
      using inv(1) more.prems by (auto simp: ledger_inv_def dest: wf_pendingD)
    then have "i < lSeq (view (store c'))"
      using steps_seq [OF more.hyps(1) inv(1)] by simp
    with None show ?thesis
      using steps_gone [OF chain_steps.more [OF chain_steps.here more.hyps(2)] inv(2)] by simp
  next
    case (Some q)
    with more have "q = p" by auto
    with Some have "lPending (view (store c'')) i = Some p \<or> lPending (view (store c'')) i = None"
      using step_leaves [OF more.hyps(2) inv(2), of i p] \<open>q = p\<close> by metis
    then show ?thesis by auto
  qed
qed simp

section \<open>The sender can take it back\<close>

lemma cancel_succeeds:
  assumes inv: "ledger_inv (addressCodec K) denom_ok hold (view (store c))"
    and p: "lPending (view (store c)) (csId msg) = Some p" and own: "pSender p = csCreator msg"
    and addr: "StringToBytes (addressCodec K) (csCreator msg) = Inr sender" and free: "\<not> blocked sender"
  shows "\<exists>c'. CancelSend S K msg c = (Ok (), c') \<and> view (store c') = take_back hold sender msg p (view (store c))"
proof -
  have plan: "plan_cancel (addressCodec K) (view (store c)) msg = Inr (sender, p)"
    using p own addr by (simp add: plan_cancel_def)
  from inv p have ok: "payable_coin denom_ok (pAmount p)"
    and cov: "covers (lBal (view (store c))) hold [pAmount p]"
    by (auto simp: ledger_inv_def intro: wf_payable solvent_covers)
  from ok obtain n where "Amount (pAmount p) = Some n" "0 < n" by (auto simp: payable_coin_def)
  then have "fst (SendCoinsFromModuleToAccount (bankKeeper K) ModuleName sender [pAmount p] (store c)) = None"
    using cov free by (intro bank.m2a_pays)
  with CancelSend_accepted [OF plan ok] show ?thesis by auto
qed

lemma send_then_cancel:
  assumes inv: "ledger_inv (addressCodec K) denom_ok hold (view (store c))"
    and sent: "DelayedSend S K msg c = (Ok r, c1)" and delayed: "\<not> dsrFinal r"
    and signer: "StringToBytes (addressCodec K) (dsCreator msg) = Inr sender" "sender \<noteq> hold" "\<not> blocked sender"
    and room: "lSeq (view (store c)) \<noteq> -1"
  shows "\<exists>c2. CancelSend S K \<lparr>csCreator = dsCreator msg, csId = dsrId r\<rparr> c1 = (Ok (), c2) \<and>
    lBal (view (store c2)) = lBal (view (store c)) \<and> lPending (view (store c2)) = lPending (view (store c))"
proof -
  let ?l = "view (store c)" and ?m = "\<lparr>csCreator = dsCreator msg, csId = dsrId r\<rparr>"
  from DelayedSend_refines [where c = c and msg = msg] sent delayed obtain src w where
    plan: "plan_send (addressCodec K) denom_ok ?l msg = Inr (Park src w)"
    and r: "dsrId r = lSeq ?l" and v: "view (store c1) = park hold (blockTimeUnix c) src w msg ?l"
    by (auto split: sum.splits send_plan.splits)
  from plan_send_cases [OF plan] signer(1) have src: "src = sender" by simp
  have inv1: "ledger_inv (addressCodec K) denom_ok hold (view (store c1))"
    unfolding v using inv plan room signer(2) src by (auto intro: park_inv)
  have pend1: "lPending (view (store c1)) (csId ?m) = Some (promised ?l (blockTimeUnix c) w msg)"
    by (simp add: v r park_def)
  obtain c2 where c2: "CancelSend S K ?m c1 = (Ok (), c2)"
    "view (store c2) = take_back hold sender ?m (promised ?l (blockTimeUnix c) w msg) (view (store c1))"
    using cancel_succeeds [OF inv1 pend1 _ _ signer(3)] signer(1) by (auto simp: promised_def)
  moreover have "lPending ?l (lSeq ?l) = None"
    using inv by (auto simp: ledger_inv_def intro: wf_pending_fresh)
  ultimately show ?thesis
    by (auto simp: v src r take_back_def release_def park_def promised_def fun_eq_iff move_def)
qed

section \<open>The end of a block hands it over\<close>

lemma block_ends:
  assumes inv: "ledger_inv (addressCodec K) denom_ok hold (view (store c))"
  shows "\<exists>c'. EndBlocker S K c = (Ok (), c') \<and>
    view (store c') = end_block (addressCodec K) blocked hold (blockTimeUnix c) (view (store c))"
  using EndBlocker_refines [of c] inv by (auto simp: ledger_inv_def dest: wf_payable)

text \<open>What it does to one payment: it pays the ones that are due and deliverable, and only those.\<close>

lemma block_settles:
  assumes inv: "ledger_inv (addressCodec K) denom_ok hold (view (store c))" and p: "lPending (view (store c)) i = Some p"
  shows "\<exists>c'. EndBlocker S K c = (Ok (), c') \<and>
    lPending (view (store c')) i = (if due (blockTimeUnix c) p \<and> payee (addressCodec K) blocked p \<noteq> None then None else Some p)"
  using block_ends [OF inv] p by (auto simp: end_block_closed(2) [OF inv] paid_ids_def)

lemma block_pays:
  assumes inv: "ledger_inv (addressCodec K) denom_ok hold (view (store c))" and p: "lPending (view (store c)) i = Some p"
    and ends: "EndBlocker S K c = (Ok (), c')" "due (blockTimeUnix c) p"
    and to: "payee (addressCodec K) blocked p = Some to" "to \<noteq> hold"
  shows "lBal (view (store c)) to d + coin_units (pAmount p) d \<le> lBal (view (store c')) to d"
proof -
  let ?l = "view (store c)" and ?now = "blockTimeUnix c"
  let ?paid = "paid_ids (addressCodec K) blocked ?now ?l"
  let ?mine = "{i \<in> ?paid. payee (addressCodec K) blocked (the (lPending ?l i)) = Some to}"
  have wf: "wf_pending (addressCodec K) denom_ok ?l" using inv by (simp add: ledger_inv_def)
  have "finite ?mine" by simp
  moreover have "i \<in> ?mine" using p ends(2) to(1) by (simp add: paid_ids_def)
  moreover have "0 \<le> coin_units (pAmount (the (lPending ?l j))) d" if "j \<in> ?mine" for j
    using that wf_pending_units [OF wf] by (auto simp: paid_ids_def)
  ultimately have "coin_units (pAmount (the (lPending ?l i))) d \<le> paid_to (addressCodec K) blocked ?now ?l to d"
    unfolding paid_to_def by (intro member_le_sum) auto
  moreover have "view (store c') = end_block (addressCodec K) blocked hold ?now ?l"
    using block_ends [OF inv] ends(1) by auto
  ultimately show ?thesis using p to(2) by (simp add: end_block_closed(2) [OF inv])
qed

text \<open>A payment that the end of a block takes out was deliverable.\<close>

lemma block_gone_payee:
  assumes "ledger_inv (addressCodec K) denom_ok hold (view (store c))" and "lPending (view (store c)) i = Some p"
    and "EndBlocker S K c = (Ok (), c')" and "lPending (view (store c')) i \<noteq> Some p"
  obtains to where "payee (addressCodec K) blocked p = Some to"
  using block_settles [OF assms(1,2)] assms(3,4) by (auto split: if_splits)

text \<open>A cancellation that succeeds pays the amount back to the sender.\<close>

lemma cancel_pays_back:
  assumes inv: "ledger_inv (addressCodec K) denom_ok hold (view (store c))"
    and ok: "CancelSend S K msg c = (Ok (), c')" and p: "lPending (view (store c)) (csId msg) = Some p"
  obtains a where "StringToBytes (addressCodec K) (pSender p) = Inr a"
    and "lBal (view (store c')) = move hold a [pAmount p] (lBal (view (store c)))"
proof (cases "plan_cancel (addressCodec K) (view (store c)) msg")
  case (Inl e)
  with ok show ?thesis by (simp add: CancelSend_refused)
next
  case (Inr ap)
  then obtain a where ap: "ap = (a, p)" "StringToBytes (addressCodec K) (pSender p) = Inr a"
    using p by (auto simp: plan_cancel_def split: sum.splits option.splits if_splits)
  from inv p have "payable_coin denom_ok (pAmount p)" by (auto simp: ledger_inv_def intro: wf_payable)
  from CancelSend_accepted [OF Inr [unfolded ap(1)] this] ok
  have "view (store c') = take_back hold a msg p (view (store c))" by auto
  with that [OF ap(2)] show ?thesis by (simp add: take_back_def release_def)
qed

section \<open>Failures\<close>

lemma CancelSend_atomic:
  assumes "ledger_inv (addressCodec K) denom_ok hold (view (store c))"
  shows "no_trace view c (CancelSend S K msg c)"
proof (cases "plan_cancel (addressCodec K) (view (store c)) msg")
  case (Inl e)
  then show ?thesis by (simp add: CancelSend_refused no_trace_def)
next
  case (Inr sp)
  then obtain s p where sp: "sp = (s, p)" and "lPending (view (store c)) (csId msg) = Some p"
    by (auto simp: plan_cancel_def split: sum.splits option.splits if_splits)
  with assms have "payable_coin denom_ok (pAmount p)" by (auto simp: ledger_inv_def dest: wf_pendingD)
  with CancelSend_accepted [OF Inr [unfolded sp]] show ?thesis by (auto simp: no_trace_def)
qed

lemma DelayedSend_atomic:
  "no_trace view c (DelayedSend S K msg c)"
  using DelayedSend_refines [where c = c and msg = msg]
  by (cases "plan_send (addressCodec K) denom_ok (view (store c)) msg") (auto simp: no_trace_def)

lemma handlers_atomic:
  assumes "ledger_inv (addressCodec K) denom_ok hold (view (store c))"
  shows "no_trace view c (DelayedSend S K m1 c) \<and>
    no_trace view c (CancelSend S K m2 c) \<and>
    no_trace view c (SetFinalOnly K m3 c) \<and>
    no_trace view c (UpdateParams K m4 c)"
proof (intro conjI)
  show "no_trace view c (SetFinalOnly K m3 c)"
    using SetFinalOnly_refines [where c = c and msg = m3] by (auto simp: no_trace_def split: sum.splits)
  show "no_trace view c (UpdateParams K m4 c)"
    using UpdateParams_refines [where c = c and req = m4] by (auto simp: no_trace_def split: sum.splits if_splits option.splits)
qed (rule DelayedSend_atomic CancelSend_atomic [OF assms])+

text \<open>A panic in a payout unwinds the whole loop.\<close>

lemma pay_all_panics:
  assumes "p \<in> set ps" and "\<And>c. \<exists>t c'. execute S K p c = (Panic t, c')"
  shows "\<exists>t c'. pay_all S K ps c = (Panic t, c')"
  using assms(1)
proof (induction ps arbitrary: c)
  case (Cons q ps)
  show ?case
  proof (cases "q = p")
    case True
    with assms(2) [of c] show ?thesis by auto
  next
    case False
    with Cons have "p \<in> set ps" by simp
    then show ?thesis
      by (auto simp: Cons.IH split: prod.split res.split)
  qed
qed simp

lemma bad_amount_panics:
  assumes "p \<in> set (due_payments (blockTimeUnix c) (view (store c)))"
    and "\<not> valid_coin denom_ok (pAmount p)" and "Amount (pAmount p) \<noteq> Some 0"
    and "StringToBytes (addressCodec K) (pRecipient p) = Inr to"
  shows "\<exists>t c'. EndBlocker S K c = (Panic t, c')"
proof -
  have "EndBlocker S K c = pay_all S K (due_payments (blockTimeUnix c) (view (store c))) c"
    by (simp add: EndBlocker_def bind_def blockTime_def Walk_fold pend.Iterate_entries due_collected)
  moreover have "\<exists>t c'. execute S K p d = (Panic t, c')" for d
    using assms(2-4) by (simp add: execute_def bind_new_coins coin.NewCoins_bad)
  ultimately show ?thesis using pay_all_panics [OF assms(1)] by metis
qed

end

end
