(* ===== verification/MemStore.thy ===== *)
theory MemStore
  imports Machine "HOL-Library.Finite_Map"
begin

text \<open>
  The contracts can be met: a keeper over an in-memory store, with finite maps for the
  collections, one map of balances for the bank, a denomination check as the SDK's
  \<open>[a-zA-Z][a-zA-Z0-9/:._-]{2,127}\<close>, and an address codec that, as bech32 (BIP 173) does, reads
  an address in all lower or in all upper case and writes it in lower case. The locales of
  \<open>Contracts\<close> are interpreted on it; the witnesses of the properties run on it.
\<close>

section \<open>Addresses\<close>

definition char_byte :: "char \<Rightarrow> byte" where
  "char_byte ch = of_char ch"

definition bytes_of_string :: "string \<Rightarrow> bytes" where
  "bytes_of_string s = map char_byte s"

definition string_of_bytes :: "bytes \<Rightarrow> string" where
  "string_of_bytes b = map (\<lambda>w. char_of (unat w)) b"

definition lower_char :: "char \<Rightarrow> char" where
  "lower_char ch = (if CHR ''A'' \<le> ch \<and> ch \<le> CHR ''Z'' then char_of ((of_char ch :: nat) + 32) else ch)"

definition is_lower :: "string \<Rightarrow> bool" where
  "is_lower s \<longleftrightarrow> list_all (\<lambda>ch. \<not> (CHR ''A'' \<le> ch \<and> ch \<le> CHR ''Z'')) s"

definition is_upper :: "string \<Rightarrow> bool" where
  "is_upper s \<longleftrightarrow> list_all (\<lambda>ch. \<not> (CHR ''a'' \<le> ch \<and> ch \<le> CHR ''z'')) s"

definition mem_StringToBytes :: "string \<Rightarrow> error + bytes" where
  "mem_StringToBytes s =
     (if \<not> (is_lower s \<or> is_upper s) then Inl (Foreign ''decoding bech32 failed'')
      else let t = map lower_char s in
        if take 8 t = ''trefoil1'' \<and> 8 < length t then Inr (bytes_of_string (drop 8 t))
        else Inl (Foreign ''decoding bech32 failed''))"

definition mem_codec :: AddressCodec where
  "mem_codec = \<lparr>StringToBytes = mem_StringToBytes,
     BytesToString = (\<lambda>b. Inr (''trefoil1'' @ string_of_bytes b))\<rparr>"

definition mem_maddr :: "string \<Rightarrow> bytes" where
  "mem_maddr m = 0 # bytes_of_string m"

section \<open>Coins\<close>

definition alpha :: "char \<Rightarrow> bool" where
  "alpha ch \<longleftrightarrow> (CHR ''a'' \<le> ch \<and> ch \<le> CHR ''z'') \<or> (CHR ''A'' \<le> ch \<and> ch \<le> CHR ''Z'')"

definition denom_char :: "char \<Rightarrow> bool" where
  "denom_char ch \<longleftrightarrow> alpha ch \<or> (CHR ''0'' \<le> ch \<and> ch \<le> CHR ''9'') \<or> ch \<in> set ''/:._-''"

definition mem_denom_ok :: "string \<Rightarrow> bool" where
  "mem_denom_ok d \<longleftrightarrow> 3 \<le> length d \<and> length d \<le> 128 \<and> alpha (hd d) \<and> list_all denom_char d"

definition mem_coins :: CoinOps where
  "mem_coins = \<lparr>
     coin_Validate = (\<lambda>c. if \<not> mem_denom_ok (Denom c) then Some (Foreign ''invalid denom'')
        else case Amount c of
            None \<Rightarrow> Some (Foreign ''coin amount is nil'')
          | Some n \<Rightarrow> if n < 0 then Some (Foreign ''negative coin amount'') else None),
     coin_IsZero = (\<lambda>c. Amount c = Some 0),
     NewCoins = (\<lambda>cs. let ds = filter (\<lambda>c. Amount c \<noteq> Some 0) cs in
        if list_all (\<lambda>c. mem_denom_ok (Denom c) \<and> (case Amount c of None \<Rightarrow> False | Some n \<Rightarrow> 0 < n)) ds \<and>
           distinct (map Denom ds)
        then Some ds else None),
     coins_String = (\<lambda>cs. concat (map (\<lambda>c. (case Amount c of None \<Rightarrow> '''' | Some n \<Rightarrow> show_nat (nat n)) @ Denom c) cs))\<rparr>"

section \<open>The store\<close>

record mem =
  mPending :: "(u64, Pending) fmap"
  mRecord :: "(string, Record) fmap"
  mSeq :: u64
  mParams :: "Params option"
  mBal :: "bytes \<Rightarrow> string \<Rightarrow> int"

definition fm_get :: "('k, 'v) fmap \<Rightarrow> 'k \<Rightarrow> error + 'v" where
  "fm_get m k = (case fmlookup m k of None \<Rightarrow> Inl ErrNotFound | Some v \<Rightarrow> Inr v)"

definition fm_entries :: "('k::linorder, 'v) fmap \<Rightarrow> ('k \<times> 'v) list" where
  "fm_entries m = map (\<lambda>k. (k, the (fmlookup m k))) (sorted_list_of_set (fset (fmdom m)))"

definition mem_pending :: "(mem, u64, Pending) collMap" where
  "mem_pending = \<lparr>
     map_Get = (\<lambda>k st. fm_get (mPending st) k),
     map_Set = (\<lambda>k v st. (None, st\<lparr>mPending := fmupd k (stored_pending v) (mPending st)\<rparr>)),
     map_Remove = (\<lambda>k st. (None, st\<lparr>mPending := fmdrop k (mPending st)\<rparr>)),
     map_Iterate = (\<lambda>st. Inr (fm_entries (mPending st)))\<rparr>"

definition mem_record :: "(mem, string, Record) collMap" where
  "mem_record = \<lparr>
     map_Get = (\<lambda>k st. fm_get (mRecord st) k),
     map_Set = (\<lambda>k v st. (None, st\<lparr>mRecord := fmupd k v (mRecord st)\<rparr>)),
     map_Remove = (\<lambda>k st. (None, st\<lparr>mRecord := fmdrop k (mRecord st)\<rparr>)),
     map_Iterate = (\<lambda>st. Inr (fm_entries (mRecord st)))\<rparr>"

definition mem_params :: "(mem, Params) collItem" where
  "mem_params = \<lparr>
     item_Get = (\<lambda>st. case mParams st of None \<Rightarrow> Inl ErrNotFound | Some v \<Rightarrow> Inr v),
     item_Set = (\<lambda>v st. (None, st\<lparr>mParams := Some v\<rparr>))\<rparr>"

definition mem_seq :: "mem collSeq" where
  "mem_seq = \<lparr>
     seq_Peek = (\<lambda>st. Inr (mSeq st)),
     seq_Next = (\<lambda>st. (Inr (mSeq st), st\<lparr>mSeq := mSeq st + 1\<rparr>)),
     seq_Set = (\<lambda>n st. (None, st\<lparr>mSeq := n\<rparr>))\<rparr>"

definition mem_transfer :: "bytes \<Rightarrow> bytes \<Rightarrow> Coins \<Rightarrow> mem \<Rightarrow> error option \<times> mem" where
  "mem_transfer src to cs st =
     (if covers (mBal st) src cs then (None, st\<lparr>mBal := move src to cs (mBal st)\<rparr>)
      else (Some (Foreign ''insufficient funds''), st))"

definition mem_blocked :: "bytes \<Rightarrow> bool" where
  "mem_blocked a \<longleftrightarrow> a \<in> mem_maddr ` {''fee_collector'', ''distribution'', ''mint'', ''bonded_tokens_pool'',
     ''not_bonded_tokens_pool'', ''nft''}"

definition mem_bank :: "mem BankKeeper" where
  "mem_bank = \<lparr>
     SpendableCoins = (\<lambda>a st. []),
     SendCoins = mem_transfer,
     SendCoinsFromAccountToModule = (\<lambda>a m. mem_transfer a (mem_maddr m)),
     SendCoinsFromModuleToAccount = (\<lambda>m a cs st.
        if mem_blocked a then (Some (Foreign ''unauthorized''), st) else mem_transfer (mem_maddr m) a cs st)\<rparr>"

definition mem_keeper :: "mem Keeper" where
  "mem_keeper = \<lparr>addressCodec = mem_codec, authority = mem_maddr GovModuleName, kParams = mem_params,
     bankKeeper = mem_bank, kPendingSeq = mem_seq, kPending = mem_pending, kRecord = mem_record\<rparr>"

definition mem_view :: "mem \<Rightarrow> ledger" where
  "mem_view st = \<lparr>lPending = fmlookup (mPending st), lRecord = fmlookup (mRecord st), lSeq = mSeq st,
     lParams = mParams st, lBal = mBal st\<rparr>"

lemmas mem_defs = mem_keeper_def mem_codec_def mem_params_def mem_bank_def mem_seq_def mem_pending_def
  mem_record_def

section \<open>The contracts hold\<close>

lemma fm_entries_map_of: "map_of (fm_entries m) = fmlookup m"
proof
  fix k
  have d: "distinct (map fst (fm_entries m))" by (simp add: fm_entries_def comp_def)
  show "map_of (fm_entries m) k = fmlookup m k"
  proof (cases "fmlookup m k")
    case None
    then have "k \<notin> fst ` set (fm_entries m)"
      by (auto simp: fm_entries_def fmdom_notI)
    with None show ?thesis by (simp add: map_of_eq_None_iff)
  next
    case (Some v)
    then have "(k, v) \<in> set (fm_entries m)"
      by (auto simp: fm_entries_def image_iff intro: fmdomI)
    with d Some show ?thesis by simp
  qed
qed

lemma fm_entries_sorted: "sorted_wrt (<) (map fst (fm_entries (m :: ('k::linorder, 'v) fmap)))"
  by (simp add: fm_entries_def comp_def strict_sorted_iff)

interpretation mpend: coll_map mem_pending mem_view lPending "\<lambda>m. lPending_update (\<lambda>_. m)" stored_pending
  by unfold_locales
    (auto simp: mem_pending_def mem_view_def fm_get_def fm_entries_map_of fm_entries_sorted
      split: option.split)

interpretation mrecd: coll_map mem_record mem_view lRecord "\<lambda>m. lRecord_update (\<lambda>_. m)" "\<lambda>r. r"
  by unfold_locales
    (auto simp: mem_record_def mem_view_def fm_get_def fm_entries_map_of fm_entries_sorted
      split: option.split)

interpretation mparm: coll_item mem_params mem_view lParams "\<lambda>v. lParams_update (\<lambda>_. v)"
  by unfold_locales (auto simp: mem_params_def mem_view_def)

interpretation msequ: coll_seq mem_seq mem_view lSeq "\<lambda>n. lSeq_update (\<lambda>_. n)"
  by unfold_locales (auto simp: mem_seq_def mem_view_def)

interpretation mbank: bank_contract mem_bank mem_view lBal "\<lambda>b. lBal_update (\<lambda>_. b)" mem_maddr mem_blocked
  by unfold_locales
    (auto simp: mem_bank_def mem_view_def mem_transfer_def split: if_splits)

interpretation mcoin: coin_contract mem_coins mem_denom_ok
  by unfold_locales
    (auto simp: mem_coins_def valid_coin_def payable_coin_def split: option.splits if_splits)

interpretation mem: undo_contracts mem_coins mem_keeper mem_view mem_maddr mem_blocked mem_denom_ok
  by (simp add: undo_contracts_def mem_keeper_def mpend.coll_map_axioms mrecd.coll_map_axioms
      mparm.coll_item_axioms msequ.coll_seq_axioms mbank.bank_contract_axioms mcoin.coin_contract_axioms)

lemmas mem_contracts = mem.undo_contracts_axioms

end
