(* ===== verification/Demo.thy ===== *)
theory Demo
  imports MemStore
begin

text \<open>
  A small chain on the in-memory keeper, which the witnesses run: alice holds 100 \<open>utre\<close>, sends
  40 of them to bob with a window of 300 seconds at time 1000, and time goes on to 1300.
\<close>

definition alice :: string where
  "alice = ''trefoil1alice''"

definition bob :: string where
  "bob = ''trefoil1bob''"

definition alice_bytes :: bytes where
  "alice_bytes = bytes_of_string ''alice''"

definition bob_bytes :: bytes where
  "bob_bytes = bytes_of_string ''bob''"

definition utre :: "int \<Rightarrow> Coin" where
  "utre n = \<lparr>Denom = ''utre'', Amount = Some n\<rparr>"

definition demo_store :: "(string, Record) fmap \<Rightarrow> Params \<Rightarrow> mem" where
  "demo_store records p = \<lparr>mPending = fmempty, mRecord = records, mSeq = 0, mParams = Some p,
     mBal = (\<lambda>a d. if a = alice_bytes \<and> d = ''utre'' then 100 else 0)\<rparr>"

definition demo_ctx :: "mem \<Rightarrow> mem ctx" where
  "demo_ctx st = \<lparr>blockTimeUnix = 1000, events = [], logs = [], store = st\<rparr>"

definition demo0 :: "mem ctx" where
  "demo0 = demo_ctx (demo_store fmempty DefaultParams)"

definition demo_send :: "string \<Rightarrow> u64 \<Rightarrow> MsgDelayedSend" where
  "demo_send to w = \<lparr>dsCreator = alice, dsRecipient = to, dsAmount = utre 40, dsWindow = w\<rparr>"

definition demo1 :: "mem ctx" where
  "demo1 = snd (DelayedSend mem_coins mem_keeper (demo_send bob 300) demo0)"

definition demo2 :: "mem ctx" where
  "demo2 = demo1\<lparr>blockTimeUnix := 1300\<rparr>"

definition demo3 :: "mem ctx" where
  "demo3 = snd (EndBlocker mem_coins mem_keeper demo2)"

definition demo_payment :: Pending where
  "demo_payment = \<lparr>pId = 0, pSender = alice, pRecipient = bob, pAmount = utre 40, pExecuteat = 1300\<rparr>"

lemma demo_texts:
  "StringToBytes mem_codec alice = Inr alice_bytes \<and> StringToBytes mem_codec bob = Inr bob_bytes \<and>
   alice_bytes \<noteq> mem_maddr ModuleName \<and> bob_bytes \<noteq> mem_maddr ModuleName \<and>
   \<not> mem_blocked alice_bytes \<and> \<not> mem_blocked bob_bytes \<and> alice \<noteq> bob \<and> mem_denom_ok ''utre''"
  by code_simp

lemma demo_codec_eq [simp]: "addressCodec mem_keeper = mem_codec"
  by (simp add: mem_keeper_def)

lemma demo_codec [simp]:
  "StringToBytes mem_codec alice = Inr alice_bytes" "StringToBytes mem_codec bob = Inr bob_bytes"
  using demo_texts by simp_all

lemma demo_others [simp]:
  "alice_bytes \<noteq> mem_maddr ModuleName" "bob_bytes \<noteq> mem_maddr ModuleName"
  "\<not> mem_blocked alice_bytes" "\<not> mem_blocked bob_bytes" "alice \<noteq> bob" "mem_denom_ok ''utre''"
  using demo_texts by simp_all

definition demo_tally :: Record where
  "demo_tally = \<lparr>rIndex = alice, rSent = 1, rCancelled = 0, rFinalonly = False\<rparr>"

text \<open>The send and the end of the block are evaluated once each; what the witnesses read of them:\<close>

definition demo_probe :: "'r res \<times> mem ctx \<Rightarrow> 'r res \<times> i64 \<times> Pending option \<times> Record option \<times> Record option \<times> u64 \<times> Params option" where
  "demo_probe x = (case x of (r, c) \<Rightarrow>
     (r, blockTimeUnix c, lPending (mem_view (store c)) 0, lRecord (mem_view (store c)) alice, lRecord (mem_view (store c)) bob,
      lSeq (mem_view (store c)), lParams (mem_view (store c))))"

lemma demo1_probe:
  "demo_probe (DelayedSend mem_coins mem_keeper (demo_send bob 300) demo0) =
     (Ok \<lparr>dsrId = 0, dsrFinal = False\<rparr>, 1000, Some demo_payment, Some demo_tally, None, 1, Some DefaultParams)"
  by code_simp

lemma demo3_probe:
  "demo_probe (EndBlocker mem_coins mem_keeper demo2) = (Ok (), 1300, None, Some demo_tally, None, 1, Some DefaultParams)"
  by code_simp

text \<open>The ledger at each point.\<close>

lemma demo0_view:
  "lPending (mem_view (store demo0)) = Map.empty" "lRecord (mem_view (store demo0)) = Map.empty"
  "lSeq (mem_view (store demo0)) = 0" "lParams (mem_view (store demo0)) = Some DefaultParams"
  "lBal (mem_view (store demo0)) = (\<lambda>a d. if a = alice_bytes \<and> d = ''utre'' then 100 else 0)"
  by (auto simp: mem_view_def demo0_def demo_ctx_def demo_store_def)

lemma demo1_send: "DelayedSend mem_coins mem_keeper (demo_send bob 300) demo0 = (Ok \<lparr>dsrId = 0, dsrFinal = False\<rparr>, demo1)"
  using demo1_probe by (auto simp: demo_probe_def demo1_def split: prod.splits)

lemma demo3_end: "EndBlocker mem_coins mem_keeper demo2 = (Ok (), demo3)"
  using demo3_probe by (auto simp: demo_probe_def demo3_def split: prod.splits)

lemma demo1_view:
  "blockTimeUnix demo1 = 1000" "lPending (mem_view (store demo1)) 0 = Some demo_payment"
  "lRecord (mem_view (store demo1)) alice = Some demo_tally" "lRecord (mem_view (store demo1)) bob = None"
  "lSeq (mem_view (store demo1)) = 1" "lParams (mem_view (store demo1)) = Some DefaultParams"
  using demo1_probe by (simp_all add: demo_probe_def demo1_send)

lemma demo_time [simp]:
  "blockTimeUnix demo0 = 1000" "blockTimeUnix demo1 = 1000" "blockTimeUnix demo2 = 1300"
  by (simp_all add: demo1_view demo2_def demo0_def demo_ctx_def)

lemma demo1_pending [simp]: "lPending (mem_view (store demo1)) 0 = Some demo_payment"
  by (rule demo1_view)

lemma demo2_pending [simp]: "lPending (mem_view (store demo2)) 0 = Some demo_payment"
  by (simp add: demo2_def)

lemma demo3_pending [simp]: "lPending (mem_view (store demo3)) 0 = None"
  using demo3_probe by (simp add: demo_probe_def demo3_end)

text \<open>A run of four steps.\<close>

abbreviation demo_step :: "mem ctx \<Rightarrow> mem ctx \<Rightarrow> bool" where
  "demo_step \<equiv> chain_step mem_coins mem_keeper mem_view (mem_maddr ModuleName)"

abbreviation demo_steps :: "mem ctx \<Rightarrow> mem ctx \<Rightarrow> bool" where
  "demo_steps \<equiv> chain_steps mem_coins mem_keeper mem_view (mem_maddr ModuleName)"

lemma demo_step1: "demo_step demo0 demo1"
  by (rule chain_step.send [OF demo1_send]) (auto simp: demo_send_def demo0_view)

lemma demo_step2: "demo_step demo1 demo2"
  unfolding demo2_def by (rule chain_step.tick) simp

lemma demo_step3: "demo_step demo2 demo3"
  by (rule chain_step.end_block [OF demo3_end])

lemmas demo_runs = chain_steps.here demo_step1 demo_step2 demo_step3

lemma demo_run1: "demo_steps demo0 demo1"
  by (rule chain_steps.more [OF chain_steps.here demo_step1])

lemma demo_run2: "demo_steps demo0 demo2"
  by (rule chain_steps.more [OF demo_run1 demo_step2])

lemma demo_run3: "demo_steps demo0 demo3"
  by (rule chain_steps.more [OF demo_run2 demo_step3])

lemma demo_run13: "demo_steps demo1 demo3"
  by (rule chain_steps.more [OF chain_steps.more [OF chain_steps.here demo_step2] demo_step3])

lemma demo0_inv: "ledger_inv mem_codec mem_denom_ok (mem_maddr ModuleName) (mem_view (store demo0))"
  by (simp add: inv_defs demo0_view open_count_def open_ids_def record_of_def empty_record_def
      Params_Validate_None)

lemma demo_invs:
  "ledger_inv mem_codec mem_denom_ok (mem_maddr ModuleName) (mem_view (store demo1))"
  "ledger_inv mem_codec mem_denom_ok (mem_maddr ModuleName) (mem_view (store demo2))"
  "ledger_inv mem_codec mem_denom_ok (mem_maddr ModuleName) (mem_view (store demo3))"
  using mem.steps_inv [OF demo_run1] mem.steps_inv [OF demo_run2] mem.steps_inv [OF demo_run3] demo0_inv
  by simp_all

end
