(* ===== verification/Payments.thy ===== *)
theory Payments
  imports Guarantees Demo
begin

text \<open>
  The properties of the payments, for every keeper whose collections, bank and coins meet
  \<open>undo_contracts\<close>. Each is followed by its witness, which runs it on the in-memory keeper.
\<close>

section \<open>Every run of the chain\<close>

text \<open>A ledger on which nothing has happened yet.\<close>

definition fresh_ledger :: "bytes \<Rightarrow> ledger \<Rightarrow> bool" where
  "fresh_ledger h l \<longleftrightarrow> lPending l = Map.empty \<and> lRecord l = Map.empty \<and> lSeq l = 0 \<and>
     (\<forall>p. lParams l = Some p \<longrightarrow> Params_Validate p = None) \<and> (\<forall>d. 0 \<le> lBal l h d)"

lemma fresh_inv: "fresh_ledger h l \<Longrightarrow> ledger_inv A denom_ok h l"
  by (simp add: inv_defs fresh_ledger_def open_count_def open_ids_def record_of_def empty_record_def)

lemma demo0_fresh: "fresh_ledger (mem_maddr ModuleName) (mem_view (store demo0))"
  by (simp add: fresh_ledger_def demo0_view Params_Validate_None)

text \<open>
  C1: The module's account always covers the payments in flight: from a fresh ledger, after
  any interleaving of sends, cancellations, switches, parameter changes, block ends and
  transfers of other modules, in every denomination the balance of the holding account is at
  least the sum of all pending amounts.
\<close>

theorem holding_covers_pending:
  assumes "undo_contracts S K view maddr blocked denom_ok"
    and "fresh_ledger (maddr ModuleName) (view (store c))"
    and "chain_steps S K view (maddr ModuleName) c c'"
  shows "pending_total (lPending (view (store c'))) d \<le> lBal (view (store c')) (maddr ModuleName) d"
proof -
  have "ledger_inv (addressCodec K) denom_ok (maddr ModuleName) (view (store c'))"
    using assms by (auto intro: undo_contracts.steps_inv fresh_inv)
  then show ?thesis by (auto simp: ledger_inv_def solvent_def)
qed

theorem holding_covers_pending_witness:
  "pending_total (lPending (mem_view (store demo2))) ''utre'' \<le> lBal (mem_view (store demo2)) (mem_maddr ModuleName) ''utre'' \<and>
   lPending (mem_view (store demo2)) 0 = Some demo_payment"
  using holding_covers_pending [OF mem_contracts demo0_fresh demo_run2] by simp

text \<open>
  C2: Nobody ever has more than \<open>MaxOpenPerSender\<close> (20) payments in flight, and every payment
  in flight is stored under its own id, below the sequence, is a positive amount of a valid
  denomination, and goes from one readable address to a different one.
\<close>

theorem in_flight_bounded:
  assumes "undo_contracts S K view maddr blocked denom_ok"
    and "fresh_ledger (maddr ModuleName) (view (store c))"
    and "chain_steps S K view (maddr ModuleName) c c'"
  shows "open_count (view (store c')) s \<le> MaxOpenPerSender \<and> wf_pending (addressCodec K) denom_ok (view (store c'))"
proof -
  have "ledger_inv (addressCodec K) denom_ok (maddr ModuleName) (view (store c'))"
    using assms by (auto intro: undo_contracts.steps_inv fresh_inv)
  then show ?thesis by (auto simp: ledger_inv_def capped_def)
qed

theorem in_flight_bounded_witness:
  "open_count (mem_view (store demo2)) alice \<le> MaxOpenPerSender \<and> wf_pending mem_codec mem_denom_ok (mem_view (store demo2)) \<and>
   lPending (mem_view (store demo2)) 0 = Some demo_payment"
  using in_flight_bounded [OF mem_contracts demo0_fresh demo_run2] by simp

text \<open>
  C3: The public tallies are right: for every address, what it has cancelled and what it has in
  flight add up to at most what it has sent, and this never exceeds the number of ids given
  out, so no tally wraps around.
\<close>

theorem tallies_consistent:
  assumes "undo_contracts S K view maddr blocked denom_ok"
    and "fresh_ledger (maddr ModuleName) (view (store c))"
    and "chain_steps S K view (maddr ModuleName) c c'"
  shows "unat (rCancelled (record_of (view (store c')) s)) + open_count (view (store c')) s
       \<le> unat (rSent (record_of (view (store c')) s)) \<and>
     unat (rSent (record_of (view (store c')) s)) \<le> unat (lSeq (view (store c')))"
proof -
  have "ledger_inv (addressCodec K) denom_ok (maddr ModuleName) (view (store c'))"
    using assms by (auto intro: undo_contracts.steps_inv fresh_inv)
  then show ?thesis by (auto simp: ledger_inv_def tallied_def)
qed

theorem tallies_consistent_witness:
  "unat (rCancelled (record_of (mem_view (store demo2)) alice)) + open_count (mem_view (store demo2)) alice
     \<le> unat (rSent (record_of (mem_view (store demo2)) alice)) \<and> rSent (record_of (mem_view (store demo2)) alice) = 1"
proof -
  have "rSent (record_of (mem_view (store demo2)) alice) = 1"
    by (simp add: demo2_def record_of_def demo1_view demo_tally_def)
  then show ?thesis using tallies_consistent [OF mem_contracts demo0_fresh demo_run2, of alice] by simp
qed



text \<open>
  C5: Final is final, and ids are never reused: once a payment has left the pending table it
  is never there again, and from then on every attempt to cancel its id, by anyone, is
  refused with \<open>ErrNoSuchPending\<close> and changes nothing.
\<close>

theorem final_is_final:
  assumes "undo_contracts S K view maddr blocked denom_ok"
    and "ledger_inv (addressCodec K) denom_ok (maddr ModuleName) (view (store c))"
    and "lPending (view (store c)) (csId msg) = Some p"
    and "chain_steps S K view (maddr ModuleName) c c1" and "lPending (view (store c1)) (csId msg) = None"
    and "chain_steps S K view (maddr ModuleName) c1 c2"
    and "StringToBytes (addressCodec K) (csCreator msg) = Inr a"
  shows "lPending (view (store c2)) (csId msg) = None \<and> CancelSend S K msg c2 = (Err ErrNoSuchPending, c2)"
proof -
  note [intro] = undo_contracts.steps_inv [OF assms(1)]
  have "csId msg < lSeq (view (store c))"
    using assms(2,3) by (auto simp: ledger_inv_def dest: wf_pendingD)
  then have "csId msg < lSeq (view (store c1))"
    using undo_contracts.steps_seq [OF assms(1,4,2)] by simp
  then have gone: "lPending (view (store c2)) (csId msg) = None"
    using undo_contracts.steps_gone [OF assms(1,6)] assms(2,4,5) by blast
  then have "plan_cancel (addressCodec K) (view (store c2)) msg = Inl ErrNoSuchPending"
    using assms(7) by (simp add: plan_cancel_def)
  with gone show ?thesis using undo_contracts.CancelSend_refused [OF assms(1)] by blast
qed

theorem final_is_final_witness:
  "lPending (mem_view (store demo3)) 0 = None \<and>
   CancelSend mem_coins mem_keeper \<lparr>csCreator = alice, csId = 0\<rparr> demo3 = (Err ErrNoSuchPending, demo3)"
  using final_is_final [OF mem_contracts _ _ demo_run13 _ chain_steps.here,
      of "\<lparr>csCreator = alice, csId = 0\<rparr>" demo_payment alice_bytes] demo_invs(1)
  by simp

text \<open>
  C6: A payment in flight is never altered: whatever happens on the chain, as long as its
  entry is there it has the sender, recipient, amount and time it was parked with.
\<close>

theorem payment_unaltered:
  assumes "undo_contracts S K view maddr blocked denom_ok"
    and "ledger_inv (addressCodec K) denom_ok (maddr ModuleName) (view (store c))"
    and "chain_steps S K view (maddr ModuleName) c c'"
    and "lPending (view (store c)) i = Some p" and "lPending (view (store c')) i = Some q"
  shows "q = p"
  using undo_contracts.steps_same [OF assms(1,3,2,4)] assms(5) by auto

theorem payment_unaltered_witness:
  "demo_payment = the (lPending (mem_view (store demo2)) 0)"
  using payment_unaltered [OF mem_contracts _ chain_steps.more [OF chain_steps.here demo_step2]
      demo1_pending demo2_pending] demo_invs(1) by simp

end
