(* ===== verification/Handlers.thy ===== *)
theory Handlers
  imports Guarantees Demo
begin

text \<open>
  The properties of the handlers one by one, for every keeper that meets \<open>undo_contracts\<close>:
  what each call returns and what it leaves in the ledger, on every branch.
\<close>

section \<open>DelayedSend\<close>

text \<open>
  C7: \<open>DelayedSend\<close> implements its specification: the checks of \<open>plan_send\<close> decide, in the
  code's order; a refused message returns that error and touches nothing; an accepted one
  either fails in the bank, and the ledger is unchanged, or returns the id and the final flag,
  the sender having covered the amount: to a final-only recipient the coins go at once, any
  other payment is parked.
\<close>

theorem DelayedSend_spec:
  assumes "undo_contracts S K view maddr blocked denom_ok"
  shows "case plan_send (addressCodec K) denom_ok (view (store c)) msg of
     Inl e \<Rightarrow> DelayedSend S K msg c = (Err e, c)
   | Inr plan \<Rightarrow>
       (\<exists>e st. DelayedSend S K msg c = (Err e, c\<lparr>store := st\<rparr>) \<and> view st = view (store c)) \<or>
       (\<exists>st ev. DelayedSend S K msg c =
            (Ok (case plan of Instant _ _ \<Rightarrow> \<lparr>dsrId = 0, dsrFinal = True\<rparr>
                 | Park _ _ \<Rightarrow> \<lparr>dsrId = lSeq (view (store c)), dsrFinal = False\<rparr>),
             c\<lparr>store := st, events := events c @ [ev]\<rparr>) \<and>
          (case plan of
             Instant src to \<Rightarrow> covers (lBal (view (store c))) src [dsAmount msg] \<and>
               view st = pay_now src to msg (view (store c))
           | Park src w \<Rightarrow> covers (lBal (view (store c))) src [dsAmount msg] \<and>
               view st = park (maddr ModuleName) (blockTimeUnix c) src w msg (view (store c))))"
  by (rule undo_contracts.DelayedSend_refines [OF assms])

theorem DelayedSend_spec_witness:
  "(\<exists>st ev. DelayedSend mem_coins mem_keeper (demo_send bob 300) demo0 =
      (Ok \<lparr>dsrId = 0, dsrFinal = False\<rparr>, demo0\<lparr>store := st, events := [ev]\<rparr>) \<and>
      mem_view st = park (mem_maddr ModuleName) 1000 alice_bytes 300 (demo_send bob 300) (mem_view (store demo0)))"
proof -
  have "plan_send mem_codec mem_denom_ok (mem_view (store demo0)) (demo_send bob 300) = Inr (Park alice_bytes 300)"
    by (simp add: plan_send_Park demo_send_def utre_def demo0_view payable_coin_def record_of_def
        empty_record_def open_count_def open_ids_def MaxOpenPerSender_def)
  moreover have "events demo0 = []" by (simp add: demo0_def demo_ctx_def)
  ultimately show ?thesis
    using DelayedSend_spec [OF mem_contracts, where c = demo0 and msg = "demo_send bob 300"] demo1_send
    by (auto simp: demo0_view)
qed

text \<open>
  C8: The undo window is exact: when a send is parked, the window used is the one asked for
  (the default if none), within the chain's bounds, and provided that block time plus window
  fits an \<open>int64\<close> the payment's time is exactly block time plus window, as integers. In every
  reachable state in which it is still in flight, the end of a block before that time leaves
  it there, and the end of a block from that time on takes it out, if its recipient can be paid.
\<close>

theorem window_exact:
  assumes "undo_contracts S K view maddr blocked denom_ok"
    and "DelayedSend S K msg c = (Ok r, c')" and "\<not> dsrFinal r" and "lParams (view (store c)) = Some p"
    and "w = (if dsWindow msg = 0 then Defaultwindow p else dsWindow msg)"
    and "0 \<le> sint (blockTimeUnix c)" and "sint (blockTimeUnix c) + uint w < 2 ^ 63"
  shows "Minwindow p \<le> w \<and> w \<le> Maxwindow p \<and>
    (\<exists>q. lPending (view (store c')) (dsrId r) = Some q \<and>
         sint (pExecuteat q) = sint (blockTimeUnix c) + uint w \<and>
         pSender q = dsCreator msg \<and> pRecipient q = dsRecipient msg \<and> pAmount q = dsAmount msg \<and>
         (\<forall>now. due now q \<longleftrightarrow> sint (blockTimeUnix c) + uint w \<le> sint now) \<and>
         (\<forall>c2. ledger_inv (addressCodec K) denom_ok (maddr ModuleName) (view (store c2)) \<longrightarrow>
            lPending (view (store c2)) (dsrId r) = Some q \<longrightarrow>
            (\<exists>c3. EndBlocker S K c2 = (Ok (), c3) \<and> lPending (view (store c3)) (dsrId r) =
               (if sint (blockTimeUnix c) + uint w \<le> sint (blockTimeUnix c2) \<and> payee (addressCodec K) blocked q \<noteq> None
                then None else Some q))))"
proof -
  obtain src w' where plan: "plan_send (addressCodec K) denom_ok (view (store c)) msg = Inr (Park src w')"
    and r: "dsrId r = lSeq (view (store c))"
    and v: "view (store c') = park (maddr ModuleName) (blockTimeUnix c) src w' msg (view (store c))"
    using undo_contracts.DelayedSend_refines [OF assms(1), where c = c and msg = msg] assms(2,3)
    by (auto split: sum.splits send_plan.splits)
  from plan have w: "w' = w" "Minwindow p \<le> w" "w \<le> Maxwindow p"
    using assms(4,5) by (auto simp: plan_send_Park)
  have "sint (blockTimeUnix c + w) = sint (blockTimeUnix c) + uint w"
    by (rule sint_add_window) (use assms(6,7) in auto)
  with v w r have q: "lPending (view (store c')) (dsrId r) = Some (promised (view (store c)) (blockTimeUnix c) w msg)"
    and due: "due now (promised (view (store c)) (blockTimeUnix c) w msg) \<longleftrightarrow> sint (blockTimeUnix c) + uint w \<le> sint now"
    and at: "sint (pExecuteat (promised (view (store c)) (blockTimeUnix c) w msg)) = sint (blockTimeUnix c) + uint w" for now
    by (simp_all add: park_def promised_def due_def word_sle_eq)
  have "\<exists>c3. EndBlocker S K c2 = (Ok (), c3) \<and> lPending (view (store c3)) (dsrId r) =
      (if sint (blockTimeUnix c) + uint w \<le> sint (blockTimeUnix c2) \<and> payee (addressCodec K) blocked q \<noteq> None
       then None else Some q)"
    if "ledger_inv (addressCodec K) denom_ok (maddr ModuleName) (view (store c2))"
      and "lPending (view (store c2)) (dsrId r) = Some q" and "q = promised (view (store c)) (blockTimeUnix c) w msg" for c2 q
    using undo_contracts.block_settles [OF assms(1) that(1,2)] unfolding that(3) due .
  with w(2,3) q due at show ?thesis
    by (intro conjI exI [of _ "promised (view (store c)) (blockTimeUnix c) w msg"]) (simp_all add: promised_def)
qed

theorem window_exact_witness:
  "\<exists>q. lPending (mem_view (store demo1)) 0 = Some q \<and> sint (pExecuteat q) = 1300 \<and> \<not> due 1299 q \<and> due 1300 q \<and>
     (\<exists>c3. EndBlocker mem_coins mem_keeper demo1 = (Ok (), c3) \<and> lPending (mem_view (store c3)) 0 = Some q)"
proof -
  from window_exact [OF mem_contracts demo1_send, of DefaultParams 300]
  obtain q where q: "lPending (mem_view (store demo1)) 0 = Some q" "sint (pExecuteat q) = 1300"
      "\<And>now. due now q \<longleftrightarrow> 1300 \<le> sint now"
    and ends: "\<exists>c3. EndBlocker mem_coins mem_keeper demo1 = (Ok (), c3) \<and> lPending (mem_view (store c3)) 0 = Some q"
    using demo_invs(1) by (force simp: demo0_view demo_send_def)
  then show ?thesis by (auto simp: q(3))
qed





text \<open>
  C10: A final-only recipient never has a payment parked to the address it switched: a send to
  it with a window is refused with \<open>ErrFinalOnly\<close> (when the earlier checks pass), and one
  without, if it succeeds, moves exactly the amount at once and leaves the pending table, the
  sequence and the tallies alone.
\<close>

theorem final_only_respected:
  assumes "undo_contracts S K view maddr blocked denom_ok"
    and "rFinalonly (record_of (view (store c)) (dsRecipient msg))"
    and "StringToBytes (addressCodec K) (dsCreator msg) = Inr src"
    and "StringToBytes (addressCodec K) (dsRecipient msg) = Inr to"
    and "dsCreator msg \<noteq> dsRecipient msg" and "payable_coin denom_ok (dsAmount msg)"
  shows "if dsWindow msg \<noteq> 0 then DelayedSend S K msg c = (Err ErrFinalOnly, c)
    else (\<exists>e st. DelayedSend S K msg c = (Err e, c\<lparr>store := st\<rparr>) \<and> view st = view (store c)) \<or>
      (\<exists>c'. DelayedSend S K msg c = (Ok \<lparr>dsrId = 0, dsrFinal = True\<rparr>, c') \<and>
         view (store c') = (view (store c))\<lparr>lBal := move src to [dsAmount msg] (lBal (view (store c)))\<rparr>)"
proof -
  have "plan_send (addressCodec K) denom_ok (view (store c)) msg =
      (if dsWindow msg \<noteq> 0 then Inl ErrFinalOnly else Inr (Instant src to))"
    using assms(2-) by (simp add: plan_send_def)
  with undo_contracts.DelayedSend_refines [OF assms(1), where c = c and msg = msg] show ?thesis
    by (auto simp: pay_now_def split: if_splits)
qed

definition demo_final :: "mem ctx" where
  "demo_final = demo_ctx (demo_store (fmupd bob \<lparr>rIndex = bob, rSent = 0, rCancelled = 0, rFinalonly = True\<rparr> fmempty) DefaultParams)"

theorem final_only_respected_witness:
  "DelayedSend mem_coins mem_keeper (demo_send bob 300) demo_final = (Err ErrFinalOnly, demo_final)"
proof -
  have "rFinalonly (record_of (mem_view (store demo_final)) bob)" by code_simp
  with final_only_respected [OF mem_contracts, where c = demo_final and msg = "demo_send bob 300"]
  show ?thesis by (simp add: demo_send_def utre_def payable_coin_def)
qed

text \<open>
  C11: The switch guards a spelling, not an account. Where the codec reads two strings as the
  same address (as bech32 does an all-upper-case one), a send with a window to the other
  spelling of a final-only address is parked although the address accepts final payments only,
  and it will be paid to that very account.
\<close>

theorem final_only_other_spelling:
  assumes "undo_contracts S K view maddr blocked denom_ok"
    and "rFinalonly (record_of (view (store c)) victim)"
    and "StringToBytes (addressCodec K) victim = Inr to"
    and "StringToBytes (addressCodec K) (dsRecipient msg) = Inr to"
    and "\<not> blocked to" and "lRecord (view (store c)) (dsRecipient msg) = None"
    and "DelayedSend S K msg c = (Ok r, c')"
  shows "\<not> dsrFinal r \<and> (\<exists>q. lPending (view (store c')) (dsrId r) = Some q \<and>
     payee (addressCodec K) blocked q = Some to)"
proof -
  have "\<not> rFinalonly (record_of (view (store c)) (dsRecipient msg))"
    using assms(6) by (simp add: record_of_def empty_record_def)
  then obtain src w where plan: "plan_send (addressCodec K) denom_ok (view (store c)) msg = Inr (Park src w)"
    and r: "dsrId r = lSeq (view (store c))" "\<not> dsrFinal r"
    and v: "view (store c') = park (maddr ModuleName) (blockTimeUnix c) src w msg (view (store c))"
    using undo_contracts.DelayedSend_refines [OF assms(1), where c = c and msg = msg] assms(7)
    by (auto simp: plan_send_Instant split: sum.splits send_plan.splits)
  with assms(4,5) show ?thesis by (auto simp: park_def promised_def payee_def)
qed

definition BOB :: string where
  "BOB = ''TREFOIL1BOB''"

theorem final_only_other_spelling_witness:
  "rFinalonly (record_of (mem_view (store demo_final)) bob) \<and>
   (\<exists>c' q. DelayedSend mem_coins mem_keeper (demo_send BOB 300) demo_final = (Ok \<lparr>dsrId = 0, dsrFinal = False\<rparr>, c') \<and>
      lPending (mem_view (store c')) 0 = Some q \<and> payee mem_codec mem_blocked q = Some bob_bytes)"
proof -
  have ok: "fst (DelayedSend mem_coins mem_keeper (demo_send BOB 300) demo_final) = Ok \<lparr>dsrId = 0, dsrFinal = False\<rparr>"
    by code_simp
  obtain c' where c': "DelayedSend mem_coins mem_keeper (demo_send BOB 300) demo_final = (Ok \<lparr>dsrId = 0, dsrFinal = False\<rparr>, c')"
    using ok by (metis prod.collapse)
  have f: "rFinalonly (record_of (mem_view (store demo_final)) bob)" by code_simp
  have b: "StringToBytes mem_codec (dsRecipient (demo_send BOB 300)) = Inr bob_bytes" by code_simp
  have n: "lRecord (mem_view (store demo_final)) (dsRecipient (demo_send BOB 300)) = None" by code_simp
  from final_only_other_spelling [OF mem_contracts f _ _ _ n c', of bob_bytes] f b c' show ?thesis by auto
qed

end
