(* ===== verification/Genesis.thy ===== *)
theory Genesis
  imports Guarantees Demo
begin

text \<open>
  Genesis import and export (\<open>keeper/genesis.go\<close>): \<open>InitGenesis\<close> writes a genesis state into the
  collections, \<open>ExportGenesis\<close> reads it back. The lemmas evaluate both on the ledger; the
  properties are that nothing is lost on the way out and in, and what the validation of
  \<open>types/genesis.go\<close> accepts.
\<close>

section \<open>Import and export\<close>

text \<open>The two loops of \<open>InitGenesis\<close>.\<close>

fun init_pendings :: "'st Keeper \<Rightarrow> Pending list \<Rightarrow> ('st ctx, unit) go" where
  "init_pendings k [] = ret ()"
| "init_pendings k (elem # rest) =
     bind (call_write (map_Set (kPending k) (pId elem) elem)) (\<lambda>_. init_pendings k rest)"

fun init_records :: "'st Keeper \<Rightarrow> Record list \<Rightarrow> ('st ctx, unit) go" where
  "init_records k [] = ret ()"
| "init_records k (elem # rest) =
     bind (call_write (map_Set (kRecord k) (rIndex elem) elem)) (\<lambda>_. init_records k rest)"

definition InitGenesis :: "'st Keeper \<Rightarrow> GenesisState \<Rightarrow> ('st ctx, unit) go" where
  "InitGenesis k genState =
     bind (init_pendings k (gsPendingList genState)) (\<lambda>_.
     bind (call_write (seq_Set (kPendingSeq k) (gsPendingCount genState))) (\<lambda>_.
     bind (init_records k (gsRecordMap genState)) (\<lambda>_.
     call_write (item_Set (kParams k) (gsParams genState)))))"

definition ExportGenesis :: "'st Keeper \<Rightarrow> ('st ctx, GenesisState) go" where
  "ExportGenesis k =
     (let genesis = DefaultGenesis in
     bind (call_read (item_Get (kParams k))) (\<lambda>params.
     let genesis = genesis\<lparr>gsParams := params\<rparr> in
     bind (Walk (kPending k) (\<lambda>_ elem ps. (Ok False, ps @ [elem])) (gsPendingList genesis)) (\<lambda>ps.
     let genesis = genesis\<lparr>gsPendingList := ps\<rparr> in
     bind (call_read (seq_Peek (kPendingSeq k))) (\<lambda>count.
     let genesis = genesis\<lparr>gsPendingCount := count\<rparr> in
     bind (Walk (kRecord k) (\<lambda>_ val rs. (Ok False, rs @ [val])) (gsRecordMap genesis)) (\<lambda>rs.
     ret (genesis\<lparr>gsRecordMap := rs\<rparr>))))))"

section \<open>What they do to the ledger\<close>

definition load_pendings :: "Pending list \<Rightarrow> (u64 \<Rightarrow> Pending option) \<Rightarrow> (u64 \<Rightarrow> Pending option)" where
  "load_pendings ps m = fold (\<lambda>p m. m(pId p \<mapsto> p)) (map stored_pending ps) m"

definition load_records :: "Record list \<Rightarrow> (string \<Rightarrow> Record option) \<Rightarrow> (string \<Rightarrow> Record option)" where
  "load_records rs m = fold (\<lambda>r m. m(rIndex r \<mapsto> r)) rs m"

lemma load_keyed:
  assumes "distinct (map key xs)"
  shows "fold (\<lambda>x m. m(key x \<mapsto> x)) xs m = (\<lambda>k. case find (\<lambda>x. key x = k) xs of None \<Rightarrow> m k | Some x \<Rightarrow> Some x)"
  using assms
proof (induction xs arbitrary: m)
  case (Cons x xs)
  have "find (\<lambda>y. key y = key x) xs = None"
    using Cons.prems by (auto simp: find_None_iff image_iff)
  with Cons show ?case
    by (auto simp: fun_eq_iff split: option.split)
qed simp

text \<open>The values of a table that stores each value under its own key, in key order.\<close>

definition table_values :: "('k::linorder \<Rightarrow> 'v option) \<Rightarrow> 'v list" where
  "table_values m = map (\<lambda>k. the (m k)) (sorted_list_of_set (dom m))"

lemma table_values_keys:
  assumes "finite (dom m)" and "\<And>k v. m k = Some v \<Longrightarrow> key v = k"
  shows "map key (table_values m) = sorted_list_of_set (dom m)"
    and "set (table_values m) = ran m"
  using assms by (auto simp: table_values_def ran_def image_iff intro!: map_idI) force

lemma find_found: "find P xs = Some x \<Longrightarrow> P x \<and> x \<in> set xs"
  by (induction xs) (auto split: if_splits)

lemma load_table_values:
  assumes fin: "finite (dom m)" and keyed: "\<And>k v. m k = Some v \<Longrightarrow> key v = k"
  shows "fold (\<lambda>x m. m(key x \<mapsto> x)) (table_values m) Map.empty = m"
proof
  fix k
  note vals = table_values_keys [of m key, OF fin keyed]
  have "distinct (map key (table_values m))"
    using vals(1) by simp
  moreover have "find (\<lambda>x. key x = k) (table_values m) = m k"
  proof (cases "m k")
    case None
    then show ?thesis
      using vals(2) keyed by (auto simp: find_None_iff ran_def)
  next
    case (Some v)
    have only: "x = v" if "x \<in> set (table_values m)" "key x = k" for x
      using that vals(2) keyed Some by (auto simp: ran_def)
    have there: "v \<in> set (table_values m)" "key v = k"
      using vals(2) keyed Some by (auto simp: ran_def)
    have "find (\<lambda>x. key x = k) (table_values m) \<noteq> None"
      unfolding find_None_iff using there by blast
    then obtain x where x: "find (\<lambda>x. key x = k) (table_values m) = Some x" by blast
    with find_found [OF x] only [of x] Some show ?thesis by simp
  qed
  ultimately show "fold (\<lambda>x m. m(key x \<mapsto> x)) (table_values m) Map.empty k = m k"
    by (simp add: load_keyed split: option.split)
qed

lemma load_member:
  assumes "distinct (map key xs)" and "x \<in> set xs"
  shows "fold (\<lambda>x m. m(key x \<mapsto> x)) xs m (key x) = Some x"
proof -
  have only: "y = x" if "y \<in> set xs" "key y = key x" for y
    using that assms by (auto simp: distinct_map dest: inj_onD)
  have "find (\<lambda>y. key y = key x) xs \<noteq> None"
    unfolding find_None_iff using assms(2) by blast
  then obtain y where y: "find (\<lambda>y. key y = key x) xs = Some y" by blast
  with find_found [OF y] only [of y] show ?thesis by (simp add: load_keyed [OF assms(1)])
qed

lemma table_values_load:
  fixes key :: "'v \<Rightarrow> 'k::linorder"
  assumes d: "distinct (map key xs)"
  shows "table_values (fold (\<lambda>x m. m(key x \<mapsto> x)) xs Map.empty) = sort_key key xs"
proof -
  let ?m = "fold (\<lambda>x m. m(key x \<mapsto> x)) xs Map.empty"
  have m: "?m k = find (\<lambda>x. key x = k) xs" for k
    by (simp add: load_keyed [OF d] split: option.split)
  have inj: "inj_on key (set xs)" using d by (simp add: distinct_map)
  have at: "?m (key x) = Some x" if "x \<in> set xs" for x
  proof -
    from that obtain y where y: "find (\<lambda>z. key z = key x) xs = Some y"
      by (cases "find (\<lambda>z. key z = key x) xs") (auto simp: find_None_iff)
    then have "y \<in> set xs" "key y = key x" by (auto simp: find_Some_iff)
    with inj that y m show ?thesis by (metis inj_onD)
  qed
  have dom: "dom ?m = key ` set xs"
    using at m by (auto simp: dom_def find_Some_iff image_iff)
  have "sorted_list_of_set (dom ?m) = map key (sort_key key xs)"
  proof (rule sorted_distinct_set_unique)
    show "distinct (map key (sort_key key xs))"
      using d by (simp add: distinct_map)
    show "set (sorted_list_of_set (dom ?m)) = set (map key (sort_key key xs))"
      by (simp add: dom)
  qed simp_all
  then have "table_values ?m = map (\<lambda>x. the (?m (key x))) (sort_key key xs)"
    by (simp add: table_values_def comp_def)
  also have "\<dots> = map (\<lambda>x. x) (sort_key key xs)"
    by (rule map_cong) (auto simp: at)
  finally show ?thesis by simp
qed

lemma fold_append_snd: "fold (\<lambda>(k, v). (\<lambda>ys. ys @ [v])) xs ys = ys @ map snd xs"
  by (induction xs arbitrary: ys) auto

context undo_contracts
begin

lemma init_pendings_eval:
  "\<exists>st. init_pendings K ps c = (Ok (), c\<lparr>store := st\<rparr>) \<and>
     view st = (view (store c))\<lparr>lPending := load_pendings ps (lPending (view (store c)))\<rparr>"
proof (induction ps arbitrary: c)
  case Nil
  show ?case by (intro exI [of _ "store c"]) (simp add: load_pendings_def)
next
  case (Cons p ps)
  obtain st where st: "map_Set (kPending K) (pId p) p (store c) = (None, st)"
    "view st = (view (store c))\<lparr>lPending := (lPending (view (store c)))(pId p \<mapsto> stored_pending p)\<rparr>"
    using pend.Set_pair by blast
  moreover obtain st' where "init_pendings K ps (c\<lparr>store := st\<rparr>) = (Ok (), c\<lparr>store := st'\<rparr>)"
    "view st' = (view st)\<lparr>lPending := load_pendings ps (lPending (view st))\<rparr>"
    using Cons.IH [of "c\<lparr>store := st\<rparr>"] by auto
  ultimately show ?case
    by (intro exI [of _ st']) (simp add: bind_call_write load_pendings_def)
qed

lemma init_records_eval:
  "\<exists>st. init_records K rs c = (Ok (), c\<lparr>store := st\<rparr>) \<and>
     view st = (view (store c))\<lparr>lRecord := load_records rs (lRecord (view (store c)))\<rparr>"
proof (induction rs arbitrary: c)
  case Nil
  show ?case by (intro exI [of _ "store c"]) (simp add: load_records_def)
next
  case (Cons r rs)
  obtain st where st: "map_Set (kRecord K) (rIndex r) r (store c) = (None, st)"
    "view st = (view (store c))\<lparr>lRecord := (lRecord (view (store c)))(rIndex r \<mapsto> r)\<rparr>"
    using recd.Set_pair by blast
  moreover obtain st' where "init_records K rs (c\<lparr>store := st\<rparr>) = (Ok (), c\<lparr>store := st'\<rparr>)"
    "view st' = (view st)\<lparr>lRecord := load_records rs (lRecord (view st))\<rparr>"
    using Cons.IH [of "c\<lparr>store := st\<rparr>"] by auto
  ultimately show ?case
    by (intro exI [of _ st']) (simp add: bind_call_write load_records_def)
qed

lemma InitGenesis_eval:
  "\<exists>st. InitGenesis K g c = (Ok (), c\<lparr>store := st\<rparr>) \<and>
     view st = (view (store c))\<lparr>lPending := load_pendings (gsPendingList g) (lPending (view (store c))),
       lRecord := load_records (gsRecordMap g) (lRecord (view (store c))),
       lSeq := gsPendingCount g, lParams := Some (gsParams g)\<rparr>"
proof -
  obtain st1 where s1: "init_pendings K (gsPendingList g) c = (Ok (), c\<lparr>store := st1\<rparr>)"
    "view st1 = (view (store c))\<lparr>lPending := load_pendings (gsPendingList g) (lPending (view (store c)))\<rparr>"
    using init_pendings_eval by blast
  obtain st2 where s2: "seq_Set (kPendingSeq K) (gsPendingCount g) st1 = (None, st2)"
    "view st2 = (view st1)\<lparr>lSeq := gsPendingCount g\<rparr>"
    using sequ.qSet_pair by blast
  obtain st3 where s3: "init_records K (gsRecordMap g) (c\<lparr>store := st2\<rparr>) = (Ok (), c\<lparr>store := st3\<rparr>)"
    "view st3 = (view st2)\<lparr>lRecord := load_records (gsRecordMap g) (lRecord (view st2))\<rparr>"
    using init_records_eval [of "gsRecordMap g" "c\<lparr>store := st2\<rparr>"] by auto
  obtain st4 where s4: "item_Set (kParams K) (gsParams g) st3 = (None, st4)"
    "view st4 = (view st3)\<lparr>lParams := Some (gsParams g)\<rparr>"
    using parm.iSet_pair by blast
  have b: "bind (init_pendings K (gsPendingList g)) f c = f () (c\<lparr>store := st1\<rparr>)"
    "bind (init_records K (gsRecordMap g)) f (c\<lparr>store := st2\<rparr>) = f () (c\<lparr>store := st3\<rparr>)" for f :: "unit \<Rightarrow> ('st ctx, unit) go"
    by (simp_all add: bind_def s1(1) s3(1))
  show ?thesis
    using s1(2) s2 s3(2) s4
    by (intro exI [of _ st4]) (simp add: InitGenesis_def b bind_call_write call_write_def)
qed

lemma entries_values:
  "map snd (pend.entries st) = table_values (lPending (view st))"
  "map snd (recd.entries st) = table_values (lRecord (view st))"
  by (simp_all add: pend.entries_eq recd.entries_eq table_values_def comp_def)

lemma bind_Walk_values:
  "bind (Walk (kPending K) (\<lambda>_ v vs. (Ok False, vs @ [v])) []) f c = f (table_values (lPending (view (store c)))) c"
  "bind (Walk (kRecord K) (\<lambda>_ v vs. (Ok False, vs @ [v])) []) g c = g (table_values (lRecord (view (store c)))) c"
  by (simp_all add: bind_def Walk_fold pend.Iterate_entries recd.Iterate_entries fold_append_snd entries_values)

lemma ExportGenesis_eval:
  "ExportGenesis K c = (case lParams (view (store c)) of
     None \<Rightarrow> (Err ErrNotFound, c)
   | Some p \<Rightarrow> (Ok \<lparr>gsParams = p, gsPendingList = table_values (lPending (view (store c))),
        gsPendingCount = lSeq (view (store c)), gsRecordMap = table_values (lRecord (view (store c)))\<rparr>, c))"
  by (simp add: ExportGenesis_def Let_def bind_call_read parm.iGet sequ.Peek bind_Walk_values
      DefaultGenesis_def split: option.split)

lemma finite_records: "finite (dom (lRecord (view st)))"
  by (metis recd.dom_entries finite_set finite_imageI)

end

section \<open>Properties\<close>

lemma sorted_list_of_ids: "set (sorted_list_of_set (dom m)) = dom (m :: u64 \<Rightarrow> 'v option)"
  by simp

text \<open>An exported state is valid, in a reachable state of the chain.\<close>

lemma export_valid:
  assumes "ledger_inv A denom_ok h l" and "finite (dom (lRecord l))" and "lParams l = Some p"
  shows "GenesisState_Validate \<lparr>gsParams = p, gsPendingList = table_values (lPending l),
    gsPendingCount = lSeq l, gsRecordMap = table_values (lRecord l)\<rparr> = None"
proof -
  have keyed: "\<And>i q. lPending l i = Some q \<Longrightarrow> pId q = i" "\<And>a r. lRecord l a = Some r \<Longrightarrow> rIndex r = a"
    using assms(1) by (auto simp: inv_defs)
  have "map pId (table_values (lPending l)) = sorted_list_of_set (dom (lPending l))"
    "set (table_values (lPending l)) = ran (lPending l)"
    using table_values_keys [of "lPending l" pId] keyed(1) by auto
  moreover have "map rIndex (table_values (lRecord l)) = sorted_list_of_set (dom (lRecord l))"
    using table_values_keys(1) [of "lRecord l" rIndex] keyed(2) assms(2) by auto
  moreover have "\<forall>q\<in>ran (lPending l). pId q < lSeq l"
    using assms(1) keyed(1) by (auto simp: inv_defs ran_def)
  moreover have "Params_Validate p = None"
    using assms(1,3) by (auto simp: inv_defs)
  ultimately show ?thesis by (simp add: GenesisState_Validate_None Params_Validate_None)
qed

context undo_contracts
begin

lemma export_then_import:
  assumes inv: "ledger_inv (addressCodec K) denom_ok hold (view (store c))"
    and p: "lParams (view (store c)) = Some p"
    and empty: "lPending (view (store d)) = Map.empty" "lRecord (view (store d)) = Map.empty"
  shows "\<exists>g d'. g = \<lparr>gsParams = p, gsPendingList = table_values (lPending (view (store c))),
      gsPendingCount = lSeq (view (store c)), gsRecordMap = table_values (lRecord (view (store c)))\<rparr> \<and>
    ExportGenesis K c = (Ok g, c) \<and> GenesisState_Validate g = None \<and> InitGenesis K g d = (Ok (), d') \<and>
    view (store d') = (view (store c))\<lparr>lBal := lBal (view (store d))\<rparr>"
proof -
  let ?l = "view (store c)"
  let ?g = "\<lparr>gsParams = p, gsPendingList = table_values (lPending ?l), gsPendingCount = lSeq ?l,
    gsRecordMap = table_values (lRecord ?l)\<rparr>"
  have e: "ExportGenesis K c = (Ok ?g, c)"
    using ExportGenesis_eval [of c] p by simp
  have keyed: "\<And>i q. lPending ?l i = Some q \<Longrightarrow> pId q = i" "\<And>a r. lRecord ?l a = Some r \<Longrightarrow> rIndex r = a"
    using inv by (auto simp: inv_defs)
  have same: "map stored_pending (table_values (lPending ?l)) = table_values (lPending ?l)"
    using inv table_values_keys(2) [of "lPending ?l" pId] keyed(1)
    by (intro map_idI) (auto simp: ledger_inv_def ran_def payable_coin_def dest!: wf_payable)
  have loads: "load_pendings (table_values (lPending ?l)) Map.empty = lPending ?l"
    "load_records (table_values (lRecord ?l)) Map.empty = lRecord ?l"
    unfolding load_pendings_def load_records_def same using keyed finite_records by (auto intro!: load_table_values)
  obtain st where i: "InitGenesis K ?g d = (Ok (), d\<lparr>store := st\<rparr>)"
    and v: "view st = (view (store d))\<lparr>lPending := lPending ?l, lRecord := lRecord ?l, lSeq := lSeq ?l, lParams := Some p\<rparr>"
    using InitGenesis_eval [of ?g d] empty loads by auto
  have "view st = ?l\<lparr>lBal := lBal (view (store d))\<rparr>"
    using v p by (cases "view (store d)", cases ?l) simp
  with e i export_valid [OF inv finite_records p] show ?thesis by fastforce
qed

end

text \<open>
  C20: Export and import lose nothing: in a reachable state with parameters, \<open>ExportGenesis\<close>
  succeeds and changes nothing, its result passes \<open>GenesisState.Validate\<close>, and \<open>InitGenesis\<close>
  of it into an empty store rebuilds the whole state of the module: every payment in flight
  under its id, every tally, the next id and the parameters.
\<close>

theorem export_import_lossless:
  assumes "undo_contracts S K view maddr blocked denom_ok"
    and "ledger_inv (addressCodec K) denom_ok (maddr ModuleName) (view (store c))"
    and "lParams (view (store c)) = Some p"
    and "lPending (view (store d)) = Map.empty" and "lRecord (view (store d)) = Map.empty"
  shows "\<exists>g d'. ExportGenesis K c = (Ok g, c) \<and> GenesisState_Validate g = None \<and>
    InitGenesis K g d = (Ok (), d') \<and>
    view (store d') = (view (store c))\<lparr>lBal := lBal (view (store d))\<rparr>"
  using undo_contracts.export_then_import [OF assms] by blast

definition demo_empty :: "mem ctx" where
  "demo_empty = demo_ctx \<lparr>mPending = fmempty, mRecord = fmempty, mSeq = 0, mParams = None, mBal = (\<lambda>_ _. 0)\<rparr>"

lemma demo_empty_view:
  "lPending (mem_view (store demo_empty)) = Map.empty" "lRecord (mem_view (store demo_empty)) = Map.empty"
  "lSeq (mem_view (store demo_empty)) = 0" "lBal (mem_view (store demo_empty)) = (\<lambda>_ _. 0)"
  by (auto simp: demo_empty_def demo_ctx_def mem_view_def)

theorem export_import_lossless_witness:
  "\<exists>g d'. ExportGenesis mem_keeper demo1 = (Ok g, demo1) \<and> InitGenesis mem_keeper g demo_empty = (Ok (), d') \<and>
     lPending (mem_view (store d')) 0 = Some demo_payment \<and> lSeq (mem_view (store d')) = 1"
proof -
  have "lSeq (mem_view (store demo1)) = 1" by (rule demo1_view)
  with export_import_lossless [OF mem_contracts _ demo1_view(6) demo_empty_view(1,2)] demo_invs(1) show ?thesis
    by fastforce
qed

text \<open>
  C21: Import then export gives the genesis state back, its two lists in the order of their
  keys and an amount that was nil as zero: for every genesis state that \<open>Validate\<close> accepts, loaded
  into an empty store.
\<close>

theorem import_export_sorted:
  assumes "undo_contracts S K view maddr blocked denom_ok"
    and "GenesisState_Validate g = None"
    and "lPending (view (store c)) = Map.empty" and "lRecord (view (store c)) = Map.empty"
  shows "\<exists>c'. InitGenesis K g c = (Ok (), c') \<and>
    ExportGenesis K c' = (Ok (g\<lparr>gsPendingList := sort_key pId (map stored_pending (gsPendingList g)),
      gsRecordMap := sort_key rIndex (gsRecordMap g)\<rparr>), c')"
proof -
  have d: "distinct (map pId (map stored_pending (gsPendingList g)))" "distinct (map rIndex (gsRecordMap g))"
    using assms(2) by (auto simp: GenesisState_Validate_None comp_def)
  obtain st where i: "InitGenesis K g c = (Ok (), c\<lparr>store := st\<rparr>)"
    and v: "view st = (view (store c))\<lparr>lPending := load_pendings (gsPendingList g) Map.empty,
       lRecord := load_records (gsRecordMap g) Map.empty, lSeq := gsPendingCount g, lParams := Some (gsParams g)\<rparr>"
    using undo_contracts.InitGenesis_eval [OF assms(1), of g c] assms(3,4) by auto
  have "table_values (load_pendings (gsPendingList g) Map.empty) = sort_key pId (map stored_pending (gsPendingList g))"
    "table_values (load_records (gsRecordMap g) Map.empty) = sort_key rIndex (gsRecordMap g)"
    unfolding load_pendings_def load_records_def using d by (blast intro: table_values_load)+
  then have "ExportGenesis K (c\<lparr>store := st\<rparr>) = (Ok (g\<lparr>gsPendingList := sort_key pId (map stored_pending (gsPendingList g)),
      gsRecordMap := sort_key rIndex (gsRecordMap g)\<rparr>), c\<lparr>store := st\<rparr>)"
    using undo_contracts.ExportGenesis_eval [OF assms(1), of "c\<lparr>store := st\<rparr>"] v by (cases g) simp
  with i show ?thesis by blast
qed

definition demo_genesis :: GenesisState where
  "demo_genesis = \<lparr>gsParams = DefaultParams, gsPendingList = [demo_payment\<lparr>pId := 1\<rparr>, demo_payment],
     gsPendingCount = 2, gsRecordMap = [empty_record bob, empty_record alice]\<rparr>"

theorem import_export_sorted_witness:
  "\<exists>c'. InitGenesis mem_keeper demo_genesis demo_empty = (Ok (), c') \<and>
     ExportGenesis mem_keeper c' = (Ok (demo_genesis\<lparr>gsPendingList := [demo_payment, demo_payment\<lparr>pId := 1\<rparr>],
       gsRecordMap := [empty_record alice, empty_record bob]\<rparr>), c')"
proof -
  have "GenesisState_Validate demo_genesis = None" by code_simp
  moreover have "sort_key pId (map stored_pending (gsPendingList demo_genesis)) = [demo_payment, demo_payment\<lparr>pId := 1\<rparr>]"
    "sort_key rIndex (gsRecordMap demo_genesis) = [empty_record alice, empty_record bob]"
    by code_simp+
  ultimately show ?thesis
    using import_export_sorted [OF mem_contracts _ demo_empty_view(1,2), of demo_genesis] by simp
qed

end
