(* ===== verification/Settlement.thy ===== *)
theory Settlement
  imports Genesis
begin

text \<open>
  The properties of the two ways out of holding, cancellation and the end of a block, and of
  the switch and the parameters: what each call returns and leaves, on every branch.
\<close>

section \<open>CancelSend\<close>

text \<open>
  C12: Only the sender can undo, and while the payment is in flight the sender always can: in
  a reachable state \<open>CancelSend\<close> refuses an unreadable address, an id that is not in flight
  (\<open>ErrNoSuchPending\<close>) and anyone but the sender (\<open>ErrNotSender\<close>), each time changing nothing;
  for the sender, unless barred from receiving, it succeeds: the amount goes back from
  holding, the payment is gone and the public tally of cancellations goes up by one.
\<close>

theorem CancelSend_spec:
  assumes "undo_contracts S K view maddr blocked denom_ok"
    and "ledger_inv (addressCodec K) denom_ok (maddr ModuleName) (view (store c))"
  shows "case plan_cancel (addressCodec K) (view (store c)) msg of
     Inl e \<Rightarrow> CancelSend S K msg c = (Err e, c)
   | Inr (sender, p) \<Rightarrow>
       (if blocked sender
        then \<exists>e c'. CancelSend S K msg c = (Err e, c') \<and> view (store c') = view (store c)
        else \<exists>c'. CancelSend S K msg c = (Ok (), c') \<and>
               view (store c') = take_back (maddr ModuleName) sender msg p (view (store c)))"
proof (cases "plan_cancel (addressCodec K) (view (store c)) msg")
  case (Inl e)
  then show ?thesis by (simp add: undo_contracts.CancelSend_refused [OF assms(1)])
next
  case (Inr sp)
  then obtain sender p where sp: "sp = (sender, p)" and a: "StringToBytes (addressCodec K) (csCreator msg) = Inr sender"
    and p: "lPending (view (store c)) (csId msg) = Some p" "pSender p = csCreator msg"
    by (auto simp: plan_cancel_def split: sum.splits option.splits if_splits)
  show ?thesis
  proof (cases "blocked sender")
    case True
    from assms(2) p have "payable_coin denom_ok (pAmount p)"
      by (auto simp: ledger_inv_def dest: wf_pendingD)
    then obtain e c' where "CancelSend S K msg c = (Err e, c')" "view (store c') = view (store c)"
      using undo_contracts.CancelSend_accepted [OF assms(1) Inr [unfolded sp]]
        bank_contract.m2a_blocked [OF undo_contracts.axioms(5) [OF assms(1)] True, of "[pAmount p]" "store c"]
      by fastforce
    with True show ?thesis by (auto simp: Inr sp)
  next
    case False
    with undo_contracts.cancel_succeeds [OF assms p a] show ?thesis by (simp add: Inr sp)
  qed
qed

theorem CancelSend_spec_witness:
  "CancelSend mem_coins mem_keeper \<lparr>csCreator = bob, csId = 0\<rparr> demo1 = (Err ErrNotSender, demo1) \<and>
   (\<exists>c'. CancelSend mem_coins mem_keeper \<lparr>csCreator = alice, csId = 0\<rparr> demo1 = (Ok (), c') \<and>
      mem_view (store c') = take_back (mem_maddr ModuleName) alice_bytes \<lparr>csCreator = alice, csId = 0\<rparr> demo_payment (mem_view (store demo1)))"
  using CancelSend_spec [OF mem_contracts, where c = demo1 and msg = "\<lparr>csCreator = bob, csId = 0\<rparr>"]
    CancelSend_spec [OF mem_contracts, where c = demo1 and msg = "\<lparr>csCreator = alice, csId = 0\<rparr>"] demo_invs(1)
  by (simp add: plan_cancel_def demo_payment_def)

text \<open>
  C13: Undo is complete: a send that was parked and is then cancelled by its sender leaves every
  balance of every account and the pending table exactly as they were before the send.
\<close>

theorem undo_restores:
  assumes "undo_contracts S K view maddr blocked denom_ok"
    and "ledger_inv (addressCodec K) denom_ok (maddr ModuleName) (view (store c))"
    and "DelayedSend S K msg c = (Ok r, c1)" and "\<not> dsrFinal r"
    and "StringToBytes (addressCodec K) (dsCreator msg) = Inr sender"
    and "sender \<noteq> maddr ModuleName" and "\<not> blocked sender" and "lSeq (view (store c)) \<noteq> -1"
  shows "\<exists>c2. CancelSend S K \<lparr>csCreator = dsCreator msg, csId = dsrId r\<rparr> c1 = (Ok (), c2) \<and>
    lBal (view (store c2)) = lBal (view (store c)) \<and> lPending (view (store c2)) = lPending (view (store c))"
  by (rule undo_contracts.send_then_cancel [OF assms])

theorem undo_restores_witness:
  "\<exists>c2. CancelSend mem_coins mem_keeper \<lparr>csCreator = alice, csId = 0\<rparr> demo1 = (Ok (), c2) \<and>
    lBal (mem_view (store c2)) alice_bytes ''utre'' = 100 \<and> lPending (mem_view (store c2)) 0 = None"
  using undo_restores [OF mem_contracts _ demo1_send, of alice_bytes] demo0_inv
  by (auto simp: demo_send_def demo0_view)

section \<open>EndBlocker\<close>

text \<open>
  C14: The end of a block is exact: in a reachable state \<open>EndBlocker\<close> returns without error or
  panic, whatever fails inside. Precisely the payments that are due and deliverable leave the
  pending table; each account gains precisely the amounts of the payments addressed to it, the
  holding account loses their sum, and nothing else changes.
\<close>

theorem EndBlocker_exact:
  assumes "undo_contracts S K view maddr blocked denom_ok"
    and "ledger_inv (addressCodec K) denom_ok (maddr ModuleName) (view (store c))"
    and "l = view (store c)" and "now = blockTimeUnix c" and "h = maddr ModuleName"
  shows "\<exists>c'. EndBlocker S K c = (Ok (), c') \<and> view (store c') = l\<lparr>
     lPending := (\<lambda>i. if i \<in> paid_ids (addressCodec K) blocked now l then None else lPending l i),
     lBal := (\<lambda>a d. lBal l a d - (if a = h then paid_out (addressCodec K) blocked now l d else 0)
                             + paid_to (addressCodec K) blocked now l a d)\<rparr>"
  using undo_contracts.block_ends [OF assms(1,2)] end_block_closed(2) [OF assms(2)] assms(3-5) by auto

theorem EndBlocker_exact_witness:
  "\<exists>c'. EndBlocker mem_coins mem_keeper demo2 = (Ok (), c') \<and>
     lPending (mem_view (store c')) 0 = None \<and> 0 \<in> paid_ids mem_codec mem_blocked 1300 (mem_view (store demo2))"
proof -
  have "due 1300 demo_payment" by (simp add: due_def demo_payment_def)
  moreover have "payee mem_codec mem_blocked demo_payment = Some bob_bytes"
    by (simp add: payee_def demo_payment_def)
  ultimately have "0 \<in> paid_ids mem_codec mem_blocked 1300 (mem_view (store demo2))"
    by (simp add: paid_ids_def)
  then show ?thesis
    using EndBlocker_exact [OF mem_contracts _ refl refl refl, of demo2] demo_invs(2) by auto
qed

text \<open>
  C15: A payment that cannot be delivered is kept, and stays undoable: after an end of a block
  that could not deliver it (unreadable or barred recipient) it is still in flight, however
  long its window has been over, and its sender can take it back.
\<close>

theorem undeliverable_stays_undoable:
  assumes "undo_contracts S K view maddr blocked denom_ok"
    and "ledger_inv (addressCodec K) denom_ok (maddr ModuleName) (view (store c))"
    and "lPending (view (store c)) i = Some p" and "payee (addressCodec K) blocked p = None"
    and "StringToBytes (addressCodec K) (pSender p) = Inr sender" and "\<not> blocked sender"
  shows "\<exists>c1 c2. EndBlocker S K c = (Ok (), c1) \<and> lPending (view (store c1)) i = Some p \<and>
     CancelSend S K \<lparr>csCreator = pSender p, csId = i\<rparr> c1 = (Ok (), c2) \<and>
     view (store c2) = take_back (maddr ModuleName) sender \<lparr>csCreator = pSender p, csId = i\<rparr> p (view (store c1))"
proof -
  obtain c1 where c1: "EndBlocker S K c = (Ok (), c1)"
    and v: "view (store c1) = end_block (addressCodec K) blocked (maddr ModuleName) (blockTimeUnix c) (view (store c))"
    using undo_contracts.block_ends [OF assms(1,2)] by blast
  have p1: "lPending (view (store c1)) i = Some p"
    using assms(3,4) by (simp add: v end_block_closed(2) [OF assms(2)] paid_ids_def)
  have "ledger_inv (addressCodec K) denom_ok (maddr ModuleName) (view (store c1))"
    unfolding v by (rule end_block_closed(1) [OF assms(2)])
  from undo_contracts.cancel_succeeds [OF assms(1) this, of "\<lparr>csCreator = pSender p, csId = i\<rparr>" p sender]
  show ?thesis using c1 p1 assms(5,6) by auto
qed

definition mint :: string where
  "mint = ''trefoil1'' @ string_of_bytes (mem_maddr ''mint'')"

definition demo_stuck :: "mem ctx" where
  "demo_stuck = (snd (DelayedSend mem_coins mem_keeper (demo_send mint 300) demo0))\<lparr>blockTimeUnix := 5000\<rparr>"

theorem undeliverable_stays_undoable_witness:
  "\<exists>c1 c2. EndBlocker mem_coins mem_keeper demo_stuck = (Ok (), c1) \<and>
     lPending (mem_view (store c1)) 0 = Some (demo_payment\<lparr>pRecipient := mint\<rparr>) \<and>
     CancelSend mem_coins mem_keeper \<lparr>csCreator = alice, csId = 0\<rparr> c1 = (Ok (), c2)"
proof -
  let ?c = "snd (DelayedSend mem_coins mem_keeper (demo_send mint 300) demo0)"
  have "demo_step demo0 ?c"
  proof (rule chain_step.send)
    show "DelayedSend mem_coins mem_keeper (demo_send mint 300) demo0 =
        (fst (DelayedSend mem_coins mem_keeper (demo_send mint 300) demo0), ?c)" by simp
  qed (simp_all add: demo_send_def demo0_view)
  then have "ledger_inv mem_codec mem_denom_ok (mem_maddr ModuleName) (mem_view (store ?c))"
    using mem.step_inv demo0_inv by simp
  then have inv: "ledger_inv mem_codec mem_denom_ok (mem_maddr ModuleName) (mem_view (store demo_stuck))"
    by (simp add: demo_stuck_def)
  have p: "lPending (mem_view (store demo_stuck)) 0 = Some (demo_payment\<lparr>pRecipient := mint\<rparr>)" by code_simp
  have "payee mem_codec mem_blocked (demo_payment\<lparr>pRecipient := mint\<rparr>) = None" by code_simp
  from undeliverable_stays_undoable [OF mem_contracts _ p, of alice_bytes] inv this
  show ?thesis by (auto simp: demo_payment_def)
qed




section \<open>The switch, the parameters, failures\<close>

text \<open>
  C17: \<open>SetFinalOnly\<close> sets the caller's own switch and nothing else: tallies, other addresses,
  payments already in flight and balances stay; only an unreadable address is refused.
\<close>

theorem SetFinalOnly_spec:
  assumes "undo_contracts S K view maddr blocked denom_ok"
    and "l = view (store c)" and "a = sfCreator msg"
  shows "case StringToBytes (addressCodec K) a of
     Inl e \<Rightarrow> SetFinalOnly K msg c = (Err (Wrapped e ''invalid address''), c)
   | Inr _ \<Rightarrow> \<exists>c'. SetFinalOnly K msg c = (Ok (), c') \<and>
       view (store c') = l\<lparr>lRecord := (lRecord l)(a \<mapsto> (record_of l a)\<lparr>rFinalonly := sfFinalonly msg\<rparr>)\<rparr>"
  using undo_contracts.SetFinalOnly_refines [OF assms(1), where c = c and msg = msg] assms(2,3)
  by (auto simp: switch_final_def split: sum.splits)

theorem SetFinalOnly_spec_witness:
  "\<exists>c'. SetFinalOnly mem_keeper \<lparr>sfCreator = alice, sfFinalonly = True\<rparr> demo1 = (Ok (), c') \<and>
     rFinalonly (record_of (mem_view (store c')) alice) \<and> lPending (mem_view (store c')) 0 = Some demo_payment"
  using SetFinalOnly_spec [OF mem_contracts refl refl, where c = demo1 and msg = "\<lparr>sfCreator = alice, sfFinalonly = True\<rparr>"]
  by (auto simp: record_of_def)

text \<open>
  C18: Only the authority changes the parameters, and only to valid ones: any other signer gets
  \<open>ErrInvalidSigner\<close>, invalid parameters get the validation error, each time changing nothing;
  else exactly the given parameters are stored.
\<close>

theorem UpdateParams_spec:
  assumes "undo_contracts S K view maddr blocked denom_ok"
  shows "case StringToBytes (addressCodec K) (upAuthority req) of
     Inl e \<Rightarrow> UpdateParams K req c = (Err (Wrapped e ''invalid authority address''), c)
   | Inr a \<Rightarrow>
       if a \<noteq> authority K then \<exists>m. UpdateParams K req c = (Err (Wrapped ErrInvalidSigner m), c)
       else (case Params_Validate (upParams req) of
           Some e \<Rightarrow> UpdateParams K req c = (Err e, c)
         | None \<Rightarrow> \<exists>st. UpdateParams K req c = (Ok (), c\<lparr>store := st\<rparr>) \<and>
             view st = (view (store c))\<lparr>lParams := Some (upParams req)\<rparr>)"
  by (rule undo_contracts.UpdateParams_refines [OF assms])

theorem UpdateParams_spec_witness:
  "\<exists>m. UpdateParams mem_keeper \<lparr>upAuthority = alice, upParams = NewParams 1 2 3\<rparr> demo0 = (Err (Wrapped ErrInvalidSigner m), demo0)"
proof -
  have "alice_bytes \<noteq> authority mem_keeper" by code_simp
  with UpdateParams_spec [OF mem_contracts, where c = demo0 and req = "\<lparr>upAuthority = alice, upParams = NewParams 1 2 3\<rparr>"]
  show ?thesis by simp
qed

text \<open>
  C19: A failed message leaves no trace in the state and no message panics: in a reachable
  state each of the four handlers ends with a value or an error, and with an error the
  ledger is as it was, even before the transaction is rolled back.
\<close>

theorem failures_change_nothing:
  assumes "undo_contracts S K view maddr blocked denom_ok"
    and "ledger_inv (addressCodec K) denom_ok (maddr ModuleName) (view (store c))"
  shows "no_trace view c (DelayedSend S K m1 c) \<and>
    no_trace view c (CancelSend S K m2 c) \<and>
    no_trace view c (SetFinalOnly K m3 c) \<and>
    no_trace view c (UpdateParams K m4 c)"
  by (rule undo_contracts.handlers_atomic [OF assms])

theorem failures_change_nothing_witness:
  "no_trace mem_view demo1 (DelayedSend mem_coins mem_keeper (demo_send alice 300) demo1) \<and>
   fst (DelayedSend mem_coins mem_keeper (demo_send alice 300) demo1) = Err ErrSendToSelf"
proof -
  have "fst (DelayedSend mem_coins mem_keeper (demo_send alice 300) demo1) = Err ErrSendToSelf" by code_simp
  then show ?thesis
    using failures_change_nothing [OF mem_contracts, of demo1 "demo_send alice 300"] demo_invs(1) by simp
qed

end
