(* ===== verification/Query.thy ===== *)
theory Query
  imports Guarantees Demo
begin

text \<open>
  The query server (\<open>keeper/query_*.go\<close>). A request is a pointer and may be nil (\<^const>\<open>None\<close>).
  \<open>query.CollectionPaginate\<close> is a parameter of the two list queries: given a collection, a page
  request and the callback, it returns the values of a page and a page response, or an error.
  The remaining lemmas are about which error a client sees.
\<close>

section \<open>Requests and responses\<close>

record QueryParamsResponse =
  qpParams :: Params

record QueryGetPendingRequest =
  qgpId :: u64

record QueryGetPendingResponse =
  qgpPending :: Pending

record 'pq QueryAllPendingRequest =
  qapPagination :: 'pq

record 'pr QueryAllPendingResponse =
  qapPending :: "Pending list"
  qapPage :: 'pr

record QueryGetRecordRequest =
  qgrIndex :: string

record QueryGetRecordResponse =
  qgrRecord :: Record

record 'pq QueryAllRecordRequest =
  qarPagination :: 'pq

record 'pr QueryAllRecordResponse =
  qarRecord :: "Record list"
  qarPage :: 'pr

definition zero_params :: Params where
  "zero_params = \<lparr>Minwindow = 0, Defaultwindow = 0, Maxwindow = 0\<rparr>"

definition invalid_request :: error where
  "invalid_request = StatusError InvalidArgument ''invalid request''"

section \<open>The queries\<close>

text \<open>\<open>Params\<close>: a missing item is no error, the zero parameters are returned.\<close>

definition query_Params :: "'st Keeper \<Rightarrow> unit option \<Rightarrow> ('st ctx, QueryParamsResponse) go" where
  "query_Params k req c =
     (case req of
        None \<Rightarrow> fail invalid_request c
      | Some _ \<Rightarrow> (case item_Get (kParams k) (store c) of
            Inr params \<Rightarrow> (Ok \<lparr>qpParams = params\<rparr>, c)
          | Inl e \<Rightarrow> (if \<not> errors_Is e ErrNotFound then (Err (StatusError Internal ''internal error''), c)
                     else (Ok \<lparr>qpParams = zero_params\<rparr>, c))))"

definition query_GetPending ::
  "'st Keeper \<Rightarrow> QueryGetPendingRequest option \<Rightarrow> ('st ctx, QueryGetPendingResponse) go" where
  "query_GetPending k req =
     (case req of
        None \<Rightarrow> fail invalid_request
      | Some r \<Rightarrow>
          bind (on_err (\<lambda>e. if errors_Is e ErrNotFound then ErrKeyNotFound
                            else StatusError Internal ''internal error'')
                 (call_read (map_Get (kPending k) (qgpId r)))) (\<lambda>pending.
          ret \<lparr>qgpPending = pending\<rparr>))"

definition query_GetRecord ::
  "'st Keeper \<Rightarrow> QueryGetRecordRequest option \<Rightarrow> ('st ctx, QueryGetRecordResponse) go" where
  "query_GetRecord k req =
     (case req of
        None \<Rightarrow> fail invalid_request
      | Some r \<Rightarrow>
          bind (on_err (\<lambda>e. if errors_Is e ErrNotFound then StatusError NotFound ''not found''
                            else StatusError Internal ''internal error'')
                 (call_read (map_Get (kRecord k) (qgrIndex r)))) (\<lambda>val.
          ret \<lparr>qgrRecord = val\<rparr>))"

type_synonym ('st, 'k, 'v, 'pq, 'pr) paginate =
  "('st, 'k, 'v) collMap \<Rightarrow> 'pq \<Rightarrow> ('k \<Rightarrow> 'v \<Rightarrow> error + 'v) \<Rightarrow> 'st \<Rightarrow> error + ('v list \<times> 'pr)"

definition query_ListPending ::
  "('st, u64, Pending, 'pq, 'pr) paginate \<Rightarrow> 'st Keeper \<Rightarrow> 'pq QueryAllPendingRequest option \<Rightarrow>
   ('st ctx, 'pr QueryAllPendingResponse) go" where
  "query_ListPending CollectionPaginate k req =
     (case req of
        None \<Rightarrow> fail invalid_request
      | Some r \<Rightarrow>
          bind (on_err (\<lambda>e. StatusError Internal (error_text e))
                 (call_read (CollectionPaginate (kPending k) (qapPagination r) (\<lambda>_ value. Inr value))))
            (\<lambda>(pendings, pageRes). ret \<lparr>qapPending = pendings, qapPage = pageRes\<rparr>))"

definition query_ListRecord ::
  "('st, string, Record, 'pq, 'pr) paginate \<Rightarrow> 'st Keeper \<Rightarrow> 'pq QueryAllRecordRequest option \<Rightarrow>
   ('st ctx, 'pr QueryAllRecordResponse) go" where
  "query_ListRecord CollectionPaginate k req =
     (case req of
        None \<Rightarrow> fail invalid_request
      | Some r \<Rightarrow>
          bind (on_err (\<lambda>e. StatusError Internal (error_text e))
                 (call_read (CollectionPaginate (kRecord k) (qarPagination r) (\<lambda>_ value. Inr value))))
            (\<lambda>(records, pageRes). ret \<lparr>qarRecord = records, qarPage = pageRes\<rparr>))"

section \<open>Evaluation on the ledger\<close>

context undo_contracts
begin

lemma query_Params_eval:
  "query_Params K (Some u) c =
     (Ok \<lparr>qpParams = (case lParams (view (store c)) of None \<Rightarrow> zero_params | Some p \<Rightarrow> p)\<rparr>, c)"
  by (simp add: query_Params_def parm.iGet split: option.split)

lemma query_GetPending_eval:
  "query_GetPending K (Some r) c =
     (case lPending (view (store c)) (qgpId r) of
        None \<Rightarrow> (Err ErrKeyNotFound, c) | Some p \<Rightarrow> (Ok \<lparr>qgpPending = p\<rparr>, c))"
  by (simp add: query_GetPending_def bind_on_err_read pend.Get split: option.split)

lemma query_GetRecord_eval:
  "query_GetRecord K (Some r) c =
     (case lRecord (view (store c)) (qgrIndex r) of
        None \<Rightarrow> (Err (StatusError NotFound ''not found''), c) | Some v \<Rightarrow> (Ok \<lparr>qgrRecord = v\<rparr>, c))"
  by (simp add: query_GetRecord_def bind_on_err_read recd.Get split: option.split)

end

section \<open>Properties\<close>

text \<open>
  C22: The queries tell the truth and touch nothing: on every state, \<open>GetPending\<close> returns the
  payment in flight under the id and \<open>ErrKeyNotFound\<close> otherwise, \<open>GetRecord\<close> the tally stored for
  the address and a NotFound status otherwise, \<open>Params\<close> the stored parameters and all zeros
  when there are none; a nil request is refused.
\<close>

theorem queries_truthful:
  assumes "undo_contracts S K view maddr blocked denom_ok"
    and "l = view (store c)"
  shows "query_GetPending K (Some \<lparr>qgpId = i\<rparr>) c =
       (case lPending l i of None \<Rightarrow> (Err ErrKeyNotFound, c) | Some p \<Rightarrow> (Ok \<lparr>qgpPending = p\<rparr>, c)) \<and>
     query_GetRecord K (Some \<lparr>qgrIndex = a\<rparr>) c =
       (case lRecord l a of None \<Rightarrow> (Err (StatusError NotFound ''not found''), c) | Some r \<Rightarrow> (Ok \<lparr>qgrRecord = r\<rparr>, c)) \<and>
     query_Params K (Some ()) c =
       (Ok \<lparr>qpParams = (case lParams l of None \<Rightarrow> zero_params | Some p \<Rightarrow> p)\<rparr>, c) \<and>
     query_GetPending K None c = (Err invalid_request, c) \<and> query_GetRecord K None c = (Err invalid_request, c) \<and>
     query_Params K None c = (Err invalid_request, c)"
  using undo_contracts.query_GetPending_eval [OF assms(1), of "\<lparr>qgpId = i\<rparr>" c]
    undo_contracts.query_GetRecord_eval [OF assms(1), of "\<lparr>qgrIndex = a\<rparr>" c]
    undo_contracts.query_Params_eval [OF assms(1), of "()" c] assms(2)
  by (simp add: query_GetPending_def query_GetRecord_def query_Params_def)

theorem queries_truthful_witness:
  "query_GetPending mem_keeper (Some \<lparr>qgpId = 0\<rparr>) demo1 = (Ok \<lparr>qgpPending = demo_payment\<rparr>, demo1) \<and>
   query_GetRecord mem_keeper (Some \<lparr>qgrIndex = bob\<rparr>) demo1 = (Err (StatusError NotFound ''not found''), demo1)"
proof -
  have "lRecord (mem_view (store demo1)) bob = None" by (rule demo1_view)
  with queries_truthful [OF mem_contracts refl, where c = demo1 and i = 0 and a = bob] show ?thesis by simp
qed

text \<open>
  The list queries pass on a page of what is stored: if the pagination of the SDK returns
  only values its callback returned for stored entries, at most \<open>limit\<close> of them, then every
  payment that \<open>ListPending\<close> returns is in flight under its own id in a reachable state, every
  tally that \<open>ListRecord\<close> returns is the stored tally of its address, and nothing changes.
\<close>

definition pages_stored :: "('st, 'k, 'v, 'pq, 'pr) paginate \<Rightarrow> ('pq \<Rightarrow> nat) \<Rightarrow> bool" where
  "pages_stored pg limit \<longleftrightarrow> (\<forall>M q f st vs r. pg M q f st = Inr (vs, r) \<longrightarrow>
     length vs \<le> limit q \<and>
     (\<forall>v\<in>set vs. \<exists>k w xs. map_Iterate M st = Inr xs \<and> (k, w) \<in> set xs \<and> f k w = Inr v))"

theorem lists_stored:
  assumes "undo_contracts S K view maddr blocked denom_ok"
    and "ledger_inv (addressCodec K) denom_ok (maddr ModuleName) (view (store c))"
    and "pages_stored pg limit" and "pages_stored pg' limit"
    and "query_ListPending pg K (Some \<lparr>qapPagination = q\<rparr>) c = (Ok rp, c1)"
    and "query_ListRecord pg' K (Some \<lparr>qarPagination = q'\<rparr>) c = (Ok rr, c2)"
  shows "c1 = c \<and> c2 = c \<and> length (qapPending rp) \<le> limit q \<and> length (qarRecord rr) \<le> limit q' \<and>
    (\<forall>p\<in>set (qapPending rp). lPending (view (store c)) (pId p) = Some p) \<and>
    (\<forall>r\<in>set (qarRecord rr). lRecord (view (store c)) (rIndex r) = Some r)"
proof -
  have pend: "coll_map (kPending K) view lPending (\<lambda>m. lPending_update (\<lambda>_. m)) stored_pending"
    and recd: "coll_map (kRecord K) view lRecord (\<lambda>m. lRecord_update (\<lambda>_. m)) (\<lambda>r. r)"
    using assms(1) by (simp_all add: undo_contracts_def)
  have keyed: "\<And>i q. lPending (view (store c)) i = Some q \<Longrightarrow> pId q = i"
    "\<And>a r. lRecord (view (store c)) a = Some r \<Longrightarrow> rIndex r = a"
    using assms(2) by (auto simp: inv_defs)
  obtain vs r where p: "pg (kPending K) q (\<lambda>_. Inr) (store c) = Inr (vs, r)" "rp = \<lparr>qapPending = vs, qapPage = r\<rparr>" "c1 = c"
    using assms(5) by (auto simp: query_ListPending_def bind_on_err_read split: sum.splits)
  obtain ws s where w: "pg' (kRecord K) q' (\<lambda>_. Inr) (store c) = Inr (ws, s)" "rr = \<lparr>qarRecord = ws, qarPage = s\<rparr>" "c2 = c"
    using assms(6) by (auto simp: query_ListRecord_def bind_on_err_read split: sum.splits)
  note P = assms(3) [unfolded pages_stored_def, rule_format, OF p(1)]
    and W = assms(4) [unfolded pages_stored_def, rule_format, OF w(1)]
  have "lPending (view (store c)) (pId v) = Some v" if "v \<in> set vs" for v
    using P that keyed(1) coll_map.set_entries [OF pend] coll_map.Iterate_entries [OF pend] by fastforce
  moreover have "lRecord (view (store c)) (rIndex v) = Some v" if "v \<in> set ws" for v
    using W that keyed(2) coll_map.set_entries [OF recd] coll_map.Iterate_entries [OF recd] by fastforce
  ultimately show ?thesis using P W p w by auto
qed

text \<open>A pagination that meets the hypothesis: the first \<open>n\<close> entries.\<close>

fun map_results :: "('a \<Rightarrow> error + 'b) \<Rightarrow> 'a list \<Rightarrow> error + 'b list" where
  "map_results f [] = Inr []"
| "map_results f (x # xs) = (case f x of
     Inl e \<Rightarrow> Inl e
   | Inr y \<Rightarrow> (case map_results f xs of Inl e \<Rightarrow> Inl e | Inr ys \<Rightarrow> Inr (y # ys)))"

definition first_page :: "('st, 'k, 'v, nat, unit) paginate" where
  "first_page M n f st = (case map_Iterate M st of
     Inl e \<Rightarrow> Inl e
   | Inr xs \<Rightarrow> (case map_results (\<lambda>(k, v). f k v) (take n xs) of Inl e \<Rightarrow> Inl e | Inr vs \<Rightarrow> Inr (vs, ())))"

lemma map_results_Inr:
  "map_results f xs = Inr ys \<Longrightarrow> length ys = length xs \<and> (\<forall>y\<in>set ys. \<exists>x\<in>set xs. f x = Inr y)"
  by (induction xs arbitrary: ys) (auto split: sum.splits)

lemma first_page_stored: "pages_stored first_page (\<lambda>n. n)"
  unfolding pages_stored_def first_page_def
  by (fastforce dest!: map_results_Inr dest: in_set_takeD split: sum.splits)

theorem lists_stored_witness:
  "\<exists>rp. query_ListPending first_page mem_keeper (Some \<lparr>qapPagination = 5\<rparr>) demo1 = (Ok rp, demo1) \<and>
     length (qapPending rp) \<le> 5 \<and> (\<forall>p\<in>set (qapPending rp). lPending (mem_view (store demo1)) (pId p) = Some p)"
proof -
  have p: "\<exists>rp c1. query_ListPending first_page mem_keeper (Some \<lparr>qapPagination = 5\<rparr>) demo1 = (Ok rp, c1)"
  proof -
    have "fst (query_ListPending first_page mem_keeper (Some \<lparr>qapPagination = 5\<rparr>) demo1) =
        Ok \<lparr>qapPending = [demo_payment], qapPage = ()\<rparr>" by code_simp
    then show ?thesis by (metis prod.collapse)
  qed
  have "fst (query_ListRecord first_page mem_keeper (Some \<lparr>qarPagination = 5\<rparr>) demo1) =
      Ok \<lparr>qarRecord = [\<lparr>rIndex = alice, rSent = 1, rCancelled = 0, rFinalonly = False\<rparr>], qarPage = ()\<rparr>" by code_simp
  then have "\<exists>rr c2. query_ListRecord first_page mem_keeper (Some \<lparr>qarPagination = 5\<rparr>) demo1 = (Ok rr, c2)"
    by (metis prod.collapse)
  with p lists_stored [OF mem_contracts _ first_page_stored first_page_stored] demo_invs(1) demo_codec_eq
  show ?thesis by metis
qed

end
