(* ===== verification/Calls.thy ===== *)
theory Calls
  imports Sdk
begin

text \<open>
  What the long procedures of the application share: Go's \<open>for ... range\<close> over a list, an
  iterator with a callback, \<open>panic(err)\<close>, results thrown away with \<open>_ =\<close>; and two notions to
  reason about a call step by step on an abstraction \<open>view\<close> of the state: \<open>keeps view m\<close> (no
  outcome of \<open>m\<close> changes the view) and \<open>acts view m R\<close> (when \<open>m\<close> returns, the view has moved
  along \<open>R\<close>).
\<close>

section \<open>Control flow\<close>

fun go_for :: "('a \<Rightarrow> ('s, unit) go) \<Rightarrow> 'a list \<Rightarrow> ('s, unit) go" where
  "go_for f [] = ret ()"
| "go_for f (x # xs) = bind (f x) (\<lambda>_. go_for f xs)"

text \<open>The same with local variables that each round updates.\<close>

fun go_fold :: "('a \<Rightarrow> 'l \<Rightarrow> ('s, 'l) go) \<Rightarrow> 'a list \<Rightarrow> 'l \<Rightarrow> ('s, 'l) go" where
  "go_fold f [] l = ret l"
| "go_fold f (x # xs) l = bind (f x l) (go_fold f xs)"

text \<open>An iteration that hands each entry to a callback until the callback says stop.\<close>

fun visit :: "('a \<Rightarrow> ('s, bool) go) \<Rightarrow> 'a list \<Rightarrow> ('s, unit) go" where
  "visit cb [] = ret ()"
| "visit cb (x # xs) = bind (cb x) (\<lambda>stop. if stop then ret () else visit cb xs)"

text \<open>\<open>if err != nil { panic(err) }\<close>\<close>

definition go_must :: "('s, 'a) go \<Rightarrow> ('s, 'a) go" where
  "go_must m s = (case m s of (Err e, s') \<Rightarrow> (Panic (error_text e), s') | r \<Rightarrow> r)"

text \<open>\<open>_, _ = call\<close>: the result and the error are thrown away.\<close>

definition go_drop :: "('s, 'a) go \<Rightarrow> ('s, unit) go" where
  "go_drop m s = (case m s of (Panic t, s') \<Rightarrow> (Panic t, s') | (_, s') \<Rightarrow> (Ok (), s'))"

definition go_lift :: "'a res \<Rightarrow> ('s, 'a) go" where
  "go_lift r s = (r, s)"

lemma visit_never_stops: "visit (\<lambda>x. bind (f x) (\<lambda>_. ret False)) xs = go_for f xs"
  by (induction xs) (simp_all add: bind_assoc del: ret_apply)

lemma go_for_append: "go_for f (xs @ ys) = bind (go_for f xs) (\<lambda>_. go_for f ys)"
  by (induction xs) (simp_all add: bind_assoc del: ret_apply)

section \<open>Calls that leave a view alone\<close>

named_theorems keeps_intros
named_theorems acts_intros

definition keeps :: "('s \<Rightarrow> 'v) \<Rightarrow> ('s, 'a) go \<Rightarrow> bool" where
  "keeps view m \<longleftrightarrow> (\<forall>s. view (snd (m s)) = view s)"

lemma keepsD: "keeps view m \<Longrightarrow> m s = (r, s') \<Longrightarrow> view s' = view s"
  unfolding keeps_def by (metis snd_conv)

lemma keeps_ret [keeps_intros]: "keeps view (ret a)"
  by (simp add: keeps_def)

lemma keeps_fail [keeps_intros]: "keeps view (fail e)"
  by (simp add: keeps_def)

lemma keeps_pure [keeps_intros]: "keeps view (pure_call r)"
  by (simp add: keeps_def pure_call_def split: sum.split)

lemma keeps_check [keeps_intros]: "keeps view (check_call r)"
  by (simp add: keeps_def check_call_def split: option.split)

lemma keeps_lift [keeps_intros]: "keeps view (go_lift r)"
  by (simp add: keeps_def go_lift_def)

lemma keeps_bind [keeps_intros]: "keeps view m \<Longrightarrow> (\<And>a. keeps view (f a)) \<Longrightarrow> keeps view (bind m f)"
  unfolding keeps_def by (auto simp: bind_def split: prod.splits res.splits) (metis snd_conv)+

lemma keeps_must [keeps_intros]: "keeps view m \<Longrightarrow> keeps view (go_must m)"
  unfolding keeps_def by (auto simp: go_must_def split: prod.splits res.splits) (metis snd_conv)+

lemma keeps_drop [keeps_intros]: "keeps view m \<Longrightarrow> keeps view (go_drop m)"
  unfolding keeps_def by (auto simp: go_drop_def split: prod.splits res.splits) (metis snd_conv)+

lemma keeps_on_err [keeps_intros]: "keeps view m \<Longrightarrow> keeps view (on_err w m)"
  unfolding keeps_def by (auto simp: on_err_def split: prod.splits res.splits) (metis snd_conv)+

lemma keeps_for [keeps_intros]: "(\<And>x. keeps view (f x)) \<Longrightarrow> keeps view (go_for f xs)"
  by (induction xs) (auto intro: keeps_intros)

lemma keeps_visit [keeps_intros]: "(\<And>x. keeps view (f x)) \<Longrightarrow> keeps view (visit f xs)"
  by (induction xs) (auto intro!: keeps_intros)

section \<open>Calls that move a view\<close>

definition acts :: "('s \<Rightarrow> 'v) \<Rightarrow> ('s, 'a) go \<Rightarrow> ('v \<Rightarrow> 'v \<Rightarrow> bool) \<Rightarrow> bool" where
  "acts view m R \<longleftrightarrow> (\<forall>s a s'. m s = (Ok a, s') \<longrightarrow> R (view s) (view s'))"

lemma actsD: "acts view m R \<Longrightarrow> m s = (Ok a, s') \<Longrightarrow> R (view s) (view s')"
  unfolding acts_def by blast

lemma acts_keeps: "keeps view m \<Longrightarrow> acts view m (=)"
  unfolding acts_def by (metis keepsD)

lemma acts_mono: "acts view m R \<Longrightarrow> (\<And>v v'. R v v' \<Longrightarrow> S v v') \<Longrightarrow> acts view m S"
  unfolding acts_def by blast

lemma acts_bind: "acts view m R \<Longrightarrow> (\<And>a. acts view (f a) S) \<Longrightarrow> acts view (bind m f) (R OO S)"
  unfolding acts_def by (blast elim: bind_OkE)

lemma acts_bind_keeps: "keeps view m \<Longrightarrow> (\<And>a. acts view (f a) S) \<Longrightarrow> acts view (bind m f) S"
  by (metis acts_bind acts_keeps eq_OO)

lemma acts_bind_ret: "acts view m R \<Longrightarrow> acts view (bind m (\<lambda>_. ret b)) R"
  unfolding acts_def by (auto elim!: bind_OkE)

lemma acts_must: "acts view m R \<Longrightarrow> acts view (go_must m) R"
  unfolding acts_def by (auto simp: go_must_def split: prod.splits res.splits)

text \<open>A loop whose rounds move the view by a function moves it by the fold of that function.\<close>

lemma acts_for:
  assumes "\<And>x. acts view (f x) (\<lambda>v v'. v' = g x v)"
  shows "acts view (go_for f xs) (\<lambda>v v'. v' = fold g xs v)"
proof (induction xs)
  case Nil
  then show ?case by (simp add: acts_def)
next
  case (Cons x xs)
  show ?case
    using acts_bind [OF assms [of x] Cons.IH] by (auto elim: acts_mono simp: relcompp_apply)
qed

end
