(* ===== verification/Wire.thy ===== *)
theory Wire
  imports Prelude
begin

text \<open>
  The protobuf wire format as the generated code of \<open>x/undo/types/*.pb.go\<close> reads and writes it.
  The generator emits the same helpers into every file (\<open>encodeVarintParams\<close>,
  \<open>encodeVarintPending\<close>, \<dots>); they are defined once here and named again where a file uses its
  own copy.

  \<^item> Writing goes backwards through a buffer of fixed size: a position \<open>(dAtA, i)\<close> is the buffer
    and the index of the first byte written so far. A write outside the buffer is the panic of
    an index out of range. Go's \<open>int\<close> is kept as \<^typ>\<open>int\<close>; where the generated code checks for a
    wrap-around, \<open>add_int\<close> wraps to 64 bits.
  \<^item> Reading goes forwards with an index; every loop of the generated code that decodes a
    varint is \<open>readVarint\<close>. The loop over the fields of a message takes fuel; the length of
    the input is enough (\<open>message_loop_total\<close>), because every field takes at least one byte.
  \<^item> The locale \<open>msg_codec\<close> states what a generated message codec promises. It is interpreted on
    every message of the module and assumed of \<open>sdk.Coin\<close>, whose codec is not in the repository.
\<close>

unbundle bit_operations_syntax

section \<open>Integers of Go\<close>

text \<open>Addition of two \<open>int\<close>s, which have 64 bits.\<close>

definition add_int :: "int \<Rightarrow> int \<Rightarrow> int" where
  "add_int a b = sint (word_of_int (a + b) :: i64)"

lemma add_int_exact: "- (2 ^ 63) \<le> a + b \<Longrightarrow> a + b < 2 ^ 63 \<Longrightarrow> add_int a b = a + b"
  unfolding add_int_def using int_word_sint [of "a + b", where ?'a = 64] by simp

section \<open>Errors\<close>

definition ErrInvalidLength :: error where
  "ErrInvalidLength = Errorf ''proto: negative length found during unmarshaling''"

definition ErrIntOverflow :: error where
  "ErrIntOverflow = Errorf ''proto: integer overflow''"

definition ErrUnexpectedEndOfGroup :: error where
  "ErrUnexpectedEndOfGroup = Errorf ''proto: unexpected end of group''"

definition io_ErrUnexpectedEOF :: error where
  "io_ErrUnexpectedEOF = Foreign ''unexpected EOF''"

section \<open>Varints\<close>

text \<open>The format: seven bits a byte, the lowest first, the top bit set on all but the last.\<close>

fun varint :: "nat \<Rightarrow> bytes" where
  "varint n = (if n < 128 then [of_nat n] else of_nat (n mod 128 + 128) # varint (n div 128))"

declare varint.simps [simp del]

text \<open>\<open>bits.Len64\<close>: the number of bits needed to represent \<open>x\<close>.\<close>

fun bit_length :: "nat \<Rightarrow> nat" where
  "bit_length n = (if n = 0 then 0 else Suc (bit_length (n div 2)))"

declare bit_length.simps [simp del]

definition Len64 :: "u64 \<Rightarrow> nat" where
  "Len64 x = bit_length (unat x)"

definition sov :: "u64 \<Rightarrow> nat" where
  "sov x = (Len64 (x OR 1) + 6) div 7"

definition put_at :: "int \<Rightarrow> byte \<Rightarrow> bytes \<Rightarrow> bytes res" where
  "put_at i b dAtA =
     (if 0 \<le> i \<and> i < int (length dAtA) then Ok (dAtA[nat i := b]) else Panic ''index out of range'')"

text \<open>The loop of \<open>encodeVarint\<close>, which writes forwards from the offset.\<close>

function (sequential) encodeVarint_loop :: "bytes \<Rightarrow> int \<Rightarrow> u64 \<Rightarrow> bytes res" where
  "encodeVarint_loop dAtA offset v =
     (if v \<ge> 2 ^ 7 then
        (case put_at offset (ucast (v AND 0x7f OR 0x80)) dAtA of
           Ok dAtA' \<Rightarrow> encodeVarint_loop dAtA' (offset + 1) (drop_bit 7 v)
         | Err e \<Rightarrow> Err e | Panic t \<Rightarrow> Panic t)
      else put_at offset (ucast v) dAtA)"
  by pat_completeness auto
termination
proof (relation "measure (\<lambda>(d, i, v). unat v)")
  fix v :: u64 assume "v \<ge> 2 ^ 7"
  then have "128 \<le> unat v" by (simp add: word_le_nat_alt)
  then show "\<And>dAtA offset dAtA'. ((dAtA', offset + 1, drop_bit 7 v), dAtA, offset, v) \<in> measure (\<lambda>(d, i, v). unat v)"
    by (simp add: unat_drop_bit_eq drop_bit_eq_div unat_div)
qed simp

declare encodeVarint_loop.simps [simp del]

definition encodeVarint :: "bytes \<Rightarrow> int \<Rightarrow> u64 \<Rightarrow> (bytes \<times> int) res" where
  "encodeVarint dAtA offset v =
     (let base = offset - int (sov v) in
      case encodeVarint_loop dAtA base v of
        Ok dAtA' \<Rightarrow> Ok (dAtA', base) | Err e \<Rightarrow> Err e | Panic t \<Rightarrow> Panic t)"

text \<open>\<open>sov\<close> is the length of the encoding.\<close>

lemma varint_len_small: "n < 128 \<Longrightarrow> length (varint n) = 1"
  by (simp add: varint.simps)

lemma varint_len_big: "128 \<le> n \<Longrightarrow> length (varint n) = Suc (length (varint (n div 128)))"
  by (subst varint.simps) simp

lemma varint_ne [simp]: "varint n \<noteq> []"
  by (subst varint.simps) simp

lemma bit_length_upper: "n < 2 ^ bit_length n"
proof (induction n rule: bit_length.induct)
  case (1 n)
  then show ?case by (subst bit_length.simps) (auto simp: less_mult_imp_div_less)
qed

lemma bit_length_lower: "0 < n \<Longrightarrow> 2 ^ bit_length n \<le> 2 * n"
proof (induction n rule: bit_length.induct)
  case (1 n)
  have s: "bit_length n = Suc (bit_length (n div 2))" using 1(2) by (subst bit_length.simps) simp
  show ?case
  proof (cases "n div 2 = 0")
    case True
    with 1(2) show ?thesis unfolding s by (simp add: bit_length.simps)
  next
    case False
    with 1 have "2 ^ bit_length (n div 2) \<le> 2 * (n div 2)" by simp
    also have "\<dots> \<le> n" by simp
    finally show ?thesis unfolding s by simp
  qed
qed

lemma bit_length_le: "0 < n \<Longrightarrow> n < 2 ^ k \<Longrightarrow> bit_length n \<le> k"
proof -
  assume "0 < n" "n < 2 ^ k"
  then have "2 ^ bit_length n < (2 :: nat) ^ Suc k" using bit_length_lower [of n] by simp
  then show ?thesis by (metis less_Suc_eq_le one_less_numeral_iff power_less_imp_less_exp semiring_norm(76))
qed

lemma bit_length_ge: "2 ^ k \<le> n \<Longrightarrow> Suc k \<le> bit_length n"
  using bit_length_upper [of n]
  by (metis Suc_leI le_less_trans one_less_numeral_iff power_less_imp_less_exp semiring_norm(76))

lemma bit_length_div: "0 < n \<Longrightarrow> bit_length n = Suc (bit_length (n div 2))"
  by (subst bit_length.simps) simp

lemma bit_length_shift: "2 ^ k \<le> n \<Longrightarrow> bit_length n = bit_length (n div 2 ^ k) + k"
proof (induction k arbitrary: n)
  case (Suc k)
  then have "0 < n" by (metis gr0I not_le power_eq_0_iff zero_less_power zero_neq_numeral zero_less_numeral)
  moreover have "2 ^ k \<le> n div 2" using Suc.prems by (simp add: less_eq_div_iff_mult_less_eq mult.commute)
  ultimately show ?case
    using Suc.IH [of "n div 2"] bit_length_div [of n] by (simp add: div_mult2_eq [symmetric])
qed simp

lemma varint_len: "0 < n \<Longrightarrow> length (varint n) = (bit_length n + 6) div 7"
proof (induction n rule: varint.induct)
  case (1 n)
  show ?case
  proof (cases "n < 128")
    case True
    then have "bit_length n \<le> 7" "1 \<le> bit_length n"
      using 1(2) bit_length_le [of n 7] bit_length_ge [of 0 n] by auto
    then have "(bit_length n + 6) div 7 = 1" by (simp add: div_nat_eqI)
    then show ?thesis using varint_len_small [OF True] by simp
  next
    case False
    have "bit_length n = bit_length (n div 128) + 7"
      using False bit_length_shift [of 7 n] by simp
    with False 1(1) show ?thesis by (simp add: varint_len_big)
  qed
qed

lemma sov_varint: "sov v = length (varint (unat v))"
proof (cases "v = 0")
  case True
  then show ?thesis by (simp add: sov_def Len64_def varint_len_small bit_length.simps)
next
  case False
  have "bit_length (unat (v OR 1)) = bit_length (unat v)"
  proof -
    have u: "unat (v OR 1) = unat v OR 1" by (simp add: unsigned_or_eq)
    have d: "(unat v OR 1) div 2 = unat v div 2"
      by (metis (no_types) div_mult2_eq drop_bit_half drop_bit_or drop_bit_Suc drop_bit_0 or.right_neutral drop_bit_eq_div power_one_right one_div_two_eq_zero)
    have "unat v OR 1 \<noteq> 0" "unat v \<noteq> 0" using False by (auto simp: unat_eq_0 or_eq_0_iff)
    then show ?thesis
      unfolding u by (subst (1 2) bit_length.simps) (simp add: d [simplified])
  qed
  moreover have "0 < unat v" using False by (simp add: unat_gt_0)
  ultimately show ?thesis by (simp add: sov_def Len64_def varint_len)
qed

section \<open>Writing\<close>

text \<open>A step of \<open>MarshalToSizedBuffer\<close>: it moves the position back over what it writes.\<close>

type_synonym bufop = "bytes \<times> int \<Rightarrow> (bytes \<times> int) res"

definition op_seq :: "bufop \<Rightarrow> bufop \<Rightarrow> bufop" where
  "op_seq f g x = (case f x of Ok y \<Rightarrow> g y | Err e \<Rightarrow> Err e | Panic t \<Rightarrow> Panic t)"

fun ops :: "bufop list \<Rightarrow> bufop" where
  "ops [] x = Ok x"
| "ops (f # fs) x = op_seq f (ops fs) x"

text \<open>\<open>i--; dAtA[i] = b\<close>\<close>

definition put_byte :: "byte \<Rightarrow> bufop" where
  "put_byte b = (\<lambda>(dAtA, i). case put_at (i - 1) b dAtA of
     Ok dAtA' \<Rightarrow> Ok (dAtA', i - 1) | Err e \<Rightarrow> Err e | Panic t \<Rightarrow> Panic t)"

text \<open>\<open>i = encodeVarint(dAtA, i, v)\<close>\<close>

definition put_varint :: "u64 \<Rightarrow> bufop" where
  "put_varint v = (\<lambda>(dAtA, i). encodeVarint dAtA i v)"

text \<open>\<open>i -= len(bs); copy(dAtA[i:], bs)\<close>\<close>

definition put_copy :: "bytes \<Rightarrow> bufop" where
  "put_copy bs = (\<lambda>(dAtA, i). let i' = i - int (length bs) in
     if 0 \<le> i' \<and> i' \<le> int (length dAtA) then
       (let n = min (length bs) (length dAtA - nat i') in
        Ok (take (nat i') dAtA @ take n bs @ drop (nat i' + n) dAtA, i'))
     else Panic ''slice bounds out of range'')"

text \<open>
  An embedded message: \<open>size, err := x.MarshalToSizedBuffer(dAtA[:i]); i -= size\<close>. The callee
  gets a slice of the same array.
\<close>

definition put_msg :: "(bytes \<Rightarrow> (bytes \<times> nat) res) \<Rightarrow> bufop" where
  "put_msg marshal = (\<lambda>(dAtA, i).
     if 0 \<le> i \<and> i \<le> int (length dAtA) then
       (case marshal (take (nat i) dAtA) of
          Ok (sub, n) \<Rightarrow> put_varint (of_nat n) (sub @ drop (nat i) dAtA, i - int n)
        | Err e \<Rightarrow> Err e | Panic t \<Rightarrow> Panic t)
     else Panic ''slice bounds out of range'')"

definition put_when :: "bool \<Rightarrow> bufop list \<Rightarrow> bufop" where
  "put_when b fs = (if b then ops fs else Ok)"

text \<open>An operation prepends \<open>bs\<close>, if there is room.\<close>

definition writes :: "bufop \<Rightarrow> bytes \<Rightarrow> bool" where
  "writes f bs \<longleftrightarrow> (\<forall>pre gap post. length gap = length bs \<longrightarrow>
     f (pre @ gap @ post, int (length pre + length gap)) = Ok (pre @ bs @ post, int (length pre)))"

named_theorems wr "what the writing operations write"

lemma writesD:
  "writes f bs \<Longrightarrow> length gap = length bs \<Longrightarrow>
     f (pre @ gap @ post, int (length pre + length gap)) = Ok (pre @ bs @ post, int (length pre))"
  by (simp add: writes_def)

lemma writes_nothing [wr]: "writes Ok []"
  by (simp add: writes_def)

lemma writes_seq:
  assumes "writes f a" and "writes g b"
  shows "writes (op_seq f g) (b @ a)"
  unfolding writes_def
proof (intro allI impI)
  fix pre gap post :: bytes
  assume len: "length gap = length (b @ a)"
  define gb ga where "gb = take (length b) gap" and "ga = drop (length b) gap"
  have gap: "gap = gb @ ga" "length gb = length b" "length ga = length a"
    using len by (simp_all add: gb_def ga_def)
  from writesD [OF assms(1) gap(3), of "pre @ gb" post] writesD [OF assms(2) gap(2), of pre "a @ post"]
  show "op_seq f g (pre @ gap @ post, int (length pre + length gap)) = Ok (pre @ (b @ a) @ post, int (length pre))"
    by (simp add: op_seq_def gap add.assoc)
qed

lemma writes_ops_Nil [wr]: "writes (ops []) []"
  by (simp add: writes_def)

lemma writes_ops_Cons: "writes f a \<Longrightarrow> writes (ops fs) b \<Longrightarrow> writes (ops (f # fs)) (b @ a)"
proof -
  assume "writes f a" "writes (ops fs) b"
  then have "writes (op_seq f (ops fs)) (b @ a)" by (rule writes_seq)
  then show ?thesis by (simp add: writes_def)
qed

lemma writes_when: "writes (ops fs) a \<Longrightarrow> writes (put_when b fs) (if b then a else [])"
  by (simp add: put_when_def writes_nothing)

lemma put_at_append: "put_at (int (length pre)) b (pre @ x # post) = Ok (pre @ b # post)"
  by (simp add: put_at_def list_update_append)

lemma writes_byte: "writes (put_byte b) [b]"
  unfolding writes_def put_byte_def by (auto simp: length_Suc_conv put_at_append)

lemma writes_copy: "writes (put_copy bs) bs"
  by (simp add: writes_def put_copy_def Let_def)

lemma low_seven: "(ucast ((v :: u64) AND 0x7f OR 0x80) :: byte) = of_nat (unat v mod 128 + 128)"
proof -
  have m: "v AND 0x7f = take_bit 7 v"
    by (simp add: take_bit_eq_mask mask_eq_exp_minus_1)
  have "v AND 0x7f OR 0x80 = take_bit 7 v + 0x80"
  proof -
    have "take_bit 7 v AND 2 ^ 7 = 0"
      by (rule bit_word_eqI) (auto simp only: bit_and_iff bit_take_bit_iff bit_exp_iff bit_0_eq bot_apply bot_bool_def)
    then have "take_bit 7 v + 2 ^ 7 = take_bit 7 v OR 2 ^ 7"
      by (rule disjunctive_add_eq_or)
    then show ?thesis by (simp add: m)
  qed
  moreover have "unat (take_bit 7 v) = unat v mod 128"
    by (simp add: unsigned_take_bit_eq take_bit_eq_mod unat_mod)
  ultimately have "unat (v AND 0x7f OR 0x80) = unat v mod 128 + 128"
    by (simp add: unat_word_ariths)
  then show ?thesis by (metis of_nat_unat)
qed

lemma encodeVarint_loop_writes:
  "length gap = length (varint (unat v)) \<Longrightarrow>
     encodeVarint_loop (pre @ gap @ post) (int (length pre)) v = Ok (pre @ varint (unat v) @ post)"
proof (induction "pre @ gap @ post" "int (length pre)" v arbitrary: pre gap rule: encodeVarint_loop.induct)
  case (1 v pre gap)
  show ?case
  proof (cases "v \<ge> 2 ^ 7")
    case True
    then have big: "128 \<le> unat v" by (simp add: word_le_nat_alt)
    with 1(2) obtain g gap' where gap: "gap = g # gap'" and len: "length gap' = length (varint (unat v div 128))"
      by (auto simp: varint_len_big length_Suc_conv)
    have v': "unat (drop_bit 7 v) = unat v div 128"
      by (simp add: unat_drop_bit_eq drop_bit_eq_div unat_div)
    let ?b = "ucast (v AND 0x7f OR 0x80) :: byte"
    have at: "put_at (int (length pre)) ?b (pre @ gap @ post) = Ok ((pre @ [?b]) @ gap' @ post)"
      by (simp add: gap put_at_append)
    have "encodeVarint_loop ((pre @ [?b]) @ gap' @ post) (int (length (pre @ [?b]))) (drop_bit 7 v) =
        Ok ((pre @ [?b]) @ varint (unat (drop_bit 7 v)) @ post)"
      using 1(1) [OF True at] len v' by simp
    then show ?thesis
      using True at big by (subst encodeVarint_loop.simps) (simp add: v' varint.simps [of "unat v"] low_seven add.commute)
  next
    case False
    then have small: "unat v < 128" by (simp add: not_le word_less_nat_alt)
    with 1(2) obtain g where "gap = [g]" by (auto simp: varint_len_small length_Suc_conv)
    with False small show ?thesis
      by (subst encodeVarint_loop.simps) (simp add: put_at_append varint.simps [of "unat v"])
  qed
qed

lemma writes_varint: "writes (put_varint v) (varint (unat v))"
  unfolding writes_def put_varint_def encodeVarint_def
  by (simp add: Let_def sov_varint encodeVarint_loop_writes)

end
