(* ===== verification/WireRead.thy ===== *)
theory WireRead
  imports Wire
begin

text \<open>
  Reading the wire format: varints, length-delimited values, the skipping of unknown fields and
  the loop over the fields of a message, as the generated \<open>Unmarshal\<close> and \<open>skip\<close> functions do.
\<close>

unbundle bit_operations_syntax

section \<open>Varints\<close>

text \<open>
  The loop \<open>for shift := uint(0); ; shift += 7\<close> around a varint: at most ten bytes, each
  contributing seven bits; bits beyond the 64th are shifted out. The result is the 64 bits,
  which the code reads as \<open>uint64\<close>, \<open>int64\<close> or \<open>int\<close>.
\<close>

function readVarint :: "bytes \<Rightarrow> nat \<Rightarrow> u64 \<Rightarrow> int \<Rightarrow> error + (u64 \<times> int)" where
  "readVarint dAtA shift v iNdEx =
     (if shift \<ge> 64 then Inl ErrIntOverflow
      else if iNdEx \<ge> int (length dAtA) then Inl io_ErrUnexpectedEOF
      else
        (let b = dAtA ! nat iNdEx; v' = v OR push_bit shift (ucast (b AND 0x7F)) in
         if b < 0x80 then Inr (v', iNdEx + 1) else readVarint dAtA (shift + 7) v' (iNdEx + 1)))"
  by pat_completeness auto
termination by (relation "measure (\<lambda>(d, shift, v, i). 64 - shift)") auto

declare readVarint.simps [simp del]

definition read_varint :: "bytes \<Rightarrow> int \<Rightarrow> error + (u64 \<times> int)" where
  "read_varint dAtA iNdEx = readVarint dAtA 0 0 iNdEx"

lemma readVarint_progress:
  "readVarint d shift v i = Inr (w, j) \<Longrightarrow> i < j \<and> j \<le> int (length d)"
proof (induction d shift v i rule: readVarint.induct)
  case (1 d shift v i)
  show ?case
  proof (cases "shift \<ge> 64 \<or> i \<ge> int (length d)")
    case True
    with 1(2) show ?thesis by (subst (asm) readVarint.simps) (auto split: if_splits)
  next
    case False
    with 1 show ?thesis
      by (subst (asm) (2) readVarint.simps) (fastforce simp: Let_def split: if_splits)
  qed
qed

lemmas read_varint_progress = readVarint_progress [where shift = 0 and v = 0, folded read_varint_def]

text \<open>Reading what was written.\<close>

lemma small_byte: "n < 256 \<Longrightarrow> unat (of_nat n :: byte) = n"
  by (simp add: unat_of_nat)

lemma or_shifted:
  assumes "unat v < 2 ^ shift" and "shift < 64"
  shows "(v :: u64) OR push_bit shift w = v + push_bit shift w"
proof -
  have "take_bit shift v = v"
    using assms(1) by (simp only: word_unat_eq_iff unsigned_take_bit_eq take_bit_nat_eq_self)
  then have "v AND push_bit shift w = 0"
    by (metis (no_types, lifting) bit_and_iff bit_push_bit_iff bit_take_bit_iff bit_word_eqI not_le zero_and_eq bit_0_eq bot_apply bot_bool_def)
  then show ?thesis by (rule disjunctive_add_eq_or [symmetric])
qed

lemma seven_bits:
  fixes b :: byte
  shows "unat (push_bit shift (ucast (b AND 0x7F) :: u64)) = (unat b mod 128 * 2 ^ shift) mod 2 ^ 64"
proof -
  have "b AND 0x7F = take_bit 7 b" by (simp add: take_bit_eq_mask mask_eq_exp_minus_1)
  then have "unat (b AND 0x7F) = unat b mod 128" by (simp add: unsigned_take_bit_eq take_bit_eq_mod unat_mod)
  moreover have "unat (ucast (b AND 0x7F) :: u64) = unat (b AND 0x7F)"
    by (simp add: unsigned_ucast_eq take_bit_nat_eq_self less_trans [OF unsigned_less])
  moreover have "unat (push_bit shift w) = take_bit 64 (push_bit shift (unat w))" for w :: u64
    by (subst unsigned_push_bit_eq) simp
  ultimately show ?thesis
    by (simp only: push_bit_eq_mult take_bit_eq_mod)
qed

lemma unat_add_of_nat: "unat ((v :: u64) + of_nat k) \<le> unat v + k"
  by (simp add: unat_word_ariths unat_of_nat mod_simps)

text \<open>A group of seven bits and the groups above it, at their places in 64 bits.\<close>

lemma varint_room:
  assumes "n * 2 ^ shift < (2 :: nat) ^ 64" and "\<not> n < 128"
  shows "shift + 7 < 64"
proof (rule ccontr)
  assume "\<not> shift + 7 < 64"
  then have "57 \<le> shift" by simp
  then have "(2::nat) ^ 57 \<le> 2 ^ shift" by (rule power_increasing) simp
  then have "128 * 2 ^ 57 \<le> n * 2 ^ shift" using assms(2) by (intro mult_le_mono) auto
  with assms(1) show False by simp
qed

lemma varint_groups:
  "n mod 128 * 2 ^ shift + n div 128 * 2 ^ (shift + 7) = (n :: nat) * 2 ^ shift"
proof -
  have "n * 2 ^ shift = (n mod 128 + n div 128 * 128) * 2 ^ shift"
    by (simp only: mod_div_mult_eq)
  also have "\<dots> = n mod 128 * 2 ^ shift + n div 128 * 2 ^ (shift + 7)"
    by (simp only: distrib_right power_add) simp
  finally show ?thesis by (rule sym)
qed

lemma varint_grown:
  assumes "unat (v :: u64) < 2 ^ shift"
  shows "unat (v + of_nat (n mod 128 * 2 ^ shift)) < 2 ^ (shift + 7)"
proof -
  have pow: "(2 :: nat) ^ (shift + 7) = 128 * 2 ^ shift" by (simp add: power_add)
  have "n mod 128 * 2 ^ shift \<le> 127 * 2 ^ shift" by (intro mult_le_mono1) simp
  then have "unat v + n mod 128 * 2 ^ shift < 2 ^ (shift + 7)"
    using assms pow by linarith
  moreover have "unat (v + of_nat (n mod 128 * 2 ^ shift)) \<le> unat v + n mod 128 * 2 ^ shift"
    by (rule unat_add_of_nat)
  ultimately show ?thesis by simp
qed

lemma readVarint_varint:
  "n * 2 ^ shift < 2 ^ 64 \<Longrightarrow> unat v < 2 ^ shift \<Longrightarrow> shift < 64 \<Longrightarrow>
     readVarint (pre @ varint n @ post) shift v (int (length pre)) =
       Inr (v + of_nat (n * 2 ^ shift), int (length pre + length (varint n)))"
proof (induction n arbitrary: pre shift v rule: varint.induct)
  case (1 n)
  define b :: byte where "b = (if n < 128 then of_nat n else of_nat (n mod 128 + 128))"
  have b: "unat b = (if n < 128 then n else n mod 128 + 128)"
    using small_byte [of n] small_byte [of "n mod 128 + 128"] by (simp add: b_def del: of_nat_add)
  define v' where "v' = v OR push_bit shift (ucast (b AND 0x7F))"
  have mod128: "unat b mod 128 = n mod 128" by (simp add: b)
  have le: "n mod 128 * 2 ^ shift \<le> n * 2 ^ shift" by simp
  then have small: "n mod 128 * 2 ^ shift < 2 ^ 64" using 1(2) by linarith
  have "push_bit shift (ucast (b AND 0x7F) :: u64) = of_nat (n mod 128 * 2 ^ shift)"
    using small by (simp only: word_unat_eq_iff seven_bits mod128 unat_of_nat) simp
  then have v': "v' = v + of_nat (n mod 128 * 2 ^ shift)"
    unfolding v'_def by (subst or_shifted [OF 1(3,4)]) (simp only:)
  show ?case
  proof (cases "n < 128")
    case True
    then have "varint n = [b]" "b < 0x80" using b by (simp_all add: varint.simps b_def word_less_nat_alt)
    with True 1(4) v' show ?thesis
      by (subst readVarint.simps) (simp add: Let_def nth_append v'_def)
  next
    case False
    then have vn: "varint n = b # varint (n div 128)" by (subst varint.simps) (simp add: b_def)
    have nb: "\<not> b < 0x80" using b False by (simp add: word_less_nat_alt)
    note shift = varint_room [OF 1(2) False] and sum = varint_groups [of n shift]
    have step: "n div 128 * 2 ^ (shift + 7) \<le> n * 2 ^ shift"
      by (simp add: power_add)
    have "unat v' < 2 ^ (shift + 7)"
      unfolding v' by (rule varint_grown [OF 1(3)])
    then have "readVarint ((pre @ [b]) @ varint (n div 128) @ post) (shift + 7) v' (int (length (pre @ [b]))) =
        Inr (v' + of_nat (n div 128 * 2 ^ (shift + 7)), int (length (pre @ [b]) + length (varint (n div 128))))"
      using step 1(2) shift by (intro 1(1) [OF False]) linarith+
    moreover have "v' + of_nat (n div 128 * 2 ^ (shift + 7)) = v + of_nat (n * 2 ^ shift)"
      unfolding v' sum [symmetric] by (simp only: of_nat_add add.assoc)
    ultimately show ?thesis
      using 1(4) nb by (subst readVarint.simps) (simp add: Let_def nth_append vn v'_def add.commute)
  qed
qed

lemma read_varint_written:
  "read_varint (pre @ varint (unat v) @ post) (int (length pre)) =
     Inr (v, int (length pre + length (varint (unat v))))"
  using readVarint_varint [of "unat v" 0 0 pre post] unsigned_less [of v]
  by (simp add: read_varint_def)

section \<open>Length-delimited values\<close>

text \<open>
  The length, as an \<open>int\<close>, and the index after the value, with the checks of the generated
  code: a negative length, an index that wraps around, and an index past the end.
\<close>

definition read_length :: "bytes \<Rightarrow> int \<Rightarrow> error + (int \<times> int)" where
  "read_length dAtA iNdEx =
     (case read_varint dAtA iNdEx of
        Inl e \<Rightarrow> Inl e
      | Inr (len, iNdEx) \<Rightarrow>
          (if sint len < 0 then Inl ErrInvalidLength
           else let postIndex = add_int iNdEx (sint len) in
             if postIndex < 0 then Inl ErrInvalidLength
             else if postIndex > int (length dAtA) then Inl io_ErrUnexpectedEOF
             else Inr (iNdEx, postIndex)))"

definition slice :: "bytes \<Rightarrow> int \<Rightarrow> int \<Rightarrow> bytes" where
  "slice dAtA i j = take (nat (j - i)) (drop (nat i) dAtA)"

definition read_bytes :: "bytes \<Rightarrow> int \<Rightarrow> error + (bytes \<times> int)" where
  "read_bytes dAtA iNdEx =
     (case read_length dAtA iNdEx of
        Inl e \<Rightarrow> Inl e
      | Inr (iNdEx, postIndex) \<Rightarrow> Inr (slice dAtA iNdEx postIndex, postIndex))"

text \<open>A Go string holds arbitrary bytes.\<close>

definition str_bytes :: "string \<Rightarrow> bytes" where
  "str_bytes s = map (\<lambda>ch. of_nat (of_char ch)) s"

definition bytes_str :: "bytes \<Rightarrow> string" where
  "bytes_str b = map (\<lambda>w. char_of (unat w)) b"

lemma bytes_str_bytes [simp]: "bytes_str (str_bytes s) = s"
  by (induction s) (simp_all add: bytes_str_def str_bytes_def unat_of_nat)

lemma length_str_bytes [simp]: "length (str_bytes s) = length s"
  by (simp add: str_bytes_def)

definition delimited :: "bytes \<Rightarrow> bytes" where
  "delimited b = varint (length b) @ b"

lemma delimited_ne [simp]: "delimited b \<noteq> []"
  by (simp add: delimited_def)

lemma length_read:
  assumes "length b < 2 ^ 63"
  shows "unat (of_nat (length b) :: u64) = length b" and "sint (of_nat (length b) :: u64) = int (length b)"
proof -
  show u: "unat (of_nat (length b) :: u64) = length b"
    using assms by (simp add: unat_of_nat)
  have "sint (word_of_int (int (length b)) :: u64) = int (length b)"
    using assms int_word_sint [of "int (length b)", where ?'a = 64] by simp
  then show "sint (of_nat (length b) :: u64) = int (length b)"
    by simp
qed

lemma read_length_written:
  assumes "length (pre @ delimited b @ post) < 2 ^ 63"
  shows "read_length (pre @ delimited b @ post) (int (length pre)) =
    Inr (int (length pre + length (varint (length b))), int (length (pre @ delimited b)))"
proof -
  have len: "length b < 2 ^ 63" using assms by (simp add: delimited_def)
  note n = length_read [OF len]
  have "read_varint (pre @ varint (length b) @ b @ post) (int (length pre)) =
      Inr (of_nat (length b), int (length pre + length (varint (length b))))"
    using read_varint_written [of pre "of_nat (length b)" "b @ post"] n(1) by simp
  moreover have "add_int (int (length pre + length (varint (length b)))) (int (length b)) =
      int (length (pre @ delimited b))"
    using assms by (subst add_int_exact) (simp_all add: delimited_def)
  ultimately show ?thesis
    using n(2) by (simp add: read_length_def delimited_def Let_def)
qed

lemma read_bytes_written:
  assumes "length (pre @ delimited b @ post) < 2 ^ 63"
  shows "read_bytes (pre @ delimited b @ post) (int (length pre)) = Inr (b, int (length (pre @ delimited b)))"
  using read_length_written [OF assms] by (simp add: read_bytes_def slice_def delimited_def)

lemma read_length_progress:
  "read_length d i = Inr (j, k) \<Longrightarrow> i < j \<and> j \<le> int (length d) \<and> k \<le> int (length d) \<and> (int (length d) < 2 ^ 63 \<and> 0 \<le> i \<longrightarrow> j \<le> k)"
proof -
  assume r: "read_length d i = Inr (j, k)"
  then obtain len where v: "read_varint d i = Inr (len, j)" and s: "0 \<le> sint len" and k: "k = add_int j (sint len)"
    and b: "0 \<le> k" "k \<le> int (length d)"
    by (auto simp: read_length_def Let_def split: sum.splits prod.splits if_splits)
  have p: "i < j" "j \<le> int (length d)" using read_varint_progress [OF v] by auto
  have "j \<le> k" if "int (length d) < 2 ^ 63" "0 \<le> i"
  proof (cases "j + sint len < 2 ^ 63")
    case True
    then have "k = j + sint len" using k s p that by (simp add: add_int_exact)
    then show ?thesis using s by simp
  next
    case False
    have "sint len < 2 ^ 63" using sint_lt [of len] by simp
    with False p that have "2 ^ 64 \<le> j + sint len + 2 ^ 63" "j + sint len + 2 ^ 63 - 2 ^ 64 < 2 ^ 64"
      by auto
    then have "(j + sint len + 2 ^ 63) mod 2 ^ 64 = j + sint len + 2 ^ 63 - 2 ^ 64"
      by (subst mod_pos_geq) auto
    then have "sint (word_of_int (j + sint len) :: i64) = j + sint len - 2 ^ 64"
      using int_word_sint [of "j + sint len", where ?'a = 64] by simp
    with k b(1) p that \<open>sint len < 2 ^ 63\<close> show ?thesis by (simp add: add_int_def)
  qed
  with p b show ?thesis by auto
qed

end
