(* ===== verification/Message.thy ===== *)
theory Message
  imports WireRead
begin

text \<open>
  Messages: the loop over the fields of the generated \<open>Unmarshal\<close>, the skipping of unknown
  fields, the generated \<open>Marshal\<close>, and the locale \<open>msg_codec\<close> with what a message codec
  promises. The two loops take fuel (\<open>OutOfFuel\<close> is a loop that would not return); the length of
  the input plus one is enough, as \<open>proto_skip_total\<close> and \<open>message_loop_total\<close> show.
\<close>

unbundle bit_operations_syntax

datatype 'a rd = Got 'a | Failed error | OutOfFuel

fun rd_of :: "error + 'a \<Rightarrow> 'a rd" where
  "rd_of (Inl e) = Failed e"
| "rd_of (Inr a) = Got a"

fun rd_bind :: "'a rd \<Rightarrow> ('a \<Rightarrow> 'b rd) \<Rightarrow> 'b rd" where
  "rd_bind (Got a) f = f a"
| "rd_bind (Failed e) f = Failed e"
| "rd_bind OutOfFuel f = OutOfFuel"

definition Sprint_int :: "int \<Rightarrow> string" where
  "Sprint_int n = (if n < 0 then ''-'' @ show_nat (nat (- n)) else show_nat (nat n))"

section \<open>Skipping\<close>

text \<open>One round of \<open>skip\<close>: a tag and what belongs to it; the index and the depth of groups after it.\<close>

definition skip_step :: "bytes \<Rightarrow> int \<Rightarrow> nat \<Rightarrow> error + (int \<times> nat)" where
  "skip_step dAtA iNdEx depth =
     (case read_varint dAtA iNdEx of
        Inl e \<Rightarrow> Inl e
      | Inr (wire, iNdEx) \<Rightarrow>
          (let wireType = unat (wire AND 0x7) in
           case (if wireType = 0 then
                   (case read_varint dAtA iNdEx of Inl e \<Rightarrow> Inl e | Inr (_, j) \<Rightarrow> Inr (j, depth))
                 else if wireType = 1 then Inr (add_int iNdEx 8, depth)
                 else if wireType = 2 then
                   (case read_varint dAtA iNdEx of
                      Inl e \<Rightarrow> Inl e
                    | Inr (len, j) \<Rightarrow>
                        if sint len < 0 then Inl ErrInvalidLength else Inr (add_int j (sint len), depth))
                 else if wireType = 3 then Inr (iNdEx, depth + 1)
                 else if wireType = 4 then
                   (if depth = 0 then Inl ErrUnexpectedEndOfGroup else Inr (iNdEx, depth - 1))
                 else if wireType = 5 then Inr (add_int iNdEx 4, depth)
                 else Inl (Errorf (''proto: illegal wireType '' @ show_nat wireType))) of
             Inl e \<Rightarrow> Inl e
           | Inr (j, depth) \<Rightarrow> if j < 0 then Inl ErrInvalidLength else Inr (j, depth)))"

fun skip_loop :: "nat \<Rightarrow> bytes \<Rightarrow> int \<Rightarrow> nat \<Rightarrow> int rd" where
  "skip_loop 0 dAtA iNdEx depth = OutOfFuel"
| "skip_loop (Suc fuel) dAtA iNdEx depth =
     (if iNdEx < int (length dAtA) then
        (case skip_step dAtA iNdEx depth of
           Inl e \<Rightarrow> Failed e
         | Inr (j, depth) \<Rightarrow> if depth = 0 then Got j else skip_loop fuel dAtA j depth)
      else Failed io_ErrUnexpectedEOF)"

definition proto_skip :: "bytes \<Rightarrow> int rd" where
  "proto_skip dAtA = skip_loop (Suc (length dAtA)) dAtA 0 0"

lemma add_int_ge:
  assumes "0 \<le> i" "i < 2 ^ 63" "0 \<le> k" "k < 2 ^ 63" "0 \<le> add_int i k"
  shows "add_int i k = i + k"
proof (cases "i + k < 2 ^ 63")
  case True
  then show ?thesis using assms by (intro add_int_exact) auto
next
  case False
  then have "(i + k + 2 ^ 63) mod 2 ^ 64 = i + k + 2 ^ 63 - 2 ^ 64"
    using assms by (subst mod_pos_geq) auto
  then have "add_int i k = i + k - 2 ^ 64"
    using int_word_sint [of "i + k", where ?'a = 64] by (simp add: add_int_def)
  with assms show ?thesis by simp
qed

lemma add_int_less: "add_int i k < 2 ^ 63"
  using sint_lt [of "word_of_int (i + k) :: i64"] by (simp add: add_int_def)

lemma skip_step_progress:
  assumes "skip_step d i depth = Inr (j, depth')" and "0 \<le> i" and "int (length d) < 2 ^ 63"
  shows "i < j \<and> j < 2 ^ 63"
proof -
  obtain wire k where w: "read_varint d i = Inr (wire, k)"
    using assms(1) by (auto simp: skip_step_def split: sum.splits)
  have k: "i < k" "k < 2 ^ 63" using read_varint_progress [OF w] assms(3) by auto
  have "k \<le> j \<and> j < 2 ^ 63"
  proof -
    consider "j = k" | v where "read_varint d k = Inr (v, j)" | "j = add_int k 8" "0 \<le> j" | "j = add_int k 4" "0 \<le> j"
      | len m where "read_varint d k = Inr (len, m)" "0 \<le> sint len" "j = add_int m (sint len)" "0 \<le> j"
      using assms(1) by (auto simp: skip_step_def w Let_def split: sum.splits prod.splits if_splits)
    then show ?thesis
    proof cases
      case 1
      then show ?thesis using k by simp
    next
      case (2 v)
      then show ?thesis using read_varint_progress [OF 2] assms(3) by simp
    next
      case 3
      then show ?thesis using add_int_ge [of k 8] add_int_less [of k 8] k assms(2) by simp
    next
      case 4
      then show ?thesis using add_int_ge [of k 4] add_int_less [of k 4] k assms(2) by simp
    next
      case (5 len m)
      have "k < m" "m < 2 ^ 63" using read_varint_progress [OF 5(1)] assms(3) by auto
      then show ?thesis using add_int_ge [of m "sint len"] 5 k assms(2) sint_lt [of len]
          add_int_less [of m "sint len"] by simp
    qed
  qed
  with k show ?thesis by simp
qed

lemma skip_loop_total:
  "int (length d) < 2 ^ 63 \<Longrightarrow> 0 \<le> i \<Longrightarrow> int (length d) - i < int fuel \<Longrightarrow> 0 < fuel \<Longrightarrow>
     skip_loop fuel d i depth \<noteq> OutOfFuel \<and> (\<forall>j. skip_loop fuel d i depth = Got j \<longrightarrow> i < j \<and> j < 2 ^ 63)"
proof (induction fuel arbitrary: i depth)
  case (Suc fuel)
  show ?case
  proof (cases "i < int (length d)")
    case True
    show ?thesis
    proof (cases "skip_step d i depth")
      case (Inr jd)
      obtain j dp where jd: "jd = (j, dp)" by (cases jd)
      have "i < j" "j < 2 ^ 63" using skip_step_progress [OF Inr [unfolded jd]] Suc.prems by auto
      moreover have "skip_loop fuel d j dp \<noteq> OutOfFuel \<and> (\<forall>k. skip_loop fuel d j dp = Got k \<longrightarrow> j < k \<and> k < 2 ^ 63)"
        using \<open>i < j\<close> True Suc.prems by (intro Suc.IH) auto
      ultimately show ?thesis using True Inr jd by auto
    qed (simp add: True)
  qed simp
qed simp

lemma proto_skip_total:
  "length d < 2 ^ 63 \<Longrightarrow> proto_skip d \<noteq> OutOfFuel \<and> (\<forall>j. proto_skip d = Got j \<longrightarrow> 0 < j \<and> j < 2 ^ 63)"
  using skip_loop_total [of d 0 "Suc (length d)" 0] unfolding proto_skip_def by simp

section \<open>Fields\<close>

text \<open>
  What a case of the \<open>switch fieldNum\<close> does, by the kind of field: the check of the wire type, then
  the value.
\<close>

definition wrong_wireType :: "nat \<Rightarrow> string \<Rightarrow> error" where
  "wrong_wireType wireType fname = Errorf (''proto: wrong wireType = '' @ show_nat wireType @ '' for field '' @ fname)"

definition varint_field :: "string \<Rightarrow> nat \<Rightarrow> bytes \<Rightarrow> int \<Rightarrow> (u64 \<Rightarrow> 'm) \<Rightarrow> ('m \<times> int) rd" where
  "varint_field fname wireType dAtA iNdEx upd =
     (if wireType \<noteq> 0 then Failed (wrong_wireType wireType fname)
      else rd_bind (rd_of (read_varint dAtA iNdEx)) (\<lambda>(v, j). Got (upd v, j)))"

definition string_field :: "string \<Rightarrow> nat \<Rightarrow> bytes \<Rightarrow> int \<Rightarrow> (string \<Rightarrow> 'm) \<Rightarrow> ('m \<times> int) rd" where
  "string_field fname wireType dAtA iNdEx upd =
     (if wireType \<noteq> 2 then Failed (wrong_wireType wireType fname)
      else rd_bind (rd_of (read_bytes dAtA iNdEx)) (\<lambda>(b, j). Got (upd (bytes_str b), j)))"

text \<open>\<open>unmarshal\<close> is the \<open>Unmarshal\<close> of the embedded message on its current value.\<close>

definition msg_field ::
  "string \<Rightarrow> nat \<Rightarrow> bytes \<Rightarrow> int \<Rightarrow> (bytes \<Rightarrow> 'x rd) \<Rightarrow> ('x \<Rightarrow> 'm) \<Rightarrow> ('m \<times> int) rd" where
  "msg_field fname wireType dAtA iNdEx unmarshal upd =
     (if wireType \<noteq> 2 then Failed (wrong_wireType wireType fname)
      else rd_bind (rd_of (read_bytes dAtA iNdEx)) (\<lambda>(b, j). rd_bind (unmarshal b) (\<lambda>x. Got (upd x, j))))"

section \<open>The loop over the fields\<close>

text \<open>
  One round: the tag, its checks, the case of the field if the message has one, else \<open>skip\<close>
  from the start of the tag.
\<close>

definition proto_step ::
  "string \<Rightarrow> (bytes \<Rightarrow> int rd) \<Rightarrow> (int \<Rightarrow> nat \<Rightarrow> bytes \<Rightarrow> 'm \<Rightarrow> int \<Rightarrow> ('m \<times> int) rd option) \<Rightarrow>
   bytes \<Rightarrow> 'm \<Rightarrow> int \<Rightarrow> ('m \<times> int) rd" where
  "proto_step mname skip field dAtA m preIndex =
     rd_bind (rd_of (read_varint dAtA preIndex)) (\<lambda>(wire, iNdEx).
     let fieldNum = sint (ucast (drop_bit 3 wire) :: 32 word); wireType = unat (wire AND 0x7) in
     if wireType = 4 then Failed (Errorf (''proto: '' @ mname @ '': wiretype end group for non-group''))
     else if fieldNum \<le> 0 then
       Failed (Errorf (''proto: '' @ mname @ '': illegal tag '' @ Sprint_int fieldNum @ '' (wire type '' @ Sprint_u64 wire @ '')''))
     else case field fieldNum wireType dAtA m iNdEx of
         Some r \<Rightarrow> r
       | None \<Rightarrow> rd_bind (skip (drop (nat preIndex) dAtA)) (\<lambda>skippy.
           if skippy < 0 \<or> add_int preIndex skippy < 0 then Failed ErrInvalidLength
           else if add_int preIndex skippy > int (length dAtA) then Failed io_ErrUnexpectedEOF
           else Got (m, add_int preIndex skippy)))"

fun message_loop ::
  "nat \<Rightarrow> (bytes \<Rightarrow> 'm \<Rightarrow> int \<Rightarrow> ('m \<times> int) rd) \<Rightarrow> bytes \<Rightarrow> 'm \<Rightarrow> int \<Rightarrow> 'm rd" where
  "message_loop 0 step dAtA m iNdEx = OutOfFuel"
| "message_loop (Suc fuel) step dAtA m iNdEx =
     (if iNdEx < int (length dAtA) then
        rd_bind (step dAtA m iNdEx) (\<lambda>(m', j). message_loop fuel step dAtA m' j)
      else if iNdEx > int (length dAtA) then Failed io_ErrUnexpectedEOF
      else Got m)"

definition proto_unmarshal ::
  "(bytes \<Rightarrow> 'm \<Rightarrow> int \<Rightarrow> ('m \<times> int) rd) \<Rightarrow> 'm \<Rightarrow> bytes \<Rightarrow> 'm rd" where
  "proto_unmarshal step m dAtA = message_loop (Suc (length dAtA)) step dAtA m 0"

text \<open>A step that moves on never runs the loop out of fuel.\<close>

definition moves_on :: "(bytes \<Rightarrow> 'm \<Rightarrow> int \<Rightarrow> ('m \<times> int) rd) \<Rightarrow> bool" where
  "moves_on step \<longleftrightarrow> (\<forall>d m i. length d < 2 ^ 63 \<and> 0 \<le> i \<and> i < int (length d) \<longrightarrow>
     step d m i \<noteq> OutOfFuel \<and> (\<forall>m' j. step d m i = Got (m', j) \<longrightarrow> i < j))"

lemma message_loop_total:
  assumes "moves_on step" and "length d < 2 ^ 63"
  shows "0 \<le> i \<Longrightarrow> int (length d) - i < int fuel \<Longrightarrow> 0 < fuel \<Longrightarrow> message_loop fuel step d m i \<noteq> OutOfFuel"
proof (induction fuel arbitrary: m i)
  case (Suc fuel)
  show ?case
  proof (cases "i < int (length d)")
    case True
    with assms Suc.prems have s: "step d m i \<noteq> OutOfFuel" "\<And>m' j. step d m i = Got (m', j) \<Longrightarrow> i < j"
      unfolding moves_on_def by blast+
    show ?thesis
    proof (cases "step d m i")
      case (Got mj)
      obtain m' j where mj: "mj = (m', j)" by (cases mj)
      with s(2) Got have "i < j" by simp
      then have "message_loop fuel step d m' j \<noteq> OutOfFuel"
        using True Suc.prems by (intro Suc.IH) auto
      with True Got mj show ?thesis by simp
    qed (use True s in auto)
  qed simp
qed simp

lemma proto_unmarshal_total:
  "moves_on step \<Longrightarrow> length d < 2 ^ 63 \<Longrightarrow> proto_unmarshal step m d \<noteq> OutOfFuel"
  unfolding proto_unmarshal_def by (rule message_loop_total) auto

text \<open>The cases of the switch return and do not go back.\<close>

definition moves :: "int \<Rightarrow> ('m \<times> int) rd \<Rightarrow> bool" where
  "moves i r \<longleftrightarrow> r \<noteq> OutOfFuel \<and> (\<forall>m' j. r = Got (m', j) \<longrightarrow> i \<le> j)"

definition fields_move :: "(int \<Rightarrow> nat \<Rightarrow> bytes \<Rightarrow> 'm \<Rightarrow> int \<Rightarrow> ('m \<times> int) rd option) \<Rightarrow> bool" where
  "fields_move field \<longleftrightarrow> (\<forall>n w d m i r. field n w d m i = Some r \<and> length d < 2 ^ 63 \<and> 0 \<le> i \<and> i \<le> int (length d) \<longrightarrow>
     moves i r)"

lemma proto_step_moves_on:
  assumes "fields_move field"
  shows "moves_on (proto_step mname proto_skip field)"
  unfolding moves_on_def
proof (intro allI impI)
  fix d :: bytes and m i
  assume i: "length d < 2 ^ 63 \<and> 0 \<le> i \<and> i < int (length d)"
  show "proto_step mname proto_skip field d m i \<noteq> OutOfFuel \<and>
     (\<forall>m' j. proto_step mname proto_skip field d m i = Got (m', j) \<longrightarrow> i < j)"
  proof (cases "read_varint d i")
    case (Inl e)
    then show ?thesis by (simp add: proto_step_def)
  next
    case (Inr wk)
    obtain wire k where wk: "wk = (wire, k)" by (cases wk)
    have k: "i < k" "k \<le> int (length d)" using read_varint_progress [OF Inr [unfolded wk]] by auto
    let ?f = "sint (ucast (drop_bit 3 wire) :: 32 word)" and ?w = "unat (wire AND 0x7)"
    show ?thesis
    proof (cases "field ?f ?w d m k")
      case (Some r)
      have "r \<noteq> OutOfFuel \<and> (\<forall>m' j. r = Got (m', j) \<longrightarrow> k \<le> j)"
        using assms [unfolded fields_move_def moves_def, rule_format, of ?f ?w d m k r] Some i k by auto
      moreover have "proto_step mname proto_skip field d m i = r \<or> (\<exists>e. proto_step mname proto_skip field d m i = Failed e)"
        using Some Inr wk by (simp add: proto_step_def Let_def)
      ultimately show ?thesis using k by fastforce
    next
      case None
      have skip: "proto_skip (drop (nat i) d) \<noteq> OutOfFuel \<and> (\<forall>j. proto_skip (drop (nat i) d) = Got j \<longrightarrow> 0 < j \<and> j < 2 ^ 63)"
        using i by (intro proto_skip_total) auto
      show ?thesis
      proof (cases "proto_skip (drop (nat i) d)")
        case (Got s)
        have "i < add_int i s" if "0 \<le> add_int i s"
          using add_int_ge [of i s] that skip Got i by auto
        then show ?thesis using None Inr wk Got skip i by (auto simp: proto_step_def Let_def not_less)
      qed (use None Inr wk skip in \<open>auto simp: proto_step_def Let_def\<close>)
    qed
  qed
qed

section \<open>Reading the fields that were written\<close>

definition reads_at :: "(bytes \<Rightarrow> 'm \<Rightarrow> int \<Rightarrow> ('m \<times> int) rd) \<Rightarrow> bytes \<Rightarrow> ('m \<Rightarrow> 'm) \<Rightarrow> 'm \<Rightarrow> bool" where
  "reads_at step bs f m \<longleftrightarrow> bs \<noteq> [] \<and> (\<forall>pre post. length (pre @ bs @ post) < 2 ^ 63 \<longrightarrow>
     step (pre @ bs @ post) m (int (length pre)) = Got (f m, int (length (pre @ bs))))"

text \<open>Every field of a list is read, each from the message read so far.\<close>

fun read_through :: "(bytes \<Rightarrow> 'm \<Rightarrow> int \<Rightarrow> ('m \<times> int) rd) \<Rightarrow> (bytes \<times> ('m \<Rightarrow> 'm)) list \<Rightarrow> 'm \<Rightarrow> bool" where
  "read_through step [] m = True"
| "read_through step ((bs, f) # fs) m = (reads_at step bs f m \<and> read_through step fs (f m))"

lemma read_through_append:
  "read_through step (fs @ gs) m \<longleftrightarrow> read_through step fs m \<and> read_through step gs (fold snd fs m)"
proof (induction fs arbitrary: m)
  case (Cons bf fs)
  then show ?case by (cases bf) simp
qed simp

lemma message_loop_reads:
  "read_through step fs m \<Longrightarrow> length (pre @ concat (map fst fs)) < 2 ^ 63 \<Longrightarrow> length fs < fuel \<Longrightarrow>
     message_loop fuel step (pre @ concat (map fst fs)) m (int (length pre)) = Got (fold snd fs m)"
proof (induction fs arbitrary: pre m fuel)
  case Nil
  then obtain n where "fuel = Suc n" by (cases fuel) auto
  then show ?case by simp
next
  case (Cons bf fs)
  obtain bs f n where bf: "bf = (bs, f)" "fuel = Suc n" using Cons.prems(3) by (cases bf, cases fuel) auto
  have r: "reads_at step bs f m" using Cons.prems(1) bf by simp
  then have ne: "0 < length bs" by (simp add: reads_at_def)
  have "step (pre @ bs @ concat (map fst fs)) m (int (length pre)) = Got (f m, int (length (pre @ bs)))"
    using r [unfolded reads_at_def, THEN conjunct2, rule_format, of pre "concat (map fst fs)"] Cons.prems(2) bf by simp
  moreover have "message_loop n step ((pre @ bs) @ concat (map fst fs)) (f m) (int (length (pre @ bs))) = Got (fold snd fs (f m))"
    using Cons.prems bf by (intro Cons.IH) auto
  ultimately show ?case using bf ne by (cases bs) simp_all
qed

lemma fields_short: "read_through step fs m \<Longrightarrow> length fs \<le> length (concat (map fst fs))"
proof (induction fs arbitrary: m)
  case (Cons bf fs)
  obtain bs f where bf: "bf = (bs, f)" by (cases bf)
  with Cons.prems have "bs \<noteq> []" by (simp add: reads_at_def)
  with Cons.IH [of "f m"] Cons.prems bf show ?case by (cases bs) auto
qed simp

lemma proto_unmarshal_reads:
  assumes "read_through step fs m" and "length (concat (map fst fs)) < 2 ^ 63"
  shows "proto_unmarshal step m (concat (map fst fs)) = Got (fold snd fs m)"
proof -
  have "length fs < Suc (length (concat (map fst fs)))" using fields_short [OF assms(1)] by simp
  from message_loop_reads [OF assms(1), of "[]", OF _ this] assms(2) show ?thesis
    by (simp add: proto_unmarshal_def)
qed

text \<open>The tag byte of a field: the field number above three bits of wire type.\<close>

definition tag_of :: "byte \<Rightarrow> int \<Rightarrow> nat \<Rightarrow> bool" where
  "tag_of k num wt \<longleftrightarrow> unat k < 128 \<and> 0 < num \<and> wt \<noteq> 4 \<and>
     sint (ucast (drop_bit 3 (ucast k :: u64)) :: 32 word) = num \<and> unat ((ucast k :: u64) AND 0x7) = wt"

lemma read_tag: "unat k < 128 \<Longrightarrow> read_varint (pre @ k # post) (int (length pre)) = Inr (ucast k, int (length pre) + 1)"
proof -
  assume k: "unat k < 128"
  have u: "unat (ucast k :: u64) = unat k"
    by (simp add: unsigned_ucast_eq take_bit_nat_eq_self less_trans [OF unsigned_less])
  have "varint (unat k) = [k]" using k by (simp add: varint.simps)
  then show ?thesis using read_varint_written [of pre "ucast k" post] u by simp
qed

lemma reads_fieldI:
  assumes "tag_of k num wt"
    and "\<And>pre post. length (pre @ body @ post) < 2 ^ 63 \<Longrightarrow>
      field num wt (pre @ body @ post) m (int (length pre)) = Some (Got (f m, int (length (pre @ body))))"
  shows "reads_at (proto_step mname skip field) (k # body) f m"
  unfolding reads_at_def
proof (intro conjI allI impI)
  fix pre post
  assume len: "length (pre @ (k # body) @ post) < 2 ^ 63"
  have "field num wt ((pre @ [k]) @ body @ post) m (int (length (pre @ [k]))) =
      Some (Got (f m, int (length ((pre @ [k]) @ body))))"
    by (rule assms(2)) (use len in simp)
  then show "proto_step mname skip field (pre @ (k # body) @ post) m (int (length pre)) =
      Got (f m, int (length (pre @ k # body)))"
    using assms(1) read_tag [of k pre "body @ post"]
    by (simp add: proto_step_def tag_of_def Let_def add.commute)
qed simp

lemma varint_field_reads:
  "varint_field fname 0 (pre @ varint (unat v) @ post) (int (length pre)) upd =
     Got (upd v, int (length (pre @ varint (unat v))))"
  by (simp add: varint_field_def read_varint_written)

lemma string_field_reads:
  "length (pre @ delimited (str_bytes s) @ post) < 2 ^ 63 \<Longrightarrow>
   string_field fname 2 (pre @ delimited (str_bytes s) @ post) (int (length pre)) upd =
     Got (upd s, int (length (pre @ delimited (str_bytes s))))"
  by (simp add: string_field_def read_bytes_written)

lemma msg_field_reads:
  "length (pre @ delimited b @ post) < 2 ^ 63 \<Longrightarrow> unmarshal b = Got x \<Longrightarrow>
   msg_field fname 2 (pre @ delimited b @ post) (int (length pre)) unmarshal upd =
     Got (upd x, int (length (pre @ delimited b)))"
  by (simp add: msg_field_def read_bytes_written)

text \<open>The cases move on within the input.\<close>

lemma read_bytes_progress:
  "read_bytes d i = Inr (b, j) \<Longrightarrow> length d < 2 ^ 63 \<Longrightarrow> 0 \<le> i \<Longrightarrow> i \<le> j \<and> length b \<le> length d"
  by (auto simp: read_bytes_def slice_def split: sum.splits prod.splits dest!: read_length_progress)

lemma varint_field_moves:
  "moves i (varint_field fname w d i upd)"
proof (cases "read_varint d i")
  case (Inr vj)
  then show ?thesis using read_varint_progress [of d i "fst vj" "snd vj"]
    by (cases vj) (auto simp: varint_field_def moves_def)
qed (auto simp: varint_field_def moves_def)

lemma string_field_moves:
  assumes "length d < 2 ^ 63" "0 \<le> i"
  shows "moves i (string_field fname w d i upd)"
proof (cases "read_bytes d i")
  case (Inr vj)
  then show ?thesis using read_bytes_progress [of d i "fst vj" "snd vj"] assms
    by (cases vj) (auto simp: string_field_def moves_def)
qed (auto simp: string_field_def moves_def)

lemma msg_field_moves:
  assumes "length d < 2 ^ 63" "0 \<le> i" and "\<And>b. length b < 2 ^ 63 \<Longrightarrow> unmarshal b \<noteq> OutOfFuel"
  shows "moves i (msg_field fname w d i unmarshal upd)"
proof (cases "read_bytes d i")
  case (Inr vj)
  obtain b j where vj: "vj = (b, j)" by (cases vj)
  have p: "i \<le> j" "length b < 2 ^ 63" using read_bytes_progress [OF Inr [unfolded vj] assms(1,2)] assms(1) by auto
  then show ?thesis using Inr vj assms(3) [of b]
    by (cases "unmarshal b") (auto simp: msg_field_def moves_def)
qed (auto simp: msg_field_def moves_def)

lemmas field_moves = varint_field_moves string_field_moves msg_field_moves

section \<open>Message codecs\<close>

text \<open>\<open>MarshalToSizedBuffer\<close>: from the end of the buffer; the number of bytes written.\<close>

definition to_sized_buffer :: "bufop \<Rightarrow> bytes \<Rightarrow> (bytes \<times> nat) res" where
  "to_sized_buffer f dAtA = (case f (dAtA, int (length dAtA)) of
     Ok (d, i) \<Rightarrow> Ok (d, nat (int (length d) - i)) | Err e \<Rightarrow> Err e | Panic t \<Rightarrow> Panic t)"

text \<open>\<open>Marshal\<close>: a zeroed buffer of \<open>Size()\<close> bytes, filled; \<open>dAtA[:n]\<close> of it.\<close>

definition proto_marshal :: "('m \<Rightarrow> nat) \<Rightarrow> ('m \<Rightarrow> bytes \<Rightarrow> (bytes \<times> nat) res) \<Rightarrow> 'm \<Rightarrow> bytes res" where
  "proto_marshal msize marshal m = (case marshal m (replicate (msize m) 0) of
     Ok (d, n) \<Rightarrow> Ok (take n d) | Err e \<Rightarrow> Err e | Panic t \<Rightarrow> Panic t)"

lemma to_sized_buffer_writes:
  "writes f bs \<Longrightarrow> length gap = length bs \<Longrightarrow> to_sized_buffer f (pre @ gap) = Ok (pre @ bs, length bs)"
  using writesD [of f bs gap pre "[]"] by (simp add: to_sized_buffer_def)

locale msg_codec =
  fixes enc :: "'m \<Rightarrow> bytes"
    and good :: "'m \<Rightarrow> bool"
    and msize :: "'m \<Rightarrow> nat"
    and marshal :: "'m \<Rightarrow> bytes \<Rightarrow> (bytes \<times> nat) res"
    and unmarshal :: "'m \<Rightarrow> bytes \<Rightarrow> 'm rd"
    and zero :: 'm
  assumes msize: "good m \<Longrightarrow> msize m = length (enc m)"
    and marshal: "good m \<Longrightarrow> length gap = length (enc m) \<Longrightarrow> marshal m (pre @ gap) = Ok (pre @ enc m, length (enc m))"
    and unmarshal: "good m \<Longrightarrow> length (enc m) < 2 ^ 63 \<Longrightarrow> unmarshal zero (enc m) = Got m"
    and total: "length d < 2 ^ 63 \<Longrightarrow> unmarshal m d \<noteq> OutOfFuel"
begin

lemma marshal_enc: "good m \<Longrightarrow> proto_marshal msize marshal m = Ok (enc m)"
  using marshal [of m "replicate (msize m) 0" "[]"] by (simp add: proto_marshal_def msize)

lemma roundtrip:
  "good m \<Longrightarrow> length (enc m) < 2 ^ 63 \<Longrightarrow>
     proto_marshal msize marshal m = Ok (enc m) \<and> length (enc m) = msize m \<and> unmarshal zero (enc m) = Got m"
  by (simp add: marshal_enc msize unmarshal)

lemma enc_inj: "good m \<Longrightarrow> good m' \<Longrightarrow> length (enc m) < 2 ^ 63 \<Longrightarrow> enc m = enc m' \<Longrightarrow> m = m'"
  by (metis rd.inject(1) unmarshal)

text \<open>Embedded in another message.\<close>

lemma writes_msg:
  assumes "good m" and "length (enc m) < 2 ^ 64"
  shows "writes (put_msg (marshal m)) (delimited (enc m))"
  unfolding writes_def
proof (intro allI impI)
  fix pre gap post :: bytes
  assume len: "length gap = length (delimited (enc m))"
  define gv gm where "gv = take (length (varint (length (enc m)))) gap" and "gm = drop (length (varint (length (enc m)))) gap"
  have gap: "gap = gv @ gm" "length gv = length (varint (length (enc m)))" "length gm = length (enc m)"
    using len by (simp_all add: gv_def gm_def delimited_def)
  have u: "unat (of_nat (length (enc m)) :: u64) = length (enc m)"
    using assms(2) by (simp add: unat_of_nat)
  have "put_varint (of_nat (length (enc m))) (pre @ gv @ enc m @ post, int (length pre + length gv)) =
      Ok (pre @ varint (length (enc m)) @ enc m @ post, int (length pre))"
    using writesD [OF writes_varint [of "of_nat (length (enc m))"], of gv pre "enc m @ post"] gap(2) u by simp
  then show "put_msg (marshal m) (pre @ gap @ post, int (length pre + length gap)) =
      Ok (pre @ delimited (enc m) @ post, int (length pre))"
    using marshal [OF assms(1) gap(3), of "pre @ gv"] by (simp add: put_msg_def gap delimited_def)
qed

end

end
