(* ===== verification/Codec.thy ===== *)
theory Codec
  imports Message Types
begin

text \<open>
  The codecs of what the module stores: \<open>Params\<close> (\<open>params.pb.go\<close>), \<open>Record\<close> (\<open>record.pb.go\<close>) and
  \<open>Pending\<close> (\<open>pending.pb.go\<close>). For each message: \<open>MarshalToSizedBuffer\<close>, \<open>Size\<close>, \<open>Marshal\<close>, the
  switch over the fields and \<open>Unmarshal\<close>, and the interpretation of \<open>msg_codec\<close>, whose facts are
  that \<open>Size\<close> is exact, that \<open>Marshal\<close> fills exactly its buffer, that \<open>Unmarshal\<close> reads back what
  was written and that it always returns. The fields of a message, in the order they are
  written, and what reading each does, are the functions \<open>_fields\<close>. The codec of \<open>sdk.Coin\<close>,
  which \<open>Pending\<close> embeds, is a parameter.
\<close>

unbundle bit_operations_syntax

section \<open>Kinds of fields\<close>

definition put_uint :: "byte \<Rightarrow> u64 \<Rightarrow> bufop" where
  "put_uint k v = put_when (v \<noteq> 0) [put_varint v, put_byte k]"

definition put_string :: "byte \<Rightarrow> string \<Rightarrow> bufop" where
  "put_string k s = put_when (0 < length s) [put_copy (str_bytes s), put_varint (of_nat (length s)), put_byte k]"

text \<open>A boolean that is written only when true, and then as the byte 1.\<close>

definition put_bool :: "byte \<Rightarrow> bool \<Rightarrow> bufop" where
  "put_bool k b = put_when b [put_byte (if b then 1 else 0), put_byte k]"

definition put_sub :: "byte \<Rightarrow> (bytes \<Rightarrow> (bytes \<times> nat) res) \<Rightarrow> bufop" where
  "put_sub k marshal = ops [put_msg marshal, put_byte k]"

text \<open>The same fields as byte strings, with the effect of reading them.\<close>

type_synonym 'm fields = "(bytes \<times> ('m \<Rightarrow> 'm)) list"

definition uint_f :: "byte \<Rightarrow> u64 \<Rightarrow> ('m \<Rightarrow> 'm) \<Rightarrow> 'm fields" where
  "uint_f k v f = (if v \<noteq> 0 then [(k # varint (unat v), f)] else [])"

definition string_f :: "byte \<Rightarrow> string \<Rightarrow> ('m \<Rightarrow> 'm) \<Rightarrow> 'm fields" where
  "string_f k s f = (if 0 < length s then [(k # delimited (str_bytes s), f)] else [])"

definition bool_f :: "byte \<Rightarrow> bool \<Rightarrow> ('m \<Rightarrow> 'm) \<Rightarrow> 'm fields" where
  "bool_f k b f = (if b then [([k, 1], f)] else [])"

definition sub_f :: "byte \<Rightarrow> bytes \<Rightarrow> ('m \<Rightarrow> 'm) \<Rightarrow> 'm fields" where
  "sub_f k e f = [(k # delimited e, f)]"

definition enc_of :: "'m fields \<Rightarrow> bytes" where
  "enc_of fs = concat (map fst fs)"

lemma enc_of_append [simp]: "enc_of (fs @ gs) = enc_of fs @ enc_of gs"
  by (simp add: enc_of_def)

lemma enc_of_Nil [simp]: "enc_of [] = []"
  by (simp add: enc_of_def)

lemmas field_defs = uint_f_def string_f_def bool_f_def sub_f_def

section \<open>Writing a field\<close>

lemma writes_eq: "writes f bs \<Longrightarrow> bs = bs' \<Longrightarrow> writes f bs'"
  by simp

lemma writes_uint: "writes (put_uint k v) (enc_of (uint_f k v f))"
  unfolding put_uint_def
  by (rule writes_eq, rule writes_when, (rule writes_ops_Cons writes_varint writes_byte writes_ops_Nil)+)
    (simp add: uint_f_def enc_of_def)

lemma writes_bool: "writes (put_bool k b) (enc_of (bool_f k b f))"
  unfolding put_bool_def
  by (rule writes_eq, rule writes_when, (rule writes_ops_Cons writes_byte writes_ops_Nil)+)
    (simp add: bool_f_def enc_of_def)

lemma writes_length: "n < 2 ^ 64 \<Longrightarrow> writes (put_varint (of_nat n)) (varint n)"
  by (rule writes_eq, rule writes_varint) (simp add: unat_of_nat)

lemma writes_string: "length s < 2 ^ 64 \<Longrightarrow> writes (put_string k s) (enc_of (string_f k s f))"
  unfolding put_string_def
  by (rule writes_eq, rule writes_when,
      (rule writes_ops_Cons writes_copy writes_length writes_byte writes_ops_Nil | assumption)+)
    (simp add: string_f_def enc_of_def delimited_def)

lemma writes_sub: "writes (put_msg marshal) (delimited e) \<Longrightarrow> writes (put_sub k marshal) (enc_of (sub_f k e f))"
  unfolding put_sub_def
  by (rule writes_eq, (rule writes_ops_Cons writes_byte writes_ops_Nil | assumption)+)
    (simp add: sub_f_def enc_of_def)

lemma writes_last: "writes f a \<Longrightarrow> writes (ops [f]) a"
  by (rule writes_eq, (rule writes_ops_Cons writes_ops_Nil | assumption)+) simp

section \<open>Reading a field\<close>

lemma read_uint: "reads_at step (k # varint (unat v)) f m \<Longrightarrow> read_through step (uint_f k v f) m"
  by (simp add: uint_f_def)

lemma read_string: "reads_at step (k # delimited (str_bytes s)) f m \<Longrightarrow> read_through step (string_f k s f) m"
  by (simp add: string_f_def)

lemma read_bool: "reads_at step (k # varint (unat (1 :: u64))) f m \<Longrightarrow> read_through step (bool_f k b f) m"
  by (simp add: bool_f_def varint.simps)

lemma read_sub: "reads_at step (k # delimited e) f m \<Longrightarrow> read_through step (sub_f k e f) m"
  by (simp add: sub_f_def)

lemma read_append:
  "read_through step fs m \<Longrightarrow> read_through step gs (fold snd fs m) \<Longrightarrow> read_through step (fs @ gs) m"
  by (simp add: read_through_append)

lemmas read_rules = read_append read_uint read_string read_bool read_sub

lemma unmarshal_fields:
  assumes "read_through step fs m" and "length (enc_of fs) < 2 ^ 63"
  shows "proto_unmarshal step m (enc_of fs) = Got (fold snd fs m)"
  using proto_unmarshal_reads [of step fs m] assms by (simp add: enc_of_def)

section \<open>Params\<close>

definition skipParams :: "bytes \<Rightarrow> int rd" where
  "skipParams = proto_skip"

definition sovParams :: "u64 \<Rightarrow> nat" where
  "sovParams = sov"

definition Params_MarshalToSizedBuffer :: "Params \<Rightarrow> bytes \<Rightarrow> (bytes \<times> nat) res" where
  "Params_MarshalToSizedBuffer m = to_sized_buffer (ops
     [put_uint 0x18 (Maxwindow m),
      put_uint 0x10 (Defaultwindow m),
      put_uint 0x8 (Minwindow m)])"

definition Params_Size :: "Params \<Rightarrow> nat" where
  "Params_Size m =
     (if Minwindow m \<noteq> 0 then 1 + sovParams (Minwindow m) else 0) +
     (if Defaultwindow m \<noteq> 0 then 1 + sovParams (Defaultwindow m) else 0) +
     (if Maxwindow m \<noteq> 0 then 1 + sovParams (Maxwindow m) else 0)"

definition Params_Marshal :: "Params \<Rightarrow> bytes res" where
  "Params_Marshal = proto_marshal Params_Size Params_MarshalToSizedBuffer"

definition Params_field :: "int \<Rightarrow> nat \<Rightarrow> bytes \<Rightarrow> Params \<Rightarrow> int \<Rightarrow> (Params \<times> int) rd option" where
  "Params_field fieldNum wireType dAtA m iNdEx =
     (if fieldNum = 1 then Some (varint_field ''Minwindow'' wireType dAtA iNdEx (\<lambda>v. m\<lparr>Minwindow := v\<rparr>))
      else if fieldNum = 2 then Some (varint_field ''Defaultwindow'' wireType dAtA iNdEx (\<lambda>v. m\<lparr>Defaultwindow := v\<rparr>))
      else if fieldNum = 3 then Some (varint_field ''Maxwindow'' wireType dAtA iNdEx (\<lambda>v. m\<lparr>Maxwindow := v\<rparr>))
      else None)"

definition Params_Unmarshal :: "Params \<Rightarrow> bytes \<Rightarrow> Params rd" where
  "Params_Unmarshal = proto_unmarshal (proto_step ''Params'' skipParams Params_field)"

definition Params_zero :: Params where
  "Params_zero = \<lparr>Minwindow = 0, Defaultwindow = 0, Maxwindow = 0\<rparr>"

definition Params_fields :: "Params \<Rightarrow> Params fields" where
  "Params_fields m =
     uint_f 0x8 (Minwindow m) (Minwindow_update (\<lambda>_. Minwindow m)) @
     uint_f 0x10 (Defaultwindow m) (Defaultwindow_update (\<lambda>_. Defaultwindow m)) @
     uint_f 0x18 (Maxwindow m) (Maxwindow_update (\<lambda>_. Maxwindow m))"

definition Params_enc :: "Params \<Rightarrow> bytes" where
  "Params_enc m = enc_of (Params_fields m)"

text \<open>An encoding that fits a slice.\<close>

definition fits :: "('m \<Rightarrow> bytes) \<Rightarrow> 'm \<Rightarrow> bool" where
  "fits enc m \<longleftrightarrow> length (enc m) < 2 ^ 63"

lemma tags:
  "tag_of 0x8 1 0" "tag_of 0x10 2 0" "tag_of 0x18 3 0" "tag_of 0x20 4 0" "tag_of 0x28 5 0"
  "tag_of 0xa 1 2" "tag_of 0x12 2 2" "tag_of 0x1a 3 2" "tag_of 0x22 4 2"
  by code_simp+

lemma Params_writes:
  "writes (ops [put_uint 0x18 (Maxwindow m), put_uint 0x10 (Defaultwindow m), put_uint 0x8 (Minwindow m)]) (Params_enc m)"
  unfolding Params_enc_def Params_fields_def enc_of_append
  by (rule writes_eq, (rule writes_ops_Cons writes_uint writes_ops_Nil)+) simp

lemma Params_reads: "read_through (proto_step ''Params'' skipParams Params_field) (Params_fields m) m0"
  unfolding Params_fields_def
  by (intro read_rules reads_fieldI [OF tags(1)] reads_fieldI [OF tags(2)] reads_fieldI [OF tags(3)])
    (simp_all add: Params_field_def varint_field_reads)

lemma Params_moves: "fields_move Params_field"
  unfolding fields_move_def Params_field_def by (auto split: if_splits intro: field_moves)

interpretation params: msg_codec Params_enc "fits Params_enc" Params_Size Params_MarshalToSizedBuffer
  Params_Unmarshal Params_zero
proof unfold_locales
  fix m :: Params and d pre gap :: bytes
  show "Params_Size m = length (Params_enc m)"
    by (simp add: Params_Size_def Params_enc_def Params_fields_def field_defs enc_of_def sovParams_def sov_varint)
  show "length gap = length (Params_enc m) \<Longrightarrow>
      Params_MarshalToSizedBuffer m (pre @ gap) = Ok (pre @ Params_enc m, length (Params_enc m))"
    unfolding Params_MarshalToSizedBuffer_def by (rule to_sized_buffer_writes [OF Params_writes])
  show "length (Params_enc m) < 2 ^ 63 \<Longrightarrow> Params_Unmarshal Params_zero (Params_enc m) = Got m"
    unfolding Params_Unmarshal_def Params_enc_def
    by (subst unmarshal_fields [OF Params_reads])
      (auto simp: Params_fields_def field_defs Params_zero_def)
  show "length d < 2 ^ 63 \<Longrightarrow> Params_Unmarshal m d \<noteq> OutOfFuel"
    unfolding Params_Unmarshal_def skipParams_def
    by (intro proto_unmarshal_total proto_step_moves_on Params_moves)
qed

section \<open>Record\<close>

definition skipRecord :: "bytes \<Rightarrow> int rd" where
  "skipRecord = proto_skip"

definition sovRecord :: "u64 \<Rightarrow> nat" where
  "sovRecord = sov"

definition Record_MarshalToSizedBuffer :: "Record \<Rightarrow> bytes \<Rightarrow> (bytes \<times> nat) res" where
  "Record_MarshalToSizedBuffer m = to_sized_buffer (ops
     [put_bool 0x20 (rFinalonly m),
      put_uint 0x18 (rCancelled m),
      put_uint 0x10 (rSent m),
      put_string 0xa (rIndex m)])"

definition Record_Size :: "Record \<Rightarrow> nat" where
  "Record_Size m =
     (let l = length (rIndex m) in if l > 0 then 1 + l + sovRecord (of_nat l) else 0) +
     (if rSent m \<noteq> 0 then 1 + sovRecord (rSent m) else 0) +
     (if rCancelled m \<noteq> 0 then 1 + sovRecord (rCancelled m) else 0) +
     (if rFinalonly m then 2 else 0)"

definition Record_Marshal :: "Record \<Rightarrow> bytes res" where
  "Record_Marshal = proto_marshal Record_Size Record_MarshalToSizedBuffer"

definition Record_field :: "int \<Rightarrow> nat \<Rightarrow> bytes \<Rightarrow> Record \<Rightarrow> int \<Rightarrow> (Record \<times> int) rd option" where
  "Record_field fieldNum wireType dAtA m iNdEx =
     (if fieldNum = 1 then Some (string_field ''Index'' wireType dAtA iNdEx (\<lambda>v. m\<lparr>rIndex := v\<rparr>))
      else if fieldNum = 2 then Some (varint_field ''Sent'' wireType dAtA iNdEx (\<lambda>v. m\<lparr>rSent := v\<rparr>))
      else if fieldNum = 3 then Some (varint_field ''Cancelled'' wireType dAtA iNdEx (\<lambda>v. m\<lparr>rCancelled := v\<rparr>))
      else if fieldNum = 4 then Some (varint_field ''Finalonly'' wireType dAtA iNdEx (\<lambda>v. m\<lparr>rFinalonly := (v \<noteq> 0)\<rparr>))
      else None)"

definition Record_Unmarshal :: "Record \<Rightarrow> bytes \<Rightarrow> Record rd" where
  "Record_Unmarshal = proto_unmarshal (proto_step ''Record'' skipRecord Record_field)"

definition Record_zero :: Record where
  "Record_zero = \<lparr>rIndex = [], rSent = 0, rCancelled = 0, rFinalonly = False\<rparr>"

definition Record_fields :: "Record \<Rightarrow> Record fields" where
  "Record_fields m =
     string_f 0xa (rIndex m) (rIndex_update (\<lambda>_. rIndex m)) @
     uint_f 0x10 (rSent m) (rSent_update (\<lambda>_. rSent m)) @
     uint_f 0x18 (rCancelled m) (rCancelled_update (\<lambda>_. rCancelled m)) @
     bool_f 0x20 (rFinalonly m) (rFinalonly_update (\<lambda>_. True))"

definition Record_enc :: "Record \<Rightarrow> bytes" where
  "Record_enc m = enc_of (Record_fields m)"

lemma Record_fits: "fits Record_enc m \<Longrightarrow> length (rIndex m) < 2 ^ 63"
  by (auto simp: fits_def Record_enc_def Record_fields_def field_defs enc_of_def delimited_def split: if_splits)

lemma Record_writes:
  assumes "fits Record_enc m"
  shows "writes (ops [put_bool 0x20 (rFinalonly m), put_uint 0x18 (rCancelled m), put_uint 0x10 (rSent m),
    put_string 0xa (rIndex m)]) (Record_enc m)"
proof -
  have "length (rIndex m) < 2 ^ 64" using Record_fits [OF assms] by simp
  then show ?thesis
    unfolding Record_enc_def Record_fields_def enc_of_append
    by - (rule writes_eq, (rule writes_ops_Cons writes_uint writes_bool writes_string writes_ops_Nil | assumption)+, simp)
qed

lemma Record_reads: "read_through (proto_step ''Record'' skipRecord Record_field) (Record_fields m) m0"
  unfolding Record_fields_def
  by (intro read_rules reads_fieldI [OF tags(6)] reads_fieldI [OF tags(2)] reads_fieldI [OF tags(3)]
      reads_fieldI [OF tags(4)])
    (simp_all add: Record_field_def varint_field_reads string_field_reads del: unsigned_1)

lemma Record_moves: "fields_move Record_field"
  unfolding fields_move_def Record_field_def by (auto split: if_splits intro: field_moves)

interpretation recrd: msg_codec Record_enc "fits Record_enc" Record_Size Record_MarshalToSizedBuffer
  Record_Unmarshal Record_zero
proof unfold_locales
  fix m :: Record and d pre gap :: bytes
  show "fits Record_enc m \<Longrightarrow> Record_Size m = length (Record_enc m)"
    by (drule Record_fits)
      (simp add: Record_Size_def Record_enc_def Record_fields_def field_defs enc_of_def sovRecord_def sov_varint
        delimited_def Let_def unat_of_nat)
  show "fits Record_enc m \<Longrightarrow> length gap = length (Record_enc m) \<Longrightarrow>
      Record_MarshalToSizedBuffer m (pre @ gap) = Ok (pre @ Record_enc m, length (Record_enc m))"
    unfolding Record_MarshalToSizedBuffer_def by (rule to_sized_buffer_writes [OF Record_writes])
  show "length (Record_enc m) < 2 ^ 63 \<Longrightarrow> Record_Unmarshal Record_zero (Record_enc m) = Got m"
    unfolding Record_Unmarshal_def Record_enc_def
    by (subst unmarshal_fields [OF Record_reads])
      (auto simp: Record_fields_def field_defs Record_zero_def)
  show "length d < 2 ^ 63 \<Longrightarrow> Record_Unmarshal m d \<noteq> OutOfFuel"
    unfolding Record_Unmarshal_def skipRecord_def
    by (intro proto_unmarshal_total proto_step_moves_on Record_moves)
qed

section \<open>Pending\<close>

text \<open>The codec of \<open>sdk.Coin\<close>.\<close>

record CoinCodec =
  coin_Size :: "Coin \<Rightarrow> nat"
  coin_MarshalToSizedBuffer :: "Coin \<Rightarrow> bytes \<Rightarrow> (bytes \<times> nat) res"
  coin_Unmarshal :: "Coin \<Rightarrow> bytes \<Rightarrow> Coin rd"

definition zero_coin :: Coin where
  "zero_coin = \<lparr>Denom = [], Amount = None\<rparr>"

definition skipPending :: "bytes \<Rightarrow> int rd" where
  "skipPending = proto_skip"

definition sovPending :: "u64 \<Rightarrow> nat" where
  "sovPending = sov"

definition Pending_MarshalToSizedBuffer :: "CoinCodec \<Rightarrow> Pending \<Rightarrow> bytes \<Rightarrow> (bytes \<times> nat) res" where
  "Pending_MarshalToSizedBuffer C m = to_sized_buffer (ops
     [put_uint 0x28 (pExecuteat m),
      put_sub 0x22 (coin_MarshalToSizedBuffer C (pAmount m)),
      put_string 0x1a (pRecipient m),
      put_string 0x12 (pSender m),
      put_uint 0x8 (pId m)])"

definition Pending_Size :: "CoinCodec \<Rightarrow> Pending \<Rightarrow> nat" where
  "Pending_Size C m =
     (if pId m \<noteq> 0 then 1 + sovPending (pId m) else 0) +
     (let l = length (pSender m) in if l > 0 then 1 + l + sovPending (of_nat l) else 0) +
     (let l = length (pRecipient m) in if l > 0 then 1 + l + sovPending (of_nat l) else 0) +
     (let l = coin_Size C (pAmount m) in 1 + l + sovPending (of_nat l)) +
     (if pExecuteat m \<noteq> 0 then 1 + sovPending (pExecuteat m) else 0)"

definition Pending_Marshal :: "CoinCodec \<Rightarrow> Pending \<Rightarrow> bytes res" where
  "Pending_Marshal C = proto_marshal (Pending_Size C) (Pending_MarshalToSizedBuffer C)"

definition Pending_field ::
  "CoinCodec \<Rightarrow> int \<Rightarrow> nat \<Rightarrow> bytes \<Rightarrow> Pending \<Rightarrow> int \<Rightarrow> (Pending \<times> int) rd option" where
  "Pending_field C fieldNum wireType dAtA m iNdEx =
     (if fieldNum = 1 then Some (varint_field ''Id'' wireType dAtA iNdEx (\<lambda>v. m\<lparr>pId := v\<rparr>))
      else if fieldNum = 2 then Some (string_field ''Sender'' wireType dAtA iNdEx (\<lambda>v. m\<lparr>pSender := v\<rparr>))
      else if fieldNum = 3 then Some (string_field ''Recipient'' wireType dAtA iNdEx (\<lambda>v. m\<lparr>pRecipient := v\<rparr>))
      else if fieldNum = 4 then
        Some (msg_field ''Amount'' wireType dAtA iNdEx (coin_Unmarshal C (pAmount m)) (\<lambda>v. m\<lparr>pAmount := v\<rparr>))
      else if fieldNum = 5 then Some (varint_field ''Executeat'' wireType dAtA iNdEx (\<lambda>v. m\<lparr>pExecuteat := v\<rparr>))
      else None)"

definition Pending_Unmarshal :: "CoinCodec \<Rightarrow> Pending \<Rightarrow> bytes \<Rightarrow> Pending rd" where
  "Pending_Unmarshal C = proto_unmarshal (proto_step ''Pending'' skipPending (Pending_field C))"

definition Pending_zero :: Pending where
  "Pending_zero = \<lparr>pId = 0, pSender = [], pRecipient = [], pAmount = zero_coin, pExecuteat = 0\<rparr>"

text \<open>Reading the amount starts from the amount read so far; \<open>Amount\<close> is written once.\<close>

definition Pending_fields :: "(Coin \<Rightarrow> bytes) \<Rightarrow> Pending \<Rightarrow> Pending fields" where
  "Pending_fields cenc m =
     uint_f 0x8 (pId m) (pId_update (\<lambda>_. pId m)) @
     string_f 0x12 (pSender m) (pSender_update (\<lambda>_. pSender m)) @
     string_f 0x1a (pRecipient m) (pRecipient_update (\<lambda>_. pRecipient m)) @
     sub_f 0x22 (cenc (pAmount m)) (pAmount_update (\<lambda>_. pAmount m)) @
     uint_f 0x28 (pExecuteat m) (pExecuteat_update (\<lambda>_. pExecuteat m))"

definition Pending_enc :: "(Coin \<Rightarrow> bytes) \<Rightarrow> Pending \<Rightarrow> bytes" where
  "Pending_enc cenc m = enc_of (Pending_fields cenc m)"

lemma Pending_fits:
  assumes "fits (Pending_enc cenc) m"
  shows "length (pSender m) < 2 ^ 63" and "length (pRecipient m) < 2 ^ 63" and "length (cenc (pAmount m)) < 2 ^ 63"
  using assms unfolding fits_def Pending_enc_def Pending_fields_def
  by (auto simp: field_defs enc_of_def delimited_def split: if_splits)

lemma Pending_writes:
  assumes "writes (put_msg (coin_MarshalToSizedBuffer C (pAmount m))) (delimited (cenc (pAmount m)))"
    and "fits (Pending_enc cenc) m"
  shows "writes (ops [put_uint 0x28 (pExecuteat m), put_sub 0x22 (coin_MarshalToSizedBuffer C (pAmount m)),
    put_string 0x1a (pRecipient m), put_string 0x12 (pSender m), put_uint 0x8 (pId m)]) (Pending_enc cenc m)"
proof -
  have "length (pSender m) < 2 ^ 64" "length (pRecipient m) < 2 ^ 64"
    using Pending_fits [OF assms(2)] by simp_all
  with assms(1) show ?thesis
    unfolding Pending_enc_def Pending_fields_def enc_of_append
    by - (rule writes_eq, (rule writes_ops_Cons writes_uint writes_sub writes_string writes_ops_Nil | assumption)+, simp)
qed

lemma Pending_reads:
  assumes "coin_Unmarshal C (pAmount m0) (cenc (pAmount m)) = Got (pAmount m)"
  shows "read_through (proto_step ''Pending'' skipPending (Pending_field C)) (Pending_fields cenc m) m0"
proof -
  have kept: "pAmount (fold snd (uint_f 0x8 (pId m) (pId_update (\<lambda>_. pId m)) @
     string_f 0x12 (pSender m) (pSender_update (\<lambda>_. pSender m)) @
     string_f 0x1a (pRecipient m) (pRecipient_update (\<lambda>_. pRecipient m))) m0) = pAmount m0"
    by (simp add: field_defs)
  show ?thesis
    unfolding Pending_fields_def append_assoc [symmetric]
    by (intro read_rules reads_fieldI [OF tags(1)] reads_fieldI [OF tags(5)] reads_fieldI [OF tags(7)]
      reads_fieldI [OF tags(8)] reads_fieldI [OF tags(9)])
      (simp_all add: Pending_field_def varint_field_reads string_field_reads msg_field_reads kept [simplified] assms)
qed

lemma Pending_moves:
  assumes "\<And>c b. length b < 2 ^ 63 \<Longrightarrow> coin_Unmarshal C c b \<noteq> OutOfFuel"
  shows "fields_move (Pending_field C)"
  unfolding fields_move_def Pending_field_def using assms by (auto split: if_splits intro: field_moves)

text \<open>The codec of coins, with its promise.\<close>

locale coin_codec =
  coin: msg_codec cenc cgood "coin_Size C" "coin_MarshalToSizedBuffer C" "coin_Unmarshal C" zero_coin
  for C :: CoinCodec and cenc :: "Coin \<Rightarrow> bytes" and cgood :: "Coin \<Rightarrow> bool"

definition Pending_good :: "(Coin \<Rightarrow> bytes) \<Rightarrow> (Coin \<Rightarrow> bool) \<Rightarrow> Pending \<Rightarrow> bool" where
  "Pending_good cenc cgood m \<longleftrightarrow> cgood (pAmount m) \<and> fits (Pending_enc cenc) m"

text \<open>The contract of coins gives that of payments.\<close>

sublocale coin_codec < pending: msg_codec "Pending_enc cenc" "Pending_good cenc cgood" "Pending_Size C"
  "Pending_MarshalToSizedBuffer C" "Pending_Unmarshal C" Pending_zero
proof unfold_locales
  fix m :: Pending and d pre gap :: bytes
  assume good: "Pending_good cenc cgood m"
  then have c: "cgood (pAmount m)" "fits (Pending_enc cenc) m" by (simp_all add: Pending_good_def)
  note len = Pending_fits [OF c(2)]
  show "Pending_Size C m = length (Pending_enc cenc m)"
    using len by (simp add: Pending_Size_def Pending_enc_def Pending_fields_def field_defs enc_of_def sovPending_def
        sov_varint delimited_def Let_def unat_of_nat coin.msize [OF c(1)])
  show "length gap = length (Pending_enc cenc m) \<Longrightarrow>
      Pending_MarshalToSizedBuffer C m (pre @ gap) = Ok (pre @ Pending_enc cenc m, length (Pending_enc cenc m))"
    unfolding Pending_MarshalToSizedBuffer_def
    by (rule to_sized_buffer_writes [OF Pending_writes], rule coin.writes_msg) (use c len in auto)
  have amount: "coin_Unmarshal C (pAmount Pending_zero) (cenc (pAmount m)) = Got (pAmount m)"
    using coin.unmarshal [OF c(1) len(3)] by (simp add: Pending_zero_def)
  show "length (Pending_enc cenc m) < 2 ^ 63 \<Longrightarrow> Pending_Unmarshal C Pending_zero (Pending_enc cenc m) = Got m"
    unfolding Pending_Unmarshal_def Pending_enc_def
    by (subst unmarshal_fields [OF Pending_reads [where C = C and cenc = cenc and m = m and ?m0.0 = Pending_zero, OF amount]])
      (auto simp: Pending_fields_def field_defs Pending_zero_def)
next
  fix m :: Pending and d :: bytes
  show "length d < 2 ^ 63 \<Longrightarrow> Pending_Unmarshal C m d \<noteq> OutOfFuel"
    unfolding Pending_Unmarshal_def skipPending_def
    by (intro proto_unmarshal_total proto_step_moves_on Pending_moves coin.total)
qed

end
