(* ===== verification/CodecGenesis.thy ===== *)
theory CodecGenesis
  imports Codec
begin

text \<open>
  The codec of \<open>GenesisState\<close> (\<open>genesis.pb.go\<close>), which embeds the other three messages, two of
  them repeated; and the codec of \<open>sdk.Coin\<close> as its published schema
  (\<open>cosmos.base.v1beta1.Coin\<close>: the denomination in field 1, the amount in decimal in field 2)
  asks for, on which the codec contracts are interpreted.
\<close>

section \<open>GenesisState\<close>

definition skipGenesis :: "bytes \<Rightarrow> int rd" where
  "skipGenesis = proto_skip"

definition sovGenesis :: "u64 \<Rightarrow> nat" where
  "sovGenesis = sov"

text \<open>The two loops run from the last element to the first.\<close>

definition GenesisState_MarshalToSizedBuffer :: "CoinCodec \<Rightarrow> GenesisState \<Rightarrow> bytes \<Rightarrow> (bytes \<times> nat) res" where
  "GenesisState_MarshalToSizedBuffer C m = to_sized_buffer (ops
     [ops (map (\<lambda>r. put_sub 0x22 (Record_MarshalToSizedBuffer r)) (rev (gsRecordMap m))),
      put_uint 0x18 (gsPendingCount m),
      ops (map (\<lambda>p. put_sub 0x12 (Pending_MarshalToSizedBuffer C p)) (rev (gsPendingList m))),
      put_sub 0xa (Params_MarshalToSizedBuffer (gsParams m))])"

definition GenesisState_Size :: "CoinCodec \<Rightarrow> GenesisState \<Rightarrow> nat" where
  "GenesisState_Size C m =
     (let l = Params_Size (gsParams m) in 1 + l + sovGenesis (of_nat l)) +
     (\<Sum>e\<leftarrow>gsPendingList m. let l = Pending_Size C e in 1 + l + sovGenesis (of_nat l)) +
     (if gsPendingCount m \<noteq> 0 then 1 + sovGenesis (gsPendingCount m) else 0) +
     (\<Sum>e\<leftarrow>gsRecordMap m. let l = Record_Size e in 1 + l + sovGenesis (of_nat l))"

definition GenesisState_Marshal :: "CoinCodec \<Rightarrow> GenesisState \<Rightarrow> bytes res" where
  "GenesisState_Marshal C = proto_marshal (GenesisState_Size C) (GenesisState_MarshalToSizedBuffer C)"

definition GenesisState_field ::
  "CoinCodec \<Rightarrow> int \<Rightarrow> nat \<Rightarrow> bytes \<Rightarrow> GenesisState \<Rightarrow> int \<Rightarrow> (GenesisState \<times> int) rd option" where
  "GenesisState_field C fieldNum wireType dAtA m iNdEx =
     (if fieldNum = 1 then
        Some (msg_field ''Params'' wireType dAtA iNdEx (Params_Unmarshal (gsParams m)) (\<lambda>v. m\<lparr>gsParams := v\<rparr>))
      else if fieldNum = 2 then
        Some (msg_field ''PendingList'' wireType dAtA iNdEx (Pending_Unmarshal C Pending_zero)
          (\<lambda>v. m\<lparr>gsPendingList := gsPendingList m @ [v]\<rparr>))
      else if fieldNum = 3 then
        Some (varint_field ''PendingCount'' wireType dAtA iNdEx (\<lambda>v. m\<lparr>gsPendingCount := v\<rparr>))
      else if fieldNum = 4 then
        Some (msg_field ''RecordMap'' wireType dAtA iNdEx (Record_Unmarshal Record_zero)
          (\<lambda>v. m\<lparr>gsRecordMap := gsRecordMap m @ [v]\<rparr>))
      else None)"

definition GenesisState_Unmarshal :: "CoinCodec \<Rightarrow> GenesisState \<Rightarrow> bytes \<Rightarrow> GenesisState rd" where
  "GenesisState_Unmarshal C = proto_unmarshal (proto_step ''GenesisState'' skipGenesis (GenesisState_field C))"

definition GenesisState_zero :: GenesisState where
  "GenesisState_zero = \<lparr>gsParams = Params_zero, gsPendingList = [], gsPendingCount = 0, gsRecordMap = []\<rparr>"

definition repeated_f :: "byte \<Rightarrow> ('a \<Rightarrow> bytes) \<Rightarrow> ('a \<Rightarrow> 'm \<Rightarrow> 'm) \<Rightarrow> 'a list \<Rightarrow> 'm fields" where
  "repeated_f k enc add xs = concat (map (\<lambda>x. sub_f k (enc x) (add x)) xs)"

definition GenesisState_fields :: "(Coin \<Rightarrow> bytes) \<Rightarrow> GenesisState \<Rightarrow> GenesisState fields" where
  "GenesisState_fields cenc m =
     sub_f 0xa (Params_enc (gsParams m)) (gsParams_update (\<lambda>_. gsParams m)) @
     repeated_f 0x12 (Pending_enc cenc) (\<lambda>p. gsPendingList_update (\<lambda>ps. ps @ [p])) (gsPendingList m) @
     uint_f 0x18 (gsPendingCount m) (gsPendingCount_update (\<lambda>_. gsPendingCount m)) @
     repeated_f 0x22 Record_enc (\<lambda>r. gsRecordMap_update (\<lambda>rs. rs @ [r])) (gsRecordMap m)"

definition GenesisState_enc :: "(Coin \<Rightarrow> bytes) \<Rightarrow> GenesisState \<Rightarrow> bytes" where
  "GenesisState_enc cenc m = enc_of (GenesisState_fields cenc m)"

definition GenesisState_good :: "(Coin \<Rightarrow> bytes) \<Rightarrow> (Coin \<Rightarrow> bool) \<Rightarrow> GenesisState \<Rightarrow> bool" where
  "GenesisState_good cenc cgood m \<longleftrightarrow>
     (\<forall>p\<in>set (gsPendingList m). cgood (pAmount p)) \<and> fits (GenesisState_enc cenc) m"

section \<open>Repeated fields\<close>

lemma enc_repeated: "enc_of (repeated_f k enc add xs) = concat (map (\<lambda>x. k # delimited (enc x)) xs)"
  by (induction xs) (simp_all add: repeated_f_def sub_f_def enc_of_def)

lemma repeated_f_Cons: "repeated_f k enc add (x # xs) = sub_f k (enc x) (add x) @ repeated_f k enc add xs"
  by (simp add: repeated_f_def)

lemma repeated_f_Nil [simp]: "repeated_f k enc add [] = []"
  by (simp add: repeated_f_def)

lemma writes_ops_append:
  "writes (ops fs) a \<Longrightarrow> writes (ops gs) b \<Longrightarrow> writes (ops (fs @ gs)) (b @ a)"
proof (induction fs arbitrary: a)
  case Nil
  then have "writes (ops gs) b" "a = []"
    using writesD [OF Nil(1), of "replicate (length a) 0" "[]" "[]"] by auto
  then show ?case by simp
next
  case (Cons f fs)
  have e: "ops ((f # fs) @ gs) = op_seq (ops (f # fs)) (ops gs)"
  proof
    fix x
    have "ops (fs @ gs) = op_seq (ops fs) (ops gs)"
    proof
      fix y show "ops (fs @ gs) y = op_seq (ops fs) (ops gs) y"
        by (induction fs arbitrary: y) (auto simp: op_seq_def split: res.split)
    qed
    then show "ops ((f # fs) @ gs) x = op_seq (ops (f # fs)) (ops gs) x"
      by (auto simp: op_seq_def split: res.split)
  qed
  show ?case unfolding e by (rule writes_seq [OF Cons.prems])
qed

lemma writes_repeated:
  assumes "\<And>x. x \<in> set xs \<Longrightarrow> writes (put_msg (marshal x)) (delimited (enc x))"
  shows "writes (ops (map (\<lambda>x. put_sub k (marshal x)) (rev xs))) (enc_of (repeated_f k enc add xs))"
  using assms
proof (induction xs)
  case Nil
  then show ?case by (simp add: repeated_f_def writes_nothing)
next
  case (Cons x xs)
  have "writes (ops [put_sub k (marshal x)]) (enc_of (sub_f k (enc x) (add x)))"
    by (intro writes_last writes_sub Cons.prems) simp
  from writes_ops_append [OF Cons.IH this] Cons.prems show ?case by (simp add: repeated_f_Cons)
qed

lemma read_repeated:
  "(\<And>x m. x \<in> set xs \<Longrightarrow> reads_at step (k # delimited (enc x)) (add x) m) \<Longrightarrow>
     read_through step (repeated_f k enc add xs) m"
proof (induction xs arbitrary: m)
  case (Cons x xs)
  then show ?case unfolding repeated_f_Cons by (intro read_append read_sub) auto
qed simp

lemma fold_repeated: "fold snd (repeated_f k enc add xs) = fold add xs"
  by (induction xs) (simp_all add: repeated_f_Cons sub_f_def)

lemma fold_add_pending: "fold (\<lambda>p. gsPendingList_update (\<lambda>ps. ps @ [p])) qs m = m\<lparr>gsPendingList := gsPendingList m @ qs\<rparr>"
  by (induction qs arbitrary: m) simp_all

lemma fold_add_record: "fold (\<lambda>r. gsRecordMap_update (\<lambda>rs. rs @ [r])) qs m = m\<lparr>gsRecordMap := gsRecordMap m @ qs\<rparr>"
  by (induction qs arbitrary: m) simp_all

lemma repeated_fits:
  "x \<in> set xs \<Longrightarrow> length (enc x) \<le> length (enc_of (repeated_f k enc add xs))"
  by (induction xs) (auto simp: repeated_f_Cons sub_f_def enc_of_def delimited_def)

lemma GenesisState_fits:
  assumes "fits (GenesisState_enc cenc) m"
  shows "fits Params_enc (gsParams m)"
    and "p \<in> set (gsPendingList m) \<Longrightarrow> fits (Pending_enc cenc) p"
    and "r \<in> set (gsRecordMap m) \<Longrightarrow> fits Record_enc r"
proof -
  let ?P = "repeated_f 0x12 (Pending_enc cenc) (\<lambda>p. gsPendingList_update (\<lambda>ps. ps @ [p])) (gsPendingList m) :: GenesisState fields"
  let ?R = "repeated_f 0x22 Record_enc (\<lambda>r. gsRecordMap_update (\<lambda>rs. rs @ [r])) (gsRecordMap m) :: GenesisState fields"
  have "length (Params_enc (gsParams m)) + length (enc_of ?P) + length (enc_of ?R) \<le> length (GenesisState_enc cenc m)"
    by (simp add: GenesisState_enc_def GenesisState_fields_def sub_f_def delimited_def enc_of_def)
  also have "\<dots> < 2 ^ 63" using assms by (simp add: fits_def)
  finally have len: "length (Params_enc (gsParams m)) + length (enc_of ?P) + length (enc_of ?R) < 2 ^ 63" .
  show "fits Params_enc (gsParams m)"
    unfolding fits_def using len by linarith
  show "fits (Pending_enc cenc) p" if "p \<in> set (gsPendingList m)"
  proof -
    have "length (Pending_enc cenc p) \<le> length (enc_of ?P)" using that by (rule repeated_fits)
    then show ?thesis unfolding fits_def using len by linarith
  qed
  show "fits Record_enc r" if "r \<in> set (gsRecordMap m)"
  proof -
    have "length (Record_enc r) \<le> length (enc_of ?R)" using that by (rule repeated_fits)
    then show ?thesis unfolding fits_def using len by linarith
  qed
qed

lemma GenesisState_moves:
  assumes "\<And>m b. length b < 2 ^ 63 \<Longrightarrow> Pending_Unmarshal C m b \<noteq> OutOfFuel"
  shows "fields_move (GenesisState_field C)"
  unfolding fields_move_def GenesisState_field_def
  using assms params.total recrd.total by (auto split: if_splits intro: field_moves)

text \<open>The parts of a codec of genesis states.\<close>

context coin_codec
begin

lemma GenesisState_parts:
  assumes "GenesisState_good cenc cgood m"
  shows "fits Params_enc (gsParams m)"
    and "p \<in> set (gsPendingList m) \<Longrightarrow> Pending_good cenc cgood p" and "p \<in> set (gsPendingList m) \<Longrightarrow> fits (Pending_enc cenc) p"
    and "r \<in> set (gsRecordMap m) \<Longrightarrow> fits Record_enc r"
proof -
  from assms have fit: "fits (GenesisState_enc cenc) m" by (simp add: GenesisState_good_def)
  note parts = GenesisState_fits [OF fit]
  show "fits Params_enc (gsParams m)" "p \<in> set (gsPendingList m) \<Longrightarrow> fits (Pending_enc cenc) p"
    "r \<in> set (gsRecordMap m) \<Longrightarrow> fits Record_enc r" by (rule parts; assumption?)+
  show "p \<in> set (gsPendingList m) \<Longrightarrow> Pending_good cenc cgood p"
    using assms parts(2) by (simp add: GenesisState_good_def Pending_good_def)
qed

lemma GenesisState_size:
  assumes good: "GenesisState_good cenc cgood m"
  shows "GenesisState_Size C m = length (GenesisState_enc cenc m)"
proof -
  note parts = GenesisState_parts [OF good]
  have ps: "(\<Sum>e\<leftarrow>gsPendingList m. let l = Pending_Size C e in 1 + l + sovGenesis (of_nat l)) =
      (\<Sum>e\<leftarrow>gsPendingList m. length ((0x12 :: byte) # delimited (Pending_enc cenc e)))"
    by (intro arg_cong [of _ _ sum_list] map_cong refl)
      (simp add: pending.msize [OF parts(2)] length_read(1) [OF parts(3) [unfolded fits_def]] Let_def sovGenesis_def
        sov_varint delimited_def)
  have rs: "(\<Sum>e\<leftarrow>gsRecordMap m. let l = Record_Size e in 1 + l + sovGenesis (of_nat l)) =
      (\<Sum>e\<leftarrow>gsRecordMap m. length ((0x22 :: byte) # delimited (Record_enc e)))"
    by (intro arg_cong [of _ _ sum_list] map_cong refl)
      (simp add: recrd.msize [OF parts(4)] length_read(1) [OF parts(4) [unfolded fits_def]] Let_def sovGenesis_def
        sov_varint delimited_def)
  show ?thesis
    unfolding GenesisState_Size_def ps rs GenesisState_enc_def GenesisState_fields_def enc_of_append enc_repeated
    using parts(1)
    by (simp add: uint_f_def sub_f_def enc_of_def length_concat comp_def params.msize Let_def sovGenesis_def
        sov_varint unat_of_nat delimited_def fits_def)
qed

lemma GenesisState_writes:
  assumes good: "GenesisState_good cenc cgood m" and gap: "length gap = length (GenesisState_enc cenc m)"
  shows "GenesisState_MarshalToSizedBuffer C m (pre @ gap) = Ok (pre @ GenesisState_enc cenc m, length (GenesisState_enc cenc m))"
  unfolding GenesisState_MarshalToSizedBuffer_def
proof (rule to_sized_buffer_writes [OF _ gap])
  note parts = GenesisState_parts [OF good]
  have short: "fits enc x \<Longrightarrow> length (enc x) < 2 ^ 64" for enc :: "'z \<Rightarrow> bytes" and x
    by (simp add: fits_def)
  have "writes (ops (map (\<lambda>r. put_sub 0x22 (Record_MarshalToSizedBuffer r)) (rev (gsRecordMap m))))
      (enc_of (repeated_f 0x22 Record_enc (\<lambda>r. gsRecordMap_update (\<lambda>rs. rs @ [r])) (gsRecordMap m)))"
    by (intro writes_repeated recrd.writes_msg parts(4) short)
  moreover have "writes (ops (map (\<lambda>p. put_sub 0x12 (Pending_MarshalToSizedBuffer C p)) (rev (gsPendingList m))))
      (enc_of (repeated_f 0x12 (Pending_enc cenc) (\<lambda>p. gsPendingList_update (\<lambda>ps. ps @ [p])) (gsPendingList m)))"
    by (intro writes_repeated pending.writes_msg parts(2,3) short)
  moreover have "writes (put_sub 0xa (Params_MarshalToSizedBuffer (gsParams m)))
      (enc_of (sub_f 0xa (Params_enc (gsParams m)) (gsParams_update (\<lambda>_. gsParams m))))"
    by (intro writes_sub params.writes_msg parts(1) short)
  ultimately show "writes (ops
     [ops (map (\<lambda>r. put_sub 0x22 (Record_MarshalToSizedBuffer r)) (rev (gsRecordMap m))),
      put_uint 0x18 (gsPendingCount m),
      ops (map (\<lambda>p. put_sub 0x12 (Pending_MarshalToSizedBuffer C p)) (rev (gsPendingList m))),
      put_sub 0xa (Params_MarshalToSizedBuffer (gsParams m))]) (GenesisState_enc cenc m)"
    unfolding GenesisState_enc_def GenesisState_fields_def enc_of_append
    by - (rule writes_eq, (rule writes_ops_Cons writes_uint writes_ops_Nil | assumption)+, simp)
qed

lemma GenesisState_reads:
  assumes good: "GenesisState_good cenc cgood m" and len: "length (GenesisState_enc cenc m) < 2 ^ 63"
  shows "GenesisState_Unmarshal C GenesisState_zero (GenesisState_enc cenc m) = Got m"
proof -
  note parts = GenesisState_parts [OF good]
  have pr: "Params_Unmarshal (gsParams GenesisState_zero) (Params_enc (gsParams m)) = Got (gsParams m)"
    using params.unmarshal parts(1) by (simp add: GenesisState_zero_def fits_def)
  have "read_through (proto_step ''GenesisState'' skipGenesis (GenesisState_field C)) (GenesisState_fields cenc m) GenesisState_zero"
    unfolding GenesisState_fields_def
    by (intro read_rules read_repeated reads_fieldI [OF tags(6)] reads_fieldI [OF tags(7)] reads_fieldI [OF tags(3)]
        reads_fieldI [OF tags(9)])
      (use pr parts in \<open>simp_all add: GenesisState_field_def varint_field_reads msg_field_reads pending.unmarshal
          recrd.unmarshal fits_def\<close>)
  with len show ?thesis
    unfolding GenesisState_Unmarshal_def GenesisState_enc_def
    by (subst unmarshal_fields)
      (auto simp: GenesisState_fields_def sub_f_def uint_f_def fold_repeated fold_add_pending fold_add_record
        GenesisState_zero_def)
qed

lemma GenesisState_total: "length d < 2 ^ 63 \<Longrightarrow> GenesisState_Unmarshal C m d \<noteq> OutOfFuel"
  unfolding GenesisState_Unmarshal_def skipGenesis_def
  by (intro proto_unmarshal_total proto_step_moves_on GenesisState_moves pending.total)

end

sublocale coin_codec < genesis: msg_codec "GenesisState_enc cenc" "GenesisState_good cenc cgood"
  "GenesisState_Size C" "GenesisState_MarshalToSizedBuffer C" "GenesisState_Unmarshal C" GenesisState_zero
  by unfold_locales (fact GenesisState_size GenesisState_writes GenesisState_reads GenesisState_total)+

end
