(* ===== verification/TxCodec.thy ===== *)
theory TxCodec
  imports CodecGenesis
begin

text \<open>
  The codecs of the transactions' messages (\<open>tx.pb.go\<close>). A message is the list of its fields:
  what writes them, back to front, is \<open>_puts\<close>, what their bytes are and what reading them does
  is \<open>_fields\<close>. The locale \<open>field_codec\<close> says what these have to promise, and gives the
  contract \<open>msg_codec\<close> for them.
\<close>

section \<open>Codecs by fields\<close>

locale field_codec =
  fixes fields :: "'m \<Rightarrow> 'm fields" and good :: "'m \<Rightarrow> bool" and msize :: "'m \<Rightarrow> nat"
    and puts :: "'m \<Rightarrow> bufop list" and name :: string and skip_unknown :: "bytes \<Rightarrow> int rd"
    and switch :: "int \<Rightarrow> nat \<Rightarrow> bytes \<Rightarrow> 'm \<Rightarrow> int \<Rightarrow> ('m \<times> int) rd option" and zero :: 'm
  assumes size_exact: "good m \<Longrightarrow> msize m = length (enc_of (fields m))"
    and puts_fields: "good m \<Longrightarrow> writes (ops (puts m)) (enc_of (fields m))"
    and reads_fields: "good m \<Longrightarrow> read_through (proto_step name proto_skip switch) (fields m) zero"
    and restores: "good m \<Longrightarrow> fold snd (fields m) zero = m"
    and moves: "fields_move switch"
    and skips: "skip_unknown = proto_skip"

sublocale field_codec < msg_codec "\<lambda>m. enc_of (fields m)" good msize "\<lambda>m. to_sized_buffer (ops (puts m))"
  "proto_unmarshal (proto_step name skip_unknown switch)" zero
  by unfold_locales
    (simp_all add: size_exact to_sized_buffer_writes [OF puts_fields] skips unmarshal_fields reads_fields restores
      proto_unmarshal_total proto_step_moves_on moves)

lemma writes_string63: "length s < 2 ^ 63 \<Longrightarrow> writes (put_string k s) (enc_of (string_f k s f))"
  by (rule writes_string) simp

lemmas put_rules = writes_ops_Cons writes_uint writes_bool writes_string63 writes_sub writes_ops_Nil

definition sovTx :: "u64 \<Rightarrow> nat" where
  "sovTx = sov"

definition skipTx :: "bytes \<Rightarrow> int rd" where
  "skipTx = proto_skip"

text \<open>The sizes of the kinds of fields.\<close>

lemma field_sizes:
  "length (enc_of (uint_f k v f)) = (if v \<noteq> 0 then 1 + sovTx v else 0)"
  "length (enc_of (bool_f k b f)) = (if b then 2 else 0)"
  "length s < 2 ^ 63 \<Longrightarrow> length (enc_of (string_f k s f)) = (let l = length s in if l > 0 then 1 + l + sovTx (of_nat l) else 0)"
  "length e < 2 ^ 63 \<Longrightarrow> length (enc_of (sub_f k e f)) = (let l = length e in 1 + l + sovTx (of_nat l))"
  by (simp_all add: field_defs enc_of_def sovTx_def sov_varint delimited_def Let_def unat_of_nat)

section \<open>\<open>MsgUpdateParams\<close>\<close>

definition MsgUpdateParams_puts :: "MsgUpdateParams \<Rightarrow> bufop list" where
  "MsgUpdateParams_puts m = [
     put_sub 0x12 (Params_MarshalToSizedBuffer (upParams m)),
     put_string 0xa (upAuthority m)]"

definition MsgUpdateParams_MarshalToSizedBuffer :: "MsgUpdateParams \<Rightarrow> bytes \<Rightarrow> (bytes \<times> nat) res" where
  "MsgUpdateParams_MarshalToSizedBuffer m = to_sized_buffer (ops (MsgUpdateParams_puts m))"

definition MsgUpdateParams_Size :: "MsgUpdateParams \<Rightarrow> nat" where
  "MsgUpdateParams_Size m =
     (let l = length (upAuthority m) in if l > 0 then 1 + l + sovTx (of_nat l) else 0) +
     (let l = Params_Size (upParams m) in 1 + l + sovTx (of_nat l))"

definition MsgUpdateParams_Marshal :: "MsgUpdateParams \<Rightarrow> bytes res" where
  "MsgUpdateParams_Marshal = proto_marshal MsgUpdateParams_Size MsgUpdateParams_MarshalToSizedBuffer"

definition MsgUpdateParams_field ::
  "int \<Rightarrow> nat \<Rightarrow> bytes \<Rightarrow> MsgUpdateParams \<Rightarrow> int \<Rightarrow> (MsgUpdateParams \<times> int) rd option" where
  "MsgUpdateParams_field fieldNum wireType dAtA m iNdEx =
     (if fieldNum = 1 then Some (string_field ''Authority'' wireType dAtA iNdEx (\<lambda>v. m\<lparr>upAuthority := v\<rparr>))
      else if fieldNum = 2 then Some (msg_field ''Params'' wireType dAtA iNdEx (Params_Unmarshal (upParams m)) (\<lambda>v. m\<lparr>upParams := v\<rparr>))
      else None)"

definition MsgUpdateParams_Unmarshal :: "MsgUpdateParams \<Rightarrow> bytes \<Rightarrow> MsgUpdateParams rd" where
  "MsgUpdateParams_Unmarshal = proto_unmarshal (proto_step ''MsgUpdateParams'' skipTx MsgUpdateParams_field)"

definition MsgUpdateParams_zero :: MsgUpdateParams where
  "MsgUpdateParams_zero = \<lparr>upAuthority = [], upParams = Params_zero\<rparr>"

definition MsgUpdateParams_fields :: "MsgUpdateParams \<Rightarrow> MsgUpdateParams fields" where
  "MsgUpdateParams_fields m =
     string_f 0xa (upAuthority m) (upAuthority_update (\<lambda>_. upAuthority m)) @
     sub_f 0x12 (Params_enc (upParams m)) (upParams_update (\<lambda>_. upParams m))"

lemma MsgUpdateParams_fits:
  assumes "fits (\<lambda>m. enc_of (MsgUpdateParams_fields m)) m"
  shows "length (upAuthority m) < 2 ^ 63" and "length (Params_enc (upParams m)) < 2 ^ 63"
  using assms unfolding fits_def MsgUpdateParams_fields_def
  by (auto simp: field_defs enc_of_def delimited_def split: if_splits)

lemma MsgUpdateParams_moves: "fields_move MsgUpdateParams_field"
  unfolding fields_move_def MsgUpdateParams_field_def by (auto split: if_splits intro: field_moves simp: params.total)

interpretation update_params: field_codec
  MsgUpdateParams_fields "fits (\<lambda>m. enc_of (MsgUpdateParams_fields m))" MsgUpdateParams_Size MsgUpdateParams_puts "''MsgUpdateParams''"
  skipTx MsgUpdateParams_field MsgUpdateParams_zero
proof unfold_locales
  fix m :: MsgUpdateParams
  assume fit: "fits (\<lambda>m. enc_of (MsgUpdateParams_fields m)) m"
  note len = MsgUpdateParams_fits [OF fit]
  show "MsgUpdateParams_Size m = length (enc_of (MsgUpdateParams_fields m))"
    using len by (simp add: MsgUpdateParams_Size_def MsgUpdateParams_fields_def field_sizes params.msize fits_def)
  show "writes (ops (MsgUpdateParams_puts m)) (enc_of (MsgUpdateParams_fields m))"
    unfolding MsgUpdateParams_puts_def MsgUpdateParams_fields_def enc_of_append
    by (rule writes_eq, (rule put_rules params.writes_msg | use len in \<open>simp add: fits_def; fail\<close>)+)
  show "read_through (proto_step ''MsgUpdateParams'' proto_skip MsgUpdateParams_field) (MsgUpdateParams_fields m) MsgUpdateParams_zero"
    unfolding MsgUpdateParams_fields_def
    by (intro read_rules reads_fieldI [OF tags(6)] reads_fieldI [OF tags(7)])
      (use len in \<open>simp_all add: MsgUpdateParams_field_def varint_field_reads string_field_reads msg_field_reads
         MsgUpdateParams_zero_def params.unmarshal fits_def string_f_def del: unsigned_1\<close>)
  show "fold snd (MsgUpdateParams_fields m) MsgUpdateParams_zero = m"
    by (auto simp: MsgUpdateParams_fields_def field_defs MsgUpdateParams_zero_def)
qed (simp_all add: MsgUpdateParams_moves skipTx_def)

section \<open>\<open>MsgDelayedSend\<close>\<close>

definition MsgDelayedSend_puts :: "CoinCodec \<Rightarrow> MsgDelayedSend \<Rightarrow> bufop list" where
  "MsgDelayedSend_puts C m = [
     put_uint 0x20 (dsWindow m),
     put_sub 0x1a (coin_MarshalToSizedBuffer C (dsAmount m)),
     put_string 0x12 (dsRecipient m),
     put_string 0xa (dsCreator m)]"

definition MsgDelayedSend_MarshalToSizedBuffer :: "CoinCodec \<Rightarrow> MsgDelayedSend \<Rightarrow> bytes \<Rightarrow> (bytes \<times> nat) res" where
  "MsgDelayedSend_MarshalToSizedBuffer C m = to_sized_buffer (ops (MsgDelayedSend_puts C m))"

definition MsgDelayedSend_Size :: "CoinCodec \<Rightarrow> MsgDelayedSend \<Rightarrow> nat" where
  "MsgDelayedSend_Size C m =
     (let l = length (dsCreator m) in if l > 0 then 1 + l + sovTx (of_nat l) else 0) +
     (let l = length (dsRecipient m) in if l > 0 then 1 + l + sovTx (of_nat l) else 0) +
     (let l = coin_Size C (dsAmount m) in 1 + l + sovTx (of_nat l)) +
     (if dsWindow m \<noteq> 0 then 1 + sovTx (dsWindow m) else 0)"

definition MsgDelayedSend_Marshal :: "CoinCodec \<Rightarrow> MsgDelayedSend \<Rightarrow> bytes res" where
  "MsgDelayedSend_Marshal C = proto_marshal (MsgDelayedSend_Size C) (MsgDelayedSend_MarshalToSizedBuffer C)"

definition MsgDelayedSend_field ::
  "CoinCodec \<Rightarrow> int \<Rightarrow> nat \<Rightarrow> bytes \<Rightarrow> MsgDelayedSend \<Rightarrow> int \<Rightarrow> (MsgDelayedSend \<times> int) rd option" where
  "MsgDelayedSend_field C fieldNum wireType dAtA m iNdEx =
     (if fieldNum = 1 then Some (string_field ''Creator'' wireType dAtA iNdEx (\<lambda>v. m\<lparr>dsCreator := v\<rparr>))
      else if fieldNum = 2 then Some (string_field ''Recipient'' wireType dAtA iNdEx (\<lambda>v. m\<lparr>dsRecipient := v\<rparr>))
      else if fieldNum = 3 then Some (msg_field ''Amount'' wireType dAtA iNdEx (coin_Unmarshal C (dsAmount m)) (\<lambda>v. m\<lparr>dsAmount := v\<rparr>))
      else if fieldNum = 4 then Some (varint_field ''Window'' wireType dAtA iNdEx (\<lambda>v. m\<lparr>dsWindow := v\<rparr>))
      else None)"

definition MsgDelayedSend_Unmarshal :: "CoinCodec \<Rightarrow> MsgDelayedSend \<Rightarrow> bytes \<Rightarrow> MsgDelayedSend rd" where
  "MsgDelayedSend_Unmarshal C = proto_unmarshal (proto_step ''MsgDelayedSend'' skipTx (MsgDelayedSend_field C))"

definition MsgDelayedSend_zero :: MsgDelayedSend where
  "MsgDelayedSend_zero = \<lparr>dsCreator = [], dsRecipient = [], dsAmount = zero_coin, dsWindow = 0\<rparr>"

definition MsgDelayedSend_fields :: "(Coin \<Rightarrow> bytes) \<Rightarrow> MsgDelayedSend \<Rightarrow> MsgDelayedSend fields" where
  "MsgDelayedSend_fields cenc m =
     string_f 0xa (dsCreator m) (dsCreator_update (\<lambda>_. dsCreator m)) @
     string_f 0x12 (dsRecipient m) (dsRecipient_update (\<lambda>_. dsRecipient m)) @
     sub_f 0x1a (cenc (dsAmount m)) (dsAmount_update (\<lambda>_. dsAmount m)) @
     uint_f 0x20 (dsWindow m) (dsWindow_update (\<lambda>_. dsWindow m))"

lemma MsgDelayedSend_fits:
  assumes "fits (\<lambda>m. enc_of (MsgDelayedSend_fields cenc m)) m"
  shows "length (dsCreator m) < 2 ^ 63" and "length (dsRecipient m) < 2 ^ 63" and "length (cenc (dsAmount m)) < 2 ^ 63"
  using assms unfolding fits_def MsgDelayedSend_fields_def
  by (auto simp: field_defs enc_of_def delimited_def split: if_splits)

lemma MsgDelayedSend_moves:
  assumes "\<And>c b. length b < 2 ^ 63 \<Longrightarrow> coin_Unmarshal C c b \<noteq> OutOfFuel"
  shows "fields_move (MsgDelayedSend_field C)"
  unfolding fields_move_def MsgDelayedSend_field_def using assms by (auto split: if_splits intro: field_moves)

definition MsgDelayedSend_good :: "(Coin \<Rightarrow> bytes) \<Rightarrow> (Coin \<Rightarrow> bool) \<Rightarrow> MsgDelayedSend \<Rightarrow> bool" where
  "MsgDelayedSend_good cenc cgood m \<longleftrightarrow> cgood (dsAmount m) \<and> fits (\<lambda>m. enc_of (MsgDelayedSend_fields cenc m)) m"

sublocale coin_codec < delayed_send: field_codec "MsgDelayedSend_fields cenc" "MsgDelayedSend_good cenc cgood"
  "MsgDelayedSend_Size C" "MsgDelayedSend_puts C" "''MsgDelayedSend''" skipTx "MsgDelayedSend_field C" MsgDelayedSend_zero
proof unfold_locales
  fix m :: MsgDelayedSend
  assume "MsgDelayedSend_good cenc cgood m"
  then have c: "cgood (dsAmount m)" and fit: "fits (\<lambda>m. enc_of (MsgDelayedSend_fields cenc m)) m"
    by (simp_all add: MsgDelayedSend_good_def)
  note len = MsgDelayedSend_fits [OF fit]
  show "MsgDelayedSend_Size C m = length (enc_of (MsgDelayedSend_fields cenc m))"
    using len by (simp add: MsgDelayedSend_Size_def MsgDelayedSend_fields_def field_sizes coin.msize [OF c])
  show "writes (ops (MsgDelayedSend_puts C m)) (enc_of (MsgDelayedSend_fields cenc m))"
    unfolding MsgDelayedSend_puts_def MsgDelayedSend_fields_def enc_of_append
    by (rule writes_eq, (rule put_rules coin.writes_msg c | use len in \<open>simp; fail\<close>)+)
  have amount: "coin_Unmarshal C zero_coin (cenc (dsAmount m)) = Got (dsAmount m)"
    using coin.unmarshal [OF c len(3)] .
  show "read_through (proto_step ''MsgDelayedSend'' proto_skip (MsgDelayedSend_field C)) (MsgDelayedSend_fields cenc m) MsgDelayedSend_zero"
    unfolding MsgDelayedSend_fields_def
    by (intro read_rules reads_fieldI [OF tags(6)] reads_fieldI [OF tags(7)] reads_fieldI [OF tags(8)] reads_fieldI [OF tags(4)])
      (simp_all add: MsgDelayedSend_field_def varint_field_reads string_field_reads msg_field_reads MsgDelayedSend_zero_def
        string_f_def amount)
  show "fold snd (MsgDelayedSend_fields cenc m) MsgDelayedSend_zero = m"
    by (auto simp: MsgDelayedSend_fields_def field_defs MsgDelayedSend_zero_def)
next
  show "fields_move (MsgDelayedSend_field C)" by (rule MsgDelayedSend_moves) (rule coin.total)
qed (simp add: skipTx_def)

section \<open>\<open>MsgDelayedSendResponse\<close>\<close>

definition MsgDelayedSendResponse_puts :: "MsgDelayedSendResponse \<Rightarrow> bufop list" where
  "MsgDelayedSendResponse_puts m = [
     put_bool 0x10 (dsrFinal m),
     put_uint 0x8 (dsrId m)]"

definition MsgDelayedSendResponse_MarshalToSizedBuffer :: "MsgDelayedSendResponse \<Rightarrow> bytes \<Rightarrow> (bytes \<times> nat) res" where
  "MsgDelayedSendResponse_MarshalToSizedBuffer m = to_sized_buffer (ops (MsgDelayedSendResponse_puts m))"

definition MsgDelayedSendResponse_Size :: "MsgDelayedSendResponse \<Rightarrow> nat" where
  "MsgDelayedSendResponse_Size m =
     (if dsrId m \<noteq> 0 then 1 + sovTx (dsrId m) else 0) +
     (if dsrFinal m then 2 else 0)"

definition MsgDelayedSendResponse_Marshal :: "MsgDelayedSendResponse \<Rightarrow> bytes res" where
  "MsgDelayedSendResponse_Marshal = proto_marshal MsgDelayedSendResponse_Size MsgDelayedSendResponse_MarshalToSizedBuffer"

definition MsgDelayedSendResponse_field ::
  "int \<Rightarrow> nat \<Rightarrow> bytes \<Rightarrow> MsgDelayedSendResponse \<Rightarrow> int \<Rightarrow> (MsgDelayedSendResponse \<times> int) rd option" where
  "MsgDelayedSendResponse_field fieldNum wireType dAtA m iNdEx =
     (if fieldNum = 1 then Some (varint_field ''Id'' wireType dAtA iNdEx (\<lambda>v. m\<lparr>dsrId := v\<rparr>))
      else if fieldNum = 2 then Some (varint_field ''Final'' wireType dAtA iNdEx (\<lambda>v. m\<lparr>dsrFinal := (v \<noteq> 0)\<rparr>))
      else None)"

definition MsgDelayedSendResponse_Unmarshal :: "MsgDelayedSendResponse \<Rightarrow> bytes \<Rightarrow> MsgDelayedSendResponse rd" where
  "MsgDelayedSendResponse_Unmarshal = proto_unmarshal (proto_step ''MsgDelayedSendResponse'' skipTx MsgDelayedSendResponse_field)"

definition MsgDelayedSendResponse_zero :: MsgDelayedSendResponse where
  "MsgDelayedSendResponse_zero = \<lparr>dsrId = 0, dsrFinal = False\<rparr>"

definition MsgDelayedSendResponse_fields :: "MsgDelayedSendResponse \<Rightarrow> MsgDelayedSendResponse fields" where
  "MsgDelayedSendResponse_fields m =
     uint_f 0x8 (dsrId m) (dsrId_update (\<lambda>_. dsrId m)) @
     bool_f 0x10 (dsrFinal m) (dsrFinal_update (\<lambda>_. True))"

lemma MsgDelayedSendResponse_moves: "fields_move MsgDelayedSendResponse_field"
  unfolding fields_move_def MsgDelayedSendResponse_field_def by (auto split: if_splits intro: field_moves simp: params.total)

interpretation send_response: field_codec
  MsgDelayedSendResponse_fields "fits (\<lambda>m. enc_of (MsgDelayedSendResponse_fields m))" MsgDelayedSendResponse_Size MsgDelayedSendResponse_puts "''MsgDelayedSendResponse''"
  skipTx MsgDelayedSendResponse_field MsgDelayedSendResponse_zero
proof unfold_locales
  fix m :: MsgDelayedSendResponse
  assume fit: "fits (\<lambda>m. enc_of (MsgDelayedSendResponse_fields m)) m"
  show "MsgDelayedSendResponse_Size m = length (enc_of (MsgDelayedSendResponse_fields m))"
    by (simp add: MsgDelayedSendResponse_Size_def MsgDelayedSendResponse_fields_def field_sizes)
  show "writes (ops (MsgDelayedSendResponse_puts m)) (enc_of (MsgDelayedSendResponse_fields m))"
    unfolding MsgDelayedSendResponse_puts_def MsgDelayedSendResponse_fields_def enc_of_append
    by (rule writes_eq, (rule put_rules)+) simp
  show "read_through (proto_step ''MsgDelayedSendResponse'' proto_skip MsgDelayedSendResponse_field) (MsgDelayedSendResponse_fields m) MsgDelayedSendResponse_zero"
    unfolding MsgDelayedSendResponse_fields_def
    by (intro read_rules reads_fieldI [OF tags(1)] reads_fieldI [OF tags(2)])
      (simp_all add: MsgDelayedSendResponse_field_def varint_field_reads string_field_reads msg_field_reads
         MsgDelayedSendResponse_zero_def del: unsigned_1)
  show "fold snd (MsgDelayedSendResponse_fields m) MsgDelayedSendResponse_zero = m"
    by (auto simp: MsgDelayedSendResponse_fields_def field_defs MsgDelayedSendResponse_zero_def)
qed (simp_all add: MsgDelayedSendResponse_moves skipTx_def)

section \<open>\<open>MsgCancelSend\<close>\<close>

definition MsgCancelSend_puts :: "MsgCancelSend \<Rightarrow> bufop list" where
  "MsgCancelSend_puts m = [
     put_uint 0x10 (csId m),
     put_string 0xa (csCreator m)]"

definition MsgCancelSend_MarshalToSizedBuffer :: "MsgCancelSend \<Rightarrow> bytes \<Rightarrow> (bytes \<times> nat) res" where
  "MsgCancelSend_MarshalToSizedBuffer m = to_sized_buffer (ops (MsgCancelSend_puts m))"

definition MsgCancelSend_Size :: "MsgCancelSend \<Rightarrow> nat" where
  "MsgCancelSend_Size m =
     (let l = length (csCreator m) in if l > 0 then 1 + l + sovTx (of_nat l) else 0) +
     (if csId m \<noteq> 0 then 1 + sovTx (csId m) else 0)"

definition MsgCancelSend_Marshal :: "MsgCancelSend \<Rightarrow> bytes res" where
  "MsgCancelSend_Marshal = proto_marshal MsgCancelSend_Size MsgCancelSend_MarshalToSizedBuffer"

definition MsgCancelSend_field ::
  "int \<Rightarrow> nat \<Rightarrow> bytes \<Rightarrow> MsgCancelSend \<Rightarrow> int \<Rightarrow> (MsgCancelSend \<times> int) rd option" where
  "MsgCancelSend_field fieldNum wireType dAtA m iNdEx =
     (if fieldNum = 1 then Some (string_field ''Creator'' wireType dAtA iNdEx (\<lambda>v. m\<lparr>csCreator := v\<rparr>))
      else if fieldNum = 2 then Some (varint_field ''Id'' wireType dAtA iNdEx (\<lambda>v. m\<lparr>csId := v\<rparr>))
      else None)"

definition MsgCancelSend_Unmarshal :: "MsgCancelSend \<Rightarrow> bytes \<Rightarrow> MsgCancelSend rd" where
  "MsgCancelSend_Unmarshal = proto_unmarshal (proto_step ''MsgCancelSend'' skipTx MsgCancelSend_field)"

definition MsgCancelSend_zero :: MsgCancelSend where
  "MsgCancelSend_zero = \<lparr>csCreator = [], csId = 0\<rparr>"

definition MsgCancelSend_fields :: "MsgCancelSend \<Rightarrow> MsgCancelSend fields" where
  "MsgCancelSend_fields m =
     string_f 0xa (csCreator m) (csCreator_update (\<lambda>_. csCreator m)) @
     uint_f 0x10 (csId m) (csId_update (\<lambda>_. csId m))"

lemma MsgCancelSend_fits:
  assumes "fits (\<lambda>m. enc_of (MsgCancelSend_fields m)) m"
  shows "length (csCreator m) < 2 ^ 63"
  using assms unfolding fits_def MsgCancelSend_fields_def
  by (auto simp: field_defs enc_of_def delimited_def split: if_splits)

lemma MsgCancelSend_moves: "fields_move MsgCancelSend_field"
  unfolding fields_move_def MsgCancelSend_field_def by (auto split: if_splits intro: field_moves simp: params.total)

interpretation cancel_send: field_codec
  MsgCancelSend_fields "fits (\<lambda>m. enc_of (MsgCancelSend_fields m))" MsgCancelSend_Size MsgCancelSend_puts "''MsgCancelSend''"
  skipTx MsgCancelSend_field MsgCancelSend_zero
proof unfold_locales
  fix m :: MsgCancelSend
  assume fit: "fits (\<lambda>m. enc_of (MsgCancelSend_fields m)) m"
  note len = MsgCancelSend_fits [OF fit]
  show "MsgCancelSend_Size m = length (enc_of (MsgCancelSend_fields m))"
    using len by (simp add: MsgCancelSend_Size_def MsgCancelSend_fields_def field_sizes)
  show "writes (ops (MsgCancelSend_puts m)) (enc_of (MsgCancelSend_fields m))"
    unfolding MsgCancelSend_puts_def MsgCancelSend_fields_def enc_of_append
    by (rule writes_eq, (rule put_rules | use len in \<open>simp add: fits_def; fail\<close>)+)
  show "read_through (proto_step ''MsgCancelSend'' proto_skip MsgCancelSend_field) (MsgCancelSend_fields m) MsgCancelSend_zero"
    unfolding MsgCancelSend_fields_def
    by (intro read_rules reads_fieldI [OF tags(6)] reads_fieldI [OF tags(2)])
      (simp_all add: MsgCancelSend_field_def varint_field_reads string_field_reads msg_field_reads
         MsgCancelSend_zero_def del: unsigned_1)
  show "fold snd (MsgCancelSend_fields m) MsgCancelSend_zero = m"
    by (auto simp: MsgCancelSend_fields_def field_defs MsgCancelSend_zero_def)
qed (simp_all add: MsgCancelSend_moves skipTx_def)

section \<open>\<open>MsgSetFinalOnly\<close>\<close>

definition MsgSetFinalOnly_puts :: "MsgSetFinalOnly \<Rightarrow> bufop list" where
  "MsgSetFinalOnly_puts m = [
     put_bool 0x10 (sfFinalonly m),
     put_string 0xa (sfCreator m)]"

definition MsgSetFinalOnly_MarshalToSizedBuffer :: "MsgSetFinalOnly \<Rightarrow> bytes \<Rightarrow> (bytes \<times> nat) res" where
  "MsgSetFinalOnly_MarshalToSizedBuffer m = to_sized_buffer (ops (MsgSetFinalOnly_puts m))"

definition MsgSetFinalOnly_Size :: "MsgSetFinalOnly \<Rightarrow> nat" where
  "MsgSetFinalOnly_Size m =
     (let l = length (sfCreator m) in if l > 0 then 1 + l + sovTx (of_nat l) else 0) +
     (if sfFinalonly m then 2 else 0)"

definition MsgSetFinalOnly_Marshal :: "MsgSetFinalOnly \<Rightarrow> bytes res" where
  "MsgSetFinalOnly_Marshal = proto_marshal MsgSetFinalOnly_Size MsgSetFinalOnly_MarshalToSizedBuffer"

definition MsgSetFinalOnly_field ::
  "int \<Rightarrow> nat \<Rightarrow> bytes \<Rightarrow> MsgSetFinalOnly \<Rightarrow> int \<Rightarrow> (MsgSetFinalOnly \<times> int) rd option" where
  "MsgSetFinalOnly_field fieldNum wireType dAtA m iNdEx =
     (if fieldNum = 1 then Some (string_field ''Creator'' wireType dAtA iNdEx (\<lambda>v. m\<lparr>sfCreator := v\<rparr>))
      else if fieldNum = 2 then Some (varint_field ''Finalonly'' wireType dAtA iNdEx (\<lambda>v. m\<lparr>sfFinalonly := (v \<noteq> 0)\<rparr>))
      else None)"

definition MsgSetFinalOnly_Unmarshal :: "MsgSetFinalOnly \<Rightarrow> bytes \<Rightarrow> MsgSetFinalOnly rd" where
  "MsgSetFinalOnly_Unmarshal = proto_unmarshal (proto_step ''MsgSetFinalOnly'' skipTx MsgSetFinalOnly_field)"

definition MsgSetFinalOnly_zero :: MsgSetFinalOnly where
  "MsgSetFinalOnly_zero = \<lparr>sfCreator = [], sfFinalonly = False\<rparr>"

definition MsgSetFinalOnly_fields :: "MsgSetFinalOnly \<Rightarrow> MsgSetFinalOnly fields" where
  "MsgSetFinalOnly_fields m =
     string_f 0xa (sfCreator m) (sfCreator_update (\<lambda>_. sfCreator m)) @
     bool_f 0x10 (sfFinalonly m) (sfFinalonly_update (\<lambda>_. True))"

lemma MsgSetFinalOnly_fits:
  assumes "fits (\<lambda>m. enc_of (MsgSetFinalOnly_fields m)) m"
  shows "length (sfCreator m) < 2 ^ 63"
  using assms unfolding fits_def MsgSetFinalOnly_fields_def
  by (auto simp: field_defs enc_of_def delimited_def split: if_splits)

lemma MsgSetFinalOnly_moves: "fields_move MsgSetFinalOnly_field"
  unfolding fields_move_def MsgSetFinalOnly_field_def by (auto split: if_splits intro: field_moves simp: params.total)

interpretation set_final_only: field_codec
  MsgSetFinalOnly_fields "fits (\<lambda>m. enc_of (MsgSetFinalOnly_fields m))" MsgSetFinalOnly_Size MsgSetFinalOnly_puts "''MsgSetFinalOnly''"
  skipTx MsgSetFinalOnly_field MsgSetFinalOnly_zero
proof unfold_locales
  fix m :: MsgSetFinalOnly
  assume fit: "fits (\<lambda>m. enc_of (MsgSetFinalOnly_fields m)) m"
  note len = MsgSetFinalOnly_fits [OF fit]
  show "MsgSetFinalOnly_Size m = length (enc_of (MsgSetFinalOnly_fields m))"
    using len by (simp add: MsgSetFinalOnly_Size_def MsgSetFinalOnly_fields_def field_sizes)
  show "writes (ops (MsgSetFinalOnly_puts m)) (enc_of (MsgSetFinalOnly_fields m))"
    unfolding MsgSetFinalOnly_puts_def MsgSetFinalOnly_fields_def enc_of_append
    by (rule writes_eq, (rule put_rules | use len in \<open>simp add: fits_def; fail\<close>)+)
  show "read_through (proto_step ''MsgSetFinalOnly'' proto_skip MsgSetFinalOnly_field) (MsgSetFinalOnly_fields m) MsgSetFinalOnly_zero"
    unfolding MsgSetFinalOnly_fields_def
    by (intro read_rules reads_fieldI [OF tags(6)] reads_fieldI [OF tags(2)])
      (simp_all add: MsgSetFinalOnly_field_def varint_field_reads string_field_reads msg_field_reads
         MsgSetFinalOnly_zero_def del: unsigned_1)
  show "fold snd (MsgSetFinalOnly_fields m) MsgSetFinalOnly_zero = m"
    by (auto simp: MsgSetFinalOnly_fields_def field_defs MsgSetFinalOnly_zero_def)
qed (simp_all add: MsgSetFinalOnly_moves skipTx_def)

end
