(* ===== verification/CoinWire.thy ===== *)
theory CoinWire
  imports CodecGenesis Demo
begin

text \<open>
  A codec of \<open>sdk.Coin\<close> by its published schema (\<open>cosmos.base.v1beta1.Coin\<close>: the denomination in
  field 1, the amount in decimal in field 2, always written), on which \<open>coin_codec\<close> is
  interpreted, and the properties of the codecs of the module.
\<close>

section \<open>Decimal numbers\<close>

definition digit :: "char \<Rightarrow> nat" where
  "digit ch = of_char ch - 48"

definition parse_nat :: "string \<Rightarrow> nat" where
  "parse_nat s = foldl (\<lambda>n ch. n * 10 + digit ch) 0 s"

definition parse_int :: "string \<Rightarrow> int" where
  "parse_int s = (if s \<noteq> [] \<and> hd s = CHR ''-'' then - int (parse_nat (tl s)) else int (parse_nat s))"

lemma digit_char: "d < 10 \<Longrightarrow> digit (char_of (48 + d)) = d"
  by (simp add: digit_def take_bit_nat_eq_self)

lemma parse_show_nat: "parse_nat (show_nat n) = n"
proof (induction n rule: show_nat.induct)
  case (1 n)
  show ?case
  proof (cases "n < 10")
    case True
    then show ?thesis by (simp add: show_nat.simps parse_nat_def digit_char)
  next
    case False
    have "digit (char_of (48 + n mod 10)) = n mod 10" by (rule digit_char) simp
    with 1 [OF False] False show ?thesis
      by (subst show_nat.simps) (simp add: parse_nat_def)
  qed
qed

lemma show_nat_hd: "show_nat n \<noteq> [] \<and> hd (show_nat n) \<noteq> CHR ''-''"
proof (induction n rule: show_nat.induct)
  case (1 n)
  show ?case
  proof (cases "n < 10")
    case True
    have "char_of (48 + n) \<noteq> CHR ''-''"
    proof
      assume "char_of (48 + n) = CHR ''-''"
      then have "of_char (char_of (48 + n) :: char) = (45 :: nat)" by simp
      with True show False by (simp add: take_bit_nat_eq_self)
    qed
    with True show ?thesis by (simp add: show_nat.simps)
  next
    case False
    with 1 show ?thesis by (subst (1 2) show_nat.simps) (simp add: hd_append)
  qed
qed

lemma parse_show_int: "parse_int (Sprint_int n) = n"
  using show_nat_hd [of "nat n"] by (auto simp: parse_int_def Sprint_int_def parse_show_nat)

section \<open>Coins\<close>

definition amount_text :: "Coin \<Rightarrow> string" where
  "amount_text c = (case Amount c of None \<Rightarrow> [] | Some n \<Rightarrow> Sprint_int n)"

definition wire_coin_Size :: "Coin \<Rightarrow> nat" where
  "wire_coin_Size c =
     (let l = length (Denom c) in if l > 0 then 1 + l + sov (of_nat l) else 0) +
     (let l = length (amount_text c) in 1 + l + sov (of_nat l))"

definition wire_coin_Marshal :: "Coin \<Rightarrow> bytes \<Rightarrow> (bytes \<times> nat) res" where
  "wire_coin_Marshal c = to_sized_buffer (ops
     [put_copy (str_bytes (amount_text c)), put_varint (of_nat (length (amount_text c))), put_byte 0x12,
      put_string 0xa (Denom c)])"

definition wire_coin_field :: "int \<Rightarrow> nat \<Rightarrow> bytes \<Rightarrow> Coin \<Rightarrow> int \<Rightarrow> (Coin \<times> int) rd option" where
  "wire_coin_field fieldNum wireType d m i =
     (if fieldNum = 1 then Some (string_field ''Denom'' wireType d i (\<lambda>v. m\<lparr>Denom := v\<rparr>))
      else if fieldNum = 2 then Some (string_field ''Amount'' wireType d i (\<lambda>v. m\<lparr>Amount := Some (parse_int v)\<rparr>))
      else None)"

definition wire_coin :: CoinCodec where
  "wire_coin = \<lparr>coin_Size = wire_coin_Size, coin_MarshalToSizedBuffer = wire_coin_Marshal,
     coin_Unmarshal = proto_unmarshal (proto_step ''Coin'' proto_skip wire_coin_field)\<rparr>"

definition wire_coin_fields :: "Coin \<Rightarrow> Coin fields" where
  "wire_coin_fields c =
     string_f 0xa (Denom c) (Denom_update (\<lambda>_. Denom c)) @
     sub_f 0x12 (str_bytes (amount_text c)) (Amount_update (\<lambda>_. Some (parse_int (amount_text c))))"

definition wire_coin_enc :: "Coin \<Rightarrow> bytes" where
  "wire_coin_enc c = enc_of (wire_coin_fields c)"

definition wire_coin_good :: "Coin \<Rightarrow> bool" where
  "wire_coin_good c \<longleftrightarrow> Amount c \<noteq> None \<and> fits wire_coin_enc c"

lemma wire_coin_fits:
  assumes "wire_coin_good c"
  shows "length (Denom c) < 2 ^ 63" and "length (amount_text c) < 2 ^ 63"
  using assms unfolding wire_coin_good_def fits_def wire_coin_enc_def wire_coin_fields_def
  by (auto simp: field_defs enc_of_def delimited_def split: if_splits)

lemma wire_coin_moves: "fields_move wire_coin_field"
  unfolding fields_move_def wire_coin_field_def by (auto split: if_splits intro: field_moves)

lemma wire_coin_writes:
  assumes "wire_coin_good c"
  shows "writes (ops [put_copy (str_bytes (amount_text c)), put_varint (of_nat (length (amount_text c))),
    put_byte 0x12, put_string 0xa (Denom c)]) (wire_coin_enc c)"
proof -
  have "length (Denom c) < 2 ^ 64" "length (amount_text c) < 2 ^ 64" using wire_coin_fits [OF assms] by simp_all
  then show ?thesis
    unfolding wire_coin_enc_def wire_coin_fields_def enc_of_append
    by - (rule writes_eq, (rule writes_ops_Cons writes_copy writes_length writes_byte writes_string writes_ops_Nil | assumption)+,
        simp add: sub_f_def enc_of_def delimited_def)
qed

lemma wire_coin_reads: "read_through (proto_step ''Coin'' proto_skip wire_coin_field) (wire_coin_fields c) m0"
  unfolding wire_coin_fields_def
  by (intro read_rules reads_fieldI [OF tags(6)] reads_fieldI [OF tags(7)])
    (simp_all add: wire_coin_field_def string_field_reads)

interpretation wire: coin_codec wire_coin wire_coin_enc wire_coin_good
proof unfold_locales
  fix c :: Coin and pre gap :: bytes
  assume good: "wire_coin_good c"
  note len = wire_coin_fits [OF good]
  show "coin_Size wire_coin c = length (wire_coin_enc c)"
    using len by (simp add: wire_coin_def wire_coin_Size_def wire_coin_enc_def wire_coin_fields_def field_defs
        enc_of_def sov_varint delimited_def Let_def unat_of_nat)
  show "length gap = length (wire_coin_enc c) \<Longrightarrow>
      coin_MarshalToSizedBuffer wire_coin c (pre @ gap) = Ok (pre @ wire_coin_enc c, length (wire_coin_enc c))"
    by (simp add: wire_coin_def wire_coin_Marshal_def to_sized_buffer_writes [OF wire_coin_writes [OF good]])
  obtain n where "Amount c = Some n" using good by (auto simp: wire_coin_good_def)
  then show "length (wire_coin_enc c) < 2 ^ 63 \<Longrightarrow> coin_Unmarshal wire_coin zero_coin (wire_coin_enc c) = Got c"
    unfolding wire_coin_enc_def
    by (simp add: wire_coin_def unmarshal_fields [OF wire_coin_reads])
      (simp add: wire_coin_fields_def field_defs zero_coin_def amount_text_def parse_show_int)
next
  fix c :: Coin and d :: bytes
  show "length d < 2 ^ 63 \<Longrightarrow> coin_Unmarshal wire_coin c d \<noteq> OutOfFuel"
    by (simp add: wire_coin_def proto_unmarshal_total proto_step_moves_on wire_coin_moves)
qed

section \<open>Properties\<close>

lemma varint_short: "length (varint (unat (v :: u64))) \<le> 10"
proof (cases "unat v = 0")
  case False
  have "unat v < 2 ^ 64" using unsigned_less [of v] by simp
  then have "bit_length (unat v) \<le> 64" using False by (intro bit_length_le) auto
  then show ?thesis using False by (simp add: varint_len)
qed (simp add: varint_len_small)

lemma uint_short: "length (enc_of (uint_f k v f)) \<le> 11"
  using varint_short [of v] by (simp add: uint_f_def enc_of_def)

text \<open>
  The codec of the parameters is total and exact: every parameter set is written without
  panic into exactly the number of bytes \<open>Size\<close> announces, at most 33, and \<open>Unmarshal\<close> of
  these bytes gives it back.
\<close>

theorem Params_roundtrip:
  "\<exists>b. Params_Marshal m = Ok b \<and> length b = Params_Size m \<and> length b \<le> 33 \<and>
     Params_Unmarshal Params_zero b = Got m"
proof -
  have "length (Params_enc m) \<le> 11 + (11 + 11)"
    unfolding Params_enc_def Params_fields_def enc_of_append length_append by (intro add_mono uint_short)
  then have short: "length (Params_enc m) \<le> 33" by simp
  then have "fits Params_enc m" by (simp add: fits_def del: numeral_le_iff)
  from params.roundtrip [OF this] short show ?thesis by (simp add: Params_Marshal_def)
qed

text \<open>
  The codec of a tally gives back what was stored: a record whose encoding fits a byte
  slice is written into exactly \<open>Size\<close> bytes and read back, the switch included.
\<close>

theorem Record_roundtrip:
  assumes "length (rIndex m) < 2 ^ 62"
  shows "\<exists>b. Record_Marshal m = Ok b \<and> length b = Record_Size m \<and> Record_Unmarshal Record_zero b = Got m"
proof -
  have "length (varint (length (rIndex m))) \<le> 10"
    using varint_short [of "of_nat (length (rIndex m))"] assms by (simp add: unat_of_nat)
  then have "length (enc_of (string_f 0xa (rIndex m) f)) \<le> 11 + length (rIndex m)" for f :: "Record \<Rightarrow> Record"
    by (simp add: string_f_def enc_of_def delimited_def)
  then have "length (Record_enc m) \<le> (11 + length (rIndex m)) + (11 + (11 + 2))"
    unfolding Record_enc_def Record_fields_def enc_of_append length_append
    by (intro add_mono uint_short) (simp_all add: bool_f_def enc_of_def)
  then have "fits Record_enc m" using assms by (simp add: fits_def)
  then show ?thesis using recrd.roundtrip by (simp add: Record_Marshal_def fits_def)
qed

theorem Record_roundtrip_witness:
  "\<exists>b. Record_Marshal \<lparr>rIndex = alice, rSent = 300, rCancelled = 0, rFinalonly = True\<rparr> = Ok b \<and>
     Record_Unmarshal Record_zero b = Got \<lparr>rIndex = alice, rSent = 300, rCancelled = 0, rFinalonly = True\<rparr>"
  using Record_roundtrip [of "\<lparr>rIndex = alice, rSent = 300, rCancelled = 0, rFinalonly = True\<rparr>"]
  by (auto simp: alice_def)

context coin_codec
begin

lemma pending_back:
  assumes good: "Pending_good cenc cgood m"
  shows "\<exists>b. Pending_Marshal C m = Ok b \<and> length b = Pending_Size C m \<and> Pending_Unmarshal C Pending_zero b = Got m \<and>
    (\<forall>m'. cgood (pAmount m') \<and> fits (Pending_enc cenc) m' \<and> Pending_Marshal C m' = Ok b \<longrightarrow> m' = m)"
proof -
  have len: "length (Pending_enc cenc m) < 2 ^ 63" using good by (simp add: Pending_good_def fits_def)
  have "m' = m" if "cgood (pAmount m')" "fits (Pending_enc cenc) m'" "Pending_Marshal C m' = Ok (Pending_enc cenc m)" for m'
  proof -
    have good': "Pending_good cenc cgood m'" using that by (simp add: Pending_good_def)
    have "Pending_enc cenc m = Pending_enc cenc m'"
      using pending.marshal_enc [OF good'] that(3) by (simp add: Pending_Marshal_def)
    from pending.enc_inj [OF good good' len this] show ?thesis by (rule sym)
  qed
  then show ?thesis using pending.roundtrip [OF good len] by (auto simp: Pending_Marshal_def)
qed

lemma genesis_back:
  assumes good: "GenesisState_good cenc cgood m"
  shows "\<exists>b. GenesisState_Marshal C m = Ok b \<and> length b = GenesisState_Size C m \<and>
    GenesisState_Unmarshal C GenesisState_zero b = Got m"
proof -
  have "length (GenesisState_enc cenc m) < 2 ^ 63" using good by (simp add: GenesisState_good_def fits_def)
  from genesis.roundtrip [OF good this] show ?thesis by (auto simp: GenesisState_Marshal_def)
qed

end

text \<open>
  A stored payment is read back as it was written, the signed time included: with any
  codec of coins that meets its contract, \<open>Marshal\<close> of a payment that fits a byte slice
  succeeds in exactly \<open>Size\<close> bytes and \<open>Unmarshal\<close> inverts it; two payments with the same bytes
  are equal.
\<close>

theorem Pending_roundtrip:
  assumes "coin_codec C cenc cgood"
    and "cgood (pAmount m)" and "fits (Pending_enc cenc) m"
  shows "\<exists>b. Pending_Marshal C m = Ok b \<and> length b = Pending_Size C m \<and> Pending_Unmarshal C Pending_zero b = Got m \<and>
    (\<forall>m'. cgood (pAmount m') \<and> fits (Pending_enc cenc) m' \<and> Pending_Marshal C m' = Ok b \<longrightarrow> m' = m)"
  using coin_codec.pending_back [OF assms(1)] assms by (auto simp: Pending_good_def fits_def)

lemma wire_coin_small: "Amount c = Some n \<Longrightarrow> length (wire_coin_enc c) < 2 ^ 63 \<Longrightarrow> wire_coin_good c"
  by (simp add: wire_coin_good_def fits_def)

lemma demo_payment_fits: "length (Pending_enc wire_coin_enc demo_payment) < 100"
  by code_simp

lemma demo_coin_good: "wire_coin_good (pAmount demo_payment)"
proof -
  have "Amount (pAmount demo_payment) \<noteq> None" "length (wire_coin_enc (pAmount demo_payment)) < 100" by code_simp+
  then show ?thesis by (simp add: wire_coin_good_def fits_def)
qed

theorem Pending_roundtrip_witness:
  "\<exists>b. Pending_Marshal wire_coin demo_payment = Ok b \<and> Pending_Unmarshal wire_coin Pending_zero b = Got demo_payment"
proof -
  have "fits (Pending_enc wire_coin_enc) demo_payment" using demo_payment_fits by (simp add: fits_def)
  from Pending_roundtrip [OF wire.coin_codec_axioms demo_coin_good this] show ?thesis by blast
qed

text \<open>
  C32: A whole genesis state survives its codec: with every embedded payment's coin in the
  domain of the coin codec, \<open>Marshal\<close> of a genesis state that fits a byte slice succeeds in
  exactly \<open>Size\<close> bytes, repeated fields in order, and \<open>Unmarshal\<close> gives it back.
\<close>

theorem GenesisState_roundtrip:
  assumes "coin_codec C cenc cgood"
    and "\<forall>p\<in>set (gsPendingList m). cgood (pAmount p)" and "fits (GenesisState_enc cenc) m"
  shows "\<exists>b. GenesisState_Marshal C m = Ok b \<and> length b = GenesisState_Size C m \<and>
    GenesisState_Unmarshal C GenesisState_zero b = Got m"
  using coin_codec.genesis_back [OF assms(1)] assms by (auto simp: GenesisState_good_def fits_def)

definition wire_genesis :: GenesisState where
  "wire_genesis = \<lparr>gsParams = NewParams 1 2 3, gsPendingList = [demo_payment],
     gsPendingCount = 1, gsRecordMap = [\<lparr>rIndex = alice, rSent = 1, rCancelled = 0, rFinalonly = False\<rparr>]\<rparr>"

theorem GenesisState_roundtrip_witness:
  "\<exists>b. GenesisState_Marshal wire_coin wire_genesis = Ok b \<and>
     GenesisState_Unmarshal wire_coin GenesisState_zero b = Got wire_genesis"
proof -
  have "length (GenesisState_enc wire_coin_enc wire_genesis) < 1000" by code_simp
  then have "fits (GenesisState_enc wire_coin_enc) wire_genesis" by (simp add: fits_def)
  moreover have "\<forall>p\<in>set (gsPendingList wire_genesis). wire_coin_good (pAmount p)"
    using demo_coin_good by (simp add: wire_genesis_def)
  ultimately show ?thesis using GenesisState_roundtrip [OF wire.coin_codec_axioms] by blast
qed

end
