(* ===== verification/Module.thy ===== *)
theory Module
  imports Genesis
begin

text \<open>
  The module around the keeper (\<open>x/undo/module\<close>): what the application calls at genesis and at
  every block (\<open>module.go\<close>), and the construction of the keeper from its configuration
  (\<open>depinject.go\<close>). The JSON codec of the application and the functions of \<open>authtypes\<close> that make
  an address from a module name are parameters.
\<close>

section \<open>The application module\<close>

text \<open>\<open>codec.Codec\<close>, as far as \<open>module.go\<close> uses it.\<close>

record JSONCodec =
  MarshalJSON :: "GenesisState \<Rightarrow> error + string"
  UnmarshalJSON :: "string \<Rightarrow> error + GenesisState"

text \<open>
  \<open>types.AuthKeeper\<close> of \<open>expected_keepers.go\<close>; an account (\<open>sdk.AccountI\<close>) is opaque. (\<open>ParamSubspace\<close>
  of the same file is not used.)
\<close>

typedecl AccountI

record 'st AuthKeeper =
  ak_AddressCodec :: AddressCodec
  ak_GetAccount :: "bytes \<Rightarrow> 'st \<Rightarrow> AccountI option"

record 'st AppModule =
  cdc :: JSONCodec
  keeper :: "'st Keeper"
  am_authKeeper :: "'st AuthKeeper"
  am_bankKeeper :: "'st BankKeeper"

definition NewAppModule :: "JSONCodec \<Rightarrow> 'st Keeper \<Rightarrow> 'st AuthKeeper \<Rightarrow> 'st BankKeeper \<Rightarrow> 'st AppModule" where
  "NewAppModule c k ak bk = \<lparr>cdc = c, keeper = k, am_authKeeper = ak, am_bankKeeper = bk\<rparr>"

lemma NewAppModule_fields [simp]:
  "cdc (NewAppModule c k ak bk) = c" "keeper (NewAppModule c k ak bk) = k"
  by (simp_all add: NewAppModule_def)

text \<open>The methods that only mark the type, or register nothing.\<close>

definition AppModule_IsAppModule :: "'st AppModule \<Rightarrow> unit" where
  "AppModule_IsAppModule am = ()"

definition AppModule_IsOnePerModuleType :: "'st AppModule \<Rightarrow> unit" where
  "AppModule_IsOnePerModuleType am = ()"

definition AppModule_RegisterLegacyAminoCodec :: "'st AppModule \<Rightarrow> 'amino \<Rightarrow> 'amino" where
  "AppModule_RegisterLegacyAminoCodec am amino = amino"

definition AppModule_Name :: "'st AppModule \<Rightarrow> string" where
  "AppModule_Name am = ModuleName"

text \<open>\<open>DefaultGenesis\<close>: \<open>MustMarshalJSON\<close> panics when the codec fails.\<close>

definition AppModule_DefaultGenesis :: "'st AppModule \<Rightarrow> string res" where
  "AppModule_DefaultGenesis am =
     (case MarshalJSON (cdc am) DefaultGenesis of Inl e \<Rightarrow> Panic (error_text e) | Inr s \<Rightarrow> Ok s)"

definition AppModule_ValidateGenesis :: "'st AppModule \<Rightarrow> string \<Rightarrow> error option" where
  "AppModule_ValidateGenesis am bz =
     (case UnmarshalJSON (cdc am) bz of
        Inl e \<Rightarrow> Some (Wrapped e (''failed to unmarshal '' @ ModuleName @ '' genesis state''))
      | Inr genState \<Rightarrow> GenesisState_Validate genState)"

definition AppModule_InitGenesis :: "'st AppModule \<Rightarrow> string \<Rightarrow> ('st ctx, unit) go" where
  "AppModule_InitGenesis am gs c =
     (case UnmarshalJSON (cdc am) gs of
        Inl e \<Rightarrow> (Panic (''failed to unmarshal '' @ ModuleName @ '' genesis state: '' @ error_text e), c)
      | Inr genState \<Rightarrow> (case InitGenesis (keeper am) genState c of
            (Err e, c') \<Rightarrow> (Panic (''failed to initialize '' @ ModuleName @ '' genesis state: '' @ error_text e), c')
          | r \<Rightarrow> r))"

definition AppModule_ExportGenesis :: "'st AppModule \<Rightarrow> ('st ctx, string) go" where
  "AppModule_ExportGenesis am c =
     (case ExportGenesis (keeper am) c of
        (Err e, c') \<Rightarrow> (Panic (''failed to export '' @ ModuleName @ '' genesis state: '' @ error_text e), c')
      | (Panic t, c') \<Rightarrow> (Panic t, c')
      | (Ok genState, c') \<Rightarrow> (case MarshalJSON (cdc am) genState of
            Inl e \<Rightarrow> (Panic (''failed to marshal '' @ ModuleName @ '' genesis state: '' @ error_text e), c')
          | Inr bz \<Rightarrow> (Ok bz, c')))"

definition ConsensusVersion :: u64 where
  "ConsensusVersion = 1"

definition BeginBlock :: "'st AppModule \<Rightarrow> ('st ctx, unit) go" where
  "BeginBlock am = ret ()"

definition EndBlock :: "CoinOps \<Rightarrow> 'st AppModule \<Rightarrow> ('st ctx, unit) go" where
  "EndBlock S am = EndBlocker S (keeper am)"

section \<open>Construction\<close>

text \<open>The configuration, and the address functions of \<open>authtypes\<close>.\<close>

record ModuleConfig =
  Authority :: string

record AuthTypes =
  NewModuleAddress :: "string \<Rightarrow> bytes"
  NewModuleAddressOrBech32Address :: "string \<Rightarrow> bytes"

text \<open>The authority is the governance module unless the configuration names one.\<close>

definition config_authority :: "AuthTypes \<Rightarrow> ModuleConfig \<Rightarrow> bytes" where
  "config_authority A config =
     (let authority = NewModuleAddress A GovModuleName in
      if Authority config \<noteq> '''' then NewModuleAddressOrBech32Address A (Authority config) else authority)"

text \<open>
  What is injected. Of the store service the module uses the collections that the library
  builds on it with the codec, and the check of their schema.
\<close>

record 'st StoreService =
  ss_Build :: "(string \<times> string) list \<Rightarrow> error option"
  ss_NewItem :: "string \<Rightarrow> ('st, Params) collItem"
  ss_NewPending :: "string \<Rightarrow> ('st, u64, Pending) collMap"
  ss_NewSequence :: "string \<Rightarrow> 'st collSeq"
  ss_NewRecord :: "string \<Rightarrow> ('st, string, Record) collMap"

record 'st ModuleInputs =
  in_Config :: ModuleConfig
  in_StoreService :: "'st StoreService"
  in_Cdc :: JSONCodec
  in_AddressCodec :: AddressCodec
  in_AuthKeeper :: "'st AuthKeeper"
  in_BankKeeper :: "'st BankKeeper"

record 'st ModuleOutputs =
  out_UndoKeeper :: "'st Keeper"
  out_Module :: "'st AppModule"

definition ProvideModule :: "AuthTypes \<Rightarrow> 'st ModuleInputs \<Rightarrow> 'st ModuleOutputs res" where
  "ProvideModule A inp =
     (let authority = config_authority A (in_Config inp); ss = in_StoreService inp in
      case NewKeeper (ss_Build ss) (ss_NewItem ss) (ss_NewPending ss) (ss_NewSequence ss) (ss_NewRecord ss)
             (in_AddressCodec inp) authority (in_BankKeeper inp) of
        Ok k \<Rightarrow> (let m = NewAppModule (in_Cdc inp) k (in_AuthKeeper inp) (in_BankKeeper inp) in
                 Ok \<lparr>out_UndoKeeper = k, out_Module = m\<rparr>)
      | Err e \<Rightarrow> Err e
      | Panic t \<Rightarrow> Panic t)"

text \<open>
  \<open>init\<close> of \<open>depinject.go\<close>: the provider is registered under the name of the configuration message.
  \<open>appconfig.Register\<close> is a parameter.
\<close>

definition depinject_init ::
  "(string \<Rightarrow> (AuthTypes \<Rightarrow> 'st ModuleInputs \<Rightarrow> 'st ModuleOutputs res) \<Rightarrow> ('reg, unit) go) \<Rightarrow> ('reg, unit) go" where
  "depinject_init Register = Register ''trefoil.undo.module.v1.Module'' ProvideModule"

lemma NewKeeper_Ok:
  assumes "NewKeeper build ni np ns nr codec auth bank = Ok k"
  shows "authority k = auth" and "addressCodec k = codec" and "bankKeeper k = bank"
    and "kParams k = ni ParamsKey" and "kPending k = np PendingKey"
    and "kPendingSeq k = ns PendingCountKey" and "kRecord k = nr RecordKey"
  using assms by (auto simp: NewKeeper_def split: sum.splits option.splits)

section \<open>Properties\<close>

text \<open>
  C24: What the module exports it accepts: in a reachable state with parameters, if the JSON
  codec writes the exported genesis state and reads back what it wrote, the module's
  \<open>ExportGenesis\<close> does not panic, its result passes the module's \<open>ValidateGenesis\<close>, and the
  module's \<open>InitGenesis\<close> of it in an empty store does not panic and restores the pending table,
  the tallies, the next id and the parameters.
\<close>

theorem module_genesis_roundtrip:
  assumes "undo_contracts S (keeper am) view maddr blocked denom_ok"
    and "ledger_inv (addressCodec (keeper am)) denom_ok (maddr ModuleName) (view (store c))"
    and "lParams (view (store c)) = Some p"
    and "lPending (view (store d)) = Map.empty" and "lRecord (view (store d)) = Map.empty"
    and "\<And>g. ExportGenesis (keeper am) c = (Ok g, c) \<Longrightarrow>
       \<exists>s. MarshalJSON (cdc am) g = Inr s \<and> UnmarshalJSON (cdc am) s = Inr g"
  shows "\<exists>s d'. AppModule_ExportGenesis am c = (Ok s, c) \<and> AppModule_ValidateGenesis am s = None \<and>
    AppModule_InitGenesis am s d = (Ok (), d') \<and>
    view (store d') = (view (store c))\<lparr>lBal := lBal (view (store d))\<rparr>"
proof -
  obtain g d' where g: "ExportGenesis (keeper am) c = (Ok g, c)" "GenesisState_Validate g = None"
    "InitGenesis (keeper am) g d = (Ok (), d')"
    "view (store d') = (view (store c))\<lparr>lBal := lBal (view (store d))\<rparr>"
    using undo_contracts.export_then_import [OF assms(1-5)] by blast
  obtain s where s: "MarshalJSON (cdc am) g = Inr s" "UnmarshalJSON (cdc am) s = Inr g"
    using assms(6) [OF g(1)] by blast
  from g s have "AppModule_ExportGenesis am c = (Ok s, c)" "AppModule_ValidateGenesis am s = None"
    "AppModule_InitGenesis am s d = (Ok (), d')"
    by (simp_all add: AppModule_ExportGenesis_def AppModule_ValidateGenesis_def AppModule_InitGenesis_def)
  with g(4) show ?thesis by blast
qed

text \<open>A codec that knows one state, the one exported from the small chain.\<close>

definition demo_exported :: GenesisState where
  "demo_exported = \<lparr>gsParams = DefaultParams, gsPendingList = [demo_payment], gsPendingCount = 1,
     gsRecordMap = [\<lparr>rIndex = alice, rSent = 1, rCancelled = 0, rFinalonly = False\<rparr>]\<rparr>"

definition demo_json :: JSONCodec where
  "demo_json = \<lparr>
     MarshalJSON = (\<lambda>g. if g = demo_exported then Inr ''{}'' else Inl (Foreign ''unsupported'')),
     UnmarshalJSON = (\<lambda>s. if s = ''{}'' then Inr demo_exported else Inl (Foreign ''unsupported''))\<rparr>"

definition demo_auth_keeper :: "mem AuthKeeper" where
  "demo_auth_keeper = \<lparr>ak_AddressCodec = mem_codec, ak_GetAccount = (\<lambda>_ _. None)\<rparr>"

theorem module_genesis_roundtrip_witness:
  "\<exists>s d'. AppModule_ExportGenesis (NewAppModule demo_json mem_keeper demo_auth_keeper mem_bank) demo1 = (Ok s, demo1) \<and>
     AppModule_ValidateGenesis (NewAppModule demo_json mem_keeper demo_auth_keeper mem_bank) s = None \<and>
     AppModule_InitGenesis (NewAppModule demo_json mem_keeper demo_auth_keeper mem_bank) s demo_empty = (Ok (), d') \<and>
     lPending (mem_view (store d')) 0 = Some demo_payment"
proof -
  let ?am = "NewAppModule demo_json mem_keeper demo_auth_keeper mem_bank"
  have k: "keeper ?am = mem_keeper" "cdc ?am = demo_json" by simp_all
  have "fst (ExportGenesis mem_keeper demo1) = Ok demo_exported" by code_simp
  then have json: "\<exists>s. MarshalJSON (cdc ?am) g = Inr s \<and> UnmarshalJSON (cdc ?am) s = Inr g"
    if "ExportGenesis (keeper ?am) demo1 = (Ok g, demo1)" for g
    unfolding k using that [unfolded k] by (simp add: demo_json_def)
  have p: "lParams (mem_view (store demo1)) = Some DefaultParams" by (rule demo1_view)
  show ?thesis
    using module_genesis_roundtrip [OF _ _ p demo_empty_view(1,2) json, of mem_coins mem_maddr mem_blocked mem_denom_ok]
      mem_contracts demo_invs(1)
    by (fastforce simp: k)
qed

text \<open>
  Governance by default: the keeper \<open>ProvideModule\<close> builds has the governance module's
  address as its authority unless the configuration names another one, and from then on a
  parameter change whose signer decodes to any other address is refused with
  \<open>ErrInvalidSigner\<close> and changes nothing.
\<close>

theorem authority_from_config:
  assumes "ProvideModule A inp = Ok out"
    and "StringToBytes (in_AddressCodec inp) (upAuthority req) = Inr a"
    and "a \<noteq> (if Authority (in_Config inp) = [] then NewModuleAddress A GovModuleName
              else NewModuleAddressOrBech32Address A (Authority (in_Config inp)))"
  shows "keeper (out_Module out) = out_UndoKeeper out \<and>
    (\<exists>m. UpdateParams (out_UndoKeeper out) req c = (Err (Wrapped ErrInvalidSigner m), c))"
proof -
  let ?ss = "in_StoreService inp"
  obtain k where k: "NewKeeper (ss_Build ?ss) (ss_NewItem ?ss) (ss_NewPending ?ss) (ss_NewSequence ?ss) (ss_NewRecord ?ss)
      (in_AddressCodec inp) (config_authority A (in_Config inp)) (in_BankKeeper inp) = Ok k"
    and out: "out_UndoKeeper out = k" "keeper (out_Module out) = k"
    using assms(1) by (auto simp: ProvideModule_def Let_def split: res.splits)
  have "a \<noteq> authority k"
    using assms(3) NewKeeper_Ok(1) [OF k] by (auto simp: config_authority_def Let_def split: if_splits)
  with assms(2) NewKeeper_Ok(2) [OF k] out show ?thesis
    by (auto simp: UpdateParams_def GetAuthority_def)
qed

definition demo_auth :: AuthTypes where
  "demo_auth = \<lparr>NewModuleAddress = mem_maddr, NewModuleAddressOrBech32Address = mem_maddr\<rparr>"

text \<open>The inputs of the small chain, with a configuration.\<close>

definition demo_inputs :: "ModuleConfig \<Rightarrow> mem ModuleInputs" where
  "demo_inputs config = \<lparr>in_Config = config,
     in_StoreService = \<lparr>ss_Build = (\<lambda>_. None), ss_NewItem = (\<lambda>_. mem_params), ss_NewPending = (\<lambda>_. mem_pending),
       ss_NewSequence = (\<lambda>_. mem_seq), ss_NewRecord = (\<lambda>_. mem_record)\<rparr>,
     in_Cdc = demo_json, in_AddressCodec = mem_codec, in_AuthKeeper = demo_auth_keeper, in_BankKeeper = mem_bank\<rparr>"

lemma demo_provided:
  obtains out where "ProvideModule demo_auth (demo_inputs config) = Ok out"
  by (auto simp: ProvideModule_def NewKeeper_def demo_inputs_def mem_codec_def Let_def)

theorem authority_from_config_witness:
  "\<exists>out m. ProvideModule demo_auth (demo_inputs \<lparr>Authority = []\<rparr>) = Ok out \<and>
     UpdateParams (out_UndoKeeper out) \<lparr>upAuthority = alice, upParams = DefaultParams\<rparr> demo0
       = (Err (Wrapped ErrInvalidSigner m), demo0)"
proof -
  obtain out where out: "ProvideModule demo_auth (demo_inputs \<lparr>Authority = []\<rparr>) = Ok out" by (rule demo_provided)
  have "alice_bytes \<noteq> mem_maddr GovModuleName" by code_simp
  then show ?thesis
    using authority_from_config [OF out, where req = "\<lparr>upAuthority = alice, upParams = DefaultParams\<rparr>" and a = alice_bytes and c = demo0] out
    by (auto simp: demo_auth_def demo_inputs_def)
qed

end
