(* ===== verification/Simulation.thy ===== *)
theory Simulation
  imports Module
begin

text \<open>
  The module's part in chain simulations (\<open>x/undo/module/simulation.go\<close>, \<open>x/undo/simulation\<close>) and
  its command line (\<open>x/undo/module/autocli.go\<close>). The operations are stubs: each picks an account
  and reports that it does nothing. The simulation framework is a parameter: the choice of an
  account, the type URL of a message, the report of a message
  that was not sent (\<open>NoOpMsg\<close>) and the lookup of a parameter by its key.
\<close>

section \<open>Operations\<close>

datatype undo_msg =
    DelayedSendMsg MsgDelayedSend
  | CancelSendMsg MsgCancelSend
  | SetFinalOnlyMsg MsgSetFinalOnly
  | UpdateParamsMsg MsgUpdateParams

record ('r, 'p, 'o) SimFramework =
  RandomAcc :: "'r \<Rightarrow> bytes list \<Rightarrow> bytes \<times> nat"
  AccAddress_String :: "bytes \<Rightarrow> string"
  MsgTypeURL :: "undo_msg \<Rightarrow> string"
  NoOpMsg :: "string \<Rightarrow> string \<Rightarrow> string \<Rightarrow> 'o"
  GetOrGenerate :: "'p \<Rightarrow> string \<Rightarrow> int \<Rightarrow> int"

type_synonym ('r, 'o) sim_operation = "'r \<Rightarrow> bytes list \<Rightarrow> 'o \<times> nat list \<times> error option"

definition SimulateMsgDelayedSend :: "('r, 'p, 'o) SimFramework \<Rightarrow> ('r, 'o) sim_operation" where
  "SimulateMsgDelayedSend F r accs =
     (let simAccount = fst (RandomAcc F r accs);
          msg = DelayedSendMsg \<lparr>dsCreator = AccAddress_String F simAccount, dsRecipient = [],
                  dsAmount = \<lparr>Denom = [], Amount = None\<rparr>, dsWindow = 0\<rparr> in
      (NoOpMsg F ModuleName (MsgTypeURL F msg) ''DelayedSend simulation not implemented'', [], None))"

definition SimulateMsgCancelSend :: "('r, 'p, 'o) SimFramework \<Rightarrow> ('r, 'o) sim_operation" where
  "SimulateMsgCancelSend F r accs =
     (let simAccount = fst (RandomAcc F r accs);
          msg = CancelSendMsg \<lparr>csCreator = AccAddress_String F simAccount, csId = 0\<rparr> in
      (NoOpMsg F ModuleName (MsgTypeURL F msg) ''CancelSend simulation not implemented'', [], None))"

definition SimulateMsgSetFinalOnly :: "('r, 'p, 'o) SimFramework \<Rightarrow> ('r, 'o) sim_operation" where
  "SimulateMsgSetFinalOnly F r accs =
     (let simAccount = fst (RandomAcc F r accs);
          msg = SetFinalOnlyMsg \<lparr>sfCreator = AccAddress_String F simAccount, sfFinalonly = False\<rparr> in
      (NoOpMsg F ModuleName (MsgTypeURL F msg) ''SetFinalOnly simulation not implemented'', [], None))"

definition RegisterStoreDecoder :: "'st AppModule \<Rightarrow> 'reg \<Rightarrow> 'reg" where
  "RegisterStoreDecoder am registry = registry"

text \<open>The operations with their weights: a configured weight under the key, else the default.\<close>

definition WeightedOperations :: "('r, 'p, 'o) SimFramework \<Rightarrow> 'p \<Rightarrow> (int \<times> ('r, 'o) sim_operation) list" where
  "WeightedOperations F AppParams =
     [(GetOrGenerate F AppParams ''op_weight_msg_undo'' 100, SimulateMsgDelayedSend F),
      (GetOrGenerate F AppParams ''op_weight_msg_undo'' 100, SimulateMsgCancelSend F),
      (GetOrGenerate F AppParams ''op_weight_msg_undo'' 100, SimulateMsgSetFinalOnly F)]"

text \<open>
  The genesis of a simulation: the default parameters and nothing else, under the module's
  name. The addresses of the accounts are collected and not used.
\<close>

definition GenerateGenesisState :: "JSONCodec \<Rightarrow> (bytes \<Rightarrow> string) \<Rightarrow> bytes list \<Rightarrow> (string \<Rightarrow> string option) \<Rightarrow> (string \<Rightarrow> string option) res" where
  "GenerateGenesisState codec AccString accounts genState =
     (let accs = map AccString accounts;
          undoGenesis = \<lparr>gsParams = DefaultParams, gsPendingList = [], gsPendingCount = 0, gsRecordMap = []\<rparr> in
      case MarshalJSON codec undoGenesis of
        Inl e \<Rightarrow> Panic (error_text e)
      | Inr t \<Rightarrow> Ok (genState(ModuleName \<mapsto> t)))"

definition ProposalMsgs :: "undo_msg list" where
  "ProposalMsgs = []"

text \<open>No operation of a simulation does anything, and no weight can be set on its own.\<close>

lemma simulation_does_nothing:
  "(w, operation) \<in> set (WeightedOperations F ap) \<Longrightarrow>
     \<exists>msg why. operation r accs = (NoOpMsg F ModuleName (MsgTypeURL F msg) why, [], None)"
  by (auto simp: WeightedOperations_def SimulateMsgDelayedSend_def SimulateMsgCancelSend_def
      SimulateMsgSetFinalOnly_def Let_def; blast)

lemma one_weight_for_all:
  "(w, operation) \<in> set (WeightedOperations F ap) \<Longrightarrow> (w', operation') \<in> set (WeightedOperations F ap) \<Longrightarrow> w = w'"
  by (auto simp: WeightedOperations_def)

text \<open>What a simulation starts from validates.\<close>

lemma simulated_genesis_valid:
  assumes "\<And>g. \<exists>t. MarshalJSON codec g = Inr t \<and> UnmarshalJSON codec t = Inr g"
  shows "\<exists>gs t. GenerateGenesisState codec f accs m = Ok gs \<and> gs ModuleName = Some t \<and>
    AppModule_ValidateGenesis (NewAppModule codec k ak bk) t = None"
proof -
  let ?g = "\<lparr>gsParams = DefaultParams, gsPendingList = [], gsPendingCount = 0, gsRecordMap = []\<rparr>"
  obtain t where t: "MarshalJSON codec ?g = Inr t" "UnmarshalJSON codec t = Inr ?g" using assms by blast
  have "GenesisState_Validate ?g = None"
    by (simp add: GenesisState_Validate_def Params_Validate_def DefaultParams_def NewParams_def
        DefaultMinwindow_def DefaultDefaultwindow_def DefaultMaxwindow_def)
  then show ?thesis
    by (simp add: GenerateGenesisState_def t AppModule_ValidateGenesis_def)
qed

section \<open>The command line\<close>

record RpcCommandOptions =
  RpcMethod :: string
  Use :: string
  Short :: string
  Alias :: "string list"
  PositionalArgs :: "string list"
  Skip :: bool

definition rpc_command :: RpcCommandOptions where
  "rpc_command = \<lparr>RpcMethod = [], Use = [], Short = [], Alias = [], PositionalArgs = [], Skip = False\<rparr>"

record ServiceCommandDescriptor =
  Service :: string
  EnhanceCustomCommand :: bool
  CommandOptions :: "RpcCommandOptions list"

record ModuleOptions =
  moQuery :: ServiceCommandDescriptor
  moTx :: ServiceCommandDescriptor

definition AutoCLIOptions :: "string \<Rightarrow> string \<Rightarrow> ModuleOptions" where
  "AutoCLIOptions queryService msgService =
     \<lparr>moQuery = \<lparr>Service = queryService, EnhanceCustomCommand = False, CommandOptions =
        [rpc_command\<lparr>RpcMethod := ''Params'', Use := ''params'', Short := ''Shows the parameters of the module''\<rparr>,
         rpc_command\<lparr>RpcMethod := ''ListPending'', Use := ''list-pending'', Short := ''List all pending''\<rparr>,
         rpc_command\<lparr>RpcMethod := ''GetPending'', Use := ''get-pending [id]'', Short := ''Gets a pending by id'',
           Alias := [''show-pending''], PositionalArgs := [''id'']\<rparr>,
         rpc_command\<lparr>RpcMethod := ''ListRecord'', Use := ''list-record'', Short := ''List all record''\<rparr>,
         rpc_command\<lparr>RpcMethod := ''GetRecord'', Use := ''get-record [id]'', Short := ''Gets a record'',
           Alias := [''show-record''], PositionalArgs := [''index'']\<rparr>]\<rparr>,
      moTx = \<lparr>Service = msgService, EnhanceCustomCommand = True, CommandOptions =
        [rpc_command\<lparr>RpcMethod := ''UpdateParams'', Skip := True\<rparr>,
         rpc_command\<lparr>RpcMethod := ''DelayedSend'', Use := ''delayed-send [recipient] [amount] [window]'',
           Short := ''Send a delayed-send tx'', PositionalArgs := [''recipient'', ''amount'', ''window'']\<rparr>,
         rpc_command\<lparr>RpcMethod := ''CancelSend'', Use := ''cancel-send [id]'',
           Short := ''Send a cancel-send tx'', PositionalArgs := [''id'']\<rparr>,
         rpc_command\<lparr>RpcMethod := ''SetFinalOnly'', Use := ''set-final-only [finalonly]'',
           Short := ''Send a set-final-only tx'', PositionalArgs := [''finalonly'']\<rparr>]\<rparr>\<rparr>"

text \<open>
  The fields of the request messages, from their structs; a signer's field is filled in by the
  command line itself. Every command takes exactly the other fields, in their order.
\<close>

definition request_fields :: "string \<Rightarrow> string list" where
  "request_fields method =
     (if method = ''GetPending'' then [''id''] else if method = ''GetRecord'' then [''index'']
      else if method = ''DelayedSend'' then [''creator'', ''recipient'', ''amount'', ''window'']
      else if method = ''CancelSend'' then [''creator'', ''id'']
      else if method = ''SetFinalOnly'' then [''creator'', ''finalonly''] else [])"

lemma cli_takes_the_fields:
  "\<forall>opt \<in> set (CommandOptions (moQuery (AutoCLIOptions q m))) \<union> set (CommandOptions (moTx (AutoCLIOptions q m))).
     PositionalArgs opt = filter (\<lambda>f. f \<noteq> ''creator'') (request_fields (RpcMethod opt))"
  by (simp add: AutoCLIOptions_def rpc_command_def request_fields_def)

lemma only_params_skipped:
  "opt \<in> set (CommandOptions (moTx (AutoCLIOptions q m))) \<Longrightarrow> Skip opt \<longleftrightarrow> RpcMethod opt = ''UpdateParams''"
  by (auto simp: AutoCLIOptions_def rpc_command_def)

section \<open>A sample account\<close>

text \<open>
  \<open>AccAddress\<close> of \<open>testutil/sample\<close>: the text of the address of a fresh key. Making a key, its public
  key, the address of that and its text are functions of the SDK.
\<close>

definition AccAddress ::
  "('rand \<Rightarrow> 'priv \<times> 'rand) \<Rightarrow> ('priv \<Rightarrow> 'pub) \<Rightarrow> ('pub \<Rightarrow> bytes) \<Rightarrow> (bytes \<Rightarrow> string) \<Rightarrow> 'rand \<Rightarrow> string \<times> 'rand" where
  "AccAddress GenPrivKey PubKey Address String s =
     (case GenPrivKey s of (priv, s') \<Rightarrow> (let pk = PubKey priv; addr = Address pk in (String addr, s')))"

end
