(* ===== verification/Gateway.thy ===== *)
theory Gateway
  imports Query
begin

text \<open>
  The REST gateway of the queries (\<open>x/undo/types/query.pb.gw.go\<close>): for every query a handler that
  calls a local server (\<open>local_request_*\<close>) and one that calls a remote one through a client
  (\<open>request_*\<close>), and the registration of both sets of routes. The gateway runtime, \<open>net/http\<close>'s
  request and writer and the gRPC client are parameters. An HTTP handler is a Go call over the
  store, the transport stream of the request and the response writer.
\<close>

section \<open>What the file uses of the runtime\<close>

type_synonym MD = "(string \<times> string) list"
type_synonym url_Values = "(string \<times> string list) list"
type_synonym path_params = "string \<Rightarrow> string option"

record ServerMetadata =
  HeaderMD :: MD
  TrailerMD :: MD

definition no_metadata :: ServerMetadata where
  "no_metadata = \<lparr>HeaderMD = [], TrailerMD = []\<rparr>"

record DoubleArray =
  Encoding :: "(string \<times> int) list"
  Base :: "int list"
  Check :: "int list"

record Pattern =
  pVersion :: int
  pOps :: "int list"
  pPool :: "string list"
  pVerb :: string

datatype ('pr) reply =
    ParamsReply QueryParamsResponse
  | GetPendingReply QueryGetPendingResponse
  | ListPendingReply "'pr QueryAllPendingResponse"
  | GetRecordReply QueryGetRecordResponse
  | ListRecordReply "'pr QueryAllRecordResponse"

record ('c, 'q, 'm, 'w, 'pq, 'pr) GatewayRuntime =
  req_Context :: "'q \<Rightarrow> 'c"
  NewContextWithStream :: "'c \<Rightarrow> 'c"
  MarshalerForRequest :: "'q \<Rightarrow> 'm \<times> 'm"
  AnnotateContext :: "'c \<Rightarrow> 'q \<Rightarrow> error + 'c"
  AnnotateIncomingContext :: "'c \<Rightarrow> 'q \<Rightarrow> error + 'c"
  NewServerMetadataContext :: "'c \<Rightarrow> ServerMetadata \<Rightarrow> 'c"
  metadata_Join :: "MD \<Rightarrow> MD \<Rightarrow> MD"
  HTTPError :: "'c \<Rightarrow> 'm \<Rightarrow> 'q \<Rightarrow> error \<Rightarrow> 'w \<Rightarrow> 'w"
  ForwardResponseMessage :: "'c \<Rightarrow> 'm \<Rightarrow> 'q \<Rightarrow> 'pr reply \<Rightarrow> 'w \<Rightarrow> 'w"
  runtime_Uint64 :: "string \<Rightarrow> error + u64"
  runtime_String :: "string \<Rightarrow> error + string"
  ParseForm :: "'q \<Rightarrow> error + url_Values"
  PopulatePending :: "url_Values \<Rightarrow> DoubleArray \<Rightarrow> error + 'pq QueryAllPendingRequest"
  PopulateRecord :: "url_Values \<Rightarrow> DoubleArray \<Rightarrow> error + 'pq QueryAllRecordRequest"

text \<open>A server answers over the store and the stream, on which it may set metadata.\<close>

record ('st, 'c, 'pq, 'pr) QueryServer =
  srv_Params :: "'c \<Rightarrow> unit option \<Rightarrow> ('st \<times> ServerMetadata, QueryParamsResponse) go"
  srv_GetPending :: "'c \<Rightarrow> QueryGetPendingRequest option \<Rightarrow> ('st \<times> ServerMetadata, QueryGetPendingResponse) go"
  srv_ListPending :: "'c \<Rightarrow> 'pq QueryAllPendingRequest option \<Rightarrow> ('st \<times> ServerMetadata, 'pr QueryAllPendingResponse) go"
  srv_GetRecord :: "'c \<Rightarrow> QueryGetRecordRequest option \<Rightarrow> ('st \<times> ServerMetadata, QueryGetRecordResponse) go"
  srv_ListRecord :: "'c \<Rightarrow> 'pq QueryAllRecordRequest option \<Rightarrow> ('st \<times> ServerMetadata, 'pr QueryAllRecordResponse) go"

text \<open>A client hands the metadata of the answer back with it, on an error too.\<close>

type_synonym ('st, 'a) rpc = "'st \<Rightarrow> ('a res \<times> ServerMetadata) \<times> 'st"

record ('st, 'c, 'pq, 'pr) QueryClient =
  cl_Params :: "'c \<Rightarrow> unit option \<Rightarrow> ('st, QueryParamsResponse) rpc"
  cl_GetPending :: "'c \<Rightarrow> QueryGetPendingRequest option \<Rightarrow> ('st, QueryGetPendingResponse) rpc"
  cl_ListPending :: "'c \<Rightarrow> 'pq QueryAllPendingRequest option \<Rightarrow> ('st, 'pr QueryAllPendingResponse) rpc"
  cl_GetRecord :: "'c \<Rightarrow> QueryGetRecordRequest option \<Rightarrow> ('st, QueryGetRecordResponse) rpc"
  cl_ListRecord :: "'c \<Rightarrow> 'pq QueryAllRecordRequest option \<Rightarrow> ('st, 'pr QueryAllRecordResponse) rpc"

text \<open>The message a handler returns, as \<open>proto.Message\<close>, with its metadata.\<close>

type_synonym ('s, 'pr) answer = "'s \<Rightarrow> ('pr reply res \<times> ServerMetadata) \<times> 's"

fun map_res :: "('a \<Rightarrow> 'b) \<Rightarrow> 'a res \<Rightarrow> 'b res" where
  "map_res f (Ok a) = Ok (f a)"
| "map_res f (Err e) = Err e"
| "map_res f (Panic t) = Panic t"

definition refuse :: "error \<Rightarrow> ('s, 'pr) answer" where
  "refuse e s = ((Err e, no_metadata), s)"

definition from_client :: "('a \<Rightarrow> 'pr reply) \<Rightarrow> ('st, 'a) rpc \<Rightarrow> ('st, 'pr) answer" where
  "from_client reply call s = (case call s of ((r, md), s') \<Rightarrow> ((map_res reply r, md), s'))"

definition from_server :: "('a \<Rightarrow> 'pr reply) \<Rightarrow> ('s, 'a) go \<Rightarrow> ('s, 'pr) answer" where
  "from_server reply call s = (case call s of (r, s') \<Rightarrow> ((map_res reply r, no_metadata), s'))"

definition missing_parameter :: "string \<Rightarrow> error" where
  "missing_parameter p = StatusError InvalidArgument (''missing parameter '' @ p)"

definition type_mismatch :: "string \<Rightarrow> error \<Rightarrow> error" where
  "type_mismatch p e = StatusError InvalidArgument (''type mismatch, parameter: '' @ p @ '', error: '' @ error_text e)"

section \<open>The handlers of the queries\<close>

definition request_Query_Params_0 :: "('st, 'c, 'pq, 'pr) QueryClient \<Rightarrow> 'c \<Rightarrow> 'q \<Rightarrow> path_params \<Rightarrow> ('st, 'pr) answer" where
  "request_Query_Params_0 client ctx req pathParams =
     from_client ParamsReply (cl_Params client ctx (Some ()))"

definition local_request_Query_Params_0 ::
  "('st, 'c, 'pq, 'pr) QueryServer \<Rightarrow> 'c \<Rightarrow> 'q \<Rightarrow> path_params \<Rightarrow> ('st \<times> ServerMetadata, 'pr) answer" where
  "local_request_Query_Params_0 server ctx req pathParams =
     from_server ParamsReply (srv_Params server ctx (Some ()))"

definition request_Query_GetPending_0 ::
  "('c, 'q, 'm, 'w, 'pq, 'pr) GatewayRuntime \<Rightarrow> ('st, 'c, 'pq, 'pr) QueryClient \<Rightarrow> 'c \<Rightarrow> 'q \<Rightarrow> path_params \<Rightarrow> ('st, 'pr) answer" where
  "request_Query_GetPending_0 rt client ctx req pathParams =
     (case pathParams ''id'' of
        None \<Rightarrow> refuse (missing_parameter ''id'')
      | Some val \<Rightarrow> (case runtime_Uint64 rt val of
            Inl err \<Rightarrow> refuse (type_mismatch ''id'' err)
          | Inr n \<Rightarrow> from_client GetPendingReply (cl_GetPending client ctx (Some \<lparr>qgpId = n\<rparr>))))"

definition local_request_Query_GetPending_0 ::
  "('c, 'q, 'm, 'w, 'pq, 'pr) GatewayRuntime \<Rightarrow> ('st, 'c, 'pq, 'pr) QueryServer \<Rightarrow> 'c \<Rightarrow> 'q \<Rightarrow> path_params \<Rightarrow> ('st \<times> ServerMetadata, 'pr) answer" where
  "local_request_Query_GetPending_0 rt server ctx req pathParams =
     (case pathParams ''id'' of
        None \<Rightarrow> refuse (missing_parameter ''id'')
      | Some val \<Rightarrow> (case runtime_Uint64 rt val of
            Inl err \<Rightarrow> refuse (type_mismatch ''id'' err)
          | Inr n \<Rightarrow> from_server GetPendingReply (srv_GetPending server ctx (Some \<lparr>qgpId = n\<rparr>))))"

definition filter_Query_ListPending_0 :: DoubleArray where
  "filter_Query_ListPending_0 = \<lparr>Encoding = [], Base = [], Check = []\<rparr>"

definition request_Query_ListPending_0 ::
  "('c, 'q, 'm, 'w, 'pq, 'pr) GatewayRuntime \<Rightarrow> ('st, 'c, 'pq, 'pr) QueryClient \<Rightarrow> 'c \<Rightarrow> 'q \<Rightarrow> path_params \<Rightarrow> ('st, 'pr) answer" where
  "request_Query_ListPending_0 rt client ctx req pathParams =
     (case ParseForm rt req of
        Inl err \<Rightarrow> refuse (StatusError InvalidArgument (error_text err))
      | Inr form \<Rightarrow> (case PopulatePending rt form filter_Query_ListPending_0 of
            Inl err \<Rightarrow> refuse (StatusError InvalidArgument (error_text err))
          | Inr protoReq \<Rightarrow> from_client ListPendingReply (cl_ListPending client ctx (Some protoReq))))"

definition local_request_Query_ListPending_0 ::
  "('c, 'q, 'm, 'w, 'pq, 'pr) GatewayRuntime \<Rightarrow> ('st, 'c, 'pq, 'pr) QueryServer \<Rightarrow> 'c \<Rightarrow> 'q \<Rightarrow> path_params \<Rightarrow> ('st \<times> ServerMetadata, 'pr) answer" where
  "local_request_Query_ListPending_0 rt server ctx req pathParams =
     (case ParseForm rt req of
        Inl err \<Rightarrow> refuse (StatusError InvalidArgument (error_text err))
      | Inr form \<Rightarrow> (case PopulatePending rt form filter_Query_ListPending_0 of
            Inl err \<Rightarrow> refuse (StatusError InvalidArgument (error_text err))
          | Inr protoReq \<Rightarrow> from_server ListPendingReply (srv_ListPending server ctx (Some protoReq))))"

definition request_Query_GetRecord_0 ::
  "('c, 'q, 'm, 'w, 'pq, 'pr) GatewayRuntime \<Rightarrow> ('st, 'c, 'pq, 'pr) QueryClient \<Rightarrow> 'c \<Rightarrow> 'q \<Rightarrow> path_params \<Rightarrow> ('st, 'pr) answer" where
  "request_Query_GetRecord_0 rt client ctx req pathParams =
     (case pathParams ''index'' of
        None \<Rightarrow> refuse (missing_parameter ''index'')
      | Some val \<Rightarrow> (case runtime_String rt val of
            Inl err \<Rightarrow> refuse (type_mismatch ''index'' err)
          | Inr t \<Rightarrow> from_client GetRecordReply (cl_GetRecord client ctx (Some \<lparr>qgrIndex = t\<rparr>))))"

definition local_request_Query_GetRecord_0 ::
  "('c, 'q, 'm, 'w, 'pq, 'pr) GatewayRuntime \<Rightarrow> ('st, 'c, 'pq, 'pr) QueryServer \<Rightarrow> 'c \<Rightarrow> 'q \<Rightarrow> path_params \<Rightarrow> ('st \<times> ServerMetadata, 'pr) answer" where
  "local_request_Query_GetRecord_0 rt server ctx req pathParams =
     (case pathParams ''index'' of
        None \<Rightarrow> refuse (missing_parameter ''index'')
      | Some val \<Rightarrow> (case runtime_String rt val of
            Inl err \<Rightarrow> refuse (type_mismatch ''index'' err)
          | Inr t \<Rightarrow> from_server GetRecordReply (srv_GetRecord server ctx (Some \<lparr>qgrIndex = t\<rparr>))))"

definition filter_Query_ListRecord_0 :: DoubleArray where
  "filter_Query_ListRecord_0 = \<lparr>Encoding = [], Base = [], Check = []\<rparr>"

definition request_Query_ListRecord_0 ::
  "('c, 'q, 'm, 'w, 'pq, 'pr) GatewayRuntime \<Rightarrow> ('st, 'c, 'pq, 'pr) QueryClient \<Rightarrow> 'c \<Rightarrow> 'q \<Rightarrow> path_params \<Rightarrow> ('st, 'pr) answer" where
  "request_Query_ListRecord_0 rt client ctx req pathParams =
     (case ParseForm rt req of
        Inl err \<Rightarrow> refuse (StatusError InvalidArgument (error_text err))
      | Inr form \<Rightarrow> (case PopulateRecord rt form filter_Query_ListRecord_0 of
            Inl err \<Rightarrow> refuse (StatusError InvalidArgument (error_text err))
          | Inr protoReq \<Rightarrow> from_client ListRecordReply (cl_ListRecord client ctx (Some protoReq))))"

definition local_request_Query_ListRecord_0 ::
  "('c, 'q, 'm, 'w, 'pq, 'pr) GatewayRuntime \<Rightarrow> ('st, 'c, 'pq, 'pr) QueryServer \<Rightarrow> 'c \<Rightarrow> 'q \<Rightarrow> path_params \<Rightarrow> ('st \<times> ServerMetadata, 'pr) answer" where
  "local_request_Query_ListRecord_0 rt server ctx req pathParams =
     (case ParseForm rt req of
        Inl err \<Rightarrow> refuse (StatusError InvalidArgument (error_text err))
      | Inr form \<Rightarrow> (case PopulateRecord rt form filter_Query_ListRecord_0 of
            Inl err \<Rightarrow> refuse (StatusError InvalidArgument (error_text err))
          | Inr protoReq \<Rightarrow> from_server ListRecordReply (srv_ListRecord server ctx (Some protoReq))))"

section \<open>Routes\<close>

text \<open>The arguments of \<open>runtime.NewPattern\<close>: literal and captured path segments, as the runtime encodes them.\<close>

definition pattern_Query_Params_0 :: Pattern where
  "pattern_Query_Params_0 = \<lparr>pVersion = 1, pOps = [2, 0, 2, 1, 2, 2, 2, 3], pPool = [''trefoil'', ''undo'', ''v1'', ''params''], pVerb = ''''\<rparr>"

definition pattern_Query_GetPending_0 :: Pattern where
  "pattern_Query_GetPending_0 = \<lparr>pVersion = 1, pOps = [2, 0, 2, 1, 2, 2, 2, 3, 1, 0, 4, 1, 5, 4], pPool = [''trefoil'', ''undo'', ''v1'', ''pending'', ''id''], pVerb = ''''\<rparr>"

definition pattern_Query_ListPending_0 :: Pattern where
  "pattern_Query_ListPending_0 = \<lparr>pVersion = 1, pOps = [2, 0, 2, 1, 2, 2, 2, 3], pPool = [''trefoil'', ''undo'', ''v1'', ''pending''], pVerb = ''''\<rparr>"

definition pattern_Query_GetRecord_0 :: Pattern where
  "pattern_Query_GetRecord_0 = \<lparr>pVersion = 1, pOps = [2, 0, 2, 1, 2, 2, 2, 3, 1, 0, 4, 1, 5, 4], pPool = [''trefoil'', ''undo'', ''v1'', ''record'', ''index''], pVerb = ''''\<rparr>"

definition pattern_Query_ListRecord_0 :: Pattern where
  "pattern_Query_ListRecord_0 = \<lparr>pVersion = 1, pOps = [2, 0, 2, 1, 2, 2, 2, 3], pPool = [''trefoil'', ''undo'', ''v1'', ''record''], pVerb = ''''\<rparr>"

text \<open>
  What a handler works on: the store behind the server and the response writer. A handler makes
  its own cancellable copy of the request's context, which it cancels when it returns.
\<close>

record ('st, 'w) http =
  hStore :: 'st
  hWriter :: 'w

type_synonym ('st, 'w, 'q) handler = "'q \<Rightarrow> path_params \<Rightarrow> (('st, 'w) http, unit) go"

record ('st, 'w, 'q) route =
  rMethod :: string
  rPattern :: Pattern
  rHandler :: "('st, 'w, 'q) handler"

text \<open>The end of every handler: write the error, or forward the response.\<close>

definition respond ::
  "('c, 'q, 'm, 'w, 'pq, 'pr) GatewayRuntime \<Rightarrow> 'c \<Rightarrow> 'm \<Rightarrow> 'q \<Rightarrow> 'pr reply res \<Rightarrow> (('st, 'w) http, unit) go" where
  "respond rt ctx out req r s =
     (case r of
        Err err \<Rightarrow> (Ok (), s\<lparr>hWriter := HTTPError rt ctx out req err (hWriter s)\<rparr>)
      | Ok resp \<Rightarrow> (Ok (), s\<lparr>hWriter := ForwardResponseMessage rt ctx out req resp (hWriter s)\<rparr>)
      | Panic t \<Rightarrow> (Panic t, s))"

text \<open>The body of the five handlers of \<open>RegisterQueryHandlerServer\<close>; the stream is a new variable of each.\<close>

definition serve_local ::
  "('c, 'q, 'm, 'w, 'pq, 'pr) GatewayRuntime \<Rightarrow> ('c \<Rightarrow> 'q \<Rightarrow> path_params \<Rightarrow> ('st \<times> ServerMetadata, 'pr) answer) \<Rightarrow> ('st, 'w, 'q) handler" where
  "serve_local rt local_request req pathParams s =
     (let ctx = NewContextWithStream rt (req_Context rt req);
          out = snd (MarshalerForRequest rt req) in
      case AnnotateIncomingContext rt ctx req of
        Inl err \<Rightarrow> (Ok (), s\<lparr>hWriter := HTTPError rt ctx out req err (hWriter s)\<rparr>)
      | Inr rctx \<Rightarrow>
         (case local_request rctx req pathParams (hStore s, no_metadata) of
            ((resp, md), (st, stream)) \<Rightarrow>
              let md = \<lparr>HeaderMD = metadata_Join rt (HeaderMD md) (HeaderMD stream),
                        TrailerMD = metadata_Join rt (TrailerMD md) (TrailerMD stream)\<rparr>;
                  ctx = NewServerMetadataContext rt ctx md in
              respond rt ctx out req resp (s\<lparr>hStore := st\<rparr>)))"

text \<open>The body of the five handlers of \<open>RegisterQueryHandlerClient\<close>.\<close>

definition serve_remote ::
  "('c, 'q, 'm, 'w, 'pq, 'pr) GatewayRuntime \<Rightarrow> ('c \<Rightarrow> 'q \<Rightarrow> path_params \<Rightarrow> ('st, 'pr) answer) \<Rightarrow> ('st, 'w, 'q) handler" where
  "serve_remote rt request req pathParams s =
     (let ctx = req_Context rt req;
          out = snd (MarshalerForRequest rt req) in
      case AnnotateContext rt ctx req of
        Inl err \<Rightarrow> (Ok (), s\<lparr>hWriter := HTTPError rt ctx out req err (hWriter s)\<rparr>)
      | Inr rctx \<Rightarrow>
         (case request rctx req pathParams (hStore s) of
            ((resp, md), st) \<Rightarrow>
              let ctx = NewServerMetadataContext rt ctx md in
              respond rt ctx out req resp (s\<lparr>hStore := st\<rparr>)))"

definition RegisterQueryHandlerServer ::
  "('c, 'q, 'm, 'w, 'pq, 'pr) GatewayRuntime \<Rightarrow> ('st, 'w, 'q) route list \<Rightarrow> ('st, 'c, 'pq, 'pr) QueryServer \<Rightarrow>
   error option \<times> ('st, 'w, 'q) route list" where
  "RegisterQueryHandlerServer rt mux server = (None, mux @
     [\<lparr>rMethod = ''GET'', rPattern = pattern_Query_Params_0, rHandler = serve_local rt (local_request_Query_Params_0 server)\<rparr>,
      \<lparr>rMethod = ''GET'', rPattern = pattern_Query_GetPending_0, rHandler = serve_local rt (local_request_Query_GetPending_0 rt server)\<rparr>,
      \<lparr>rMethod = ''GET'', rPattern = pattern_Query_ListPending_0, rHandler = serve_local rt (local_request_Query_ListPending_0 rt server)\<rparr>,
      \<lparr>rMethod = ''GET'', rPattern = pattern_Query_GetRecord_0, rHandler = serve_local rt (local_request_Query_GetRecord_0 rt server)\<rparr>,
      \<lparr>rMethod = ''GET'', rPattern = pattern_Query_ListRecord_0, rHandler = serve_local rt (local_request_Query_ListRecord_0 rt server)\<rparr>])"

definition RegisterQueryHandlerClient ::
  "('c, 'q, 'm, 'w, 'pq, 'pr) GatewayRuntime \<Rightarrow> ('st, 'w, 'q) route list \<Rightarrow> ('st, 'c, 'pq, 'pr) QueryClient \<Rightarrow>
   error option \<times> ('st, 'w, 'q) route list" where
  "RegisterQueryHandlerClient rt mux client = (None, mux @
     [\<lparr>rMethod = ''GET'', rPattern = pattern_Query_Params_0, rHandler = serve_remote rt (request_Query_Params_0 client)\<rparr>,
      \<lparr>rMethod = ''GET'', rPattern = pattern_Query_GetPending_0, rHandler = serve_remote rt (request_Query_GetPending_0 rt client)\<rparr>,
      \<lparr>rMethod = ''GET'', rPattern = pattern_Query_ListPending_0, rHandler = serve_remote rt (request_Query_ListPending_0 rt client)\<rparr>,
      \<lparr>rMethod = ''GET'', rPattern = pattern_Query_GetRecord_0, rHandler = serve_remote rt (request_Query_GetRecord_0 rt client)\<rparr>,
      \<lparr>rMethod = ''GET'', rPattern = pattern_Query_ListRecord_0, rHandler = serve_remote rt (request_Query_ListRecord_0 rt client)\<rparr>])"

text \<open>
  Registration on a connection: \<open>NewQueryClient\<close> makes a client of it. \<open>FromEndpoint\<close> dials;
  afterwards the connection is closed at once if there was an error, and otherwise by a
  goroutine that waits for the context to be done.
\<close>

definition RegisterQueryHandler ::
  "('c, 'q, 'm, 'w, 'pq, 'pr) GatewayRuntime \<Rightarrow> ('conn \<Rightarrow> ('st, 'c, 'pq, 'pr) QueryClient) \<Rightarrow>
   ('st, 'w, 'q) route list \<Rightarrow> 'conn \<Rightarrow> error option \<times> ('st, 'w, 'q) route list" where
  "RegisterQueryHandler rt NewQueryClient mux conn = RegisterQueryHandlerClient rt mux (NewQueryClient conn)"

record 'conn connections =
  closed :: "'conn list"
  closedWhenDone :: "'conn list"

definition RegisterQueryHandlerFromEndpoint ::
  "('c, 'q, 'm, 'w, 'pq, 'pr) GatewayRuntime \<Rightarrow> ('conn \<Rightarrow> ('st, 'c, 'pq, 'pr) QueryClient) \<Rightarrow>
   (string \<Rightarrow> 'o list \<Rightarrow> error + 'conn) \<Rightarrow> ('st, 'w, 'q) route list \<Rightarrow> string \<Rightarrow> 'o list \<Rightarrow> 'conn connections \<Rightarrow>
   (error option \<times> ('st, 'w, 'q) route list) \<times> 'conn connections" where
  "RegisterQueryHandlerFromEndpoint rt NewQueryClient dial mux endpoint opts net =
     (case dial endpoint opts of
        Inl err \<Rightarrow> ((Some err, mux), net)
      | Inr conn \<Rightarrow>
         (case RegisterQueryHandler rt NewQueryClient mux conn of
            (Some err, mux') \<Rightarrow> ((Some err, mux'), net\<lparr>closed := closed net @ [conn]\<rparr>)
          | (None, mux') \<Rightarrow> ((None, mux'), net\<lparr>closedWhenDone := closedWhenDone net @ [conn]\<rparr>)))"

section \<open>The server of the module\<close>

text \<open>
  \<open>NewQueryServerImpl\<close> (\<open>keeper/query.go\<close>): the queries of the keeper behind the interface.
  \<open>unwrap\<close> is \<open>sdk.UnwrapSDKContext\<close>, with the store of the request.
\<close>

definition over_store :: "('st \<Rightarrow> 'st ctx) \<Rightarrow> ('st ctx, 'a) go \<Rightarrow> ('st \<times> ServerMetadata, 'a) go" where
  "over_store unwrap call s = (case s of (st, stream) \<Rightarrow>
     (case call (unwrap st) of (r, c) \<Rightarrow> (r, (store c, stream))))"

definition NewQueryServerImpl ::
  "('st, u64, Pending, 'pq, 'pr) paginate \<Rightarrow> ('st, string, Record, 'pq, 'pr) paginate \<Rightarrow> ('c \<Rightarrow> 'st \<Rightarrow> 'st ctx) \<Rightarrow>
   'st Keeper \<Rightarrow> ('st, 'c, 'pq, 'pr) QueryServer" where
  "NewQueryServerImpl pg pg' unwrap k =
     \<lparr>srv_Params = (\<lambda>c r. over_store (unwrap c) (query_Params k r)),
      srv_GetPending = (\<lambda>c r. over_store (unwrap c) (query_GetPending k r)),
      srv_ListPending = (\<lambda>c r. over_store (unwrap c) (query_ListPending pg k r)),
      srv_GetRecord = (\<lambda>c r. over_store (unwrap c) (query_GetRecord k r)),
      srv_ListRecord = (\<lambda>c r. over_store (unwrap c) (query_ListRecord pg' k r))\<rparr>"

end
