(* ===== verification/Services.thy ===== *)
theory Services
  imports Calls TxCodec CoinWire Simulation Gateway Module
begin

text \<open>
  How a message reaches its handler: the service of messages with its descriptor and the
  generated handlers (\<open>tx.pb.go\<close>), the server over the keeper (\<open>keeper/msg_server.go\<close>), and what
  the module registers (\<open>types/codec.go\<close>, \<open>module.go\<close>).
\<close>

section \<open>The service\<close>

datatype msg_reply = NoReply | DelayedSendReply MsgDelayedSendResponse

record 'st MsgServer =
  ms_UpdateParams :: "MsgUpdateParams \<Rightarrow> ('st ctx, unit) go"
  ms_DelayedSend :: "MsgDelayedSend \<Rightarrow> ('st ctx, MsgDelayedSendResponse) go"
  ms_CancelSend :: "MsgCancelSend \<Rightarrow> ('st ctx, unit) go"
  ms_SetFinalOnly :: "MsgSetFinalOnly \<Rightarrow> ('st ctx, unit) go"

definition NewMsgServerImpl :: "CoinOps \<Rightarrow> 'st Keeper \<Rightarrow> 'st MsgServer" where
  "NewMsgServerImpl S k = \<lparr>ms_UpdateParams = UpdateParams k, ms_DelayedSend = DelayedSend S k,
     ms_CancelSend = CancelSend S k, ms_SetFinalOnly = SetFinalOnly k\<rparr>"

text \<open>
  A handler decodes into a new message and calls the server, through the interceptor if there
  is one, which is given the message, the name of the method and the call. The type assertion
  of the call panics on a message of another type.
\<close>

type_synonym 'st msg_call = "undo_msg \<Rightarrow> ('st ctx, msg_reply) go"

type_synonym 'st interceptor = "undo_msg \<Rightarrow> string \<Rightarrow> 'st msg_call \<Rightarrow> ('st ctx, msg_reply) go"

type_synonym 'st msg_handler =
  "'st MsgServer \<Rightarrow> (undo_msg \<Rightarrow> error + undo_msg) \<Rightarrow> 'st interceptor option \<Rightarrow> ('st ctx, msg_reply) go"

definition unary_handler :: "undo_msg \<Rightarrow> string \<Rightarrow> ('st MsgServer \<Rightarrow> 'st msg_call) \<Rightarrow> 'st msg_handler" where
  "unary_handler new_msg fullMethod call srv dec interceptor =
     bind (pure_call (dec new_msg)) (\<lambda>msg.
     case interceptor of
       None \<Rightarrow> call srv msg
     | Some intercept \<Rightarrow> intercept msg fullMethod (call srv))"

fun call_UpdateParams :: "'st MsgServer \<Rightarrow> 'st msg_call" where
  "call_UpdateParams srv (UpdateParamsMsg m) = bind (ms_UpdateParams srv m) (\<lambda>_. ret NoReply)"
| "call_UpdateParams srv _ = go_lift (Panic ''interface conversion'')"

fun call_DelayedSend :: "'st MsgServer \<Rightarrow> 'st msg_call" where
  "call_DelayedSend srv (DelayedSendMsg m) = bind (ms_DelayedSend srv m) (\<lambda>r. ret (DelayedSendReply r))"
| "call_DelayedSend srv _ = go_lift (Panic ''interface conversion'')"

fun call_CancelSend :: "'st MsgServer \<Rightarrow> 'st msg_call" where
  "call_CancelSend srv (CancelSendMsg m) = bind (ms_CancelSend srv m) (\<lambda>_. ret NoReply)"
| "call_CancelSend srv _ = go_lift (Panic ''interface conversion'')"

fun call_SetFinalOnly :: "'st MsgServer \<Rightarrow> 'st msg_call" where
  "call_SetFinalOnly srv (SetFinalOnlyMsg m) = bind (ms_SetFinalOnly srv m) (\<lambda>_. ret NoReply)"
| "call_SetFinalOnly srv _ = go_lift (Panic ''interface conversion'')"

definition Msg_UpdateParams_Handler :: "'st msg_handler" where
  "Msg_UpdateParams_Handler =
     unary_handler (UpdateParamsMsg MsgUpdateParams_zero) ''/trefoil.undo.v1.Msg/UpdateParams'' call_UpdateParams"

definition Msg_DelayedSend_Handler :: "'st msg_handler" where
  "Msg_DelayedSend_Handler =
     unary_handler (DelayedSendMsg MsgDelayedSend_zero) ''/trefoil.undo.v1.Msg/DelayedSend'' call_DelayedSend"

definition Msg_CancelSend_Handler :: "'st msg_handler" where
  "Msg_CancelSend_Handler =
     unary_handler (CancelSendMsg MsgCancelSend_zero) ''/trefoil.undo.v1.Msg/CancelSend'' call_CancelSend"

definition Msg_SetFinalOnly_Handler :: "'st msg_handler" where
  "Msg_SetFinalOnly_Handler =
     unary_handler (SetFinalOnlyMsg MsgSetFinalOnly_zero) ''/trefoil.undo.v1.Msg/SetFinalOnly'' call_SetFinalOnly"

record 'h ServiceDesc =
  ServiceName :: string
  Methods :: "(string \<times> 'h) list"

text \<open>The method with a full name.\<close>

definition method_named :: "'h ServiceDesc \<Rightarrow> string \<Rightarrow> 'h option" where
  "method_named d full = map_of (map (\<lambda>(n, h). (''/'' @ ServiceName d @ ''/'' @ n, h)) (Methods d)) full"

definition Msg_ServiceName :: string where
  "Msg_ServiceName = ''trefoil.undo.v1.Msg''"

definition Msg_serviceDesc :: "'st msg_handler ServiceDesc" where
  "Msg_serviceDesc = \<lparr>ServiceName = Msg_ServiceName,
     Methods = [(''UpdateParams'', Msg_UpdateParams_Handler), (''DelayedSend'', Msg_DelayedSend_Handler),
       (''CancelSend'', Msg_CancelSend_Handler), (''SetFinalOnly'', Msg_SetFinalOnly_Handler)]\<rparr>"

section \<open>Registration\<close>

datatype msg_type = T_MsgSetFinalOnly | T_MsgCancelSend | T_MsgDelayedSend | T_MsgUpdateParams

text \<open>What an interface registry has been given, in order.\<close>

datatype registration = SdkMsgImplementation msg_type | MsgServiceDesc string

definition RegisterInterfaces :: "registration list \<Rightarrow> registration list" where
  "RegisterInterfaces registrar =
     registrar @ [SdkMsgImplementation T_MsgSetFinalOnly] @ [SdkMsgImplementation T_MsgCancelSend] @
     [SdkMsgImplementation T_MsgDelayedSend] @ [SdkMsgImplementation T_MsgUpdateParams] @
     [MsgServiceDesc Msg_ServiceName]"

definition AppModule_RegisterInterfaces :: "'st AppModule \<Rightarrow> registration list \<Rightarrow> registration list" where
  "AppModule_RegisterInterfaces am registrar = RegisterInterfaces registrar"

text \<open>\<open>RegisterServices\<close>: the two servers over the module's keeper, on the registrar.\<close>

record ('st, 'c, 'pq, 'pr) ServiceRegistrar =
  msgServers :: "'st MsgServer list"
  queryServers :: "('st, 'c, 'pq, 'pr) QueryServer list"

definition RegisterServices ::
  "CoinOps \<Rightarrow> ('st Keeper \<Rightarrow> ('st, 'c, 'pq, 'pr) QueryServer) \<Rightarrow> 'st AppModule \<Rightarrow>
   ('st, 'c, 'pq, 'pr) ServiceRegistrar \<Rightarrow> error option \<times> ('st, 'c, 'pq, 'pr) ServiceRegistrar" where
  "RegisterServices S queryServer am registrar =
     (let registrar = registrar\<lparr>msgServers := msgServers registrar @ [NewMsgServerImpl S (keeper am)]\<rparr>;
          registrar = registrar\<lparr>queryServers := queryServers registrar @ [queryServer (keeper am)]\<rparr> in
      (None, registrar))"

definition RegisterGRPCGatewayRoutes ::
  "('c, 'q, 'm, 'w, 'pq, 'pr) GatewayRuntime \<Rightarrow> ('cc \<Rightarrow> ('st, 'c, 'pq, 'pr) QueryClient) \<Rightarrow> 'cc \<Rightarrow>
   ('st, 'w, 'q) route list \<Rightarrow> ('st, 'w, 'q) route list res" where
  "RegisterGRPCGatewayRoutes rt NewQueryClient clientCtx mux =
     (case RegisterQueryHandlerClient rt mux (NewQueryClient clientCtx) of
        (Some e, _) \<Rightarrow> Panic (error_text e)
      | (None, mux') \<Rightarrow> Ok mux')"

section \<open>From bytes to a handler\<close>

fun method_of :: "undo_msg \<Rightarrow> string" where
  "method_of (UpdateParamsMsg _) = ''UpdateParams''"
| "method_of (DelayedSendMsg _) = ''DelayedSend''"
| "method_of (CancelSendMsg _) = ''CancelSend''"
| "method_of (SetFinalOnlyMsg _) = ''SetFinalOnly''"

fun undo_Marshal :: "CoinCodec \<Rightarrow> undo_msg \<Rightarrow> bytes res" where
  "undo_Marshal C (UpdateParamsMsg m) = MsgUpdateParams_Marshal m"
| "undo_Marshal C (DelayedSendMsg m) = MsgDelayedSend_Marshal C m"
| "undo_Marshal C (CancelSendMsg m) = MsgCancelSend_Marshal m"
| "undo_Marshal C (SetFinalOnlyMsg m) = MsgSetFinalOnly_Marshal m"

text \<open>
  Decoding of bytes, as the generated handler asks for it: into the message it has made. (The
  last case does not occur: the decoders always return.)
\<close>

definition decoded :: "('m \<Rightarrow> undo_msg) \<Rightarrow> 'm rd \<Rightarrow> error + undo_msg" where
  "decoded con r = (case r of Got m \<Rightarrow> Inr (con m) | Failed e \<Rightarrow> Inl e | OutOfFuel \<Rightarrow> Inl (Errorf ''endless''))"

fun wire_dec :: "CoinCodec \<Rightarrow> bytes \<Rightarrow> undo_msg \<Rightarrow> error + undo_msg" where
  "wire_dec C b (UpdateParamsMsg m) = decoded UpdateParamsMsg (MsgUpdateParams_Unmarshal m b)"
| "wire_dec C b (DelayedSendMsg m) = decoded DelayedSendMsg (MsgDelayedSend_Unmarshal C m b)"
| "wire_dec C b (CancelSendMsg m) = decoded CancelSendMsg (MsgCancelSend_Unmarshal m b)"
| "wire_dec C b (SetFinalOnlyMsg m) = decoded SetFinalOnlyMsg (MsgSetFinalOnly_Unmarshal m b)"

text \<open>The bytes of a message, and the messages that have some.\<close>

fun undo_enc :: "(Coin \<Rightarrow> bytes) \<Rightarrow> undo_msg \<Rightarrow> bytes" where
  "undo_enc cenc (UpdateParamsMsg m) = enc_of (MsgUpdateParams_fields m)"
| "undo_enc cenc (DelayedSendMsg m) = enc_of (MsgDelayedSend_fields cenc m)"
| "undo_enc cenc (CancelSendMsg m) = enc_of (MsgCancelSend_fields m)"
| "undo_enc cenc (SetFinalOnlyMsg m) = enc_of (MsgSetFinalOnly_fields m)"

fun sendable :: "(Coin \<Rightarrow> bool) \<Rightarrow> undo_msg \<Rightarrow> bool" where
  "sendable cgood (DelayedSendMsg m) = cgood (dsAmount m)"
| "sendable cgood _ = True"

text \<open>The handler of the keeper a message is for.\<close>

fun run_msg :: "CoinOps \<Rightarrow> 'st Keeper \<Rightarrow> 'st msg_call" where
  "run_msg S k (UpdateParamsMsg m) = bind (UpdateParams k m) (\<lambda>_. ret NoReply)"
| "run_msg S k (DelayedSendMsg m) = bind (DelayedSend S k m) (\<lambda>r. ret (DelayedSendReply r))"
| "run_msg S k (CancelSendMsg m) = bind (CancelSend S k m) (\<lambda>_. ret NoReply)"
| "run_msg S k (SetFinalOnlyMsg m) = bind (SetFinalOnly k m) (\<lambda>_. ret NoReply)"

context coin_codec
begin

lemmas marshal_defs = MsgUpdateParams_Marshal_def MsgDelayedSend_Marshal_def MsgCancelSend_Marshal_def
  MsgSetFinalOnly_Marshal_def MsgUpdateParams_MarshalToSizedBuffer_def [abs_def]
  MsgDelayedSend_MarshalToSizedBuffer_def [abs_def] MsgCancelSend_MarshalToSizedBuffer_def [abs_def]
  MsgSetFinalOnly_MarshalToSizedBuffer_def [abs_def]

lemmas unmarshal_defs = MsgUpdateParams_Unmarshal_def MsgDelayedSend_Unmarshal_def
  MsgCancelSend_Unmarshal_def MsgSetFinalOnly_Unmarshal_def

lemmas handler_defs = Msg_UpdateParams_Handler_def Msg_DelayedSend_Handler_def Msg_CancelSend_Handler_def
  Msg_SetFinalOnly_Handler_def

lemma undo_marshals:
  assumes "sendable cgood m" and "length (undo_enc cenc m) < 2 ^ 63"
  shows "undo_Marshal C m = Ok (undo_enc cenc m)"
  using assms update_params.roundtrip cancel_send.roundtrip set_final_only.roundtrip delayed_send.roundtrip
  by (cases m) (simp_all add: marshal_defs fits_def MsgDelayedSend_good_def)

lemma undo_decodes:
  assumes "sendable cgood m" and "length (undo_enc cenc m) < 2 ^ 63"
  shows "\<exists>call new_msg. map_of (Methods Msg_serviceDesc) (method_of m) =
        Some (unary_handler new_msg (''/trefoil.undo.v1.Msg/'' @ method_of m) call) \<and>
      wire_dec C (undo_enc cenc m) new_msg = Inr m \<and> (\<forall>S k. call (NewMsgServerImpl S k) m = run_msg S k m)"
  using assms update_params.roundtrip cancel_send.roundtrip set_final_only.roundtrip delayed_send.roundtrip
  by (cases m)
    (fastforce simp: Msg_serviceDesc_def handler_defs unmarshal_defs decoded_def fits_def MsgDelayedSend_good_def
      NewMsgServerImpl_def)+

end


section \<open>Properties\<close>

text \<open>
  C30: A message is executed as it was sent. Every message of the module that fits a byte slice
  (for a send, with an amount the coin codec can write) has an encoding; the method of the
  service descriptor that bears its name decodes these bytes and runs, over the module's
  server, exactly the keeper's handler of that kind on exactly that message; an interceptor
  is given the same message, the full name of that method, and a call that does this.
\<close>

theorem message_served:
  assumes "coin_codec C cenc cgood" and "sendable cgood m" and "length (undo_enc cenc m) < 2 ^ 63"
  shows "\<exists>b (handler :: 'st msg_handler). undo_Marshal C m = Ok b \<and> map_of (Methods Msg_serviceDesc) (method_of m) = Some handler \<and>
    (\<forall>S k. handler (NewMsgServerImpl S k) (wire_dec C b) None = run_msg S k m \<and>
      (\<forall>intercept. \<exists>call. call m = run_msg S k m \<and>
        handler (NewMsgServerImpl S k) (wire_dec C b) (Some intercept) =
          intercept m (''/'' @ Msg_ServiceName @ ''/'' @ method_of m) call))"
proof -
  obtain call :: "'st MsgServer \<Rightarrow> 'st msg_call" and new_msg where h: "map_of (Methods Msg_serviceDesc) (method_of m) =
        Some (unary_handler new_msg (''/trefoil.undo.v1.Msg/'' @ method_of m) call)"
      and dec: "wire_dec C (undo_enc cenc m) new_msg = Inr m"
      and run: "\<forall>S k. call (NewMsgServerImpl S k) m = run_msg S k m"
    using coin_codec.undo_decodes [OF assms] by blast
  have "pure_call (Inr m) = ret m" by (rule ext) (simp add: pure_call_def ret_def)
  then have "unary_handler new_msg full call srv (wire_dec C (undo_enc cenc m)) i =
      (case i of None \<Rightarrow> call srv m | Some intercept \<Rightarrow> intercept m full (call srv))" for full srv i
    by (simp add: unary_handler_def dec)
  then have runs: "(\<forall>S k. unary_handler new_msg full call (NewMsgServerImpl S k) (wire_dec C (undo_enc cenc m)) None = run_msg S k m \<and>
      (\<forall>intercept. \<exists>call'. call' m = run_msg S k m \<and>
        unary_handler new_msg full call (NewMsgServerImpl S k) (wire_dec C (undo_enc cenc m)) (Some intercept) =
          intercept m full call'))" for full
    using run by (simp, blast)
  have full: "''/'' @ Msg_ServiceName @ ''/'' @ method_of m = ''/trefoil.undo.v1.Msg/'' @ method_of m"
    by (simp add: Msg_ServiceName_def)
  show ?thesis
    unfolding full by (rule exI, rule exI, rule conjI [OF coin_codec.undo_marshals [OF assms] conjI [OF h runs]])
qed

text \<open>A payment of 40 coins on the wire, served on the demo chain.\<close>

theorem message_served_witness:
  "\<exists>b handler. undo_Marshal wire_coin (DelayedSendMsg (demo_send bob 300)) = Ok b \<and>
    map_of (Methods Msg_serviceDesc) ''DelayedSend'' = Some handler \<and>
    handler (NewMsgServerImpl mem_coins mem_keeper) (wire_dec wire_coin b) None demo0 =
      (Ok (DelayedSendReply \<lparr>dsrId = 0, dsrFinal = False\<rparr>), demo1)"
proof -
  let ?m = "DelayedSendMsg (demo_send bob 300)"
  have "Amount (dsAmount (demo_send bob 300)) \<noteq> None" "length (wire_coin_enc (dsAmount (demo_send bob 300))) < 100"
    and short: "length (undo_enc wire_coin_enc ?m) < 1000"
    by code_simp+
  then have good: "sendable wire_coin_good ?m" by (simp add: wire_coin_good_def fits_def)
  have "run_msg mem_coins mem_keeper ?m demo0 = (Ok (DelayedSendReply \<lparr>dsrId = 0, dsrFinal = False\<rparr>), demo1)"
    using demo1_send by (simp add: bind_def)
  moreover have "length (undo_enc wire_coin_enc ?m) < 2 ^ 63" using short by simp
  ultimately show ?thesis using message_served [OF wire.coin_codec_axioms good] by (metis method_of.simps(2))
qed

end
