(* ===== verification/Export.thy ===== *)
theory Export
  imports Calls
begin

text \<open>
  The export of the application's state for a new genesis (\<open>app/export.go\<close>). The staking,
  distribution and slashing keepers are the SDK's: they are parameters, a record of calls over
  an opaque application store \<open>'st\<close>, each with the block height of the context it is given. Of
  the SDK's records the model has the fields this file reads or writes; the other fields, which
  it passes along, are one opaque value.
\<close>

section \<open>What the file uses of the SDK\<close>

record Validator =
  OperatorAddress :: string
  UnbondingHeight :: i64
  Jailed :: bool
  vOther :: bytes

record StakeEntry =
  CreationHeight :: i64
  eOther :: bytes

record Redelegation =
  rdKey :: "string \<times> string \<times> string"
  rdEntries :: "StakeEntry list"

record UnbondingDelegation =
  ubKey :: "string \<times> string"
  ubEntries :: "StakeEntry list"

record SigningInfo =
  StartHeight :: i64
  siOther :: bytes

record Delegation =
  DelegatorAddress :: string
  ValidatorAddress :: string

type_synonym DecCoins = "(string \<times> int) list"

record FeePool =
  CommunityPool :: DecCoins

record 'st StakingKeeper =
  sk_ValidatorAddressCodec :: AddressCodec
  IterateValidators :: "i64 \<Rightarrow> (Validator \<Rightarrow> ('st, bool) go) \<Rightarrow> ('st, unit) go"
  GetAllDelegations :: "i64 \<Rightarrow> ('st, Delegation list) go"
  IterateRedelegations :: "i64 \<Rightarrow> (Redelegation \<Rightarrow> ('st, bool) go) \<Rightarrow> ('st, unit) go"
  SetRedelegation :: "i64 \<Rightarrow> Redelegation \<Rightarrow> ('st, unit) go"
  IterateUnbondingDelegations :: "i64 \<Rightarrow> (UnbondingDelegation \<Rightarrow> ('st, bool) go) \<Rightarrow> ('st, unit) go"
  SetUnbondingDelegation :: "i64 \<Rightarrow> UnbondingDelegation \<Rightarrow> ('st, unit) go"
  GetValidator :: "i64 \<Rightarrow> bytes \<Rightarrow> ('st, Validator) go"
  SetValidator :: "i64 \<Rightarrow> Validator \<Rightarrow> ('st, unit) go"
  ApplyAndReturnValidatorSetUpdates :: "i64 \<Rightarrow> ('st, unit) go"

record 'st DistrKeeper =
  WithdrawValidatorCommission :: "i64 \<Rightarrow> bytes \<Rightarrow> ('st, DecCoins) go"
  WithdrawDelegationRewards :: "i64 \<Rightarrow> bytes \<Rightarrow> bytes \<Rightarrow> ('st, DecCoins) go"
  DeleteAllValidatorSlashEvents :: "i64 \<Rightarrow> ('st, unit) go"
  DeleteAllValidatorHistoricalRewards :: "i64 \<Rightarrow> ('st, unit) go"
  GetValidatorOutstandingRewardsCoins :: "i64 \<Rightarrow> bytes \<Rightarrow> ('st, DecCoins) go"
  FeePool_Get :: "i64 \<Rightarrow> ('st, FeePool) go"
  FeePool_Set :: "i64 \<Rightarrow> FeePool \<Rightarrow> ('st, unit) go"
  AfterValidatorCreated :: "i64 \<Rightarrow> bytes \<Rightarrow> ('st, unit) go"
  BeforeDelegationCreated :: "i64 \<Rightarrow> bytes \<Rightarrow> bytes \<Rightarrow> ('st, unit) go"
  AfterDelegationModified :: "i64 \<Rightarrow> bytes \<Rightarrow> bytes \<Rightarrow> ('st, unit) go"

record 'st SlashingKeeper =
  IterateValidatorSigningInfos :: "i64 \<Rightarrow> (bytes \<times> SigningInfo \<Rightarrow> ('st, bool) go) \<Rightarrow> ('st, unit) go"
  SetValidatorSigningInfo :: "i64 \<Rightarrow> bytes \<Rightarrow> SigningInfo \<Rightarrow> ('st, unit) go"

text \<open>
  The application: its keepers, the address codecs of its interface registry, the sum of two
  coin sets, the validator keys of the staking store as the reverse prefix iterator yields
  them and its \<open>Close\<close>, the logger, and the calls of \<open>BaseApp\<close> and the module manager.
\<close>

record 'st ExportApp =
  xStaking :: "'st StakingKeeper"
  xDistr :: "'st DistrKeeper"
  xSlashing :: "'st SlashingKeeper"
  registryValidatorCodec :: AddressCodec
  registryAddressCodec :: AddressCodec
  DecCoins_Add :: "DecCoins \<Rightarrow> DecCoins \<Rightarrow> DecCoins"
  ReverseValidatorKeys :: "i64 \<Rightarrow> 'st \<Rightarrow> bytes list"
  AddressFromValidatorsKey :: "bytes \<Rightarrow> bytes"
  iter_Close :: "('st, unit) go"
  log_Error :: "string \<Rightarrow> error \<Rightarrow> ('st, unit) go"
  LastBlockHeight :: "'st \<Rightarrow> i64"
  ExportGenesisForModules :: "i64 \<Rightarrow> string list \<Rightarrow> ('st, string \<Rightarrow> string option) go"
  MarshalIndent :: "(string \<Rightarrow> string option) \<Rightarrow> error + string"
  WriteValidators :: "i64 \<Rightarrow> ('st, bytes list \<times> error option) go"
  GetConsensusParams :: "i64 \<Rightarrow> ('st, bytes) go"

section \<open>The zero-height preparation\<close>

text \<open>The allowed addresses: each must parse, and is then looked up by its text.\<close>

fun allowed_addrs :: "AddressCodec \<Rightarrow> string list \<Rightarrow> (string \<Rightarrow> bool option) \<Rightarrow> (string \<Rightarrow> bool option) res" where
  "allowed_addrs C [] m = Ok m"
| "allowed_addrs C (addr # rest) m =
     (case StringToBytes C addr of
        Inl e \<Rightarrow> Panic (error_text e)
      | Inr _ \<Rightarrow> allowed_addrs C rest (m(addr \<mapsto> True)))"

definition withdraw_commissions :: "'st ExportApp \<Rightarrow> i64 \<Rightarrow> ('st, unit) go" where
  "withdraw_commissions app h =
     go_must (IterateValidators (xStaking app) h (\<lambda>val.
       bind (go_must (pure_call (StringToBytes (sk_ValidatorAddressCodec (xStaking app)) (OperatorAddress val)))) (\<lambda>valBz.
       bind (go_drop (WithdrawValidatorCommission (xDistr app) h valBz)) (\<lambda>_.
       ret False))))"

definition withdraw_rewards :: "'st ExportApp \<Rightarrow> i64 \<Rightarrow> Delegation list \<Rightarrow> ('st, unit) go" where
  "withdraw_rewards app h dels =
     go_for (\<lambda>delegation.
       bind (go_must (pure_call (StringToBytes (registryValidatorCodec app) (ValidatorAddress delegation)))) (\<lambda>valAddr.
       bind (go_must (pure_call (StringToBytes (registryAddressCodec app) (DelegatorAddress delegation)))) (\<lambda>delAddr.
       go_drop (WithdrawDelegationRewards (xDistr app) h delAddr valAddr)))) dels"

definition reinit_validators :: "'st ExportApp \<Rightarrow> i64 \<Rightarrow> ('st, unit) go" where
  "reinit_validators app h =
     go_must (IterateValidators (xStaking app) h (\<lambda>val.
       bind (go_must (pure_call (StringToBytes (sk_ValidatorAddressCodec (xStaking app)) (OperatorAddress val)))) (\<lambda>valBz.
       bind (go_must (GetValidatorOutstandingRewardsCoins (xDistr app) h valBz)) (\<lambda>rewards.
       bind (go_must (FeePool_Get (xDistr app) h)) (\<lambda>feePool.
       bind (go_must (FeePool_Set (xDistr app) h
               (feePool\<lparr>CommunityPool := DecCoins_Add app (CommunityPool feePool) rewards\<rparr>))) (\<lambda>_.
       bind (go_must (AfterValidatorCreated (xDistr app) h valBz)) (\<lambda>_.
       ret False)))))))"

definition reinit_delegations :: "'st ExportApp \<Rightarrow> i64 \<Rightarrow> Delegation list \<Rightarrow> ('st, unit) go" where
  "reinit_delegations app h dels =
     go_for (\<lambda>del.
       bind (go_must (pure_call (StringToBytes (registryValidatorCodec app) (ValidatorAddress del)))) (\<lambda>valAddr.
       bind (go_must (pure_call (StringToBytes (registryAddressCodec app) (DelegatorAddress del)))) (\<lambda>delAddr.
       bind (go_must (on_err (\<lambda>e. Wrapped e ''error while incrementing period'')
               (BeforeDelegationCreated (xDistr app) h delAddr valAddr))) (\<lambda>_.
       go_must (on_err (\<lambda>e. Wrapped e ''error while creating a new delegation period record'')
               (AfterDelegationModified (xDistr app) h delAddr valAddr)))))) dels"

text \<open>The loops over the entries of a redelegation or an unbonding delegation.\<close>

definition zero_entries :: "StakeEntry list \<Rightarrow> StakeEntry list" where
  "zero_entries es = map (\<lambda>e. e\<lparr>CreationHeight := 0\<rparr>) es"

definition reset_redelegations :: "'st ExportApp \<Rightarrow> i64 \<Rightarrow> ('st, unit) go" where
  "reset_redelegations app h =
     go_must (IterateRedelegations (xStaking app) h (\<lambda>red.
       bind (go_must (SetRedelegation (xStaking app) h (red\<lparr>rdEntries := zero_entries (rdEntries red)\<rparr>))) (\<lambda>_.
       ret False)))"

definition reset_unbondings :: "'st ExportApp \<Rightarrow> i64 \<Rightarrow> ('st, unit) go" where
  "reset_unbondings app h =
     go_must (IterateUnbondingDelegations (xStaking app) h (\<lambda>ubd.
       bind (go_must (SetUnbondingDelegation (xStaking app) h (ubd\<lparr>ubEntries := zero_entries (ubEntries ubd)\<rparr>))) (\<lambda>_.
       ret False)))"

definition reset_validator :: "'st ExportApp \<Rightarrow> i64 \<Rightarrow> bool \<Rightarrow> (string \<Rightarrow> bool option) \<Rightarrow> bytes \<Rightarrow> ('st, unit) go" where
  "reset_validator app h applyAllowedAddrs allowed key =
     (let addr = AddressFromValidatorsKey app key in
      bind (\<lambda>s. case GetValidator (xStaking app) h addr s of
              (Err e, s') \<Rightarrow> (Panic ''expected validator, not found'', s') | r \<Rightarrow> r) (\<lambda>validator.
      bind (go_must (pure_call (BytesToString (sk_ValidatorAddressCodec (xStaking app)) addr))) (\<lambda>valAddr.
      let validator = validator\<lparr>UnbondingHeight := 0\<rparr>;
          validator = (if applyAllowedAddrs \<and> allowed valAddr \<noteq> Some True
                       then validator\<lparr>Jailed := True\<rparr> else validator) in
      go_must (SetValidator (xStaking app) h validator))))"

definition reset_validators :: "'st ExportApp \<Rightarrow> i64 \<Rightarrow> bool \<Rightarrow> (string \<Rightarrow> bool option) \<Rightarrow> ('st, unit) go" where
  "reset_validators app h applyAllowedAddrs allowed s =
     go_for (reset_validator app h applyAllowedAddrs allowed) (ReverseValidatorKeys app h s) s"

definition reset_signing_infos :: "'st ExportApp \<Rightarrow> i64 \<Rightarrow> ('st, unit) go" where
  "reset_signing_infos app h =
     go_must (IterateValidatorSigningInfos (xSlashing app) h (\<lambda>(addr, info).
       bind (go_drop (SetValidatorSigningInfo (xSlashing app) h addr (info\<lparr>StartHeight := 0\<rparr>))) (\<lambda>_.
       ret False)))"

text \<open>Closing the iterator: an error is logged and ends the preparation early.\<close>

definition close_then :: "'st ExportApp \<Rightarrow> ('st, unit) go \<Rightarrow> ('st, unit) go" where
  "close_then app rest s =
     (case iter_Close app s of
        (Err e, s') \<Rightarrow> log_Error app ''error while closing the key-value store reverse prefix iterator: '' e s'
      | (Panic t, s') \<Rightarrow> (Panic t, s')
      | (Ok _, s') \<Rightarrow> rest s')"

definition prepForZeroHeightGenesis :: "'st ExportApp \<Rightarrow> i64 \<Rightarrow> string list \<Rightarrow> ('st, unit) go" where
  "prepForZeroHeightGenesis app h jailAllowedAddrs =
     (let applyAllowedAddrs = (0 < length jailAllowedAddrs) in
      bind (go_lift (allowed_addrs (registryValidatorCodec app) jailAllowedAddrs Map.empty)) (\<lambda>allowed.
      bind (withdraw_commissions app h) (\<lambda>_.
      bind (go_must (GetAllDelegations (xStaking app) h)) (\<lambda>dels.
      bind (withdraw_rewards app h dels) (\<lambda>_.
      bind (DeleteAllValidatorSlashEvents (xDistr app) h) (\<lambda>_.
      bind (DeleteAllValidatorHistoricalRewards (xDistr app) h) (\<lambda>_.
      bind (reinit_validators app 0) (\<lambda>_.
      bind (reinit_delegations app 0 dels) (\<lambda>_.
      bind (reset_redelegations app h) (\<lambda>_.
      bind (reset_unbondings app h) (\<lambda>_.
      bind (reset_validators app h applyAllowedAddrs allowed) (\<lambda>_.
      close_then app
        (bind (go_must (ApplyAndReturnValidatorSetUpdates (xStaking app) h)) (\<lambda>_.
         reset_signing_infos app h))))))))))))))"

section \<open>The export\<close>

record ExportedApp =
  AppState :: "string option"
  Validators :: "bytes list"
  Height :: i64
  ConsensusParams :: "bytes option"

definition no_export :: ExportedApp where
  "no_export = \<lparr>AppState = None, Validators = [], Height = 0, ConsensusParams = None\<rparr>"

text \<open>
  The exported application and the error come back together; with an error of
  \<open>WriteValidators\<close> the rest is filled in all the same.
\<close>

definition ExportAppStateAndValidators ::
  "'st ExportApp \<Rightarrow> bool \<Rightarrow> string list \<Rightarrow> string list \<Rightarrow> ('st, ExportedApp \<times> error option) go" where
  "ExportAppStateAndValidators app forZeroHeight jailAllowedAddrs modulesToExport s =
     (let h = LastBlockHeight app s;
          height = (if forZeroHeight then 0 else LastBlockHeight app s + 1) in
      bind (if forZeroHeight then prepForZeroHeightGenesis app h jailAllowedAddrs else ret ()) (\<lambda>_ s.
      (case ExportGenesisForModules app h modulesToExport s of
         (Panic t, s') \<Rightarrow> (Panic t, s')
       | (Err e, s') \<Rightarrow> (Ok (no_export, Some e), s')
       | (Ok genState, s') \<Rightarrow>
          (case MarshalIndent app genState of
             Inl e \<Rightarrow> (Ok (no_export, Some e), s')
           | Inr appState \<Rightarrow>
               bind (WriteValidators app h) (\<lambda>(validators, err).
               bind (GetConsensusParams app h) (\<lambda>cp.
               ret (\<lparr>AppState = Some appState, Validators = validators, Height = height,
                     ConsensusParams = Some cp\<rparr>, err))) s'))) s)"

section \<open>The records at stake and the contracts\<close>

text \<open>The staking and slashing records the preparation resets.\<close>

record staking_view =
  zVals :: "bytes \<Rightarrow> Validator option"
  zReds :: "string \<times> string \<times> string \<Rightarrow> Redelegation option"
  zUbds :: "string \<times> string \<Rightarrow> UnbondingDelegation option"
  zInfos :: "bytes \<Rightarrow> SigningInfo option"

text \<open>
  What the keepers promise: distribution calls do not touch staking or slashing records; an
  iteration hands every stored entry to the callback; a setter that returns has stored its
  value under its key; applying the validator set updates moves no stake entry and jails
  nobody; the iterator closes.
\<close>

locale export_contract =
  fixes app :: "'st ExportApp"
    and view :: "'st \<Rightarrow> staking_view"
  assumes withdraw_keeps: "keeps view (WithdrawValidatorCommission (xDistr app) h v)"
      "keeps view (WithdrawDelegationRewards (xDistr app) h d v)"
    and delete_keeps: "keeps view (DeleteAllValidatorSlashEvents (xDistr app) h)"
      "keeps view (DeleteAllValidatorHistoricalRewards (xDistr app) h)"
    and rewards_keep: "keeps view (GetValidatorOutstandingRewardsCoins (xDistr app) h v)"
      "keeps view (FeePool_Get (xDistr app) h)" "keeps view (FeePool_Set (xDistr app) h p)"
    and hooks_keep: "keeps view (AfterValidatorCreated (xDistr app) h v)"
      "keeps view (BeforeDelegationCreated (xDistr app) h d v)"
      "keeps view (AfterDelegationModified (xDistr app) h d v)"
    and delegations_keep: "keeps view (GetAllDelegations (xStaking app) h)"
    and each_validator: "\<exists>xs. IterateValidators (xStaking app) h vcb s = visit vcb xs s"
    and each_redelegation: "\<exists>rs. distinct (map rdKey rs) \<and>
      zReds (view s) = map_of (map (\<lambda>r. (rdKey r, r)) rs) \<and>
      IterateRedelegations (xStaking app) h rcb s = visit rcb rs s"
    and each_unbonding: "\<exists>us. distinct (map ubKey us) \<and>
      zUbds (view s) = map_of (map (\<lambda>u. (ubKey u, u)) us) \<and>
      IterateUnbondingDelegations (xStaking app) h ucb s = visit ucb us s"
    and each_info: "\<exists>is. distinct (map fst is) \<and> zInfos (view s) = map_of is \<and>
      IterateValidatorSigningInfos (xSlashing app) h icb s = visit icb is s"
    and set_redelegation: "acts view (SetRedelegation (xStaking app) h r)
      (\<lambda>u u'. u' = u\<lparr>zReds := (zReds u)(rdKey r \<mapsto> r)\<rparr>)"
    and set_unbonding: "acts view (SetUnbondingDelegation (xStaking app) h ub)
      (\<lambda>u u'. u' = u\<lparr>zUbds := (zUbds u)(ubKey ub \<mapsto> ub)\<rparr>)"
    and set_info: "\<exists>s'. SetValidatorSigningInfo (xSlashing app) h a i s = (Ok (), s') \<and>
      view s' = (view s)\<lparr>zInfos := (zInfos (view s))(a \<mapsto> i)\<rparr>"
    and get_validator: "keeps view (GetValidator (xStaking app) h a)"
      "GetValidator (xStaking app) h a s = (Ok w, s') \<Longrightarrow> zVals (view s) a = Some w"
    and stored_under: "zVals (view s) a = Some w \<Longrightarrow>
      StringToBytes (sk_ValidatorAddressCodec (xStaking app)) (OperatorAddress w) = Inr a"
    and set_validator: "StringToBytes (sk_ValidatorAddressCodec (xStaking app)) (OperatorAddress w) = Inr a \<Longrightarrow>
      acts view (SetValidator (xStaking app) h w) (\<lambda>u u'. u' = u\<lparr>zVals := (zVals u)(a \<mapsto> w)\<rparr>)"
    and every_key: "AddressFromValidatorsKey app ` set (ReverseValidatorKeys app h s) = dom (zVals (view s))"
    and apply_updates: "acts view (ApplyAndReturnValidatorSetUpdates (xStaking app) h)
      (\<lambda>u u'. zReds u' = zReds u \<and> zUbds u' = zUbds u \<and>
        (\<forall>a. map_option Jailed (zVals u' a) = map_option Jailed (zVals u a)))"
    and closes: "\<exists>s'. iter_Close app s = (Ok (), s') \<and> view s' = view s"

text \<open>Writing every entry of a table back, changed by \<open>f\<close>, changes the table by \<open>f\<close>.\<close>

lemma fold_rewrite:
  assumes "distinct (map key xs)"
  shows "fold (\<lambda>x m. m(key x \<mapsto> f x)) xs m k =
    (case map_of (map (\<lambda>x. (key x, x)) xs) k of None \<Rightarrow> m k | Some x \<Rightarrow> Some (f x))"
  using assms
proof (induction xs arbitrary: m)
  case (Cons x xs)
  then show ?case
    by (auto simp: map_of_eq_None_iff image_image split: option.splits dest!: map_of_SomeD)
qed simp

lemma fold_rewrite_all:
  assumes "distinct (map key xs)" and "m = map_of (map (\<lambda>x. (key x, x)) xs)"
  shows "fold (\<lambda>x m. m(key x \<mapsto> f x)) xs m = (\<lambda>k. map_option f (m k))"
  unfolding assms(2) by (rule ext) (simp add: fold_rewrite [OF assms(1)] split: option.split)

lemma fold_record:
  "fold (\<lambda>r u. u\<lparr>zReds := f r (zReds u)\<rparr>) rs u = u\<lparr>zReds := fold f rs (zReds u)\<rparr>"
  "fold (\<lambda>r u. u\<lparr>zUbds := g r (zUbds u)\<rparr>) us u = u\<lparr>zUbds := fold g us (zUbds u)\<rparr>"
  "fold (\<lambda>(a, i) u. u\<lparr>zInfos := k a i (zInfos u)\<rparr>) ys u = u\<lparr>zInfos := fold (\<lambda>(a, i). k a i) ys (zInfos u)\<rparr>"
  by (induction rs arbitrary: u, simp_all, induction us arbitrary: u, simp_all, induction ys arbitrary: u)
    auto

definition zero_red :: "Redelegation \<Rightarrow> Redelegation" where
  "zero_red r = r\<lparr>rdEntries := zero_entries (rdEntries r)\<rparr>"

definition zero_ubd :: "UnbondingDelegation \<Rightarrow> UnbondingDelegation" where
  "zero_ubd u = u\<lparr>ubEntries := zero_entries (ubEntries u)\<rparr>"

text \<open>Whether the list of allowed addresses jails the validator with this address.\<close>

definition to_jail :: "AddressCodec \<Rightarrow> string list \<Rightarrow> bytes \<Rightarrow> bool" where
  "to_jail C allowed a \<longleftrightarrow> allowed \<noteq> [] \<and> (\<forall>t. BytesToString C a = Inr t \<longrightarrow> t \<notin> set allowed)"

lemma allowed_addrs_Ok:
  "allowed_addrs C xs m = Ok m' \<Longrightarrow> m' t = (if t \<in> set xs then Some True else m t)"
  by (induction xs arbitrary: m) (auto split: sum.splits)

lemma allowed_addrs_bad:
  "x \<in> set xs \<Longrightarrow> StringToBytes C x = Inl e \<Longrightarrow> \<exists>t. allowed_addrs C xs m = Panic t"
  by (induction xs arbitrary: m) (auto split: sum.splits)

text \<open>What the last loop does to one validator.\<close>

definition reset_one :: "AddressCodec \<Rightarrow> string list \<Rightarrow> bytes \<Rightarrow> Validator \<Rightarrow> Validator" where
  "reset_one C allowed a v = v\<lparr>UnbondingHeight := 0, Jailed := Jailed v \<or> to_jail C allowed a\<rparr>"

lemma reset_one_idem [simp]: "reset_one C allowed a (reset_one C allowed a v) = reset_one C allowed a v"
  by (simp add: reset_one_def)

abbreviation reset_at :: "AddressCodec \<Rightarrow> string list \<Rightarrow> bytes \<Rightarrow> staking_view \<Rightarrow> staking_view" where
  "reset_at C allowed a u \<equiv> u\<lparr>zVals := (zVals u)(a := map_option (reset_one C allowed a) (zVals u a))\<rparr>"

lemma fold_reset:
  "zVals (fold (reset_at C allowed) as u) b =
     (if b \<in> set as then map_option (reset_one C allowed b) (zVals u b) else zVals u b)"
  by (induction as arbitrary: u) (auto simp: option.map_comp comp_def)

lemma fold_reset_rest [simp]:
  "zReds (fold (reset_at C allowed) as u) = zReds u"
  "zUbds (fold (reset_at C allowed) as u) = zUbds u"
  "zInfos (fold (reset_at C allowed) as u) = zInfos u"
  by (induction as arbitrary: u) auto

lemma fold_reset_all:
  assumes "dom (zVals u) \<subseteq> set as"
  shows "zVals (fold (reset_at C allowed) as u) = (\<lambda>a. map_option (reset_one C allowed a) (zVals u a))"
proof (rule ext)
  fix a
  show "zVals (fold (reset_at C allowed) as u) a = map_option (reset_one C allowed a) (zVals u a)"
    using assms by (cases "zVals u a") (auto simp: fold_reset dom_def)
qed

section \<open>What the steps do to the records\<close>

context export_contract
begin

abbreviation C :: AddressCodec where
  "C \<equiv> sk_ValidatorAddressCodec (xStaking app)"

lemma iterate_validators_keep:
  "(\<And>v. keeps view (cb v)) \<Longrightarrow> keeps view (IterateValidators (xStaking app) h cb)"
  unfolding keeps_def using each_validator [of h cb] keeps_visit [of view cb]
  by (metis keeps_def)

lemmas distribution_keeps = withdraw_keeps delete_keeps rewards_keep hooks_keep delegations_keep
  iterate_validators_keep

lemma commissions_keep: "keeps view (withdraw_commissions app h)"
  unfolding withdraw_commissions_def by (intro keeps_intros distribution_keeps)

lemma rewards_withdrawn_keep: "keeps view (withdraw_rewards app h dels)"
  unfolding withdraw_rewards_def by (intro keeps_intros distribution_keeps)

lemma reinit_validators_keep: "keeps view (reinit_validators app h)"
  unfolding reinit_validators_def by (intro keeps_intros distribution_keeps)

lemma reinit_delegations_keep: "keeps view (reinit_delegations app h dels)"
  unfolding reinit_delegations_def by (intro keeps_intros distribution_keeps)

text \<open>An iteration that never stops is a loop over the stored entries.\<close>

lemma redelegation_loop:
  "\<exists>rs. distinct (map rdKey rs) \<and> zReds (view s) = map_of (map (\<lambda>r. (rdKey r, r)) rs) \<and>
     IterateRedelegations (xStaking app) h (\<lambda>r. bind (f r) (\<lambda>_. ret False)) s = go_for f rs s"
  using each_redelegation [of s h "\<lambda>r. bind (f r) (\<lambda>_. ret False)"] by (simp only: visit_never_stops)

lemma unbonding_loop:
  "\<exists>us. distinct (map ubKey us) \<and> zUbds (view s) = map_of (map (\<lambda>u. (ubKey u, u)) us) \<and>
     IterateUnbondingDelegations (xStaking app) h (\<lambda>u. bind (f u) (\<lambda>_. ret False)) s = go_for f us s"
  using each_unbonding [of s h "\<lambda>r. bind (f r) (\<lambda>_. ret False)"] by (simp only: visit_never_stops)

lemma reset_redelegations_acts:
  "acts view (reset_redelegations app h) (\<lambda>u u'. u' = u\<lparr>zReds := \<lambda>k. map_option zero_red (zReds u k)\<rparr>)"
  unfolding reset_redelegations_def
proof (intro acts_must, unfold acts_def, intro allI impI)
  fix s a s'
  let ?f = "\<lambda>red. go_must (SetRedelegation (xStaking app) h (red\<lparr>rdEntries := zero_entries (rdEntries red)\<rparr>))"
  assume r: "IterateRedelegations (xStaking app) h (\<lambda>red. bind (?f red) (\<lambda>_. ret False)) s = (Ok a, s')"
  obtain rs where d: "distinct (map rdKey rs)" and z: "zReds (view s) = map_of (map (\<lambda>r. (rdKey r, r)) rs)"
    and g: "go_for ?f rs s = (Ok a, s')"
    using redelegation_loop [of s h ?f] r by auto
  have "acts view (?f x) (\<lambda>u u'. u' = u\<lparr>zReds := (zReds u)(rdKey x \<mapsto> zero_red x)\<rparr>)" for x
    using acts_must [OF set_redelegation [of h "zero_red x"]] by (simp add: zero_red_def)
  from actsD [OF acts_for [OF this] g] show "view s' = (view s)\<lparr>zReds := \<lambda>k. map_option zero_red (zReds (view s) k)\<rparr>"
    by (simp add: fold_record(1) [where f = "\<lambda>r m. m(rdKey r \<mapsto> zero_red r)"] fold_rewrite_all [OF d z])
qed

lemma reset_unbondings_acts:
  "acts view (reset_unbondings app h) (\<lambda>u u'. u' = u\<lparr>zUbds := \<lambda>k. map_option zero_ubd (zUbds u k)\<rparr>)"
  unfolding reset_unbondings_def
proof (intro acts_must, unfold acts_def, intro allI impI)
  fix s a s'
  let ?f = "\<lambda>ubd. go_must (SetUnbondingDelegation (xStaking app) h (ubd\<lparr>ubEntries := zero_entries (ubEntries ubd)\<rparr>))"
  assume r: "IterateUnbondingDelegations (xStaking app) h (\<lambda>ubd. bind (?f ubd) (\<lambda>_. ret False)) s = (Ok a, s')"
  obtain us where d: "distinct (map ubKey us)" and z: "zUbds (view s) = map_of (map (\<lambda>r. (ubKey r, r)) us)"
    and g: "go_for ?f us s = (Ok a, s')"
    using unbonding_loop [of s h ?f] r by auto
  have "acts view (?f x) (\<lambda>u u'. u' = u\<lparr>zUbds := (zUbds u)(ubKey x \<mapsto> zero_ubd x)\<rparr>)" for x
    using acts_must [OF set_unbonding [of h "zero_ubd x"]] by (simp add: zero_ubd_def)
  from actsD [OF acts_for [OF this] g] show "view s' = (view s)\<lparr>zUbds := \<lambda>k. map_option zero_ubd (zUbds (view s) k)\<rparr>"
    by (simp add: fold_record(2) [where g = "\<lambda>r m. m(ubKey r \<mapsto> zero_ubd r)"] fold_rewrite_all [OF d z])
qed

lemma get_validator_or_panic:
  "(case GetValidator (xStaking app) h a s of (Err e, s') \<Rightarrow> (Panic t, s') | r \<Rightarrow> r) = (Ok w, s1) \<Longrightarrow>
     view s1 = view s \<and> zVals (view s) a = Some w"
  using get_validator(2) keepsD [OF get_validator(1)] by (fastforce split: prod.splits res.splits)

lemma reset_validator_acts:
  assumes "\<And>t. m t = (if t \<in> set allowed then Some True else None)"
  shows "acts view (reset_validator app h (0 < length allowed) m key)
    (\<lambda>u u'. u' = reset_at C allowed (AddressFromValidatorsKey app key) u)"
proof (unfold acts_def, intro allI impI)
  fix s a s'
  let ?a = "AddressFromValidatorsKey app key"
  assume "reset_validator app h (0 < length allowed) m key s = (Ok a, s')"
  then obtain w s1 t where w: "zVals (view s) ?a = Some w" "view s1 = view s"
    and t: "BytesToString C ?a = Inr t"
    and set: "SetValidator (xStaking app) h (let v = w\<lparr>UnbondingHeight := 0\<rparr> in
        if 0 < length allowed \<and> m t \<noteq> Some True then v\<lparr>Jailed := True\<rparr> else v) s1 = (Ok a, s')"
    unfolding reset_validator_def Let_def
    by (auto elim!: bind_OkE dest!: get_validator_or_panic
          simp: go_must_def pure_call_def split: sum.splits res.splits prod.splits if_splits)
  have "(let v = w\<lparr>UnbondingHeight := 0\<rparr> in if 0 < length allowed \<and> m t \<noteq> Some True then v\<lparr>Jailed := True\<rparr> else v)
      = reset_one C allowed ?a w"
    using t assms [of t] by (cases w) (auto simp: reset_one_def to_jail_def Let_def)
  then have "SetValidator (xStaking app) h (reset_one C allowed ?a w) s1 = (Ok a, s')"
    using set by simp
  moreover have "StringToBytes C (OperatorAddress (reset_one C allowed ?a w)) = Inr ?a"
    using stored_under [OF w(1)] by (simp add: reset_one_def)
  ultimately have "view s' = (view s1)\<lparr>zVals := (zVals (view s1))(?a \<mapsto> reset_one C allowed ?a w)\<rparr>"
    using actsD [OF set_validator] by blast
  with w show "view s' = reset_at C allowed ?a (view s)" by simp
qed

lemma reset_validators_acts:
  assumes "\<And>t. m t = (if t \<in> set allowed then Some True else None)"
  shows "acts view (reset_validators app h (0 < length allowed) m)
    (\<lambda>u u'. u' = u\<lparr>zVals := \<lambda>a. map_option (reset_one C allowed a) (zVals u a)\<rparr>)"
proof (unfold acts_def, intro allI impI)
  fix s a s'
  let ?ks = "ReverseValidatorKeys app h s"
  assume "reset_validators app h (0 < length allowed) m s = (Ok a, s')"
  then have "go_for (reset_validator app h (0 < length allowed) m) ?ks s = (Ok a, s')"
    by (simp add: reset_validators_def)
  then have v: "view s' = fold (\<lambda>k. reset_at C allowed (AddressFromValidatorsKey app k)) ?ks (view s)"
    by (rule actsD [OF acts_for, rotated]) (rule reset_validator_acts [OF assms])
  have "view s' = fold (reset_at C allowed) (map (AddressFromValidatorsKey app) ?ks) (view s)"
    by (simp add: v fold_map comp_def)
  moreover have "dom (zVals (view s)) \<subseteq> set (map (AddressFromValidatorsKey app) ?ks)"
    using every_key [of h s] by simp
  ultimately show "view s' = (view s)\<lparr>zVals := \<lambda>a. map_option (reset_one C allowed a) (zVals (view s) a)\<rparr>"
    by (simp add: fold_reset_all)
qed

lemma reset_signing_infos_acts:
  "acts view (reset_signing_infos app h)
     (\<lambda>u u'. u' = u\<lparr>zInfos := \<lambda>a. map_option (\<lambda>i. i\<lparr>StartHeight := 0\<rparr>) (zInfos u a)\<rparr>)"
  unfolding reset_signing_infos_def
proof (intro acts_must, unfold acts_def, intro allI impI)
  fix s a s'
  let ?f = "\<lambda>x. go_drop (SetValidatorSigningInfo (xSlashing app) h (fst x) ((snd x)\<lparr>StartHeight := 0\<rparr>))"
  assume r: "IterateValidatorSigningInfos (xSlashing app) h (\<lambda>(addr, info).
      bind (go_drop (SetValidatorSigningInfo (xSlashing app) h addr (info\<lparr>StartHeight := 0\<rparr>))) (\<lambda>_. ret False)) s = (Ok a, s')"
  obtain "is" where d: "distinct (map fst is)" and z: "zInfos (view s) = map_of is"
    and g: "go_for ?f is s = (Ok a, s')"
    using each_info [of s h "\<lambda>x. bind (?f x) (\<lambda>_. ret False)"] r by (auto simp: visit_never_stops case_prod_beta')
  let ?g = "\<lambda>x m. m(fst x \<mapsto> (snd x)\<lparr>StartHeight := 0\<rparr>)"
  have "acts view (?f x) (\<lambda>u u'. u' = u\<lparr>zInfos := ?g x (zInfos u)\<rparr>)" for x
    unfolding acts_def
  proof (intro allI impI)
    fix s a s'
    show "?f x s = (Ok a, s') \<Longrightarrow> view s' = (view s)\<lparr>zInfos := ?g x (zInfos (view s))\<rparr>"
      using set_info [of h "fst x" "(snd x)\<lparr>StartHeight := 0\<rparr>" s] by (auto simp: go_drop_def)
  qed
  from actsD [OF acts_for [OF this] g]
  have "view s' = (view s)\<lparr>zInfos := fold ?g is (zInfos (view s))\<rparr>"
    using fold_record(3) [where k = "\<lambda>a i m. m(a \<mapsto> i\<lparr>StartHeight := 0\<rparr>)" and ys = "is" and u = "view s"]
    by (simp add: case_prod_beta')
  moreover have "fold ?g is (zInfos (view s)) = (\<lambda>a. map_option (\<lambda>i. i\<lparr>StartHeight := 0\<rparr>) (zInfos (view s) a))"
    using d unfolding z
  proof (intro ext, goal_cases)
    case (1 b)
    have "fold ?g is m b = (case map_of is b of None \<Rightarrow> m b | Some i \<Rightarrow> Some (i\<lparr>StartHeight := 0\<rparr>))" for m
      using d by (induction "is" arbitrary: m) (auto split: option.splits dest: map_of_SomeD simp: rev_image_eqI map_of_eq_None_iff)
    then show ?case by (simp split: option.split)
  qed
  ultimately show "view s' = (view s)\<lparr>zInfos := \<lambda>a. map_option (\<lambda>i. i\<lparr>StartHeight := 0\<rparr>) (zInfos (view s) a)\<rparr>"
    by simp
qed

lemma close_then_acts: "acts view rest R \<Longrightarrow> acts view (close_then app rest) R"
proof (unfold acts_def [of view "close_then app rest"], intro allI impI)
  fix s a s'
  assume "acts view rest R" and "close_then app rest s = (Ok a, s')"
  with closes [of s] show "R (view s) (view s')" by (auto simp: close_then_def dest: actsD)
qed

text \<open>What the whole preparation has done to the records when it returns.\<close>

definition prepared :: "string list \<Rightarrow> staking_view \<Rightarrow> staking_view \<Rightarrow> bool" where
  "prepared allowed u u' \<longleftrightarrow>
     zReds u' = (\<lambda>k. map_option zero_red (zReds u k)) \<and>
     zUbds u' = (\<lambda>k. map_option zero_ubd (zUbds u k)) \<and>
     (\<forall>a i. zInfos u' a = Some i \<longrightarrow> StartHeight i = 0) \<and>
     (\<forall>a. map_option Jailed (zVals u' a) = map_option (\<lambda>v. Jailed v \<or> to_jail C allowed a) (zVals u a))"

lemma resets_prepare:
  "((\<lambda>u u'. u' = u\<lparr>zReds := \<lambda>k. map_option zero_red (zReds u k)\<rparr>) OO
    (\<lambda>u u'. u' = u\<lparr>zUbds := \<lambda>k. map_option zero_ubd (zUbds u k)\<rparr>) OO
    (\<lambda>u u'. u' = u\<lparr>zVals := \<lambda>a. map_option (reset_one C allowed a) (zVals u a)\<rparr>) OO
    (\<lambda>u u'. zReds u' = zReds u \<and> zUbds u' = zUbds u \<and>
        (\<forall>a. map_option Jailed (zVals u' a) = map_option Jailed (zVals u a))) OO
    (\<lambda>u u'. u' = u\<lparr>zInfos := \<lambda>a. map_option (\<lambda>i. i\<lparr>StartHeight := 0\<rparr>) (zInfos u a)\<rparr>)) u u'
   \<Longrightarrow> prepared allowed u u'"
  by (auto simp: prepared_def option.map_comp comp_def reset_one_def)

lemma prep_acts: "acts view (prepForZeroHeightGenesis app h allowed) (prepared allowed)"
proof (cases "allowed_addrs (registryValidatorCodec app) allowed Map.empty")
  case (Ok m)
  then have m: "\<And>t. m t = (if t \<in> set allowed then Some True else None)"
    using allowed_addrs_Ok by fastforce
  have lift: "bind (go_lift (Ok m)) f = f m" for f :: "(string \<Rightarrow> bool option) \<Rightarrow> ('a, unit) go"
    by (rule ext) (simp add: bind_def go_lift_def)
  show ?thesis
    unfolding prepForZeroHeightGenesis_def Let_def Ok lift
    by (rule acts_mono, (rule acts_bind_keeps, rule commissions_keep reinit_validators_keep delete_keeps
          rewards_withdrawn_keep reinit_delegations_keep keeps_must [OF delegations_keep])+)
      (rule acts_bind reset_redelegations_acts reset_unbondings_acts reset_validators_acts [OF m]
          close_then_acts acts_must [OF apply_updates] reset_signing_infos_acts resets_prepare | assumption)+
next
  case (Err e)
  then show ?thesis by (simp add: prepForZeroHeightGenesis_def acts_def bind_def go_lift_def)
next
  case (Panic t)
  then show ?thesis by (simp add: prepForZeroHeightGenesis_def acts_def bind_def go_lift_def)
qed

end

end
