(* ===== verification/Restart.thy ===== *)
theory Restart
  imports Export MemStore "HOL-Library.AList"
begin

text \<open>
  The promises of a zero-height export. The contracts of \<open>Export\<close> are met by a small application
  that keeps its staking and slashing records in lists; the witnesses run on it.
\<close>

section \<open>An application in memory\<close>

record stake_store =
  dVals :: "Validator list"
  dReds :: "Redelegation list"
  dUbds :: "UnbondingDelegation list"
  dInfos :: "(bytes \<times> SigningInfo) list"
  dPool :: DecCoins

text \<open>The entries of a list under their keys, each key once.\<close>

definition under :: "('v \<Rightarrow> 'k) \<Rightarrow> 'v list \<Rightarrow> 'v list" where
  "under key vs = map snd (AList.clearjunk (map (\<lambda>v. (key v, v)) vs))"

lemma under_pairs: "map (\<lambda>v. (key v, v)) (under key vs) = AList.clearjunk (map (\<lambda>v. (key v, v)) vs)"
proof -
  let ?al = "map (\<lambda>v. (key v, v)) vs"
  have "(key (snd x), snd x) = x" if "x \<in> set (AList.clearjunk ?al)" for x
  proof -
    have "map_of (AList.clearjunk ?al) (fst x) = Some (snd x)"
      using that by (simp only: map_of_eq_Some_iff [OF distinct_clearjunk] prod.collapse)
    then have "(fst x, snd x) \<in> set ?al"
      by (simp only: map_of_clearjunk map_of_SomeD)
    then show ?thesis by (cases x) auto
  qed
  then show ?thesis by (simp add: under_def comp_def map_idI)
qed

lemma under_distinct [simp]: "distinct (map key (under key vs))"
proof -
  have "map key (under key vs) = map fst (map (\<lambda>v. (key v, v)) (under key vs))" by simp
  then show ?thesis by (simp only: under_pairs distinct_clearjunk)
qed

lemma under_map [simp]: "map_of (map (\<lambda>v. (key v, v)) (under key vs)) = map_of (map (\<lambda>v. (key v, v)) vs)"
  by (simp only: under_pairs map_of_clearjunk)

definition validator_entries :: "Validator list \<Rightarrow> (bytes \<times> Validator) list" where
  "validator_entries vs = List.map_filter
     (\<lambda>v. case mem_StringToBytes (OperatorAddress v) of Inl _ \<Rightarrow> None | Inr a \<Rightarrow> Some (a, v)) vs"

definition stake_view_of :: "stake_store \<Rightarrow> staking_view" where
  "stake_view_of s = \<lparr>zVals = map_of (validator_entries (dVals s)),
     zReds = map_of (map (\<lambda>r. (rdKey r, r)) (dReds s)),
     zUbds = map_of (map (\<lambda>u. (ubKey u, u)) (dUbds s)),
     zInfos = map_of (dInfos s)\<rparr>"

definition store_call :: "(stake_store \<Rightarrow> stake_store) \<Rightarrow> (stake_store, unit) go" where
  "store_call f s = (Ok (), f s)"

definition demo_staking :: "stake_store StakingKeeper" where
  "demo_staking = \<lparr>
     sk_ValidatorAddressCodec = mem_codec,
     IterateValidators = (\<lambda>h cb s. visit cb (map snd (validator_entries (dVals s))) s),
     GetAllDelegations = (\<lambda>h. ret []),
     IterateRedelegations = (\<lambda>h cb s. visit cb (under rdKey (dReds s)) s),
     SetRedelegation = (\<lambda>h r. store_call (\<lambda>s. s\<lparr>dReds := r # dReds s\<rparr>)),
     IterateUnbondingDelegations = (\<lambda>h cb s. visit cb (under ubKey (dUbds s)) s),
     SetUnbondingDelegation = (\<lambda>h u. store_call (\<lambda>s. s\<lparr>dUbds := u # dUbds s\<rparr>)),
     GetValidator = (\<lambda>h a s. case map_of (validator_entries (dVals s)) a of
        None \<Rightarrow> (Err (Foreign ''validator does not exist''), s) | Some v \<Rightarrow> (Ok v, s)),
     SetValidator = (\<lambda>h v. store_call (\<lambda>s. s\<lparr>dVals := v # dVals s\<rparr>)),
     ApplyAndReturnValidatorSetUpdates = (\<lambda>h. ret ())\<rparr>"

definition demo_distr :: "stake_store DistrKeeper" where
  "demo_distr = \<lparr>
     WithdrawValidatorCommission = (\<lambda>h v. fail (Foreign ''no validator commission to withdraw'')),
     WithdrawDelegationRewards = (\<lambda>h d v. ret []),
     DeleteAllValidatorSlashEvents = (\<lambda>h. ret ()),
     DeleteAllValidatorHistoricalRewards = (\<lambda>h. ret ()),
     GetValidatorOutstandingRewardsCoins = (\<lambda>h v. ret [(''utre'', 5)]),
     FeePool_Get = (\<lambda>h s. (Ok \<lparr>CommunityPool = dPool s\<rparr>, s)),
     FeePool_Set = (\<lambda>h p. store_call (\<lambda>s. s\<lparr>dPool := CommunityPool p\<rparr>)),
     AfterValidatorCreated = (\<lambda>h v. ret ()),
     BeforeDelegationCreated = (\<lambda>h d v. ret ()),
     AfterDelegationModified = (\<lambda>h d v. ret ())\<rparr>"

definition demo_slashing :: "stake_store SlashingKeeper" where
  "demo_slashing = \<lparr>
     IterateValidatorSigningInfos = (\<lambda>h cb s. visit cb (AList.clearjunk (dInfos s)) s),
     SetValidatorSigningInfo = (\<lambda>h a i. store_call (\<lambda>s. s\<lparr>dInfos := (a, i) # dInfos s\<rparr>))\<rparr>"

definition demo_app :: "stake_store ExportApp" where
  "demo_app = \<lparr>xStaking = demo_staking, xDistr = demo_distr, xSlashing = demo_slashing,
     registryValidatorCodec = mem_codec, registryAddressCodec = mem_codec,
     DecCoins_Add = (@),
     ReverseValidatorKeys = (\<lambda>h s. map (\<lambda>e. 33 # fst e) (validator_entries (dVals s))),
     AddressFromValidatorsKey = tl, iter_Close = ret (), log_Error = (\<lambda>t e. ret ()),
     LastBlockHeight = (\<lambda>s. 7),
     ExportGenesisForModules = (\<lambda>h ms. ret (\<lambda>m. if m \<in> set ms then Some ''{}'' else None)),
     MarshalIndent = (\<lambda>g. Inr ''{}''),
     WriteValidators = (\<lambda>h. ret ([], None)),
     GetConsensusParams = (\<lambda>h. ret [])\<rparr>"

lemmas demo_app_defs = demo_app_def demo_staking_def demo_distr_def demo_slashing_def

lemma store_call_acts: "(\<And>s. R (view s) (view (f s))) \<Longrightarrow> acts view (store_call f) R"
  by (auto simp: acts_def store_call_def)

lemma validator_entries_address:
  "map_of (validator_entries vs) a = Some w \<Longrightarrow> mem_StringToBytes (OperatorAddress w) = Inr a"
  by (drule map_of_SomeD) (auto simp: validator_entries_def List.map_filter_def split: sum.splits)

lemma validator_entries_Cons:
  "mem_StringToBytes (OperatorAddress w) = Inr a \<Longrightarrow>
     validator_entries (w # vs) = (a, w) # validator_entries vs"
  by (simp add: validator_entries_def List.map_filter_def)

interpretation demo_export: export_contract demo_app stake_view_of
proof (unfold_locales, goal_cases)
  case (12 h vcb s)
  then show ?case by (auto simp: demo_app_defs)
next
  case (13 s h rcb)
  show ?case by (rule exI [of _ "under rdKey (dReds s)"]) (simp add: demo_app_defs stake_view_of_def)
next
  case (14 s h ucb)
  show ?case by (rule exI [of _ "under ubKey (dUbds s)"]) (simp add: demo_app_defs stake_view_of_def)
next
  case (15 s h icb)
  show ?case by (rule exI [of _ "AList.clearjunk (dInfos s)"]) (simp add: demo_app_defs stake_view_of_def map_of_clearjunk)
qed (auto simp: demo_app_defs stake_view_of_def keeps_def acts_def store_call_def mem_codec_def
      validator_entries_Cons validator_entries_address image_image dom_map_of_conv_image_fst
      split: option.splits)

section \<open>Properties\<close>

text \<open>
  C35: When the preparation for height 0 returns, every entry of every redelegation and
  unbonding delegation has creation height 0 and is otherwise as before, every signing info
  has start height 0, and a validator is jailed exactly if it was before or there is a list of
  allowed addresses and its address, as the codec writes it, is not in it.
\<close>

theorem zero_height_reset:
  assumes "export_contract app view" and "prepForZeroHeightGenesis app h allowed s = (Ok (), s')"
  shows "zReds (view s') = (\<lambda>k. map_option zero_red (zReds (view s) k)) \<and>
     zUbds (view s') = (\<lambda>k. map_option zero_ubd (zUbds (view s) k)) \<and>
     (\<forall>a i. zInfos (view s') a = Some i \<longrightarrow> StartHeight i = 0) \<and>
     (\<forall>a. map_option Jailed (zVals (view s') a) =
        map_option (\<lambda>v. Jailed v \<or> to_jail (sk_ValidatorAddressCodec (xStaking app)) allowed a) (zVals (view s) a))"
  using actsD [OF export_contract.prep_acts [OF assms(1)] assms(2)]
  by (simp add: export_contract.prepared_def [OF assms(1)])

text \<open>Two validators, of which the list allows the first, and a redelegation made at height 3.\<close>

definition val_a :: Validator where
  "val_a = \<lparr>OperatorAddress = ''trefoil1a'', UnbondingHeight = 4, Jailed = False, vOther = []\<rparr>"

definition val_b :: Validator where
  "val_b = \<lparr>OperatorAddress = ''trefoil1b'', UnbondingHeight = 0, Jailed = False, vOther = []\<rparr>"

definition demo_stakes :: stake_store where
  "demo_stakes = \<lparr>dVals = [val_a, val_b],
     dReds = [\<lparr>rdKey = (''trefoil1d'', ''trefoil1a'', ''trefoil1b''), rdEntries = [\<lparr>CreationHeight = 3, eOther = []\<rparr>]\<rparr>],
     dUbds = [], dInfos = [([1], \<lparr>StartHeight = 2, siOther = []\<rparr>)], dPool = []\<rparr>"

definition demo_restarted :: stake_store where
  "demo_restarted = snd (prepForZeroHeightGenesis demo_app 7 [''trefoil1a''] demo_stakes)"

lemma demo_restart: "prepForZeroHeightGenesis demo_app 7 [''trefoil1a''] demo_stakes = (Ok (), demo_restarted)"
  unfolding demo_restarted_def by (rule prod.expand) (simp, code_simp)

theorem zero_height_reset_witness:
  "map_option Jailed (zVals (stake_view_of demo_restarted) (bytes_of_string ''a'')) = Some False \<and>
   map_option Jailed (zVals (stake_view_of demo_restarted) (bytes_of_string ''b'')) = Some True"
proof -
  have "map_option Jailed (zVals (stake_view_of demo_restarted) a) =
      map_option (\<lambda>v. Jailed v \<or> to_jail mem_codec [''trefoil1a''] a) (zVals (stake_view_of demo_stakes) a)" for a
    using zero_height_reset [OF demo_export.export_contract_axioms demo_restart] by (simp add: demo_app_defs)
  moreover have "map_of (validator_entries [val_a, val_b]) (bytes_of_string ''a'') = Some val_a"
    "map_of (validator_entries [val_a, val_b]) (bytes_of_string ''b'') = Some val_b"
    by code_simp+
  moreover have "BytesToString mem_codec (bytes_of_string ''a'') = Inr ''trefoil1a''"
    "BytesToString mem_codec (bytes_of_string ''b'') = Inr ''trefoil1b''"
    by code_simp+
  ultimately show ?thesis
    by (simp add: stake_view_of_def demo_stakes_def to_jail_def val_a_def val_b_def)
qed

text \<open>
  A list of allowed addresses with one that does not parse stops a zero-height export
  with a panic before it has changed anything.
\<close>

theorem bad_jail_address_stops:
  assumes "x \<in> set allowed" and "StringToBytes (registryValidatorCodec app) x = Inl e"
  shows "\<exists>t. ExportAppStateAndValidators app True allowed modules s = (Panic t, s)"
  using allowed_addrs_bad [OF assms, of Map.empty]
  by (auto simp: ExportAppStateAndValidators_def prepForZeroHeightGenesis_def go_lift_def bind_def)

theorem bad_jail_address_stops_witness:
  "\<exists>t. ExportAppStateAndValidators demo_app True [''nonsense''] [''undo''] demo_stakes = (Panic t, demo_stakes)"
proof -
  have "StringToBytes (registryValidatorCodec demo_app) ''nonsense'' = Inl (Foreign ''decoding bech32 failed'')"
    by code_simp
  then show ?thesis by (intro bad_jail_address_stops [of "''nonsense''"]) simp_all
qed

text \<open>The height of an export, and what an export without the preparation leaves of the store.\<close>

lemma export_height:
  "ExportAppStateAndValidators app z allowed modules s = (Ok (ea, None), s') \<Longrightarrow>
     Height ea = (if z then 0 else LastBlockHeight app s + 1)"
  by (auto simp: ExportAppStateAndValidators_def Let_def elim!: bind_OkE
        split: res.splits prod.splits sum.splits if_splits)

end
