(* ===== verification/Routes.thy ===== *)
theory Routes
  imports Gateway CoinWire Demo
begin

text \<open>
  What the gateway's runtime promises, and the route of a payment: a path with an id answers with
  what the store holds under it. The contract is interpreted on a small runtime over the demo
  chain. Theory \<open>Serving\<close> compares serving in process with serving through a client.
\<close>

section \<open>Contract\<close>

text \<open>Joining metadata to none changes nothing; the writers do not look at the transport stream.\<close>

locale gateway_contract =
  fixes rt :: "('c, 'q, 'm, 'w, 'pq, 'pr) GatewayRuntime"
  assumes Join_empty: "metadata_Join rt [] m = m"
    and stream_unseen: "HTTPError rt (NewContextWithStream rt c) = HTTPError rt c"
      "HTTPError rt (NewServerMetadataContext rt (NewContextWithStream rt c) md) =
       HTTPError rt (NewServerMetadataContext rt c md)"
      "ForwardResponseMessage rt (NewServerMetadataContext rt (NewContextWithStream rt c) md) =
       ForwardResponseMessage rt (NewServerMetadataContext rt c md)"
begin

lemma Join_none [simp]:
  "\<lparr>HeaderMD = metadata_Join rt (HeaderMD no_metadata) (HeaderMD md),
    TrailerMD = metadata_Join rt (TrailerMD no_metadata) (TrailerMD md)\<rparr> = md"
  by (simp add: no_metadata_def Join_empty)

end

section \<open>A runtime over the demo chain\<close>

text \<open>
  A context has the metadata that came in with a call and that goes out with one, and what an
  answer came with; a request is its form, whose values are passed on as metadata, unless it
  has a bad timeout; a writer is the list of what it was given, errors as statuses. Ids are
  decimal; \<open>unwrap\<close> puts the store of the request under a fixed block.
\<close>

record demo_context =
  dcIncoming :: MD
  dcOutgoing :: MD
  dcAnswered :: ServerMetadata

definition demo_background :: demo_context where
  "demo_background = \<lparr>dcIncoming = [], dcOutgoing = [], dcAnswered = no_metadata\<rparr>"

definition form_metadata :: "url_Values \<Rightarrow> error + MD" where
  "form_metadata q = (if map_of q ''grpc-timeout'' = None then Inr (concat (map (\<lambda>(k, vs). map (Pair k) vs) q))
     else Inl (StatusError InvalidArgument ''invalid grpc-timeout''))"

definition demo_status :: "error \<Rightarrow> error" where
  "demo_status e = (case e of StatusError c t \<Rightarrow> e | _ \<Rightarrow> StatusError Unknown (error_text e))"

definition demo_Uint64 :: "string \<Rightarrow> error + u64" where
  "demo_Uint64 t =
     (if t \<noteq> [] \<and> length t < 19 \<and> list_all (\<lambda>ch. CHR ''0'' \<le> ch \<and> ch \<le> CHR ''9'') t
      then Inr (of_nat (parse_nat t)) else Inl (Foreign ''invalid syntax''))"

definition demo_gateway ::
  "(demo_context, url_Values, unit, (error + 'pr reply) list, 'pg option, 'pr) GatewayRuntime" where
  "demo_gateway = \<lparr>
     req_Context = (\<lambda>q. demo_background), NewContextWithStream = (\<lambda>c. c), MarshalerForRequest = (\<lambda>q. ((), ())),
     AnnotateContext = (\<lambda>c q. map_sum id (\<lambda>md. c\<lparr>dcOutgoing := md\<rparr>) (form_metadata q)),
     AnnotateIncomingContext = (\<lambda>c q. map_sum id (\<lambda>md. c\<lparr>dcIncoming := md\<rparr>) (form_metadata q)),
     NewServerMetadataContext = (\<lambda>c md. c\<lparr>dcAnswered := md\<rparr>), metadata_Join = (@),
     HTTPError = (\<lambda>c m q e w. w @ [Inl (demo_status e)]), ForwardResponseMessage = (\<lambda>c m q r w. w @ [Inr r]),
     runtime_Uint64 = demo_Uint64, runtime_String = Inr, ParseForm = Inr,
     PopulatePending = (\<lambda>f d. Inr \<lparr>qapPagination = None\<rparr>), PopulateRecord = (\<lambda>f d. Inr \<lparr>qarPagination = None\<rparr>)\<rparr>"

text \<open>One page has the whole table.\<close>

definition whole_table :: "(mem, 'k, 'v, 'pg option, 'pr option) paginate" where
  "whole_table M q f st = (case map_Iterate M st of
     Inl e \<Rightarrow> Inl e
   | Inr xs \<Rightarrow> map_sum id (\<lambda>vs. (vs, None)) (map_results (\<lambda>(k, v). f k v) xs))"

definition demo_server :: "(mem, demo_context, 'pg option, 'pr option) QueryServer" where
  "demo_server = NewQueryServerImpl whole_table whole_table (\<lambda>c. demo_ctx) mem_keeper"

interpretation demo_gw: gateway_contract demo_gateway
  by unfold_locales (simp_all add: demo_gateway_def)

section \<open>The property\<close>

text \<open>
  C38: \<open>GET /trefoil/undo/v1/pending/{id}\<close> answers from the store and leaves it as it is: with an
  id that reads as a number the second route forwards the payment in flight under it, and
  writes \<open>ErrKeyNotFound\<close> when there is none; without an id, or with one that is no number, it
  writes an InvalidArgument error.
\<close>

theorem pending_by_path:
  assumes "undo_contracts S K view maddr blocked denom_ok"
    and "gateway_contract rt" and "\<And>c st. store (unwrap c st) = st"
    and "AnnotateIncomingContext rt (NewContextWithStream rt (req_Context rt q)) q = Inr rctx"
  shows "rHandler (snd (RegisterQueryHandlerServer rt [] (NewQueryServerImpl pg pg' unwrap K)) ! 1) q pp h =
    (Ok (), h\<lparr>hWriter :=
      (let ctx = NewServerMetadataContext rt (req_Context rt q) no_metadata; out = snd (MarshalerForRequest rt q) in
       case pp ''id'' of
         None \<Rightarrow> HTTPError rt ctx out q (missing_parameter ''id'')
       | Some t \<Rightarrow> (case runtime_Uint64 rt t of
             Inl e \<Rightarrow> HTTPError rt ctx out q (type_mismatch ''id'' e)
           | Inr i \<Rightarrow> (case lPending (view (hStore h)) i of
                 None \<Rightarrow> HTTPError rt ctx out q ErrKeyNotFound
               | Some p \<Rightarrow> ForwardResponseMessage rt ctx out q (GetPendingReply \<lparr>qgpPending = p\<rparr>)))) (hWriter h)\<rparr>)"
  using gateway_contract.Join_none [OF assms(2)] gateway_contract.stream_unseen [OF assms(2)]
  by (auto simp: RegisterQueryHandlerServer_def NewQueryServerImpl_def serve_local_def respond_def Let_def assms(3,4)
        local_request_Query_GetPending_0_def refuse_def from_server_def over_store_def
        undo_contracts.query_GetPending_eval [OF assms(1)] split: option.split sum.split)

theorem pending_by_path_witness:
  "rHandler (snd (RegisterQueryHandlerServer demo_gateway [] (demo_server :: (mem, demo_context, nat option, nat option) QueryServer)) ! 1)
      [] [''id'' \<mapsto> ''0''] \<lparr>hStore = store demo1, hWriter = []\<rparr> =
     (Ok (), \<lparr>hStore = store demo1, hWriter = [Inr (GetPendingReply \<lparr>qgpPending = demo_payment\<rparr>)]\<rparr>)"
proof -
  let ?rt = "demo_gateway :: (demo_context, url_Values, unit, (error + nat option reply) list, nat option, nat option) GatewayRuntime"
  have 0: "runtime_Uint64 ?rt ''0'' = Inr 0" by code_simp
  have p: "lPending (mem_view (store demo1)) 0 = Some demo_payment" by code_simp
  have "AnnotateIncomingContext ?rt (NewContextWithStream ?rt (req_Context ?rt [])) [] = Inr demo_background"
    by (simp add: demo_gateway_def form_metadata_def demo_background_def)
  from pending_by_path [OF mem_contracts demo_gw.gateway_contract_axioms _ this,
      of "\<lambda>c. demo_ctx" whole_table whole_table "[''id'' \<mapsto> ''0'']" "\<lparr>hStore = store demo1, hWriter = []\<rparr>"]
  show ?thesis
    by (simp add: demo_server_def [symmetric] demo_ctx_def 0 p) (simp add: demo_gateway_def)
qed

end
