(* ===== verification/GoText.thy ===== *)
theory GoText
  imports Calls "HOL-Library.Sublist"
begin

text \<open>
  What the commands use of Go's \<open>strings\<close>, \<open>strconv\<close> and \<open>path/filepath\<close> (on Unix), as functions
  on strings. A path is cleaned by its components: \<open>split_on\<close> cuts it at the slashes,
  \<open>clean_comps\<close> drops empty and \<open>.\<close> components and resolves \<open>..\<close> lexically.
\<close>

section \<open>Strings\<close>

text \<open>\<open>strings.Split(s, sep)\<close> for a one-character separator; the empty string gives one empty part.\<close>

fun split_on :: "char \<Rightarrow> string \<Rightarrow> string list" where
  "split_on sep [] = [[]]"
| "split_on sep (c # cs) =
     (if c = sep then [] # split_on sep cs
      else (case split_on sep cs of [] \<Rightarrow> [[c]] | p # ps \<Rightarrow> (c # p) # ps))"

text \<open>\<open>strings.Join(parts, sep)\<close>\<close>

fun join_with :: "string \<Rightarrow> string list \<Rightarrow> string" where
  "join_with sep [] = []"
| "join_with sep [p] = p"
| "join_with sep (p # q # ps) = p @ sep @ join_with sep (q # ps)"

definition HasPrefix :: "string \<Rightarrow> string \<Rightarrow> bool" where
  "HasPrefix s p \<longleftrightarrow> take (length p) s = p"

definition Itoa :: "int \<Rightarrow> string" where
  "Itoa i = (if i < 0 then ''-'' @ show_nat (nat (- i)) else show_nat (nat i))"

lemma split_on_nonempty [simp]: "split_on sep s \<noteq> []"
  by (induction s) (auto split: list.splits)

lemma split_on_plain: "sep \<notin> set s \<Longrightarrow> split_on sep s = [s]"
  by (induction s) auto

lemma split_on_parts: "p \<in> set (split_on sep s) \<Longrightarrow> sep \<notin> set p"
  by (induction s arbitrary: p) (auto split: if_splits list.splits)

lemma split_on_sep: "sep \<notin> set p \<Longrightarrow> split_on sep (p @ sep # s) = p # split_on sep s"
  by (induction p) auto

text \<open>Cutting what was joined gives the parts back.\<close>

lemma split_join:
  assumes "ps \<noteq> []" and "\<forall>p\<in>set ps. sep \<notin> set p"
  shows "split_on sep (join_with [sep] ps) = ps"
  using assms by (induction "[sep]" ps rule: join_with.induct) (simp_all add: split_on_plain split_on_sep)

lemma join_with_Cons: "join_with sep ((c # p) # ps) = c # join_with sep (p # ps)"
  by (cases ps) simp_all

lemma join_split: "join_with [sep] (split_on sep s) = s"
proof (induction s)
  case (Cons c s)
  then show ?case by (cases "split_on sep s") (auto simp: join_with_Cons)
qed simp

section \<open>Paths\<close>

abbreviation slash :: char where "slash \<equiv> CHR ''/''"

definition IsAbs :: "string \<Rightarrow> bool" where
  "IsAbs p \<longleftrightarrow> HasPrefix p ''/''"

text \<open>The components that are left of a path, in reverse order.\<close>

fun clean_step :: "bool \<Rightarrow> string list \<Rightarrow> string \<Rightarrow> string list" where
  "clean_step rooted acc c =
     (if c = [] \<or> c = ''.'' then acc
      else if c = ''..'' then
        (case acc of
           [] \<Rightarrow> (if rooted then [] else [''..''])
         | d # ds \<Rightarrow> (if d = ''..'' then ''..'' # acc else ds))
      else c # acc)"

declare clean_step.simps [simp del]

definition clean_comps :: "string \<Rightarrow> string list" where
  "clean_comps p = rev (foldl (clean_step (IsAbs p)) [] (split_on slash p))"

definition unclean :: "bool \<Rightarrow> string list \<Rightarrow> string" where
  "unclean rooted cs = (if rooted then slash # join_with ''/'' cs else if cs = [] then ''.'' else join_with ''/'' cs)"

definition Clean :: "string \<Rightarrow> string" where
  "Clean p = unclean (IsAbs p) (clean_comps p)"

definition Join :: "string list \<Rightarrow> string" where
  "Join es = (case dropWhile (\<lambda>e. e = []) es of [] \<Rightarrow> [] | ne \<Rightarrow> Clean (join_with ''/'' ne))"

text \<open>\<open>filepath.Base\<close>: the last element; of the empty path \<open>.\<close>, of slashes only one slash.\<close>

definition Base :: "string \<Rightarrow> string" where
  "Base p =
     (if p = [] then ''.''
      else let q = rev (dropWhile (\<lambda>c. c = slash) (rev p)) in
        if q = [] then ''/'' else last (split_on slash q))"

text \<open>\<open>filepath.Abs\<close>, given the working directory.\<close>

definition Abs :: "error + string \<Rightarrow> string \<Rightarrow> error + string" where
  "Abs wd p = (if IsAbs p then Inr (Clean p) else (case wd of Inl e \<Rightarrow> Inl e | Inr d \<Rightarrow> Inr (Join [d, p])))"

fun strip_common :: "'a list \<Rightarrow> 'a list \<Rightarrow> 'a list \<times> 'a list" where
  "strip_common (x # xs) (y # ys) = (if x = y then strip_common xs ys else (x # xs, y # ys))"
| "strip_common xs ys = (xs, ys)"

text \<open>\<open>filepath.Rel\<close> on absolute paths, which is how the code calls it.\<close>

definition Rel :: "string \<Rightarrow> string \<Rightarrow> error + string" where
  "Rel basepath targpath =
     (if Clean basepath = Clean targpath then Inr ''.''
      else (case strip_common (clean_comps basepath) (clean_comps targpath) of
          (bs, ts) \<Rightarrow> Inr (join_with ''/'' (map (\<lambda>_. ''..'') bs @ ts))))"

lemma strip_common_prefix:
  "strip_common xs ys = (as, bs) \<Longrightarrow> \<exists>c. xs = c @ as \<and> ys = c @ bs \<and> (as = [] \<or> bs = [] \<or> hd as \<noteq> hd bs)"
proof (induction xs ys arbitrary: as bs rule: strip_common.induct)
  case (1 x xs y ys)
  show ?case
  proof (cases "x = y")
    case True
    with 1 obtain c where "xs = c @ as" "ys = c @ bs" "as = [] \<or> bs = [] \<or> hd as \<noteq> hd bs" by auto
    with True have "x # xs = (x # c) @ as \<and> y # ys = (x # c) @ bs \<and> (as = [] \<or> bs = [] \<or> hd as \<noteq> hd bs)" by simp
    then show ?thesis by blast
  next
    case False
    with 1 show ?thesis by auto
  qed
qed auto

lemma strip_common_append: "strip_common xs (xs @ ys) = ([], ys)"
  by (induction xs) (cases ys, auto)

text \<open>The components of a cleaned rooted path are names: not empty, no dots, no slash.\<close>

definition plain_name :: "string \<Rightarrow> bool" where
  "plain_name c \<longleftrightarrow> c \<noteq> [] \<and> c \<noteq> ''.'' \<and> c \<noteq> ''..'' \<and> slash \<notin> set c"

lemma clean_step_plain:
  "\<forall>c\<in>set acc. plain_name c \<Longrightarrow> slash \<notin> set x \<Longrightarrow> \<forall>c\<in>set (clean_step True acc x). plain_name c"
  by (cases acc) (simp_all add: clean_step.simps plain_name_def)

lemma foldl_clean_plain:
  "\<forall>c\<in>set acc. plain_name c \<Longrightarrow> \<forall>x\<in>set xs. slash \<notin> set x \<Longrightarrow>
     \<forall>c\<in>set (foldl (clean_step True) acc xs). plain_name c"
proof (induction xs arbitrary: acc)
  case (Cons x xs)
  then show ?case using clean_step_plain [of acc x] by (simp del: clean_step.simps)
qed simp

lemma clean_comps_plain: "IsAbs p \<Longrightarrow> c \<in> set (clean_comps p) \<Longrightarrow> plain_name c"
  using foldl_clean_plain [of "[]" "split_on slash p"] split_on_parts [of _ slash p]
  by (auto simp: clean_comps_def)

lemma foldl_clean_names:
  "\<forall>c\<in>set cs. plain_name c \<Longrightarrow> foldl (clean_step r) acc cs = rev cs @ acc"
  by (induction cs arbitrary: acc) (auto simp: clean_step.simps plain_name_def)

lemma clean_comps_rooted:
  assumes "\<forall>c\<in>set cs. plain_name c"
  shows "clean_comps (slash # join_with ''/'' cs) = cs"
proof (cases "cs = []")
  case True
  then show ?thesis by (simp add: clean_comps_def clean_step.simps)
next
  case False
  have "split_on slash (join_with ''/'' cs) = cs"
    using split_join [OF False, of slash] assms by (simp add: plain_name_def)
  then show ?thesis
    by (simp add: clean_comps_def clean_step.simps foldl_clean_names [OF assms])
qed

lemma clean_comps_Clean:
  assumes "IsAbs p"
  shows "clean_comps (Clean p) = clean_comps p" and "IsAbs (Clean p)"
  using assms clean_comps_rooted [of "clean_comps p"] clean_comps_plain [OF assms]
  by (auto simp: Clean_def unclean_def IsAbs_def HasPrefix_def)

lemma Clean_eq_iff:
  assumes "IsAbs p" and "IsAbs q"
  shows "Clean p = Clean q \<longleftrightarrow> clean_comps p = clean_comps q"
proof
  assume "Clean p = Clean q"
  then show "clean_comps p = clean_comps q" using assms clean_comps_Clean(1) by metis
next
  assume "clean_comps p = clean_comps q"
  then show "Clean p = Clean q" using assms by (simp add: Clean_def)
qed

end
