(* ===== verification/Testnet.thy ===== *)
theory Testnet
  imports GoText Contracts
begin

text \<open>
  The in-place testnet (\<open>cmd/trefoild/cmd/testnet.go\<close>): the parsing of its arguments, and the
  rewriting of a node's state so that one new validator is all that is left of the validator
  set. The application's keepers are parameters. \<open>handleErr\<close> ends the process; that is
  modelled like a panic, with the exit status in its text. Decimal numbers are the texts the
  code passes to \<open>LegacyMustNewDecFromStr\<close>.
\<close>

section \<open>Arguments\<close>

definition valVotingPower :: int where
  "valVotingPower = 900000000000000"

definition flagAccountsToFund :: string where
  "flagAccountsToFund = ''accounts-to-fund''"

record valArgs =
  newValAddr :: bytes
  newOperatorAddress :: string
  newValPubKey :: bytes
  accountsToFund :: "string list"
  upgradeToTrigger :: string
  homeDir :: string

text \<open>The dynamic types a value of the application options can have here.\<close>

datatype opt_value = HexBytesValue bytes | PubKeyValue bytes | StringValue string | OtherValue

record CommandKeys =
  KeyNewValAddr :: string
  KeyUserPubKey :: string
  KeyNewOpAddr :: string
  KeyTriggerTestnetUpgrade :: string
  FlagHome :: string

definition getCommandArgs :: "CommandKeys \<Rightarrow> (opt_value \<Rightarrow> string) \<Rightarrow> (string \<Rightarrow> opt_value) \<Rightarrow> error + valArgs" where
  "getCommandArgs keys cast_ToString appOpts =
     (case appOpts (KeyNewValAddr keys) of HexBytesValue valAddr \<Rightarrow>
        (case appOpts (KeyUserPubKey keys) of PubKeyValue pubKey \<Rightarrow>
           (case appOpts (KeyNewOpAddr keys) of StringValue opAddr \<Rightarrow>
              (case appOpts (KeyTriggerTestnetUpgrade keys) of StringValue upgrade \<Rightarrow>
                 (let accountsString = cast_ToString (appOpts flagAccountsToFund);
                      home = cast_ToString (appOpts (FlagHome keys)) in
                  if home = [] then Inl (Errorf ''invalid home dir'')
                  else Inr \<lparr>newValAddr = valAddr, newOperatorAddress = opAddr, newValPubKey = pubKey,
                     accountsToFund = [] @ split_on CHR '','' accountsString,
                     upgradeToTrigger = upgrade, homeDir = home\<rparr>)
               | _ \<Rightarrow> Inl (Errorf ''upgradeToTrigger is not of type string''))
            | _ \<Rightarrow> Inl (Errorf ''newOperatorAddress is not of type string''))
         | _ \<Rightarrow> Inl (Errorf ''newValPubKey is not of type crypto.PubKey''))
      | _ \<Rightarrow> Inl (Errorf ''newValAddr is not of type bytes.HexBytes''))"

section \<open>The application\<close>

datatype bond_status = Unbonded | Unbonding | Bonded

record NewValidator =
  nvOperatorAddress :: string
  nvConsensusPubkey :: bytes
  nvJailed :: bool
  nvStatus :: bond_status
  nvTokens :: int
  nvDelegatorShares :: string
  nvMoniker :: string
  nvRate :: string
  nvMaxRate :: string
  nvMaxChangeRate :: string
  nvMinSelfDelegation :: int

record NewSigningInfo =
  niAddress :: string
  niStartHeight :: i64
  niTombstoned :: bool

type_synonym dec_coins = "(string \<times> string) list"

record 'st TestnetApp =
  NewAnyWithValue :: "bytes \<Rightarrow> error + bytes"
  tnValidatorCodec :: AddressCodec
  tnAddressCodec :: AddressCodec
  PowerIterator :: "('st, bytes list) go"
  LastIterator :: "('st, bytes list) go"
  RangeIterator :: "bytes \<Rightarrow> bytes \<Rightarrow> 'st \<Rightarrow> bytes list"
  PrefixEndBytes :: "bytes \<Rightarrow> bytes"
  ValidatorsKey :: bytes
  ValidatorQueueKey :: bytes
  store_Delete :: "bytes \<Rightarrow> ('st, unit) go"
  tnSetValidator :: "NewValidator \<Rightarrow> ('st, unit) go"
  SetValidatorByConsAddr :: "NewValidator \<Rightarrow> ('st, unit) go"
  SetValidatorByPowerIndex :: "NewValidator \<Rightarrow> ('st, unit) go"
  SetLastValidatorPower :: "bytes \<Rightarrow> i64 \<Rightarrow> ('st, unit) go"
  tnAfterValidatorCreated :: "bytes \<Rightarrow> ('st, unit) go"
  SetValidatorHistoricalRewards :: "bytes \<Rightarrow> u64 \<Rightarrow> dec_coins \<times> u64 \<Rightarrow> ('st, unit) go"
  SetValidatorCurrentRewards :: "bytes \<Rightarrow> dec_coins \<times> u64 \<Rightarrow> ('st, unit) go"
  SetInitialAccumulatedCommission :: "bytes \<Rightarrow> ('st, unit) go"
  SetValidatorOutstandingRewards :: "bytes \<Rightarrow> dec_coins \<Rightarrow> ('st, unit) go"
  tnSetValidatorSigningInfo :: "bytes \<Rightarrow> NewSigningInfo \<Rightarrow> ('st, unit) go"
  ConsAddress_String :: "bytes \<Rightarrow> string"
  tnLastBlockHeight :: "'st \<Rightarrow> i64"
  BondDenom :: "('st, string) go"
  MintModuleName :: string
  MintCoins :: "string \<Rightarrow> Coins \<Rightarrow> ('st, unit) go"
  tnSendCoinsFromModuleToAccount :: "string \<Rightarrow> bytes \<Rightarrow> Coins \<Rightarrow> ('st, unit) go"

definition handleErr :: "('s, 'a) go \<Rightarrow> ('s, 'a) go" where
  "handleErr m s = (case m s of (Err e, s') \<Rightarrow> (Panic (''exit status 1: '' @ error_text e), s') | r \<Rightarrow> r)"

definition new_validator :: "valArgs \<Rightarrow> bytes \<Rightarrow> NewValidator" where
  "new_validator args pubkeyAny =
     \<lparr>nvOperatorAddress = newOperatorAddress args, nvConsensusPubkey = pubkeyAny, nvJailed = False,
      nvStatus = Bonded, nvTokens = valVotingPower, nvDelegatorShares = ''10000000'',
      nvMoniker = ''Testnet Validator'', nvRate = ''0.05'', nvMaxRate = ''0.1'', nvMaxChangeRate = ''0.05'',
      nvMinSelfDelegation = 1\<rparr>"

text \<open>An iterator is drained; every key it yields is deleted.\<close>

definition delete_range :: "'st TestnetApp \<Rightarrow> bytes \<Rightarrow> ('st, unit) go" where
  "delete_range app key s = go_for (store_Delete app) (RangeIterator app key (PrefixEndBytes app key) s) s"

definition remove_validators :: "'st TestnetApp \<Rightarrow> ('st, unit) go" where
  "remove_validators app =
     bind (handleErr (PowerIterator app)) (\<lambda>keys.
     bind (go_for (store_Delete app) keys) (\<lambda>_.
     bind (handleErr (LastIterator app)) (\<lambda>keys.
     bind (go_for (store_Delete app) keys) (\<lambda>_.
     bind (delete_range app (ValidatorsKey app)) (\<lambda>_.
     delete_range app (ValidatorQueueKey app))))))"

definition seat_validator :: "'st TestnetApp \<Rightarrow> NewValidator \<Rightarrow> bytes \<Rightarrow> ('st, unit) go" where
  "seat_validator app newVal validator =
     bind (handleErr (tnSetValidator app newVal)) (\<lambda>_.
     bind (handleErr (SetValidatorByConsAddr app newVal)) (\<lambda>_.
     bind (handleErr (SetValidatorByPowerIndex app newVal)) (\<lambda>_.
     bind (handleErr (SetLastValidatorPower app validator 0)) (\<lambda>_.
     handleErr (tnAfterValidatorCreated app validator)))))"

definition init_distribution :: "'st TestnetApp \<Rightarrow> bytes \<Rightarrow> ('st, unit) go" where
  "init_distribution app validator =
     bind (handleErr (SetValidatorHistoricalRewards app validator 0 ([], 1))) (\<lambda>_.
     bind (handleErr (SetValidatorCurrentRewards app validator ([], 1))) (\<lambda>_.
     bind (handleErr (SetInitialAccumulatedCommission app validator)) (\<lambda>_.
     handleErr (SetValidatorOutstandingRewards app validator []))))"

definition init_signing :: "'st TestnetApp \<Rightarrow> valArgs \<Rightarrow> ('st, unit) go" where
  "init_signing app args s =
     (let newConsAddr = newValAddr args in
      go_drop (tnSetValidatorSigningInfo app newConsAddr
        \<lparr>niAddress = ConsAddress_String app newConsAddr, niStartHeight = tnLastBlockHeight app s - 1,
         niTombstoned = False\<rparr>) s)"

definition fund_account :: "'st TestnetApp \<Rightarrow> Coins \<Rightarrow> string \<Rightarrow> ('st, unit) go" where
  "fund_account app defaultCoins accountStr =
     bind (handleErr (MintCoins app (MintModuleName app) defaultCoins)) (\<lambda>_.
     bind (handleErr (pure_call (StringToBytes (tnAddressCodec app) accountStr))) (\<lambda>account.
     handleErr (tnSendCoinsFromModuleToAccount app (MintModuleName app) account defaultCoins)))"

definition initAppForTestnet :: "CoinOps \<Rightarrow> 'st TestnetApp \<Rightarrow> valArgs \<Rightarrow> ('st, unit) go" where
  "initAppForTestnet S app args =
     bind (handleErr (pure_call (NewAnyWithValue app (newValPubKey args)))) (\<lambda>pubkeyAny.
     let newVal = new_validator args pubkeyAny in
     bind (handleErr (pure_call (StringToBytes (tnValidatorCodec app) (nvOperatorAddress newVal)))) (\<lambda>validator.
     bind (remove_validators app) (\<lambda>_.
     bind (seat_validator app newVal validator) (\<lambda>_.
     bind (init_distribution app validator) (\<lambda>_.
     bind (init_signing app args) (\<lambda>_.
     bind (handleErr (BondDenom app)) (\<lambda>bondDenom.
     bind (new_coins S [\<lparr>Denom = bondDenom, Amount = Some 1000000000\<rparr>]) (\<lambda>defaultCoins.
     go_for (fund_account app defaultCoins) (accountsToFund args)))))))))"

text \<open>\<open>newTestnetApp\<close>: \<open>mk\<close> is the application \<open>newApp\<close> makes, none if it is not of type \<open>App\<close>.\<close>

definition newTestnetApp ::
  "CoinOps \<Rightarrow> CommandKeys \<Rightarrow> (opt_value \<Rightarrow> string) \<Rightarrow> 'st TestnetApp option \<Rightarrow> (string \<Rightarrow> opt_value) \<Rightarrow> ('st, 'st TestnetApp) go" where
  "newTestnetApp S keys cast_ToString mk appOpts =
     (case mk of
        None \<Rightarrow> go_lift (Panic ''app created from newApp is not of type App'')
      | Some testApp \<Rightarrow>
          bind (go_must (pure_call (getCommandArgs keys cast_ToString appOpts))) (\<lambda>args.
          bind (initAppForTestnet S testApp args) (\<lambda>_. ret testApp)))"

end
