(* ===== verification/Takeover.thy ===== *)
theory Takeover
  imports Testnet MemStore
begin

text \<open>
  What the in-place testnet leaves of a chain: the contract of the staking store and the bank,
  the proof that the new validator is alone and the accounts are funded, and a small
  application that meets the contract.
\<close>

section \<open>Contract\<close>

text \<open>The keys of the staking store, its bond denomination, and the balances.\<close>

record takeover_view =
  tvKeys :: "bytes set"
  tvBond :: string
  tvBal :: "bytes \<Rightarrow> string \<Rightarrow> int"

definition under_prefix :: "bytes \<Rightarrow> bytes set \<Rightarrow> bytes set" where
  "under_prefix p ks = {k \<in> ks. prefix p k}"

text \<open>
  The five one-byte prefixes of the staking store are different; an iterator yields the keys
  under its prefix; deleting removes a key; a setter adds the key of its value, which for the
  power index it does for a validator that is not jailed only; the bond denomination is read
  from the parameters; minting and sending move coins; everything else leaves keys, parameters
  and balances alone. How a key goes on after its prefix is left open (\<open>valId\<close>, \<open>powerId\<close>, \<open>consId\<close>,
  \<open>lastId\<close>; in the SDK with the length of an address before it).
\<close>

locale testnet_contract =
  fixes app :: "'st TestnetApp"
    and view :: "'st \<Rightarrow> takeover_view"
    and powerPrefix lastPrefix consPrefix :: bytes
    and valId powerId consId :: "NewValidator \<Rightarrow> bytes"
    and lastId :: "bytes \<Rightarrow> bytes"
    and maddr :: "string \<Rightarrow> bytes"
  assumes prefixes: "distinct [powerPrefix, lastPrefix, consPrefix, ValidatorsKey app, ValidatorQueueKey app]"
      "\<forall>p\<in>{powerPrefix, lastPrefix, consPrefix, ValidatorsKey app, ValidatorQueueKey app}. length p = 1"
    and power_iterator: "PowerIterator app s = (Ok ks, s') \<Longrightarrow>
      view s' = view s \<and> set ks = under_prefix powerPrefix (tvKeys (view s))"
    and last_iterator: "LastIterator app s = (Ok ks, s') \<Longrightarrow>
      view s' = view s \<and> set ks = under_prefix lastPrefix (tvKeys (view s))"
    and range_iterator: "set (RangeIterator app p (PrefixEndBytes app p) s) = under_prefix p (tvKeys (view s))"
    and delete: "acts view (store_Delete app k) (\<lambda>u u'. u' = u\<lparr>tvKeys := tvKeys u - {k}\<rparr>)"
    and set_validator: "acts view (tnSetValidator app w)
      (\<lambda>u u'. u' = u\<lparr>tvKeys := insert (ValidatorsKey app @ valId w) (tvKeys u)\<rparr>)"
    and set_cons: "acts view (SetValidatorByConsAddr app w)
      (\<lambda>u u'. u' = u\<lparr>tvKeys := insert (consPrefix @ consId w) (tvKeys u)\<rparr>)"
    and set_power: "acts view (SetValidatorByPowerIndex app w)
      (\<lambda>u u'. u' = (if nvJailed w then u else u\<lparr>tvKeys := insert (powerPrefix @ powerId w) (tvKeys u)\<rparr>))"
    and set_last: "acts view (SetLastValidatorPower app v n)
      (\<lambda>u u'. u' = u\<lparr>tvKeys := insert (lastPrefix @ lastId v) (tvKeys u)\<rparr>)"
    and others_keep: "keeps view (tnAfterValidatorCreated app v)"
      "keeps view (SetValidatorHistoricalRewards app v n hr)"
      "keeps view (SetValidatorCurrentRewards app v cr)"
      "keeps view (SetInitialAccumulatedCommission app v)"
      "keeps view (SetValidatorOutstandingRewards app v dcs)"
      "keeps view (tnSetValidatorSigningInfo app v i)"
    and bond_denom: "BondDenom app s = (Ok bd, s') \<Longrightarrow> view s' = view s \<and> bd = tvBond (view s)"
    and mint: "acts view (MintCoins app m cs)
      (\<lambda>u u'. u' = u\<lparr>tvBal := \<lambda>a d. tvBal u a d + (if a = maddr m then units cs d else 0)\<rparr>)"
    and send: "acts view (tnSendCoinsFromModuleToAccount app m a cs)
      (\<lambda>u u'. u' = u\<lparr>tvBal := move (maddr m) a cs (tvBal u)\<rparr>)"

lemma handleErr_acts: "acts view m R \<Longrightarrow> acts view (handleErr m) R"
  unfolding acts_def by (auto simp: handleErr_def split: prod.splits res.splits)

lemma handleErr_keeps [keeps_intros]: "keeps view m \<Longrightarrow> keeps view (handleErr m)"
  unfolding keeps_def by (auto simp: handleErr_def split: prod.splits res.splits) (metis snd_conv)+

lemma handleErr_Ok [simp]: "handleErr m s = (Ok a, s') \<longleftrightarrow> m s = (Ok a, s')"
  by (auto simp: handleErr_def split: prod.splits res.splits)

lemma prefix_one: "length p = 1 \<Longrightarrow> length q = 1 \<Longrightarrow> prefix p (q @ r) \<longleftrightarrow> p = q"
  by (cases p; cases q) auto

lemma fold_delete: "fold (\<lambda>k u. u\<lparr>tvKeys := tvKeys u - {k}\<rparr>) ks u = u\<lparr>tvKeys := tvKeys u - set ks\<rparr>"
  by (induction ks arbitrary: u) (simp_all add: Diff_insert2 [symmetric])

definition credit :: "bytes \<Rightarrow> Coins \<Rightarrow> takeover_view \<Rightarrow> takeover_view" where
  "credit a cs u = u\<lparr>tvBal := \<lambda>b d. tvBal u b d + (if b = a then units cs d else 0)\<rparr>"

lemma fold_credit:
  "fold (\<lambda>a. credit a cs) as u =
     u\<lparr>tvBal := \<lambda>b d. tvBal u b d + int (count_list as b) * units cs d\<rparr>"
  by (induction as arbitrary: u) (auto simp: credit_def fun_eq_iff algebra_simps)

context testnet_contract
begin

lemma delete_loop: "acts view (go_for (store_Delete app) ks) (\<lambda>u u'. u' = u\<lparr>tvKeys := tvKeys u - set ks\<rparr>)"
  using acts_for [of view "store_Delete app" "\<lambda>k u. u\<lparr>tvKeys := tvKeys u - {k}\<rparr>", OF delete]
  by (simp add: fold_delete)

lemma delete_range_acts:
  "acts view (delete_range app p) (\<lambda>u u'. u' = u\<lparr>tvKeys := tvKeys u - under_prefix p (tvKeys u)\<rparr>)"
  unfolding acts_def delete_range_def using actsD [OF delete_loop] by (metis range_iterator)

lemma remove_validators_acts:
  assumes "remove_validators app s = (Ok (), s')"
  shows "view s' = (view s)\<lparr>tvKeys := {k \<in> tvKeys (view s).
    \<not> prefix powerPrefix k \<and> \<not> prefix lastPrefix k \<and> \<not> prefix (ValidatorsKey app) k \<and> \<not> prefix (ValidatorQueueKey app) k}\<rparr>"
  using assms unfolding remove_validators_def
  by (auto elim!: bind_OkE dest!: power_iterator last_iterator actsD [OF delete_loop] actsD [OF delete_range_acts]
      simp: under_prefix_def intro!: arg_cong [where f = "\<lambda>ks. tvKeys_update (\<lambda>_. ks) u" for u])

lemma seat_validator_acts:
  "\<not> nvJailed w \<Longrightarrow> acts view (seat_validator app w v)
     (\<lambda>u u'. u' = u\<lparr>tvKeys := tvKeys u \<union> {ValidatorsKey app @ valId w, consPrefix @ consId w, powerPrefix @ powerId w, lastPrefix @ lastId v}\<rparr>)"
  unfolding seat_validator_def acts_def
  by (auto elim!: bind_OkE dest!: actsD [OF set_validator] actsD [OF set_cons] actsD [OF set_power] actsD [OF set_last]
      keepsD [OF others_keep(1)] simp: insert_commute)

lemma init_distribution_keeps: "keeps view (init_distribution app v)"
  unfolding init_distribution_def by (intro keeps_intros others_keep)

lemma init_signing_keeps: "keeps view (init_signing app args)"
  unfolding init_signing_def keeps_def Let_def
  using keeps_drop [OF others_keep(6)] unfolding keeps_def by blast

lemma fund_account_acts:
  assumes "fund_account app cs t s = (Ok (), s')"
  shows "\<exists>a. StringToBytes (tnAddressCodec app) t = Inr a \<and> view s' = credit a cs (view s)"
  using assms unfolding fund_account_def
  by (auto elim!: bind_OkE dest!: actsD [OF mint] actsD [OF send]
      simp: pure_call_def credit_def move_def fun_eq_iff split: sum.splits)

lemma funding:
  "go_for (fund_account app cs) ts s = (Ok (), s') \<Longrightarrow>
     \<exists>as. map (StringToBytes (tnAddressCodec app)) ts = map Inr as \<and> view s' = fold (\<lambda>a. credit a cs) as (view s)"
proof (induction ts arbitrary: s)
  case (Cons t ts)
  from Cons.prems obtain s1 where 1: "fund_account app cs t s = (Ok (), s1)" "go_for (fund_account app cs) ts s1 = (Ok (), s')"
    by (auto elim: bind_OkE)
  obtain a as where "StringToBytes (tnAddressCodec app) t = Inr a" "view s1 = credit a cs (view s)"
    "map (StringToBytes (tnAddressCodec app)) ts = map Inr as" "view s' = fold (\<lambda>a. credit a cs) as (view s1)"
    using fund_account_acts [OF 1(1)] Cons.IH [OF 1(2)] by blast
  then show ?case by (intro exI [of _ "a # as"]) simp
qed simp

text \<open>The state of a finished takeover.\<close>

lemma takeover:
  assumes "initAppForTestnet S app args s = (Ok (), s')"
  shows "\<exists>pk v cs as. NewAnyWithValue app (newValPubKey args) = Inr pk \<and>
     StringToBytes (tnValidatorCodec app) (newOperatorAddress args) = Inr v \<and>
     NewCoins S [\<lparr>Denom = tvBond (view s), Amount = Some 1000000000\<rparr>] = Some cs \<and>
     map (StringToBytes (tnAddressCodec app)) (accountsToFund args) = map Inr as \<and>
     view s' = (view s)\<lparr>tvKeys := {k \<in> tvKeys (view s). \<not> prefix powerPrefix k \<and> \<not> prefix lastPrefix k \<and>
           \<not> prefix (ValidatorsKey app) k \<and> \<not> prefix (ValidatorQueueKey app) k} \<union>
         {ValidatorsKey app @ valId (new_validator args pk), consPrefix @ consId (new_validator args pk),
          powerPrefix @ powerId (new_validator args pk), lastPrefix @ lastId v},
       tvBal := \<lambda>a d. tvBal (view s) a d + int (count_list as a) * units cs d\<rparr>"
proof -
  obtain pk v s1 s2 s3 s4 s5 bond cs where pk: "NewAnyWithValue app (newValPubKey args) = Inr pk"
    and v: "StringToBytes (tnValidatorCodec app) (newOperatorAddress args) = Inr v"
    and run: "remove_validators app s = (Ok (), s1)" "seat_validator app (new_validator args pk) v s1 = (Ok (), s2)"
      "init_distribution app v s2 = (Ok (), s3)" "init_signing app args s3 = (Ok (), s4)" "BondDenom app s4 = (Ok bond, s5)"
    and cs: "NewCoins S [\<lparr>Denom = bond, Amount = Some 1000000000\<rparr>] = Some cs"
    and fund: "go_for (fund_account app cs) (accountsToFund args) s5 = (Ok (), s')"
    using assms unfolding initAppForTestnet_def Let_def
    by (auto elim!: bind_OkE simp: pure_call_def new_coins_def new_validator_def split: sum.splits option.splits)
  obtain as where as: "map (StringToBytes (tnAddressCodec app)) (accountsToFund args) = map Inr as"
    and f: "view s' = fold (\<lambda>a. credit a cs) as (view s5)"
    using funding [OF fund] by blast
  have free: "\<not> nvJailed (new_validator args pk)" by (simp add: new_validator_def)
  have "view s4 = view s2"
    using keepsD [OF init_distribution_keeps run(3)] keepsD [OF init_signing_keeps run(4)] by simp
  then have "view s5 = view s2" and bond: "bond = tvBond (view s2)"
    using bond_denom [OF run(5)] by simp_all
  moreover have "tvBond (view s2) = tvBond (view s)" "tvBal (view s2) = tvBal (view s)"
    using remove_validators_acts [OF run(1)] actsD [OF seat_validator_acts [OF free] run(2)] by simp_all
  ultimately show ?thesis
    using pk v cs as remove_validators_acts [OF run(1)] actsD [OF seat_validator_acts [OF free] run(2)]
    by (intro exI [of _ pk] exI [of _ v] exI [of _ cs] exI [of _ as]) (simp add: f fold_credit)
qed

lemma only_new:
  "under_prefix powerPrefix ({k \<in> K. \<not> prefix powerPrefix k \<and> \<not> prefix lastPrefix k \<and>
       \<not> prefix (ValidatorsKey app) k \<and> \<not> prefix (ValidatorQueueKey app) k} \<union>
     {ValidatorsKey app @ a, consPrefix @ b, powerPrefix @ c, lastPrefix @ e}) = {powerPrefix @ c}"
  "under_prefix lastPrefix ({k \<in> K. \<not> prefix powerPrefix k \<and> \<not> prefix lastPrefix k \<and>
       \<not> prefix (ValidatorsKey app) k \<and> \<not> prefix (ValidatorQueueKey app) k} \<union>
     {ValidatorsKey app @ a, consPrefix @ b, powerPrefix @ c, lastPrefix @ e}) = {lastPrefix @ e}"
  "under_prefix (ValidatorsKey app) ({k \<in> K. \<not> prefix powerPrefix k \<and> \<not> prefix lastPrefix k \<and>
       \<not> prefix (ValidatorsKey app) k \<and> \<not> prefix (ValidatorQueueKey app) k} \<union>
     {ValidatorsKey app @ a, consPrefix @ b, powerPrefix @ c, lastPrefix @ e}) = {ValidatorsKey app @ a}"
  "under_prefix (ValidatorQueueKey app) ({k \<in> K. \<not> prefix powerPrefix k \<and> \<not> prefix lastPrefix k \<and>
       \<not> prefix (ValidatorsKey app) k \<and> \<not> prefix (ValidatorQueueKey app) k} \<union>
     {ValidatorsKey app @ a, consPrefix @ b, powerPrefix @ c, lastPrefix @ e}) = {}"
  using prefixes by (auto simp: under_prefix_def prefix_one)

end

section \<open>A chain in memory\<close>

record node_store =
  nKeys :: "bytes list"
  nBond :: string
  nBal :: "bytes \<Rightarrow> string \<Rightarrow> int"

definition node_view :: "node_store \<Rightarrow> takeover_view" where
  "node_view s = \<lparr>tvKeys = set (nKeys s), tvBond = nBond s, tvBal = nBal s\<rparr>"

definition node_call :: "(node_store \<Rightarrow> node_store) \<Rightarrow> (node_store, unit) go" where
  "node_call f s = (Ok (), f s)"

definition node_id :: "NewValidator \<Rightarrow> bytes" where
  "node_id w = bytes_of_string (nvOperatorAddress w)"

text \<open>A key of an address has its length before it.\<close>

definition node_last :: "bytes \<Rightarrow> bytes" where
  "node_last v = of_nat (length v) # v"

definition node_app :: "node_store TestnetApp" where
  "node_app = \<lparr>
     NewAnyWithValue = Inr, tnValidatorCodec = mem_codec, tnAddressCodec = mem_codec,
     PowerIterator = (\<lambda>s. (Ok (filter (prefix [35]) (nKeys s)), s)),
     LastIterator = (\<lambda>s. (Ok (filter (prefix [17]) (nKeys s)), s)),
     RangeIterator = (\<lambda>start stop s. filter (prefix start) (nKeys s)), PrefixEndBytes = (\<lambda>p. p),
     ValidatorsKey = [33], ValidatorQueueKey = [67],
     store_Delete = (\<lambda>k. node_call (\<lambda>s. s\<lparr>nKeys := removeAll k (nKeys s)\<rparr>)),
     tnSetValidator = (\<lambda>w. node_call (\<lambda>s. s\<lparr>nKeys := ([33] @ node_id w) # nKeys s\<rparr>)),
     SetValidatorByConsAddr = (\<lambda>w. node_call (\<lambda>s. s\<lparr>nKeys := ([34] @ node_id w) # nKeys s\<rparr>)),
     SetValidatorByPowerIndex = (\<lambda>w. if nvJailed w then ret () else node_call (\<lambda>s. s\<lparr>nKeys := ([35] @ node_id w) # nKeys s\<rparr>)),
     SetLastValidatorPower = (\<lambda>v n. node_call (\<lambda>s. s\<lparr>nKeys := ([17] @ node_last v) # nKeys s\<rparr>)),
     tnAfterValidatorCreated = (\<lambda>v. ret ()), SetValidatorHistoricalRewards = (\<lambda>v n r. ret ()),
     SetValidatorCurrentRewards = (\<lambda>v r. ret ()), SetInitialAccumulatedCommission = (\<lambda>v. ret ()),
     SetValidatorOutstandingRewards = (\<lambda>v r. ret ()), tnSetValidatorSigningInfo = (\<lambda>v i. ret ()),
     ConsAddress_String = string_of_bytes, tnLastBlockHeight = (\<lambda>s. 9), BondDenom = (\<lambda>s. (Ok (nBond s), s)),
     MintModuleName = ''mint'',
     MintCoins = (\<lambda>m cs. node_call (\<lambda>s. s\<lparr>nBal := \<lambda>a d. nBal s a d + (if a = mem_maddr m then units cs d else 0)\<rparr>)),
     tnSendCoinsFromModuleToAccount = (\<lambda>m a cs. node_call (\<lambda>s. s\<lparr>nBal := move (mem_maddr m) a cs (nBal s)\<rparr>))\<rparr>"

interpretation node: testnet_contract node_app node_view "[35]" "[17]" "[34]" node_id node_id node_id node_last mem_maddr
  by unfold_locales (auto simp: node_app_def node_view_def acts_def keeps_def node_call_def under_prefix_def)

definition node_args :: valArgs where
  "node_args = \<lparr>newValAddr = [1], newOperatorAddress = ''trefoil1v'', newValPubKey = [2],
     accountsToFund = [''trefoil1a'', ''trefoil1a''], upgradeToTrigger = '''', homeDir = ''home''\<rparr>"

definition old_node :: node_store where
  "old_node = \<lparr>nKeys = [[33, 7], [35, 7], [17, 7], [67, 1], [34, 7]], nBond = ''utre'', nBal = \<lambda>a d. 0\<rparr>"

definition taken_node :: node_store where
  "taken_node = snd (initAppForTestnet mem_coins node_app node_args old_node)"

lemma node_run: "initAppForTestnet mem_coins node_app node_args old_node = (Ok (), taken_node)"
  unfolding taken_node_def by (rule prod.expand) (simp, code_simp)

section \<open>Properties\<close>

text \<open>
  C39: When the takeover returns, the new validator is alone: whatever the store held before,
  under the power index, the last-validator and the validator prefixes there is exactly the key
  of the validator made of the arguments (their operator address and public key, bonded, not
  jailed), and the unbonding queue is empty; every balance is as before, but for a thousand
  million of the chain's bond denomination for every mention of the account in the list.
\<close>

theorem testnet_validator_alone:
  assumes "testnet_contract app view powerPrefix lastPrefix consPrefix valId powerId consId lastId maddr"
    and "coin_contract S denom_ok"
    and "initAppForTestnet S app args s = (Ok (), s')"
  shows "\<exists>pk w v as. NewAnyWithValue app (newValPubKey args) = Inr pk \<and> w = new_validator args pk \<and>
    nvOperatorAddress w = newOperatorAddress args \<and> nvConsensusPubkey w = pk \<and> nvTokens w = valVotingPower \<and>
    nvStatus w = Bonded \<and> \<not> nvJailed w \<and>
    StringToBytes (tnValidatorCodec app) (newOperatorAddress args) = Inr v \<and>
    map (StringToBytes (tnAddressCodec app)) (accountsToFund args) = map Inr as \<and>
    under_prefix powerPrefix (tvKeys (view s')) = {powerPrefix @ powerId w} \<and>
    under_prefix lastPrefix (tvKeys (view s')) = {lastPrefix @ lastId v} \<and>
    under_prefix (ValidatorsKey app) (tvKeys (view s')) = {ValidatorsKey app @ valId w} \<and>
    under_prefix (ValidatorQueueKey app) (tvKeys (view s')) = {} \<and>
    (\<forall>a d. tvBal (view s') a d =
       tvBal (view s) a d + (if d = tvBond (view s) then int (count_list as a) * 1000000000 else 0))"
proof -
  let ?coin = "\<lparr>Denom = tvBond (view s), Amount = Some 1000000000\<rparr>"
  obtain pk v cs as where facts: "NewAnyWithValue app (newValPubKey args) = Inr pk"
    "StringToBytes (tnValidatorCodec app) (newOperatorAddress args) = Inr v"
    "map (StringToBytes (tnAddressCodec app)) (accountsToFund args) = map Inr as"
    and cs: "NewCoins S [?coin] = Some cs"
    and s': "view s' = (view s)\<lparr>tvKeys := {k \<in> tvKeys (view s). \<not> prefix powerPrefix k \<and> \<not> prefix lastPrefix k \<and>
           \<not> prefix (ValidatorsKey app) k \<and> \<not> prefix (ValidatorQueueKey app) k} \<union>
         {ValidatorsKey app @ valId (new_validator args pk), consPrefix @ consId (new_validator args pk),
          powerPrefix @ powerId (new_validator args pk), lastPrefix @ lastId v},
       tvBal := \<lambda>a d. tvBal (view s) a d + int (count_list as a) * units cs d\<rparr>"
    using testnet_contract.takeover [OF assms(1,3)] by blast
  have w: "nvOperatorAddress (new_validator args pk) = newOperatorAddress args" "nvConsensusPubkey (new_validator args pk) = pk"
    "nvTokens (new_validator args pk) = valVotingPower" "nvStatus (new_validator args pk) = Bonded"
    "nvJailed (new_validator args pk) = False"
    by (simp_all add: new_validator_def)
  have "units cs d = (if d = tvBond (view s) then 1000000000 else 0)" for d
    using coin_contract.NewCoins_Some_units [OF assms(2) cs] by (simp add: coin_units_def)
  then have bal: "tvBal (view s') a d = tvBal (view s) a d + (if d = tvBond (view s) then int (count_list as a) * 1000000000 else 0)" for a d
    by (simp add: s')
  have keys: "tvKeys (view s') = {k \<in> tvKeys (view s). \<not> prefix powerPrefix k \<and> \<not> prefix lastPrefix k \<and>
           \<not> prefix (ValidatorsKey app) k \<and> \<not> prefix (ValidatorQueueKey app) k} \<union>
         {ValidatorsKey app @ valId (new_validator args pk), consPrefix @ consId (new_validator args pk),
          powerPrefix @ powerId (new_validator args pk), lastPrefix @ lastId v}"
    by (simp add: s')
  show ?thesis
    by (rule exI [of _ pk], rule exI [of _ "new_validator args pk"], rule exI [of _ v], rule exI [of _ as])
      (simp only: keys bal testnet_contract.only_new [OF assms(1)] w facts simp_thms)
qed

theorem testnet_validator_alone_witness:
  "under_prefix [67] (tvKeys (node_view taken_node)) = {} \<and>
   (\<exists>w. nvOperatorAddress w = ''trefoil1v'' \<and> under_prefix [33] (tvKeys (node_view taken_node)) = {[33] @ node_id w}) \<and>
   nBal taken_node (bytes_of_string ''a'') ''utre'' = 2000000000 \<and> nBal taken_node (bytes_of_string ''a'') ''other'' = 0"
proof -
  from testnet_validator_alone [OF node.testnet_contract_axioms mcoin.coin_contract_axioms node_run]
  obtain w as where w: "nvOperatorAddress w = newOperatorAddress node_args"
      "under_prefix (ValidatorQueueKey node_app) (tvKeys (node_view taken_node)) = {}"
      "under_prefix (ValidatorsKey node_app) (tvKeys (node_view taken_node)) = {ValidatorsKey node_app @ node_id w}"
    and as: "map (StringToBytes (tnAddressCodec node_app)) (accountsToFund node_args) = map Inr as"
    and bal: "\<forall>a d. tvBal (node_view taken_node) a d = tvBal (node_view old_node) a d +
      (if d = tvBond (node_view old_node) then int (count_list as a) * 1000000000 else 0)"
    by blast
  have "mem_StringToBytes ''trefoil1a'' = Inr (bytes_of_string ''a'')" by code_simp
  with as have "as = [bytes_of_string ''a'', bytes_of_string ''a'']"
    by (auto simp: node_app_def node_args_def mem_codec_def)
  with w bal show ?thesis by (auto simp: node_app_def node_args_def node_view_def old_node_def)
qed

text \<open>
  Started without accounts to fund, the takeover never finishes: the empty value of the
  flag is cut into one empty account, which no address codec reads, so the process ends with an
  error after the first coins have been minted.
\<close>

theorem no_accounts_exits:
  assumes "getCommandArgs keys cast_ToString appOpts = Inr args"
    and "cast_ToString (appOpts flagAccountsToFund) = ''''"
    and "StringToBytes (tnAddressCodec app) '''' = Inl e"
  shows "initAppForTestnet S app args s \<noteq> (Ok (), s')"
proof
  have "accountsToFund args = ['''']"
    using assms(1,2) by (auto simp: getCommandArgs_def Let_def split: opt_value.splits if_splits)
  moreover assume "initAppForTestnet S app args s = (Ok (), s')"
  ultimately show False
    using assms(3) by (auto elim!: bind_OkE simp: initAppForTestnet_def Let_def fund_account_def pure_call_def)
qed

definition no_accounts :: "string \<Rightarrow> opt_value" where
  "no_accounts key =
     (if key = ''a'' then HexBytesValue [1] else if key = ''k'' then PubKeyValue [2]
      else if key = ''o'' then StringValue ''trefoil1v'' else if key = ''h'' then StringValue ''home'' else StringValue '''')"

theorem no_accounts_exits_witness:
  "\<exists>args. getCommandArgs \<lparr>KeyNewValAddr = ''a'', KeyUserPubKey = ''k'', KeyNewOpAddr = ''o'',
       KeyTriggerTestnetUpgrade = ''u'', FlagHome = ''h''\<rparr> (\<lambda>v. case v of StringValue t \<Rightarrow> t | _ \<Rightarrow> '''') no_accounts = Inr args \<and>
     (\<forall>s'. initAppForTestnet mem_coins node_app args old_node \<noteq> (Ok (), s'))"
proof -
  let ?cast = "\<lambda>v. case v of StringValue t \<Rightarrow> t | _ \<Rightarrow> ''''"
  have "\<exists>args. getCommandArgs \<lparr>KeyNewValAddr = ''a'', KeyUserPubKey = ''k'', KeyNewOpAddr = ''o'',
       KeyTriggerTestnetUpgrade = ''u'', FlagHome = ''h''\<rparr> ?cast no_accounts = Inr args"
    by (simp add: getCommandArgs_def no_accounts_def flagAccountsToFund_def)
  moreover have "?cast (no_accounts flagAccountsToFund) = ''''"
    by (simp add: no_accounts_def flagAccountsToFund_def)
  moreover have "\<exists>e. StringToBytes (tnAddressCodec node_app) '''' = Inl e"
    by (simp add: node_app_def mem_codec_def mem_StringToBytes_def)
  ultimately show ?thesis using no_accounts_exits by metis
qed

end
