(* ===== verification/MultiNode.thy ===== *)
theory MultiNode
  imports GoText
begin

text \<open>
  The multi-node testnet command (\<open>cmd/trefoild/cmd/testnet_multi_node.go\<close>): its arguments, the
  addresses it configures for every node, and its file helpers. The operating system is a
  record of calls over a state \<open>'st\<close>; \<open>math.NewIntFromString\<close> and \<open>sdk.NewCoin\<close> are parameters.
\<close>

section \<open>Arguments\<close>

record initArgs =
  algo :: string
  chainID :: string
  keyringBackend :: string
  minGasPrices :: string
  nodeDirPrefix :: string
  numValidators :: int
  outputDir :: string
  startingIPAddress :: string
  validatorsStakesAmount :: "int \<Rightarrow> Coin option"
  ports :: "int \<Rightarrow> string option"

text \<open>What a lookup \<open>args.ports[i]\<close> gives: the empty string for a missing key.\<close>

definition port_at :: "initArgs \<Rightarrow> int \<Rightarrow> string" where
  "port_at args i = (case ports args i of None \<Rightarrow> [] | Some p \<Rightarrow> p)"

text \<open>
  The stakes: an amount that is no number is skipped and its place goes to the next one.
  \<open>sdk.NewCoin\<close> panics on an amount it rejects.
\<close>

fun parse_stakes ::
  "(string \<Rightarrow> int option) \<Rightarrow> (string \<Rightarrow> int \<Rightarrow> Coin option) \<Rightarrow> string \<Rightarrow> string list \<Rightarrow> int \<Rightarrow>
   (int \<Rightarrow> Coin option) \<Rightarrow> (int \<Rightarrow> Coin option) res" where
  "parse_stakes NewIntFromString NewCoin bond [] n m = Ok m"
| "parse_stakes NewIntFromString NewCoin bond (amount # rest) n m =
     (case NewIntFromString amount of
        None \<Rightarrow> parse_stakes NewIntFromString NewCoin bond rest n m
      | Some a \<Rightarrow> (case NewCoin bond a of
            None \<Rightarrow> Panic ''invalid coin''
          | Some c \<Rightarrow> parse_stakes NewIntFromString NewCoin bond rest (n + 1) (m(n \<mapsto> c))))"

fun number_from :: "int \<Rightarrow> string list \<Rightarrow> (int \<Rightarrow> string option) \<Rightarrow> (int \<Rightarrow> string option)" where
  "number_from n [] m = m"
| "number_from n (p # ps) m = number_from (n + 1) ps (m(n \<mapsto> p))"

definition parse_ports :: "int \<Rightarrow> string \<Rightarrow> (int \<Rightarrow> string option)" where
  "parse_ports n s =
     (if s = [] then number_from 0 (map (\<lambda>i. Itoa (26657 - 3 * i)) [0..n - 1]) Map.empty
      else number_from 0 (split_on CHR '','' s) Map.empty)"

text \<open>The flags of the command, with their defaults.\<close>

record testnet_flags =
  f_v :: int
  f_output_dir :: string
  f_chain_id :: string
  f_minimum_gas_prices :: string
  f_key_type :: string
  f_list_ports :: string
  f_node_dir_prefix :: string
  f_validators_stake_amount :: string
  f_starting_ip_address :: string
  f_keyring_backend :: string

definition default_flags :: "string \<Rightarrow> string \<Rightarrow> testnet_flags" where
  "default_flags DefaultBondDenom Secp256k1Type =
     \<lparr>f_v = 4, f_output_dir = ''./.testnets'', f_chain_id = [], f_minimum_gas_prices = ''0'' @ DefaultBondDenom,
      f_key_type = Secp256k1Type, f_list_ports = [], f_node_dir_prefix = ''validator'',
      f_validators_stake_amount = ''100000000,100000000,100000000,100000000'',
      f_starting_ip_address = ''localhost'', f_keyring_backend = ''test''\<rparr>"

text \<open>The arguments the command makes of its flags.\<close>

definition parse_args ::
  "(string \<Rightarrow> int option) \<Rightarrow> (string \<Rightarrow> int \<Rightarrow> Coin option) \<Rightarrow> string \<Rightarrow> testnet_flags \<Rightarrow> initArgs res" where
  "parse_args NewIntFromString NewCoin DefaultBondDenom f =
     (case parse_stakes NewIntFromString NewCoin DefaultBondDenom
             (split_on CHR '','' (f_validators_stake_amount f)) 0 Map.empty of
        Ok stakes \<Rightarrow> Ok \<lparr>algo = f_key_type f, chainID = f_chain_id f, keyringBackend = f_keyring_backend f,
           minGasPrices = f_minimum_gas_prices f, nodeDirPrefix = f_node_dir_prefix f, numValidators = f_v f,
           outputDir = f_output_dir f, startingIPAddress = f_starting_ip_address f,
           validatorsStakesAmount = stakes, ports = parse_ports (f_v f) (f_list_ports f)\<rparr>
      | Err e \<Rightarrow> Err e
      | Panic t \<Rightarrow> Panic t)"

section \<open>The configuration of a node\<close>

text \<open>The fields of the CometBFT and the server configuration the command sets.\<close>

record NodeConfig =
  RootDir :: string
  Moniker :: string
  RPC_ListenAddress :: string
  P2P_PersistentPeers :: string
  P2P_AllowDuplicateIP :: bool
  P2P_ListenAddress :: string
  ProxyApp :: string
  PrometheusListenAddr :: string
  Prometheus :: bool

record AppConfig =
  MinGasPrices :: string
  API_Enable :: bool
  API_Address :: string
  GRPC_Address :: string
  Telemetry_EnableHostnameLabel :: bool
  Telemetry_Enabled :: bool
  Telemetry_PrometheusRetentionTime :: int

definition node_dir_name :: "initArgs \<Rightarrow> int \<Rightarrow> string" where
  "node_dir_name args i = nodeDirPrefix args @ Itoa i"

definition node_dir :: "initArgs \<Rightarrow> int \<Rightarrow> string" where
  "node_dir args i = Join [outputDir args, node_dir_name args i]"

definition gentxs_dir :: "initArgs \<Rightarrow> int \<Rightarrow> string" where
  "gentxs_dir args i = Join [node_dir args i, ''config'', ''gentx'']"

definition base_app_config :: "string \<Rightarrow> initArgs \<Rightarrow> AppConfig \<Rightarrow> AppConfig" where
  "base_app_config DefaultBondDenom args ac =
     (let ac = ac\<lparr>MinGasPrices := minGasPrices args\<rparr>;
          ac = ac\<lparr>API_Enable := False\<rparr>;
          ac = ac\<lparr>MinGasPrices := ''0'' @ DefaultBondDenom\<rparr> in
      ac\<lparr>Telemetry_EnableHostnameLabel := False, Telemetry_Enabled := False,
         Telemetry_PrometheusRetentionTime := 0\<rparr>)"

definition app_addresses :: "initArgs \<Rightarrow> int \<Rightarrow> AppConfig \<Rightarrow> AppConfig" where
  "app_addresses args i ac =
     ac\<lparr>GRPC_Address := startingIPAddress args @ '':'' @ Itoa (9090 - 2 * i),
        API_Address := ''tcp://localhost:'' @ Itoa (1317 - i)\<rparr>"

definition peer_memo :: "initArgs \<Rightarrow> string \<Rightarrow> int \<Rightarrow> string" where
  "peer_memo args nodeID i = nodeID @ ''@'' @ startingIPAddress args @ '':'' @ Itoa (26656 - 3 * i)"

definition add_peer :: "string \<Rightarrow> string \<Rightarrow> string" where
  "add_peer persistentPeers memo = (if persistentPeers = [] then memo else persistentPeers @ '','' @ memo)"

definition network_config :: "initArgs \<Rightarrow> string \<Rightarrow> int \<Rightarrow> NodeConfig \<Rightarrow> NodeConfig" where
  "network_config args persistentPeers i nc =
     nc\<lparr>P2P_PersistentPeers := persistentPeers, P2P_AllowDuplicateIP := True,
        P2P_ListenAddress := ''tcp://0.0.0.0:'' @ Itoa (26656 - 3 * i),
        RPC_ListenAddress := ''tcp://127.0.0.1:'' @ port_at args i,
        ProxyApp := ''tcp://127.0.0.1:'' @ Itoa (26658 - 3 * i),
        PrometheusListenAddr := '':'' @ Itoa (26660 + i), Prometheus := True\<rparr>"

section \<open>Files\<close>

record ('st, 'fd) OsOps =
  MkdirAll :: "string \<Rightarrow> nat \<Rightarrow> ('st, unit) go"
  RemoveAll :: "string \<Rightarrow> ('st, unit) go"
  os_WriteFile :: "string \<Rightarrow> string \<Rightarrow> nat \<Rightarrow> ('st, unit) go"
  os_Open :: "string \<Rightarrow> ('st, 'fd) go"
  os_Create :: "string \<Rightarrow> ('st, 'fd) go"
  io_Copy :: "'fd \<Rightarrow> 'fd \<Rightarrow> ('st, i64) go"
  fd_Sync :: "'fd \<Rightarrow> ('st, unit) go"
  fd_Close :: "'fd \<Rightarrow> ('st, unit) go"
  Getwd :: "'st \<Rightarrow> error + string"
  rand_Intn :: "nat \<Rightarrow> ('st, nat) go"

text \<open>\<open>defer call\<close>: run when the rest is over, whatever its outcome; the call's error is dropped.\<close>

definition deferring :: "('s, unit) go \<Rightarrow> ('s, 'a) go \<Rightarrow> ('s, 'a) go" where
  "deferring d m s = (case m s of (r, s') \<Rightarrow>
     (case d s' of (Panic t, s'') \<Rightarrow> (Panic t, s'') | (_, s'') \<Rightarrow> (r, s'')))"

text \<open>\<open>%q\<close> of a name with nothing to escape.\<close>

definition quoted :: "string \<Rightarrow> string" where
  "quoted t = CHR 0x22 # t @ [CHR 0x22]"

definition writeFile :: "('st, 'fd) OsOps \<Rightarrow> string \<Rightarrow> string \<Rightarrow> string \<Rightarrow> ('st, unit) go" where
  "writeFile os file dir contents =
     bind (on_err (\<lambda>e. Wrapped e (''could not create directory '' @ quoted dir)) (MkdirAll os dir 493)) (\<lambda>_.
     os_WriteFile os file contents 420)"

definition copyFile :: "('st, 'fd) OsOps \<Rightarrow> string \<Rightarrow> string \<Rightarrow> ('st, i64) go" where
  "copyFile os src dstDir =
     (let dst = Join [dstDir, Base src] in
      bind (os_Open os src) (\<lambda>sourceFile.
      deferring (fd_Close os sourceFile)
       (bind (os_Create os dst) (\<lambda>destinationFile.
        deferring (fd_Close os destinationFile)
         (bind (io_Copy os destinationFile sourceFile) (\<lambda>bytesCopied.
          bind (fd_Sync os destinationFile) (\<lambda>_.
          ret bytesCopied)))))))"

definition isSubDir :: "error + string \<Rightarrow> string \<Rightarrow> string \<Rightarrow> error + bool" where
  "isSubDir wd src dstDir =
     (case Abs wd src of Inl e \<Rightarrow> Inl e | Inr absSrc \<Rightarrow>
     (case Abs wd dstDir of Inl e \<Rightarrow> Inl e | Inr absDstDir \<Rightarrow>
     (case Rel absDstDir absSrc of Inl e \<Rightarrow> Inl e | Inr relativePath \<Rightarrow>
        Inr (\<not> HasPrefix relativePath ''..'' \<and> \<not> IsAbs relativePath))))"

definition charset :: string where
  "charset = ''abcdefghijklmnopqrstuvwxyz0123456789''"

fun generateRandomString :: "('st, 'fd) OsOps \<Rightarrow> nat \<Rightarrow> ('st, string) go" where
  "generateRandomString os 0 = ret []"
| "generateRandomString os (Suc n) =
     bind (rand_Intn os (length charset)) (\<lambda>j.
     bind (generateRandomString os n) (\<lambda>b. ret (charset ! j # b)))"

text \<open>Every gentx file is copied into the gentx directory of every node that does not hold it.\<close>

definition copy_gentxs :: "('st, 'fd) OsOps \<Rightarrow> initArgs \<Rightarrow> string list \<Rightarrow> ('st, unit) go" where
  "copy_gentxs os args gentxsFiles =
     go_for (\<lambda>i. go_for (\<lambda>file s.
         let gentxsDir = gentxs_dir args i in
         case isSubDir (Getwd os s) file gentxsDir of
           Inr False \<Rightarrow> bind (copyFile os file gentxsDir) (\<lambda>_. ret ()) s
         | _ \<Rightarrow> (Ok (), s)) gentxsFiles)
       [0..numValidators args - 1]"

end
