(* ===== verification/Nodes.thy ===== *)
theory Nodes
  imports MultiNode CoinWire
begin

text \<open>
  What the multi-node command gets right: the test which files a node already holds, and the
  addresses of the nodes, which never collide.
\<close>

section \<open>Holding a file\<close>

lemma IsAbs_slash: "IsAbs p \<longleftrightarrow> (\<exists>q. p = slash # q)"
  by (cases p) (auto simp: IsAbs_def HasPrefix_def)

lemma Abs_IsAbs:
  assumes "IsAbs d" and "Abs (Inr d) p = Inr a"
  shows "IsAbs a"
proof (cases "IsAbs p")
  case True
  with assms show ?thesis by (auto simp: Abs_def clean_comps_Clean)
next
  case False
  obtain q where q: "d = slash # q" using assms(1) by (auto simp: IsAbs_slash)
  have "a = Clean (d @ ''/'' @ p)"
    using False assms(2) q by (simp add: Abs_def Join_def)
  moreover have "IsAbs (d @ ''/'' @ p)" using q by (simp add: IsAbs_slash)
  ultimately show ?thesis by (simp add: clean_comps_Clean)
qed

lemma join_with_head: "plain_name c \<Longrightarrow> join_with ''/'' (c # cs) = c \<or> (\<exists>t. join_with ''/'' (c # cs) = c @ slash # t)"
  by (cases cs) auto

lemma join_with_IsAbs: "plain_name c \<Longrightarrow> \<not> IsAbs (join_with ''/'' (c # cs))"
  using join_with_head [of c cs] by (cases c) (auto simp: plain_name_def IsAbs_slash)

lemma join_with_dots: "plain_name c \<Longrightarrow> HasPrefix (join_with ''/'' (c # cs)) ''..'' \<longleftrightarrow> HasPrefix c ''..''"
proof -
  assume c: "plain_name c"
  show ?thesis
  proof (cases c)
    case (Cons x xs)
    with c join_with_head [OF c, of cs] show ?thesis
      by (cases xs) (auto simp: HasPrefix_def plain_name_def)
  qed (use c in \<open>simp add: plain_name_def\<close>)
qed

definition abs_comps :: "string \<Rightarrow> string \<Rightarrow> string list" where
  "abs_comps d p = (case Abs (Inr d) p of Inl _ \<Rightarrow> [] | Inr a \<Rightarrow> clean_comps a)"

lemma relative_inside:
  assumes "IsAbs a" and "IsAbs b" and "Rel b a = Inr r"
  shows "(\<not> HasPrefix r ''..'' \<and> \<not> IsAbs r) \<longleftrightarrow>
    (\<exists>rest. clean_comps a = clean_comps b @ rest \<and> (rest = [] \<or> \<not> HasPrefix (hd rest) ''..''))"
proof (cases "Clean b = Clean a")
  case True
  then have "clean_comps a = clean_comps b" using Clean_eq_iff [OF assms(2,1)] by simp
  moreover have "r = ''.''" using True assms(3) by (simp add: Rel_def)
  ultimately show ?thesis by (auto simp: HasPrefix_def IsAbs_slash)
next
  case False
  obtain bs ts where st: "strip_common (clean_comps b) (clean_comps a) = (bs, ts)" by fastforce
  obtain c where c: "clean_comps b = c @ bs" "clean_comps a = c @ ts" "bs = [] \<or> ts = [] \<or> hd bs \<noteq> hd ts"
    using strip_common_prefix [OF st] by blast
  have r: "r = join_with ''/'' (map (\<lambda>_. ''..'') bs @ ts)"
    using assms(3) False st by (simp add: Rel_def)
  show ?thesis
  proof (cases bs)
    case Nil
    then obtain x xs where ts: "ts = x # xs"
      using c False Clean_eq_iff [OF assms(2,1)] by (cases ts) auto
    have "plain_name x" using clean_comps_plain [OF assms(1)] c ts by simp
    then show ?thesis using join_with_dots join_with_IsAbs r c Nil ts by auto
  next
    case (Cons y ys)
    have "HasPrefix r ''..''"
      using Cons r by (cases "map (\<lambda>_. ''..'') ys @ ts") (simp_all add: HasPrefix_def)
    moreover have "clean_comps a \<noteq> clean_comps b @ rest" for rest
      using c Cons by auto
    ultimately show ?thesis by blast
  qed
qed

section \<open>Addresses\<close>

text \<open>The port of an address: what follows its last colon.\<close>

definition port_of :: "string \<Rightarrow> string" where
  "port_of a = rev (takeWhile (\<lambda>c. c \<noteq> CHR '':'') (rev a))"

lemma port_of_colon: "CHR '':'' \<notin> set t \<Longrightarrow> port_of (x @ '':'' @ t) = t"
  by (simp add: port_of_def) (subst takeWhile_append2, auto)

lemma show_nat_chars: "c \<in> set (show_nat n) \<Longrightarrow> \<exists>d<10::nat. c = char_of (48 + d)"
proof (induction n rule: show_nat.induct)
  case (1 n)
  then show ?case
    by (subst (asm) (2) show_nat.simps) (fastforce split: if_splits intro: exI [of _ n] exI [of _ "n mod 10"])
qed

lemma colon_no_digit: "d < (10::nat) \<Longrightarrow> CHR '':'' \<noteq> char_of (48 + d)"
proof
  assume d: "d < 10" and "CHR '':'' = char_of (48 + d)"
  then have "of_char CHR '':'' = (of_char (char_of (48 + d)) :: nat)" by simp
  with d show False by (simp add: take_bit_nat_eq_self)
qed

lemma Itoa_plain: "0 \<le> i \<Longrightarrow> CHR '':'' \<notin> set (Itoa i)"
  using colon_no_digit by (auto simp: Itoa_def dest!: show_nat_chars)

lemma Itoa_inj: "0 \<le> i \<Longrightarrow> 0 \<le> j \<Longrightarrow> Itoa i = Itoa j \<longleftrightarrow> i = j"
  unfolding Itoa_def by (metis nat_0_le not_less parse_show_nat)

lemma number_from_at:
  "number_from n ps m k = (if n \<le> k \<and> k < n + int (length ps) then Some (ps ! nat (k - n)) else m k)"
proof (induction ps arbitrary: n m k)
  case (Cons p ps)
  show ?case
  proof (cases "k = n")
    case False
    then have "n + 1 \<le> k \<Longrightarrow> nat (k - n) = Suc (nat (k - (n + 1)))" by linarith
    then show ?thesis using False by (auto simp: Cons.IH)
  qed (simp add: Cons.IH)
qed auto

lemma default_port: "0 \<le> i \<Longrightarrow> i < n \<Longrightarrow> parse_ports n [] i = Some (Itoa (26657 - 3 * i))"
  by (simp add: parse_ports_def number_from_at)

text \<open>What a node listens on, once it is configured.\<close>

definition node_addresses :: "initArgs \<Rightarrow> int \<Rightarrow> NodeConfig \<Rightarrow> AppConfig \<Rightarrow> string list" where
  "node_addresses args i nc ac =
     (let nc' = network_config args [] i nc; ac' = app_addresses args i ac in
      [P2P_ListenAddress nc', RPC_ListenAddress nc', ProxyApp nc', PrometheusListenAddr nc', GRPC_Address ac', API_Address ac'])"

definition node_ports :: "int \<Rightarrow> int list" where
  "node_ports i = [26656 - 3 * i, 26657 - 3 * i, 26658 - 3 * i, 26660 + i, 9090 - 2 * i, 1317 - i]"

lemma node_addresses_ports:
  assumes "ports args = parse_ports n []" and "0 \<le> i" and "i < n" and "i \<le> 1317"
  shows "map port_of (node_addresses args i nc ac) = map Itoa (node_ports i)"
proof -
  have p: "port_at args i = Itoa (26657 - 3 * i)"
    using default_port [OF assms(2,3)] by (simp add: port_at_def assms(1))
  have "port_of (x @ '':'' @ Itoa k) = Itoa k" if "k \<in> set (node_ports i)" for x k
    using that assms(2,4) by (intro port_of_colon Itoa_plain) (auto simp: node_ports_def)
  note this [of _ "startingIPAddress args"] this [of _ "''tcp://0.0.0.0''"] this [of _ "''tcp://127.0.0.1''"]
    this [of _ "[]"] this [of _ "''tcp://localhost''"]
  then show ?thesis
    by (simp add: node_addresses_def network_config_def app_addresses_def p Let_def) (simp add: node_ports_def)
qed

section \<open>Properties\<close>

text \<open>
  C27: A node is taken to hold a file exactly when the file's cleaned absolute path continues
  that of its directory, unless the continuation starts with a name that itself starts with two
  dots, for which the test wrongly says no. So of the gentx files each node gets exactly those
  outside its own directory.
\<close>

theorem isSubDir_spec:
  assumes "IsAbs d"
  shows "isSubDir (Inr d) file dir =
    Inr (\<exists>rest. abs_comps d file = abs_comps d dir @ rest \<and> (rest = [] \<or> \<not> HasPrefix (hd rest) ''..''))"
proof -
  have "\<exists>a. Abs (Inr d) p = Inr a" for p by (simp add: Abs_def)
  then obtain a b where ab: "Abs (Inr d) file = Inr a" "Abs (Inr d) dir = Inr b" by blast
  obtain r where r: "Rel b a = Inr r" by (cases "Rel b a") (auto simp: Rel_def split: prod.splits if_splits)
  from relative_inside [OF Abs_IsAbs [OF assms ab(1)] Abs_IsAbs [OF assms ab(2)] r] show ?thesis
    by (simp add: isSubDir_def abs_comps_def ab r)
qed

theorem isSubDir_spec_witness:
  "isSubDir (Inr ''/h'') ''t/validator0/config/gentx/g.json'' ''t/validator0/config/gentx'' = Inr True \<and>
   isSubDir (Inr ''/h'') ''t/validator1/config/gentx/g.json'' ''t/validator0/config/gentx'' = Inr False"
proof -
  have c: "abs_comps ''/h'' ''t/validator0/config/gentx/g.json'' = [''h'', ''t'', ''validator0'', ''config'', ''gentx'', ''g.json'']"
    "abs_comps ''/h'' ''t/validator1/config/gentx/g.json'' = [''h'', ''t'', ''validator1'', ''config'', ''gentx'', ''g.json'']"
    "abs_comps ''/h'' ''t/validator0/config/gentx'' = [''h'', ''t'', ''validator0'', ''config'', ''gentx'']"
    by code_simp+
  have "IsAbs ''/h''" by (simp add: IsAbs_slash)
  from isSubDir_spec [OF this] show ?thesis by (simp add: c HasPrefix_def)
qed

text \<open>
  C40: With the default ports no two of the addresses the nodes listen on collide: for up to 1317
  nodes the six ports of every node lie between 1 and 65535 and differ from each other and
  from those of every other node.
\<close>

theorem default_ports_distinct:
  assumes "parse_args NewIntFromString NewCoin bond flags = Ok args" and "f_list_ports flags = []"
    and "f_v flags \<le> 1317" and "0 \<le> i" and "i < f_v flags"
  shows "(\<exists>ps. map port_of (node_addresses args i nc ac) = map Itoa ps \<and> (\<forall>p\<in>set ps. 1 \<le> p \<and> p \<le> 65535)) \<and>
    distinct (map port_of (node_addresses args i nc ac)) \<and>
    (\<forall>j. 0 \<le> j \<longrightarrow> j < f_v flags \<longrightarrow> i \<noteq> j \<longrightarrow>
       set (map port_of (node_addresses args i nc ac)) \<inter> set (map port_of (node_addresses args j nc' ac')) = {})"
proof -
  have args: "ports args = parse_ports (f_v flags) []"
    using assms(1,2) by (auto simp: parse_args_def split: res.splits)
  have ports: "map port_of (node_addresses args j nc ac) = map Itoa (node_ports j)" if "0 \<le> j" "j < f_v flags" for j nc ac
    by (rule node_addresses_ports [OF args that]) (use that(2) assms(3) in linarith)
  have bounds: "\<forall>p\<in>set (node_ports j). 1 \<le> p \<and> p \<le> 65535" if "0 \<le> j" "j < f_v flags" for j
    using that assms(3) by (auto simp: node_ports_def)
  have inj: "inj_on Itoa {p. 1 \<le> p}" by (auto simp: inj_on_def Itoa_inj)
  have "distinct (map Itoa (node_ports i))"
  proof -
    have "distinct (node_ports i)" using assms(3,4,5) by (auto simp: node_ports_def)
    moreover have "set (node_ports i) \<subseteq> {p. 1 \<le> p}" using bounds [OF assms(4,5)] by auto
    ultimately show ?thesis by (simp only: distinct_map inj_on_subset [OF inj] simp_thms)
  qed
  moreover have "set (map Itoa (node_ports i)) \<inter> set (map Itoa (node_ports j)) = {}"
    if j: "0 \<le> j" "j < f_v flags" "i \<noteq> j" for j
  proof -
    have "set (node_ports i) \<inter> set (node_ports j) = {}"
      using j assms(3,4,5) by (auto simp: node_ports_def; presburger)
    moreover have "Itoa p \<noteq> Itoa q" if "p \<in> set (node_ports i)" "q \<in> set (node_ports j)" "p \<noteq> q" for p q
    proof -
      have "0 \<le> p" "0 \<le> q" using bounds [OF assms(4,5)] bounds [OF j(1,2)] that by force+
      with that show ?thesis by (simp add: Itoa_inj)
    qed
    ultimately show ?thesis by auto
  qed
  ultimately show ?thesis
    using ports bounds [OF assms(4,5)] assms(4,5) by auto
qed

definition demo_coin :: "string \<Rightarrow> int \<Rightarrow> Coin option" where
  "demo_coin d a = (if a < 0 then None else Some \<lparr>Denom = d, Amount = Some a\<rparr>)"

theorem default_ports_distinct_witness:
  "\<exists>args. parse_args (\<lambda>t. Some (parse_int t)) demo_coin ''utre'' ((default_flags ''utre'' ''secp256k1'')\<lparr>f_validators_stake_amount := ''7,8''\<rparr>) = Ok args \<and>
     (\<forall>nc ac. distinct (map port_of (node_addresses args 3 nc ac)))"
proof -
  let ?flags = "(default_flags ''utre'' ''secp256k1'')\<lparr>f_validators_stake_amount := ''7,8''\<rparr>"
  have "split_on CHR '','' ''7,8'' = [''7'', ''8'']" "parse_int ''7'' = 7" "parse_int ''8'' = 8" by code_simp+
  then obtain args where ok: "parse_args (\<lambda>t. Some (parse_int t)) demo_coin ''utre'' ?flags = Ok args"
    by (simp add: parse_args_def demo_coin_def)
  have "f_list_ports ?flags = []" "f_v ?flags = 4" by (simp_all add: default_flags_def)
  with default_ports_distinct [OF ok, of 3] ok show ?thesis by simp
qed

end
