(* ===== verification/NodeFiles.thy ===== *)
theory NodeFiles
  imports MultiNode
begin

text \<open>
  The files of a multi-node testnet (\<open>initTestnetFiles\<close>, \<open>initGenFiles\<close> and \<open>collectGenFiles\<close> in
  \<open>cmd/trefoild/cmd/testnet_multi_node.go\<close>). Keys, transactions, genesis documents and
  configuration files are made by the SDK and CometBFT; those functions are parameters, over
  a state \<open>'st\<close> that stands for the file system, the keyrings and the clock.
\<close>

section \<open>What the command uses\<close>

record AuthGenesis =
  Accounts :: "string list"
  authOther :: string

record BankGenesis =
  Balances :: "(string \<times> Coins) list"
  Supply :: Coins
  bankOther :: string

record ('st, 'fd, 'pk, 'kb, 'msg, 'tx, 'gen) NodeDeps =
  deps_os :: "('st, 'fd) OsOps"
  BondDenomination :: string
  TokensFromConsensusPower :: "int \<Rightarrow> int"
  ndNewCoin :: "string \<Rightarrow> int \<Rightarrow> Coin option"
  Coins_Sort :: "Coins \<Rightarrow> Coins"
  Coins_Add :: "Coins \<Rightarrow> Coins \<Rightarrow> Coins"
  DefaultAppConfig :: AppConfig
  InitializeNodeValidatorFiles :: "NodeConfig \<Rightarrow> ('st, string \<times> 'pk) go"
  GenesisFile :: "NodeConfig \<Rightarrow> string"
  keyring_New :: "string \<Rightarrow> string \<Rightarrow> ('st, 'kb) go"
  NewSigningAlgoFromString :: "string \<Rightarrow> 'kb \<Rightarrow> error + string"
  GenerateSaveCoinKey :: "'kb \<Rightarrow> string \<Rightarrow> string \<Rightarrow> ('st, bytes \<times> string) go"
  json_MarshalInfo :: "(string \<times> string) list \<Rightarrow> error + string"
  AccText :: "bytes \<Rightarrow> string"
  ValText :: "bytes \<Rightarrow> string"
  NewMsgCreateValidator :: "string \<Rightarrow> 'pk \<Rightarrow> Coin \<Rightarrow> string \<Rightarrow> error + 'msg"
  NewTxBuilder :: 'tx
  SetMsgs :: "'msg \<Rightarrow> 'tx \<Rightarrow> error + 'tx"
  SetMemo :: "string \<Rightarrow> 'tx \<Rightarrow> 'tx"
  tx_Sign :: "string \<Rightarrow> string \<Rightarrow> 'kb \<Rightarrow> string \<Rightarrow> 'tx \<Rightarrow> ('st, 'tx) go"
  TxJSONEncode :: "'tx \<Rightarrow> error + string"
  WriteAppConfigFile :: "string \<Rightarrow> AppConfig \<Rightarrow> ('st, unit) go"
  WriteNodeConfigFile :: "string \<Rightarrow> NodeConfig \<Rightarrow> ('st, unit) go"
  mbm_DefaultGenesis :: "string \<Rightarrow> string"
  authModuleName :: string
  bankModuleName :: string
  UnmarshalAuth :: "string \<Rightarrow> AuthGenesis res"
  MarshalAuth :: "AuthGenesis \<Rightarrow> string res"
  UnmarshalBank :: "string \<Rightarrow> BankGenesis res"
  MarshalBank :: "BankGenesis \<Rightarrow> string res"
  PackAccounts :: "bytes list \<Rightarrow> error + string list"
  SanitizeGenesisBalances :: "(string \<times> Coins) list \<Rightarrow> (string \<times> Coins) list"
  MarshalState :: "(string \<Rightarrow> string) \<Rightarrow> error + string"
  GenesisDoc_SaveAs :: "string \<Rightarrow> string \<Rightarrow> string \<Rightarrow> ('st, unit) go"
  tmtime_Now :: "'st \<Rightarrow> int"
  AppGenesisFromFile :: "string \<Rightarrow> ('st, 'gen) go"
  GenAppStateFromConfig :: "NodeConfig \<Rightarrow> string \<times> string \<times> string \<times> 'pk \<Rightarrow> 'gen \<Rightarrow> ('st, string) go"
  ExportGenesisFileWithTime :: "string \<Rightarrow> string \<Rightarrow> string \<Rightarrow> int \<Rightarrow> ('st, unit) go"
  PrintErrf :: "string \<Rightarrow> ('st, unit) go"

section \<open>One node\<close>

text \<open>The variables the loop over the nodes updates.\<close>

record 'pk node_locals =
  nodeIDs :: "string list"
  valPubKeys :: "'pk list"
  genAccounts :: "bytes list"
  genBalances :: "(string \<times> Coins) list"
  genFiles :: "string list"
  persistentPeers :: string
  gentxsFiles :: "string list"
  nodeConfig :: NodeConfig
  appConfig :: AppConfig

text \<open>\<open>_ = os.RemoveAll(outputDir); return err\<close>\<close>

definition removing :: "('st, 'fd) OsOps \<Rightarrow> string \<Rightarrow> ('st, 'a) go \<Rightarrow> ('st, 'a) go" where
  "removing os dir m s = (case m s of
     (Err e, s') \<Rightarrow> bind (go_drop (RemoveAll os dir)) (\<lambda>_. fail e) s'
   | r \<Rightarrow> r)"

definition sdk_NewCoin :: "('st, 'fd, 'pk, 'kb, 'msg, 'tx, 'gen) NodeDeps \<Rightarrow> string \<Rightarrow> int \<Rightarrow> ('st, Coin) go" where
  "sdk_NewCoin D denom a = go_lift (case ndNewCoin D denom a of None \<Rightarrow> Panic ''invalid coin'' | Some c \<Rightarrow> Ok c)"

definition validator_stake :: "('st, 'fd, 'pk, 'kb, 'msg, 'tx, 'gen) NodeDeps \<Rightarrow> initArgs \<Rightarrow> int \<Rightarrow> ('st, Coin) go" where
  "validator_stake D args i =
     (case validatorsStakesAmount args i of
        Some c \<Rightarrow> ret c
      | None \<Rightarrow> sdk_NewCoin D (BondDenomination D) (TokensFromConsensusPower D 100))"

text \<open>The signed transaction that creates the validator, as JSON.\<close>

definition gentx ::
  "('st, 'fd, 'pk, 'kb, 'msg, 'tx, 'gen) NodeDeps \<Rightarrow> initArgs \<Rightarrow> 'kb \<Rightarrow> string \<Rightarrow> string \<Rightarrow> bytes \<Rightarrow> 'pk \<Rightarrow> Coin \<Rightarrow> ('st, string) go" where
  "gentx D args kb nodeDirName memo addr pk valTokens =
     bind (pure_call (NewMsgCreateValidator D (ValText D addr) pk valTokens nodeDirName)) (\<lambda>createValMsg.
     bind (pure_call (SetMsgs D createValMsg (NewTxBuilder D))) (\<lambda>txBuilder.
     bind (tx_Sign D (chainID args) memo kb nodeDirName (SetMemo D memo txBuilder)) (\<lambda>txBuilder.
     pure_call (TxJSONEncode D txBuilder))))"

definition init_node ::
  "('st, 'fd, 'pk, 'kb, 'msg, 'tx, 'gen) NodeDeps \<Rightarrow> initArgs \<Rightarrow> int \<Rightarrow> 'pk node_locals \<Rightarrow> ('st, 'pk node_locals) go" where
  "init_node D args i L =
     (let os = deps_os D;
          nodeDirName = node_dir_name args i;
          nodeDir = Join [outputDir args, nodeDirName];
          gentxsDir = Join [outputDir args, nodeDirName, ''config'', ''gentx''];
          nc = (nodeConfig L)\<lparr>RootDir := nodeDir, Moniker := nodeDirName,
                 RPC_ListenAddress := ''tcp://0.0.0.0:'' @ port_at args i\<rparr> in
      bind (removing os (outputDir args) (MkdirAll os (Join [nodeDir, ''config'']) 493)) (\<lambda>_.
      bind (removing os (outputDir args) (InitializeNodeValidatorFiles D nc)) (\<lambda>(nodeID, pk).
      let memo = peer_memo args nodeID i in
      bind (keyring_New D (keyringBackend args) nodeDir) (\<lambda>kb.
      bind (pure_call (NewSigningAlgoFromString D (algo args) kb)) (\<lambda>alg.
      bind (removing os (outputDir args) (GenerateSaveCoinKey D kb nodeDirName alg)) (\<lambda>(addr, secret).
      bind (pure_call (json_MarshalInfo D [(''secret'', secret)])) (\<lambda>cliPrint.
      bind (writeFile os (Join [nodeDir, ''key_seed.json'']) nodeDir cliPrint) (\<lambda>_.
      bind (sdk_NewCoin D ''testtoken'' (TokensFromConsensusPower D 1000)) (\<lambda>c1.
      bind (sdk_NewCoin D (BondDenomination D) (TokensFromConsensusPower D 500)) (\<lambda>c2.
      bind (validator_stake D args i) (\<lambda>valTokens.
      bind (gentx D args kb nodeDirName memo addr pk valTokens) (\<lambda>txBz.
      let file = Join [gentxsDir, ''gentx-'' @ nodeID @ ''.json''] in
      bind (writeFile os file gentxsDir txBz) (\<lambda>_.
      let ac = app_addresses args i (appConfig L) in
      bind (WriteAppConfigFile D (Join [nodeDir, ''config'', ''app.toml'']) ac) (\<lambda>_.
      ret (L\<lparr>nodeIDs := nodeIDs L @ [nodeID], valPubKeys := valPubKeys L @ [pk],
             genAccounts := genAccounts L @ [addr],
             genBalances := genBalances L @ [(AccText D addr, Coins_Sort D [c1, c2])],
             genFiles := genFiles L @ [GenesisFile D nc],
             persistentPeers := add_peer (persistentPeers L) memo,
             gentxsFiles := gentxsFiles L @ [file], nodeConfig := nc, appConfig := ac\<rparr>)))))))))))))))"

section \<open>Genesis files\<close>

definition initGenFiles ::
  "('st, 'fd, 'pk, 'kb, 'msg, 'tx, 'gen) NodeDeps \<Rightarrow> string \<Rightarrow> bytes list \<Rightarrow> (string \<times> Coins) list \<Rightarrow> string list \<Rightarrow> int \<Rightarrow> ('st, unit) go" where
  "initGenFiles D chain accounts balances files n =
     (let gs = mbm_DefaultGenesis D in
      bind (go_lift (UnmarshalAuth D (gs (authModuleName D)))) (\<lambda>auth.
      bind (pure_call (PackAccounts D accounts)) (\<lambda>packed.
      bind (go_lift (MarshalAuth D (auth\<lparr>Accounts := packed\<rparr>))) (\<lambda>authJSON.
      let gs = gs(authModuleName D := authJSON) in
      bind (go_lift (UnmarshalBank D (gs (bankModuleName D)))) (\<lambda>bank.
      let sane = SanitizeGenesisBalances D balances;
          bank = bank\<lparr>Balances := sane, Supply := fold (\<lambda>(_, cs) supply. Coins_Add D supply cs) sane (Supply bank)\<rparr> in
      bind (go_lift (MarshalBank D bank)) (\<lambda>bankJSON.
      let gs = gs(bankModuleName D := bankJSON) in
      bind (pure_call (MarshalState D gs)) (\<lambda>state.
      go_for (\<lambda>i. GenesisDoc_SaveAs D chain state (files ! nat i)) [0..n - 1])))))))"

definition collect_node ::
  "('st, 'fd, 'pk, 'kb, 'msg, 'tx, 'gen) NodeDeps \<Rightarrow> initArgs \<Rightarrow> string list \<Rightarrow> 'pk list \<Rightarrow> string \<Rightarrow> int \<Rightarrow> int \<Rightarrow>
   NodeConfig \<times> string option \<Rightarrow> ('st, NodeConfig \<times> string option) go" where
  "collect_node D args ids keys peers genTime i v =
     (case v of (nc, appState) \<Rightarrow>
      let nodeDirName = node_dir_name args i;
          nodeDir = Join [outputDir args, nodeDirName];
          gentxsDir = Join [nodeDir, ''config'', ''gentx''];
          nc = nc\<lparr>Moniker := nodeDirName, RootDir := nodeDir\<rparr> in
      bind (AppGenesisFromFile D (GenesisFile D nc)) (\<lambda>appGenesis.
      bind (GenAppStateFromConfig D nc (chainID args, gentxsDir, ids ! nat i, keys ! nat i) appGenesis) (\<lambda>nodeAppState.
      let nc = network_config args peers i nc in
      bind (WriteNodeConfigFile D (Join [RootDir nc, ''config'', ''config.toml'']) nc) (\<lambda>_.
      let appState = (case appState of None \<Rightarrow> nodeAppState | Some a \<Rightarrow> a) in
      bind (ExportGenesisFileWithTime D (GenesisFile D nc) (chainID args) appState genTime) (\<lambda>_.
      ret (nc, Some appState))))))"

definition collectGenFiles ::
  "('st, 'fd, 'pk, 'kb, 'msg, 'tx, 'gen) NodeDeps \<Rightarrow> initArgs \<Rightarrow> NodeConfig \<Rightarrow> string list \<Rightarrow> 'pk list \<Rightarrow> string \<Rightarrow> ('st, unit) go" where
  "collectGenFiles D args nc ids keys peers s =
     bind (go_fold (collect_node D args ids keys peers (tmtime_Now D s)) [0..numValidators args - 1] (nc, None)) (\<lambda>_. ret ()) s"

section \<open>The command\<close>

text \<open>After the rounds: the genesis files, the copies of the gentxs, the collected genesis.\<close>

definition finish_testnet ::
  "('st, 'fd, 'pk, 'kb, 'msg, 'tx, 'gen) NodeDeps \<Rightarrow> initArgs \<Rightarrow> 'pk node_locals \<Rightarrow> ('st, unit) go" where
  "finish_testnet D args L =
     bind (initGenFiles D (chainID args) (genAccounts L) (genBalances L) (genFiles L) (numValidators args)) (\<lambda>_.
     bind (copy_gentxs (deps_os D) args (gentxsFiles L)) (\<lambda>_.
     bind (collectGenFiles D args (nodeConfig L) (nodeIDs L) (valPubKeys L) (persistentPeers L)) (\<lambda>_.
     PrintErrf D (''Successfully initialized '' @ Itoa (numValidators args) @ '' node directories'' @ [CHR 0x0A]))))"

text \<open>A negative number of validators panics in \<open>make\<close>. A missing chain id is made up.\<close>

definition initTestnetFiles ::
  "('st, 'fd, 'pk, 'kb, 'msg, 'tx, 'gen) NodeDeps \<Rightarrow> NodeConfig \<Rightarrow> initArgs \<Rightarrow> ('st, unit) go" where
  "initTestnetFiles D nc args =
     bind (if chainID args = [] then bind (generateRandomString (deps_os D) 6) (\<lambda>r. ret (''chain-'' @ r))
           else ret (chainID args)) (\<lambda>chain.
     let args = args\<lparr>chainID := chain\<rparr> in
     if numValidators args < 0 then go_lift (Panic ''makeslice: len out of range'')
     else
       bind (go_fold (init_node D args) [0..numValidators args - 1]
              \<lparr>nodeIDs = [], valPubKeys = [], genAccounts = [], genBalances = [], genFiles = [], persistentPeers = [],
               gentxsFiles = [], nodeConfig = nc, appConfig = base_app_config (BondDenomination D) args (DefaultAppConfig D)\<rparr>)
       (finish_testnet D args))"

section \<open>Every node has its entries\<close>

text \<open>
  The later loops index the lists the first loop fills; each round adds one entry to each of
  them, so no index is out of range.
\<close>

definition counts :: "'pk node_locals \<Rightarrow> nat \<Rightarrow> bool" where
  "counts L n \<longleftrightarrow> length (nodeIDs L) = n \<and> length (valPubKeys L) = n \<and> length (genFiles L) = n \<and>
     length (gentxsFiles L) = n \<and> length (genAccounts L) = n \<and> length (genBalances L) = n"

lemma init_node_counts:
  "init_node D args i L s = (Ok L', s') \<Longrightarrow> counts L n \<Longrightarrow> counts L' (Suc n)"
  by (auto simp: init_node_def Let_def counts_def elim!: bind_OkE)

lemma init_nodes_counts:
  "go_fold (init_node D args) is L s = (Ok L', s') \<Longrightarrow> counts L n \<Longrightarrow> counts L' (n + length is)"
proof (induction "is" arbitrary: L s n)
  case (Cons i "is")
  from Cons.prems(1) obtain L1 s1 where "init_node D args i L s = (Ok L1, s1)" "go_fold (init_node D args) is L1 s1 = (Ok L', s')"
    by (auto elim: bind_OkE)
  with Cons.IH [of L1 s1 "Suc n"] init_node_counts [OF _ Cons.prems(2)] show ?case by fastforce
qed simp

text \<open>The peers are the memos of the nodes, separated by commas.\<close>

lemma peers_join:
  assumes "\<forall>m\<in>set ms. m \<noteq> []"
  shows "foldl add_peer [] ms = join_with '','' ms"
proof -
  have append: "join_with '','' (ps @ [p]) = add_peer (join_with '','' ps) p" if "\<forall>m\<in>set ps. m \<noteq> []" for ps p
    using that by (induction "'',''" ps rule: join_with.induct) (auto simp: add_peer_def, (case_tac ps; simp)+)
  show ?thesis using assms
  proof (induction ms rule: rev_induct)
    case (snoc m ms)
    then show ?case using append [of ms m] by (simp del: join_with.simps)
  qed simp
qed

end
