(* ===== verification/NodeGenesis.thy ===== *)
theory NodeGenesis
  imports NodeFiles
begin

text \<open>
  All nodes of a multi-node testnet start from the same genesis document (\<open>collectGenFiles\<close> of
  \<open>cmd/trefoild/cmd/testnet_multi_node.go\<close>): the application state of the first node is the
  canonical one, exported with one chain id and one time into every node's genesis file.
\<close>

section \<open>The genesis files behind the parameters\<close>

text \<open>
  What the SDK documents of the calls the loop makes, for a view \<open>files\<close> of the state that maps the
  path of a genesis file to the chain id, the application state and the time in it: the path of
  a node's file depends on its root directory only; an export replaces the file; collecting the
  gentxs rewrites at most the file of the node at hand; reading a document and writing a
  configuration leave genesis files alone, and so does printing. \<open>genfile\<close> is that path.
\<close>

definition genesis_store ::
  "('st, 'fd, 'pk, 'kb, 'msg, 'tx, 'gen) NodeDeps \<Rightarrow> (string \<Rightarrow> string) \<Rightarrow> ('st \<Rightarrow> string \<Rightarrow> (string \<times> string \<times> int) option) \<Rightarrow> bool" where
  "genesis_store D genfile files \<longleftrightarrow>
     (\<forall>nc. GenesisFile D nc = genfile (RootDir nc)) \<and>
     (\<forall>file chain st t s u s'. ExportGenesisFileWithTime D file chain st t s = (Ok u, s') \<longrightarrow>
        files s' = (files s)(file \<mapsto> (chain, st, t))) \<and>
     (\<forall>nc ic g s a s' file. GenAppStateFromConfig D nc ic g s = (Ok a, s') \<longrightarrow> file \<noteq> GenesisFile D nc \<longrightarrow>
        files s' file = files s file) \<and>
     (\<forall>file s g s'. AppGenesisFromFile D file s = (Ok g, s') \<longrightarrow> files s' = files s) \<and>
     (\<forall>file nc s u s'. WriteNodeConfigFile D file nc s = (Ok u, s') \<longrightarrow> files s' = files s) \<and>
     (\<forall>text s. files (snd (PrintErrf D text s)) = files s)"

lemma store_path: "genesis_store D genfile files \<Longrightarrow> GenesisFile D nc = genfile (RootDir nc)"
  unfolding genesis_store_def by simp

lemma store_export:
  "genesis_store D genfile files \<Longrightarrow> ExportGenesisFileWithTime D file chain st t s = (Ok u, s') \<Longrightarrow>
   files s' = (files s)(file \<mapsto> (chain, st, t))"
  unfolding genesis_store_def by simp

lemma store_collect:
  "genesis_store D genfile files \<Longrightarrow> GenAppStateFromConfig D nc ic g s = (Ok a, s') \<Longrightarrow> file \<noteq> GenesisFile D nc \<Longrightarrow>
   files s' file = files s file"
  unfolding genesis_store_def by metis

lemma store_read: "genesis_store D genfile files \<Longrightarrow> AppGenesisFromFile D file s = (Ok g, s') \<Longrightarrow> files s' = files s"
  unfolding genesis_store_def by simp

lemma store_config: "genesis_store D genfile files \<Longrightarrow> WriteNodeConfigFile D file nc s = (Ok u, s') \<Longrightarrow> files s' = files s"
  unfolding genesis_store_def by simp

lemma store_print: "genesis_store D genfile files \<Longrightarrow> files (snd (PrintErrf D text s)) = files s"
  unfolding genesis_store_def by simp

section \<open>One round\<close>

text \<open>A round settles the canonical state and writes it to its node's file, and to no other.\<close>

lemma collect_node_file:
  assumes store: "genesis_store D genfile files"
    and run: "collect_node D args ids keys peers t i (nc, a) s = (Ok (nc', a'), s')"
  obtains st where "a' = Some st" and "a = None \<or> a = Some st"
    and "files s' (genfile (node_dir args i)) = Some (chainID args, st, t)"
    and "\<And>f. f \<noteq> genfile (node_dir args i) \<Longrightarrow> files s' f = files s f"
proof -
  define nc1 where "nc1 = nc\<lparr>Moniker := node_dir_name args i, RootDir := node_dir args i\<rparr>"
  define path where "path = genfile (node_dir args i)"
  define nc2 where "nc2 = network_config args peers i nc1"
  have path: "GenesisFile D nc1 = path" "GenesisFile D nc2 = path"
    unfolding path_def by (simp_all add: store_path [OF store] nc2_def nc1_def network_config_def)
  from run have "bind (AppGenesisFromFile D (GenesisFile D nc1)) (\<lambda>g.
      bind (GenAppStateFromConfig D nc1 (chainID args, gentxs_dir args i, ids ! nat i, keys ! nat i) g) (\<lambda>b.
      bind (WriteNodeConfigFile D (Join [RootDir nc2, ''config'', ''config.toml'']) nc2) (\<lambda>_.
      bind (ExportGenesisFileWithTime D (GenesisFile D nc2) (chainID args) (case a of None \<Rightarrow> b | Some x \<Rightarrow> x) t) (\<lambda>_.
      ret (nc2, Some (case a of None \<Rightarrow> b | Some x \<Rightarrow> x)))))) s = (Ok (nc', a'), s')"
    unfolding collect_node_def Let_def prod.case
    by (simp only: nc2_def nc1_def gentxs_dir_def node_dir_def)
  then obtain g s1 b s2 u3 s3 u4 s4 where
    1: "AppGenesisFromFile D path s = (Ok g, s1)" and
    2: "GenAppStateFromConfig D nc1 (chainID args, gentxs_dir args i, ids ! nat i, keys ! nat i) g s1 = (Ok b, s2)" and
    3: "WriteNodeConfigFile D (Join [RootDir nc2, ''config'', ''config.toml'']) nc2 s2 = (Ok u3, s3)" and
    4: "ExportGenesisFileWithTime D path (chainID args) (case a of None \<Rightarrow> b | Some x \<Rightarrow> x) t s3 = (Ok u4, s4)" and
    5: "ret (nc2, Some (case a of None \<Rightarrow> b | Some x \<Rightarrow> x)) s4 = (Ok (nc', a'), s')"
    unfolding path by (elim bind_OkE) (rule that)
  let ?st = "case a of None \<Rightarrow> b | Some x \<Rightarrow> x"
  have f1: "files s1 = files s" by (rule store_read [OF store 1])
  have f2: "files s2 f = files s1 f" if "f \<noteq> path" for f
    using store_collect [OF store 2] that path(1) by simp
  have f3: "files s3 = files s2" by (rule store_config [OF store 3])
  have f4: "files s' = (files s3)(path \<mapsto> (chainID args, ?st, t))" and 6: "a' = Some ?st"
    using store_export [OF store 4] 5 by simp_all
  show ?thesis
    by (rule that [of ?st]) (use f1 f2 f3 f4 6 in \<open>auto simp: path_def [symmetric] split: option.splits\<close>)
qed

section \<open>All rounds\<close>

lemma collect_nodes_files:
  assumes store: "genesis_store D genfile files"
  shows "go_fold (collect_node D args ids keys peers t) is (nc, a) s = (Ok (nc', a'), s') \<Longrightarrow>
    (\<And>j. j \<in> done \<Longrightarrow> \<exists>st. a = Some st \<and> files s (genfile (node_dir args j)) = Some (chainID args, st, t)) \<Longrightarrow>
    j \<in> done \<union> set is \<Longrightarrow>
    \<exists>st. a' = Some st \<and> files s' (genfile (node_dir args j)) = Some (chainID args, st, t)"
proof (induction "is" arbitrary: nc a s "done")
  case (Cons i "is")
  from Cons.prems(1) obtain nc1 a1 s1 where
    one: "collect_node D args ids keys peers t i (nc, a) s = (Ok (nc1, a1), s1)" and
    rest: "go_fold (collect_node D args ids keys peers t) is (nc1, a1) s1 = (Ok (nc', a'), s')"
    by (auto elim: bind_OkE)
  from collect_node_file [OF store one] obtain st where
    st: "a1 = Some st" "a = None \<or> a = Some st" and
    new: "files s1 (genfile (node_dir args i)) = Some (chainID args, st, t)" and
    old: "\<And>f. f \<noteq> genfile (node_dir args i) \<Longrightarrow> files s1 f = files s f"
    by blast
  have "\<exists>st. a1 = Some st \<and> files s1 (genfile (node_dir args k)) = Some (chainID args, st, t)"
    if "k \<in> insert i done" for k
  proof (cases "genfile (node_dir args k) = genfile (node_dir args i)")
    case True with st new show ?thesis by simp
  next
    case False
    with that have "k \<in> done" by auto
    from Cons.prems(2) [OF this] st old [OF False] show ?thesis by auto
  qed
  from Cons.IH [OF rest this, of "insert i done"] Cons.prems(3) show ?case by auto
qed auto

lemma collectGenFiles_files:
  assumes "genesis_store D genfile files" and "collectGenFiles D args nc ids keys peers s = (Ok u, s')"
    and "0 \<le> i" and "i < numValidators args"
  shows "\<exists>st. \<forall>j. 0 \<le> j \<longrightarrow> j < numValidators args \<longrightarrow>
    files s' (genfile (node_dir args j)) = Some (chainID args, st, tmtime_Now D s)"
proof -
  from assms(2) obtain v where
    run: "go_fold (collect_node D args ids keys peers (tmtime_Now D s)) [0..numValidators args - 1] (nc, None) s = (Ok v, s')"
    unfolding collectGenFiles_def by (elim bind_OkE) simp
  obtain nc' a' where v: "v = (nc', a')" by (cases v)
  have all: "\<exists>st. a' = Some st \<and> files s' (genfile (node_dir args j)) = Some (chainID args, st, tmtime_Now D s)"
    if "0 \<le> j" "j < numValidators args" for j
    by (rule collect_nodes_files [OF assms(1) run [unfolded v], of "{}"]) (use that in auto)
  from all [OF assms(3,4)] obtain st where "a' = Some st" by blast
  with all show ?thesis by auto
qed

text \<open>The command's last steps.\<close>

lemma initTestnetFiles_collects:
  assumes "initTestnetFiles D nc args s = (Ok u, s')"
  obtains chain c ids keys peers s1 s2 where
    "chainID args \<noteq> [] \<Longrightarrow> chain = chainID args" and
    "collectGenFiles D (args\<lparr>chainID := chain\<rparr>) c ids keys peers s1 = (Ok (), s2)" and
    "s' = snd (PrintErrf D (''Successfully initialized '' @ Itoa (numValidators args) @ '' node directories'' @ [CHR 0x0A]) s2)"
proof -
  let ?args = "\<lambda>c. args\<lparr>chainID := c\<rparr>"
  from assms obtain chain s0 where
    chain: "(if chainID args = [] then bind (generateRandomString (deps_os D) 6) (\<lambda>r. ret (''chain-'' @ r))
       else ret (chainID args)) s = (Ok chain, s0)" and
    rest: "(if numValidators (?args chain) < 0 then go_lift (Panic ''makeslice: len out of range'') else
       bind (go_fold (init_node D (?args chain)) [0..numValidators (?args chain) - 1]
              \<lparr>nodeIDs = [], valPubKeys = [], genAccounts = [], genBalances = [], genFiles = [], persistentPeers = [],
               gentxsFiles = [], nodeConfig = nc,
               appConfig = base_app_config (BondDenomination D) (?args chain) (DefaultAppConfig D)\<rparr>)
       (finish_testnet D (?args chain))) s0 = (Ok u, s')"
    unfolding initTestnetFiles_def Let_def by (elim bind_OkE) (rule that)
  have nonneg: "\<not> numValidators (?args chain) < 0"
  proof
    assume "numValidators (?args chain) < 0"
    from rest [unfolded if_P [OF this]] show False by (simp add: go_lift_def)
  qed
  from rest [unfolded if_not_P [OF nonneg]] obtain L s1 where
    "finish_testnet D (?args chain) L s1 = (Ok u, s')" by (elim bind_OkE) (rule that)
  then obtain c ids keys peers s1 v s2 where
    "collectGenFiles D (?args chain) c ids keys peers s1 = (Ok v, s2)"
    and "PrintErrf D (''Successfully initialized '' @ Itoa (numValidators (?args chain)) @ '' node directories'' @ [CHR 0x0A]) s2 = (Ok u, s')"
    unfolding finish_testnet_def by (elim bind_OkE) (rule that)
  then show thesis by (intro that) (use chain in auto)
qed

text \<open>
  C26: Every node of a multi-node testnet starts from the same genesis: after the command
  succeeded, the genesis file of each of its nodes holds one and the same chain id, application
  state and time, and the chain id is the one asked for, if one was.
\<close>

theorem one_genesis_for_all:
  assumes "genesis_store D genfile files" and "initTestnetFiles D nc args s = (Ok u, s')"
    and "0 \<le> i" and "i < numValidators args"
  shows "\<exists>chain st t. (chainID args = [] \<or> chain = chainID args) \<and>
    (\<forall>j. 0 \<le> j \<longrightarrow> j < numValidators args \<longrightarrow> files s' (genfile (node_dir args j)) = Some (chain, st, t))"
proof -
  from initTestnetFiles_collects [OF assms(2)] obtain chain c ids keys peers s1 s2 where
    chain: "chainID args \<noteq> [] \<Longrightarrow> chain = chainID args" and
    run: "collectGenFiles D (args\<lparr>chainID := chain\<rparr>) c ids keys peers s1 = (Ok (), s2)" and
    s': "s' = snd (PrintErrf D (''Successfully initialized '' @ Itoa (numValidators args) @ '' node directories'' @ [CHR 0x0A]) s2)"
    by metis
  have dir: "node_dir (args\<lparr>chainID := chain\<rparr>) j = node_dir args j" for j
    by (simp add: node_dir_def node_dir_name_def)
  have "files s' = files s2" unfolding s' by (rule store_print [OF assms(1)])
  moreover from collectGenFiles_files [OF assms(1) run, of i] assms(3,4) obtain st where
    "\<forall>j. 0 \<le> j \<longrightarrow> j < numValidators args \<longrightarrow> files s2 (genfile (node_dir args j)) = Some (chain, st, tmtime_Now D s1)"
    by (auto simp: dir)
  ultimately show ?thesis using chain by (intro exI [of _ chain] exI [of _ st]) auto
qed

section \<open>A run\<close>

type_synonym demo_docs = "(string \<times> string \<times> string \<times> int) list"

definition demo_os :: "(demo_docs, unit) OsOps" where
  "demo_os = \<lparr>MkdirAll = (\<lambda>_ _. ret ()), RemoveAll = (\<lambda>_. ret ()), os_WriteFile = (\<lambda>_ _ _. ret ()), os_Open = (\<lambda>_. ret ()),
     os_Create = (\<lambda>_. ret ()), io_Copy = (\<lambda>_ _. ret 0), fd_Sync = (\<lambda>_. ret ()), fd_Close = (\<lambda>_. ret ()),
     Getwd = (\<lambda>_. Inr ''/work''), rand_Intn = (\<lambda>_. ret 0)\<rparr>"

definition demo_node_deps :: "(demo_docs, unit, string, unit, string, string, string) NodeDeps" where
  "demo_node_deps = \<lparr>deps_os = demo_os, BondDenomination = ''utre'', TokensFromConsensusPower = (\<lambda>p. p),
     ndNewCoin = (\<lambda>d a. Some \<lparr>Denom = d, Amount = Some a\<rparr>), Coins_Sort = (\<lambda>cs. cs), Coins_Add = (\<lambda>cs ds. cs @ ds),
     DefaultAppConfig = \<lparr>MinGasPrices = [], API_Enable = True, API_Address = [], GRPC_Address = [],
       Telemetry_EnableHostnameLabel = True, Telemetry_Enabled = True, Telemetry_PrometheusRetentionTime = 60\<rparr>,
     InitializeNodeValidatorFiles = (\<lambda>nc. ret (''id'', ''pk'')), GenesisFile = (\<lambda>nc. RootDir nc @ ''/config/genesis.json''),
     keyring_New = (\<lambda>_ _. ret ()), NewSigningAlgoFromString = (\<lambda>t _. Inr t), GenerateSaveCoinKey = (\<lambda>_ _ _. ret ([1], ''words'')),
     json_MarshalInfo = (\<lambda>_. Inr ''{}''), AccText = (\<lambda>_. ''acc''), ValText = (\<lambda>_. ''val''),
     NewMsgCreateValidator = (\<lambda>v _ _ _. Inr v), NewTxBuilder = [], SetMsgs = (\<lambda>msg _. Inr msg), SetMemo = (\<lambda>_ tx. tx),
     tx_Sign = (\<lambda>_ _ _ _ tx. ret tx), TxJSONEncode = Inr, WriteAppConfigFile = (\<lambda>_ _. ret ()), WriteNodeConfigFile = (\<lambda>_ _. ret ()),
     mbm_DefaultGenesis = (\<lambda>_. ''{}''), authModuleName = ''auth'', bankModuleName = ''bank'',
     UnmarshalAuth = (\<lambda>t. Ok \<lparr>Accounts = [], authOther = t\<rparr>), MarshalAuth = (\<lambda>g. Ok (authOther g)),
     UnmarshalBank = (\<lambda>t. Ok \<lparr>Balances = [], Supply = [], bankOther = t\<rparr>), MarshalBank = (\<lambda>g. Ok (bankOther g)),
     PackAccounts = (\<lambda>as. Inr []), SanitizeGenesisBalances = (\<lambda>bs. bs), MarshalState = (\<lambda>g. Inr (g ''auth'')),
     GenesisDoc_SaveAs = (\<lambda>chain st file s. (Ok (), (file, chain, st, 0) # s)), tmtime_Now = (\<lambda>_. 7),
     AppGenesisFromFile = (\<lambda>file. ret file), GenAppStateFromConfig = (\<lambda>nc ic g. ret (Moniker nc)),
     ExportGenesisFileWithTime = (\<lambda>file chain st t s. (Ok (), (file, chain, st, t) # s)), PrintErrf = (\<lambda>_. ret ())\<rparr>"

definition demo_args :: initArgs where
  "demo_args = \<lparr>algo = ''secp256k1'', chainID = ''c'', keyringBackend = ''test'', minGasPrices = [], nodeDirPrefix = ''n'',
     numValidators = 2, outputDir = ''o'', startingIPAddress = ''h'', validatorsStakesAmount = Map.empty, ports = Map.empty\<rparr>"

definition demo_config :: NodeConfig where
  "demo_config = \<lparr>RootDir = [], Moniker = [], RPC_ListenAddress = [], P2P_PersistentPeers = [], P2P_AllowDuplicateIP = False,
     P2P_ListenAddress = [], ProxyApp = [], PrometheusListenAddr = [], Prometheus = False\<rparr>"

text \<open>None of the calls of this instance fails, so the command succeeds.\<close>

definition returns :: "('s, 'a) go \<Rightarrow> bool" where
  "returns m \<longleftrightarrow> (\<forall>s. \<exists>a. fst (m s) = Ok a)"

lemma returns_ret [intro]: "returns (ret a)"
  by (simp add: returns_def)

lemma returns_bind [intro]: "returns m \<Longrightarrow> (\<And>a. returns (f a)) \<Longrightarrow> returns (bind m f)"
  unfolding returns_def bind_def by (auto split: prod.split res.split) (metis fst_conv res.distinct res.inject)+

lemma returns_for [intro]: "(\<And>x. returns (f x)) \<Longrightarrow> returns (go_for f xs)"
  by (induction xs) auto

lemma returns_fold [intro]: "(\<And>x l. returns (f x l)) \<Longrightarrow> returns (go_fold f xs l)"
  by (induction xs arbitrary: l) auto

lemma returns_deferring [intro]: "returns d \<Longrightarrow> returns m \<Longrightarrow> returns (deferring d m)"
  unfolding returns_def deferring_def by (auto split: prod.split res.split) (metis fst_conv res.distinct res.inject)+

lemma returns_removing [intro]: "returns m \<Longrightarrow> returns (removing os dir m)"
  unfolding returns_def removing_def by (auto split: prod.split res.split) (metis fst_conv res.distinct res.inject)+

lemma returns_on_err [intro]: "returns m \<Longrightarrow> returns (on_err w m)"
  unfolding returns_def on_err_def by (auto split: prod.split res.split) (metis fst_conv res.distinct res.inject)+

lemma returns_step [intro]: "returns (\<lambda>s. (Ok a, f s))"
  by (simp add: returns_def)

lemma returns_Pair [intro]: "returns (Pair (Ok a))"
  by (simp add: returns_def)

lemma returns_pair [intro]: "(\<And>a b. returns (f a b)) \<Longrightarrow> returns (case x of (a, b) \<Rightarrow> f a b)"
  by (cases x) simp

lemma returns_pure [intro]: "returns (pure_call (Inr a))" "returns (go_lift (Ok a))"
  by (simp_all add: returns_def pure_call_def go_lift_def)

lemma demo_writeFile: "returns (writeFile demo_os path dir contents)"
  unfolding writeFile_def demo_os_def by simp (intro returns_bind returns_on_err returns_ret)

lemma demo_copy: "returns (copy_gentxs demo_os args fs)"
proof -
  have copy: "returns (copyFile demo_os path dir)" for path dir
    unfolding copyFile_def demo_os_def Let_def by simp (intro returns_bind returns_deferring returns_ret returns_Pair)
  have "returns (\<lambda>s. case isSubDir (Getwd demo_os s) path dir of
      Inr False \<Rightarrow> bind (copyFile demo_os path dir) (\<lambda>_. ret ()) s | _ \<Rightarrow> (Ok (), s))" for path dir
  proof -
    have "returns (bind (copyFile demo_os path dir) (\<lambda>_. ret ()))" by (intro returns_bind copy returns_ret)
    then show ?thesis unfolding returns_def by (auto split: sum.split bool.split)
  qed
  then show ?thesis unfolding copy_gentxs_def Let_def by (intro returns_for)
qed

lemma demo_MkdirAll: "returns (MkdirAll demo_os dir perm)"
  by (auto simp: demo_os_def)

lemma demo_init_node: "returns (init_node demo_node_deps demo_args i L)"
  unfolding init_node_def Let_def sdk_NewCoin_def gentx_def validator_stake_def
  by (simp add: demo_node_deps_def demo_args_def demo_os_def [symmetric])
    (intro returns_bind returns_removing returns_ret returns_pair returns_Pair returns_pure demo_writeFile demo_MkdirAll)

lemma demo_initGenFiles: "returns (initGenFiles demo_node_deps chain accounts balances fs n)"
  unfolding initGenFiles_def Let_def
  by (simp add: demo_node_deps_def) (intro returns_bind returns_for returns_step returns_pure)

lemma demo_collect: "returns (collectGenFiles demo_node_deps args nc ids keys peers)"
proof -
  have "returns (collect_node demo_node_deps args ids keys peers t i v)" for t i v
    unfolding collect_node_def Let_def
    by (cases v) (simp add: demo_node_deps_def, intro returns_bind returns_ret returns_step)
  then have "returns (bind (go_fold (collect_node demo_node_deps args ids keys peers t) is v) (\<lambda>_. ret ()))" for t "is" v
    by (intro returns_bind returns_fold returns_ret)
  then show ?thesis unfolding returns_def collectGenFiles_def by blast
qed

lemma demo_returns: "returns (initTestnetFiles demo_node_deps demo_config demo_args)"
proof -
  have ops: "deps_os demo_node_deps = demo_os" "PrintErrf demo_node_deps = (\<lambda>_. ret ())"
    by (simp_all add: demo_node_deps_def)
  have chain: "chainID demo_args = ''c''" "demo_args\<lparr>chainID := ''c''\<rparr> = demo_args" "\<not> numValidators demo_args < 0"
    by (simp_all add: demo_args_def)
  show ?thesis
    unfolding initTestnetFiles_def finish_testnet_def Let_def ops chain
    by (simp add: chain) (intro returns_bind returns_fold demo_init_node demo_initGenFiles demo_copy demo_collect returns_ret)
qed

theorem one_genesis_for_all_witness:
  "\<exists>chain st t. chain = ''c'' \<and>
     (\<forall>j. 0 \<le> j \<longrightarrow> j < 2 \<longrightarrow>
        map_of (snd (initTestnetFiles demo_node_deps demo_config demo_args [])) (node_dir demo_args j @ ''/config/genesis.json'')
          = Some (chain, st, t))"
proof -
  have store: "genesis_store demo_node_deps (\<lambda>dir. dir @ ''/config/genesis.json'') map_of"
    unfolding genesis_store_def by (simp add: demo_node_deps_def)
  from demo_returns obtain u where "fst (initTestnetFiles demo_node_deps demo_config demo_args []) = Ok u"
    unfolding returns_def by blast
  then have "initTestnetFiles demo_node_deps demo_config demo_args [] =
      (Ok u, snd (initTestnetFiles demo_node_deps demo_config demo_args []))"
    by (metis prod.collapse)
  from one_genesis_for_all [OF store this, of 0] show ?thesis by (auto simp: demo_args_def)
qed

end
