(* ===== verification/TestnetCmds.thy ===== *)
theory TestnetCmds
  imports NodeGenesis Testnet
begin

text \<open>
  The two commands that make a testnet: \<open>NewTestnetMultiNodeCmd\<close> with its flags and the arguments
  it reads from them (\<open>cmd/trefoild/cmd/testnet_multi_node.go\<close>), and \<open>NewInPlaceTestnetCmd\<close>
  (\<open>cmd/trefoild/cmd/testnet.go\<close>). A command is its texts, its flags in the order of their
  declaration, the normalization of flag names, and what it runs; parsing a command line is
  cobra's. The values of the flags are read through \<open>flag_reader\<close> (\<open>GetString\<close>, \<open>GetInt\<close>).
\<close>

section \<open>Commands and flags\<close>

datatype flag_value = IntFlag int | StringFlag string

record flag =
  flag_name :: string
  flag_short :: string
  flag_default :: flag_value
  flag_usage :: string

record 'run flag_command =
  cmd_use :: string
  cmd_short :: string
  cmd_long :: string
  cmd_example :: string
  cmd_flags :: "flag list"
  cmd_normalize :: "string \<Rightarrow> string"
  cmd_run :: 'run

record flag_reader =
  GetString :: "string \<Rightarrow> error + string"
  GetInt :: "string \<Rightarrow> error + int"

definition flags_String :: "string \<Rightarrow> string \<Rightarrow> string \<Rightarrow> 'run flag_command \<Rightarrow> 'run flag_command" where
  "flags_String name v usage cmd =
     cmd\<lparr>cmd_flags := cmd_flags cmd @ [\<lparr>flag_name = name, flag_short = [], flag_default = StringFlag v, flag_usage = usage\<rparr>]\<rparr>"

definition flags_StringP :: "string \<Rightarrow> string \<Rightarrow> string \<Rightarrow> string \<Rightarrow> 'run flag_command \<Rightarrow> 'run flag_command" where
  "flags_StringP name short v usage cmd =
     cmd\<lparr>cmd_flags := cmd_flags cmd @ [\<lparr>flag_name = name, flag_short = short, flag_default = StringFlag v, flag_usage = usage\<rparr>]\<rparr>"

definition flags_Int :: "string \<Rightarrow> int \<Rightarrow> string \<Rightarrow> 'run flag_command \<Rightarrow> 'run flag_command" where
  "flags_Int name v usage cmd =
     cmd\<lparr>cmd_flags := cmd_flags cmd @ [\<lparr>flag_name = name, flag_short = [], flag_default = IntFlag v, flag_usage = usage\<rparr>]\<rparr>"

section \<open>The flags of the multi-node command\<close>

definition flagNodeDirPrefix :: string where "flagNodeDirPrefix = ''node-dir-prefix''"
definition flagPorts :: string where "flagPorts = ''list-ports''"
definition flagNumValidators :: string where "flagNumValidators = ''v''"
definition flagOutputDir :: string where "flagOutputDir = ''output-dir''"
definition flagValidatorsStakeAmount :: string where "flagValidatorsStakeAmount = ''validators-stake-amount''"
definition flagStartingIPAddress :: string where "flagStartingIPAddress = ''starting-ip-address''"

definition nodeDirPerm :: nat where "nodeDirPerm = 493"

text \<open>The names and values the SDK gives: its flags, the bond denomination, the signing algorithm.\<close>

record SdkFlags =
  FlagKeyringBackend :: string
  FlagChainID :: string
  FlagMinGasPrices :: string
  FlagKeyType :: string
  sdkDefaultBondDenom :: string
  Secp256k1Type :: string

definition normalize_flag :: "SdkFlags \<Rightarrow> string \<Rightarrow> string" where
  "normalize_flag F name = (if name = ''algo'' then FlagKeyType F else name)"

definition addTestnetFlagsToCmd :: "SdkFlags \<Rightarrow> 'run flag_command \<Rightarrow> 'run flag_command" where
  "addTestnetFlagsToCmd F cmd =
     (let cmd = flags_Int flagNumValidators 4 ''Number of validators to initialize the testnet with'' cmd;
          cmd = flags_StringP flagOutputDir ''o'' ''./.testnets'' ''Directory to store initialization data for the testnet'' cmd;
          cmd = flags_String (FlagChainID F) [] ''genesis file chain-id, if left blank will be randomly created'' cmd;
          cmd = flags_String (FlagMinGasPrices F) (''0'' @ sdkDefaultBondDenom F)
            ''Minimum gas prices to accept for transactions; All fees in a tx must meet this minimum (e.g. 0.01photino,0.001stake)'' cmd;
          cmd = flags_String (FlagKeyType F) (Secp256k1Type F) ''Key signing algorithm to generate keys for'' cmd in
      cmd\<lparr>cmd_normalize := normalize_flag F\<rparr>)"

section \<open>Reading the arguments\<close>

text \<open>\<open>v, _ = Get(name)\<close>: the error is dropped, and the value that comes with it is the zero value.\<close>

definition get_string :: "flag_reader \<Rightarrow> string \<Rightarrow> string" where
  "get_string R name = (case GetString R name of Inr v \<Rightarrow> v | Inl _ \<Rightarrow> [])"

definition get_int :: "flag_reader \<Rightarrow> string \<Rightarrow> int" where
  "get_int R name = (case GetInt R name of Inr v \<Rightarrow> v | Inl _ \<Rightarrow> 0)"

text \<open>The stakes and the ports stay empty when their flag cannot be read.\<close>

definition read_args ::
  "SdkFlags \<Rightarrow> (string \<Rightarrow> int option) \<Rightarrow> (string \<Rightarrow> int \<Rightarrow> Coin option) \<Rightarrow> flag_reader \<Rightarrow> initArgs res" where
  "read_args F NewIntFromString NewCoin R =
     (case (case GetString R flagValidatorsStakeAmount of
              Inr t \<Rightarrow> parse_stakes NewIntFromString NewCoin (sdkDefaultBondDenom F) (split_on CHR '','' t) 0 Map.empty
            | Inl _ \<Rightarrow> Ok Map.empty) of
        Ok stakes \<Rightarrow> Ok \<lparr>algo = get_string R (FlagKeyType F), chainID = get_string R (FlagChainID F),
           keyringBackend = get_string R (FlagKeyringBackend F), minGasPrices = get_string R (FlagMinGasPrices F),
           nodeDirPrefix = get_string R flagNodeDirPrefix, numValidators = get_int R flagNumValidators,
           outputDir = get_string R flagOutputDir, startingIPAddress = get_string R flagStartingIPAddress,
           validatorsStakesAmount = stakes,
           ports = (case GetString R flagPorts of
              Inr t \<Rightarrow> parse_ports (get_int R flagNumValidators) t
            | Inl _ \<Rightarrow> Map.empty)\<rparr>
      | Err e \<Rightarrow> Err e
      | Panic t \<Rightarrow> Panic t)"

section \<open>The multi-node command\<close>

text \<open>
  What the command runs: the client's context, or its error; then the arguments; then
  \<open>initTestnetFiles\<close> with the server's configuration. The functions of the SDK that work over the
  context, the basic modules and the iterator of balances are \<open>deps\<close>.
\<close>

definition multi_node_RunE ::
  "SdkFlags \<Rightarrow> ('cmd \<Rightarrow> error + 'cctx) \<Rightarrow> ('cmd \<Rightarrow> NodeConfig) \<Rightarrow> ('cmd \<Rightarrow> flag_reader) \<Rightarrow> (string \<Rightarrow> int option) \<Rightarrow>
   ('cctx \<Rightarrow> 'mbm \<Rightarrow> 'iter \<Rightarrow> ('st, 'fd, 'pk, 'kb, 'msg, 'tx, 'gen) NodeDeps) \<Rightarrow> 'mbm \<Rightarrow> 'iter \<Rightarrow> 'cmd \<Rightarrow> ('st, unit) go" where
  "multi_node_RunE F GetClientQueryContext ServerConfig flags_of NewIntFromString deps mbm genBalIterator cmd =
     bind (pure_call (GetClientQueryContext cmd)) (\<lambda>clientCtx.
     let config = ServerConfig cmd; D = deps clientCtx mbm genBalIterator in
     bind (go_lift (read_args F NewIntFromString (ndNewCoin D) (flags_of cmd))) (\<lambda>args.
     initTestnetFiles D config args))"

definition newline :: string where
  "newline = [CHR 0x0A]"

definition tab :: string where
  "tab = [CHR 0x09]"

definition multi_node_Long :: string where
  \<open>multi_node_Long = join_with newline
     [''multi-node will setup "v" number of directories and populate each with'',
      ''necessary files (private validator, genesis, config, etc.) for running "v" validator nodes.'',
      [],
      ''Booting up a network with these validator folders is intended to be used with Docker Compose,'',
      ''or a similar setup where each node has a manually configurable IP address.'',
      [],
      ''Note, strict routability for addresses is turned off in the config file.'',
      [],
      ''Example:'',
      tab @ ''trefoild multi-node --v 4 --output-dir ./.testnets --validators-stake-amount 1000000,200000,300000,400000 --list-ports 47222,50434,52851,44210'',
      tab]\<close>

definition NewTestnetMultiNodeCmd :: "SdkFlags \<Rightarrow> ('mbm \<Rightarrow> 'iter \<Rightarrow> 'run) \<Rightarrow> 'mbm \<Rightarrow> 'iter \<Rightarrow> 'run flag_command" where
  "NewTestnetMultiNodeCmd F RunE mbm genBalIterator =
     (let cmd = \<lparr>cmd_use = ''multi-node'',
            cmd_short = ''Initialize config directories & files for a multi-validator testnet running locally via separate processes (e.g. Docker Compose or similar)'',
            cmd_long = multi_node_Long, cmd_example = [], cmd_flags = [], cmd_normalize = (\<lambda>name. name),
            cmd_run = RunE mbm genBalIterator\<rparr>;
          cmd = addTestnetFlagsToCmd F cmd;
          cmd = flags_String flagPorts [] ''Ports of nodes (default 26657,26654,26651,26648.. )'' cmd;
          cmd = flags_String flagNodeDirPrefix ''validator'' ''Prefix the directory name for each node with (node results in node0, node1, ...)'' cmd;
          cmd = flags_String flagValidatorsStakeAmount ''100000000,100000000,100000000,100000000'' ''Amount of stake for each validator'' cmd;
          cmd = flags_String flagStartingIPAddress ''localhost''
            ''Starting IP address (192.168.0.1 results in persistent peers list ID0@192.168.0.1:46656, ID1@192.168.0.2:46656, ...)'' cmd in
      flags_String (FlagKeyringBackend F) ''test'' (''Select keyring'' @ [CHR 0x27] @ ''s backend (os|file|test)'') cmd)"

section \<open>The in-place command\<close>

text \<open>The SDK makes the command around \<open>newTestnetApp\<close>; its texts are replaced and a flag is added.\<close>

definition in_place_Long :: string where
  "in_place_Long = join_with newline
     [''The test command modifies both application and consensus stores within a local mainnet node and starts the node,'',
      ''with the aim of facilitating testing procedures. This command replaces existing validator data with updated information,'',
      ''thereby removing the old validator set and introducing a new set suitable for local testing purposes. By altering the state extracted from the mainnet node,'',
      ''it enables developers to configure their local environments to reflect mainnet conditions more accurately.'']"

definition in_place_Example :: string where
  \<open>in_place_Example = ''trefoil'' @ ''d in-place-testnet testing-1 cosmosvaloper1w7f3xx7e75p4l7qdym5msqem9rd4dyc4mq79dm --home $HOME/.'' @ ''trefoil'' @
     ''d/validator1 --validator-privkey=6dq+/KHNvyiw2TToCgOpUpQKIzrLs69Rb8Az39xvmxPHNoPxY1Cil8FY+4DhT9YwD6s0tFABMlLcpaylzKKBOg== --accounts-to-fund="cosmos1f7twgcq4ypzg7y24wuywy06xmdet8pc4473tnq,cosmos1qvuhm5m644660nd8377d6l7yz9e9hhm9evmx3x"''\<close>

definition NewInPlaceTestnetCmd :: "('mk \<Rightarrow> 'run flag_command) \<Rightarrow> 'mk \<Rightarrow> 'run flag_command" where
  "NewInPlaceTestnetCmd InPlaceTestnetCreator mk =
     (let cmd = (InPlaceTestnetCreator mk)\<lparr>
            cmd_short := (''Updates chain'' @ [CHR 0x27] @ ''s application and consensus state with provided validator info and starts the node''),
            cmd_long := in_place_Long, cmd_example := in_place_Example\<rparr> in
      flags_String flagAccountsToFund [] ''Comma-separated list of account addresses that will be funded for testing purposes'' cmd)"

section \<open>Properties\<close>

text \<open>
  What pflag documents of a reader: under every name that normalizes to a declared flag it gives
  the flag's value, here \<open>val\<close>: what the command line gave it, or else its default.
\<close>

definition reads :: "'run flag_command \<Rightarrow> (string \<Rightarrow> flag_value) \<Rightarrow> flag_reader \<Rightarrow> bool" where
  "reads cmd val R \<longleftrightarrow> (\<forall>f\<in>set (cmd_flags cmd). \<forall>n. cmd_normalize cmd n = flag_name f \<longrightarrow>
     (case val (flag_name f) of StringFlag t \<Rightarrow> GetString R n = Inr t | IntFlag i \<Rightarrow> GetInt R n = Inr i))"

lemma reads_String:
  "reads cmd val R \<Longrightarrow> \<exists>f\<in>set (cmd_flags cmd). flag_name f = cmd_normalize cmd n \<Longrightarrow> val (cmd_normalize cmd n) = StringFlag t \<Longrightarrow>
   GetString R n = Inr t"
  by (auto simp: reads_def split: flag_value.splits)

lemma reads_Int:
  "reads cmd val R \<Longrightarrow> \<exists>f\<in>set (cmd_flags cmd). flag_name f = cmd_normalize cmd n \<Longrightarrow> val (cmd_normalize cmd n) = IntFlag i \<Longrightarrow>
   GetInt R n = Inr i"
  by (auto simp: reads_def split: flag_value.splits)

lemmas multi_node_flag_defs = NewTestnetMultiNodeCmd_def addTestnetFlagsToCmd_def Let_def flags_String_def flags_StringP_def flags_Int_def

lemma multi_node_flag_names:
  "map flag_name (cmd_flags (NewTestnetMultiNodeCmd F RunE mbm iter)) =
     [flagNumValidators, flagOutputDir, FlagChainID F, FlagMinGasPrices F, FlagKeyType F, flagPorts, flagNodeDirPrefix,
      flagValidatorsStakeAmount, flagStartingIPAddress, FlagKeyringBackend F]"
  "cmd_normalize (NewTestnetMultiNodeCmd F RunE mbm iter) = normalize_flag F"
  by (simp_all add: multi_node_flag_defs)

text \<open>The arguments are those of the flags' values; the old name of the key type still reads it.\<close>

lemma read_args_spec:
  assumes reads: "reads (NewTestnetMultiNodeCmd F RunE mbm iter) val R"
    and strings: "val flagOutputDir = StringFlag (f_output_dir f)" "val (FlagChainID F) = StringFlag (f_chain_id f)"
      "val (FlagMinGasPrices F) = StringFlag (f_minimum_gas_prices f)" "val (FlagKeyType F) = StringFlag (f_key_type f)"
      "val flagPorts = StringFlag (f_list_ports f)" "val flagNodeDirPrefix = StringFlag (f_node_dir_prefix f)"
      "val flagValidatorsStakeAmount = StringFlag (f_validators_stake_amount f)"
      "val flagStartingIPAddress = StringFlag (f_starting_ip_address f)" "val (FlagKeyringBackend F) = StringFlag (f_keyring_backend f)"
    and int: "val flagNumValidators = IntFlag (f_v f)"
    and names: "''algo'' \<notin> {FlagChainID F, FlagMinGasPrices F, FlagKeyringBackend F}"
  shows "read_args F N C R = parse_args N C (sdkDefaultBondDenom F) f" and "GetString R ''algo'' = Inr (f_key_type f)"
proof -
  let ?cmd = "NewTestnetMultiNodeCmd F RunE mbm iter"
  have declared: "\<exists>f\<in>set (cmd_flags ?cmd). flag_name f = n"
    if "n \<in> set [flagNumValidators, flagOutputDir, FlagChainID F, FlagMinGasPrices F, FlagKeyType F, flagPorts, flagNodeDirPrefix,
      flagValidatorsStakeAmount, flagStartingIPAddress, FlagKeyringBackend F]" for n
    using that unfolding multi_node_flag_names(1) [of F RunE mbm iter, symmetric] by auto
  have own: "normalize_flag F n = n" if "n \<in> {flagNumValidators, flagOutputDir, flagPorts, flagNodeDirPrefix,
      flagValidatorsStakeAmount, flagStartingIPAddress, FlagChainID F, FlagMinGasPrices F, FlagKeyringBackend F, FlagKeyType F}" for n
    using that names by (auto simp: normalize_flag_def flagNumValidators_def flagOutputDir_def flagPorts_def
      flagNodeDirPrefix_def flagValidatorsStakeAmount_def flagStartingIPAddress_def)
  have str: "GetString R n = Inr t" if "val n = StringFlag t" "normalize_flag F n = n" "\<exists>f\<in>set (cmd_flags ?cmd). flag_name f = n" for n t
    using reads_String [OF reads, of n t] that by (simp add: multi_node_flag_names)
  have "GetInt R flagNumValidators = Inr (f_v f)"
    using reads_Int [OF reads, of flagNumValidators] int own declared by (simp add: multi_node_flag_names)
  moreover have "\<forall>(n, t)\<in>set [(flagOutputDir, f_output_dir f), (FlagChainID F, f_chain_id f),
      (FlagMinGasPrices F, f_minimum_gas_prices f), (FlagKeyType F, f_key_type f), (flagPorts, f_list_ports f),
      (flagNodeDirPrefix, f_node_dir_prefix f), (flagValidatorsStakeAmount, f_validators_stake_amount f),
      (flagStartingIPAddress, f_starting_ip_address f), (FlagKeyringBackend F, f_keyring_backend f)]. GetString R n = Inr t"
    unfolding list.set ball_simps prod.case by (intro conjI str strings own declared TrueI) simp_all
  ultimately show "read_args F N C R = parse_args N C (sdkDefaultBondDenom F) f"
    by (simp add: read_args_def parse_args_def get_string_def get_int_def split: res.split)
  show "GetString R ''algo'' = Inr (f_key_type f)"
    using reads_String [OF reads, of "''algo''"] strings(4) declared by (simp add: multi_node_flag_names normalize_flag_def)
qed

text \<open>The defaults the flags are declared with are those of \<open>default_flags\<close>.\<close>

lemma multi_node_defaults:
  "map (\<lambda>f. (flag_name f, flag_default f)) (cmd_flags (NewTestnetMultiNodeCmd F RunE mbm iter)) =
     (let f = default_flags (sdkDefaultBondDenom F) (Secp256k1Type F) in
      [(flagNumValidators, IntFlag (f_v f)), (flagOutputDir, StringFlag (f_output_dir f)), (FlagChainID F, StringFlag (f_chain_id f)),
       (FlagMinGasPrices F, StringFlag (f_minimum_gas_prices f)), (FlagKeyType F, StringFlag (f_key_type f)),
       (flagPorts, StringFlag (f_list_ports f)), (flagNodeDirPrefix, StringFlag (f_node_dir_prefix f)),
       (flagValidatorsStakeAmount, StringFlag (f_validators_stake_amount f)),
       (flagStartingIPAddress, StringFlag (f_starting_ip_address f)), (FlagKeyringBackend F, StringFlag (f_keyring_backend f))])"
  by (simp add: multi_node_flag_defs default_flags_def)

text \<open>
  A round that cannot make its directory removes everything made so far; a round that fails at
  its keyring leaves it all behind.
\<close>

lemma mkdir_failure_removes:
  assumes "MkdirAll (deps_os D) (Join [node_dir args i, ''config'']) nodeDirPerm s = (Err e, s1)"
    and "RemoveAll (deps_os D) (outputDir args) s1 = (r, s2)" and "\<forall>t. r \<noteq> Panic t"
  shows "init_node D args i L s = (Err e, s2)"
  using assms unfolding init_node_def Let_def nodeDirPerm_def node_dir_def
  by (cases r) (simp_all add: bind_def removing_def go_drop_def fail_def)

lemma keyring_failure_keeps:
  assumes "MkdirAll (deps_os D) (Join [node_dir args i, ''config'']) nodeDirPerm s = (Ok (), s1)"
    and "InitializeNodeValidatorFiles D ((nodeConfig L)\<lparr>RootDir := node_dir args i, Moniker := node_dir_name args i,
           RPC_ListenAddress := ''tcp://0.0.0.0:'' @ port_at args i\<rparr>) s1 = (Ok v, s2)"
    and "keyring_New D (keyringBackend args) (node_dir args i) s2 = (Err e, s3)"
  shows "init_node D args i L s = (Err e, s3)"
  using assms unfolding init_node_def Let_def nodeDirPerm_def node_dir_def
  by (cases v) (simp add: bind_def removing_def)

end
