(* ===== verification/App.thy ===== *)
theory App
  imports Module
begin

text \<open>
  The application around the module, as far as it decides what can happen to held coins: the
  module accounts with their permissions, the accounts that may not receive
  (\<open>app/app_config.go\<close>), \<open>GetMaccPerms\<close> and \<open>BlockedAddresses\<close> (\<open>app/app.go\<close>), the order in which
  modules run and the configuration of each, the address prefixes (\<open>app/config.go\<close>), and the
  validation of a simulation account (\<open>app/genesis_account.go\<close>).
  The module names are constants of other packages: \<open>modname\<close> lists the Go symbols and the
  function \<open>str\<close>, a parameter, gives their values.
\<close>

section \<open>Names\<close>

text \<open>\<open>GenesisState\<close> of \<open>app/genesis.go\<close>: raw JSON under the names of modules.\<close>

type_synonym AppGenesisState = "string \<rightharpoonup> string"


datatype modname =
    authtypes_FeeCollectorName | authtypes_ModuleName | distrtypes_ModuleName | minttypes_ModuleName
  | stakingtypes_BondedPoolName | stakingtypes_NotBondedPoolName | stakingtypes_ModuleName
  | govtypes_ModuleName | nft_ModuleName | ibctransfertypes_ModuleName | icatypes_ModuleName
  | undomoduletypes_ModuleName | upgradetypes_ModuleName | slashingtypes_ModuleName
  | evidencetypes_ModuleName | authz_ModuleName | epochstypes_ModuleName | ibcexported_ModuleName
  | feegrant_ModuleName | group_ModuleName | consensustypes_ModuleName | banktypes_ModuleName
  | genutiltypes_ModuleName | vestingtypes_ModuleName | circuittypes_ModuleName
  | authtypes_Minter | authtypes_Burner
  | runtime_ModuleName | paramstypes_ModuleName | ibctm_ModuleName | solomachine_ModuleName

definition all_modnames :: "modname list" where
  "all_modnames = [authtypes_FeeCollectorName, authtypes_ModuleName, distrtypes_ModuleName,
     minttypes_ModuleName, stakingtypes_BondedPoolName, stakingtypes_NotBondedPoolName,
     stakingtypes_ModuleName, govtypes_ModuleName, nft_ModuleName,
     ibctransfertypes_ModuleName, icatypes_ModuleName, undomoduletypes_ModuleName,
     upgradetypes_ModuleName, slashingtypes_ModuleName, evidencetypes_ModuleName,
     authz_ModuleName, epochstypes_ModuleName, ibcexported_ModuleName,
     feegrant_ModuleName, group_ModuleName, consensustypes_ModuleName,
     banktypes_ModuleName, genutiltypes_ModuleName, vestingtypes_ModuleName,
     circuittypes_ModuleName, authtypes_Minter, authtypes_Burner,
     runtime_ModuleName, paramstypes_ModuleName, ibctm_ModuleName, solomachine_ModuleName]"

lemma all_modnames: "m \<in> set all_modnames"
  by (cases m) (simp_all add: all_modnames_def)

record ModuleAccountPermission =
  Account :: modname
  Permissions :: "modname list"

definition moduleAccPerms :: "ModuleAccountPermission list" where
  "moduleAccPerms = [
     \<lparr>Account = authtypes_FeeCollectorName, Permissions = []\<rparr>,
     \<lparr>Account = distrtypes_ModuleName, Permissions = []\<rparr>,
     \<lparr>Account = minttypes_ModuleName, Permissions = [authtypes_Minter]\<rparr>,
     \<lparr>Account = stakingtypes_BondedPoolName, Permissions = [authtypes_Burner, stakingtypes_ModuleName]\<rparr>,
     \<lparr>Account = stakingtypes_NotBondedPoolName, Permissions = [authtypes_Burner, stakingtypes_ModuleName]\<rparr>,
     \<lparr>Account = govtypes_ModuleName, Permissions = [authtypes_Burner]\<rparr>,
     \<lparr>Account = nft_ModuleName, Permissions = []\<rparr>,
     \<lparr>Account = ibctransfertypes_ModuleName, Permissions = [authtypes_Minter, authtypes_Burner]\<rparr>,
     \<lparr>Account = icatypes_ModuleName, Permissions = []\<rparr>,
     \<lparr>Account = undomoduletypes_ModuleName, Permissions = []\<rparr>]"

definition blockAccAddrs :: "modname list" where
  "blockAccAddrs = [authtypes_FeeCollectorName, distrtypes_ModuleName, minttypes_ModuleName,
     stakingtypes_BondedPoolName, stakingtypes_NotBondedPoolName, nft_ModuleName]"

section \<open>The order of the modules\<close>

definition PreBlockers :: "modname list" where
  "PreBlockers = [upgradetypes_ModuleName, authtypes_ModuleName]"

definition BeginBlockers :: "modname list" where
  "BeginBlockers = [minttypes_ModuleName, distrtypes_ModuleName, slashingtypes_ModuleName,
     evidencetypes_ModuleName, stakingtypes_ModuleName, authz_ModuleName, epochstypes_ModuleName,
     ibcexported_ModuleName, undomoduletypes_ModuleName]"

definition EndBlockers :: "modname list" where
  "EndBlockers = [govtypes_ModuleName, stakingtypes_ModuleName, feegrant_ModuleName, group_ModuleName,
     undomoduletypes_ModuleName]"

definition InitGenesisOrder :: "modname list" where
  "InitGenesisOrder = [consensustypes_ModuleName, authtypes_ModuleName, banktypes_ModuleName,
     distrtypes_ModuleName, stakingtypes_ModuleName, slashingtypes_ModuleName, govtypes_ModuleName,
     minttypes_ModuleName, genutiltypes_ModuleName, evidencetypes_ModuleName, authz_ModuleName,
     feegrant_ModuleName, vestingtypes_ModuleName, nft_ModuleName, group_ModuleName,
     upgradetypes_ModuleName, circuittypes_ModuleName, epochstypes_ModuleName, ibcexported_ModuleName,
     ibctransfertypes_ModuleName, icatypes_ModuleName, undomoduletypes_ModuleName]"

section \<open>The modules of the application\<close>

definition Name :: string where
  "Name = ''trefoil''"

definition AccountAddressPrefix :: string where
  "AccountAddressPrefix = ''trefoil''"

definition ChainCoinType :: nat where
  "ChainCoinType = 118"

text \<open>
  What a module is configured with; \<open>PlainModule\<close> is a configuration with all fields zero.
  \<open>MaxExecutionPeriod\<close> is in seconds.
\<close>

datatype module_config =
    RuntimeModule (AppName: string) (rtPreBlockers: "modname list") (rtBeginBlockers: "modname list")
      (rtEndBlockers: "modname list") (OverrideStoreKeys: "(modname \<times> string) list") (rtInitGenesis: "modname list")
  | AuthModule (Bech32Prefix: string) (ModuleAccountPermissions: "ModuleAccountPermission list")
      (EnableUnorderedTransactions: bool)
  | BankModule (BlockedModuleAccountsOverride: "modname list")
  | GroupModule (MaxExecutionPeriod: int) (MaxMetadataLen: u64)
  | UndoModule (UndoConfig: ModuleConfig)
  | PlainModule

text \<open>The runtime's own entry, which has the orders, and the entries from consensus to undo.\<close>

definition runtime_config :: "(modname \<Rightarrow> string) \<Rightarrow> string \<times> module_config" where
  "runtime_config str = (str runtime_ModuleName, RuntimeModule Name PreBlockers BeginBlockers EndBlockers
     [(authtypes_ModuleName, ''acc'')] InitGenesisOrder)"

definition last_configs :: "(modname \<Rightarrow> string) \<Rightarrow> (string \<times> module_config) list" where
  "last_configs str = [
     (str consensustypes_ModuleName, PlainModule),
     (str circuittypes_ModuleName, PlainModule),
     (str paramstypes_ModuleName, PlainModule),
     (str epochstypes_ModuleName, PlainModule),
     (str undomoduletypes_ModuleName, UndoModule \<lparr>Authority = ''''\<rparr>)]"

definition appConfig :: "(modname \<Rightarrow> string) \<Rightarrow> (string \<times> module_config) list" where
  "appConfig str = [
     runtime_config str,
     (str authtypes_ModuleName, AuthModule AccountAddressPrefix moduleAccPerms True),
     (str vestingtypes_ModuleName, PlainModule),
     (str banktypes_ModuleName, BankModule blockAccAddrs),
     (str stakingtypes_ModuleName, PlainModule),
     (str slashingtypes_ModuleName, PlainModule),
     (''tx'', PlainModule),
     (str genutiltypes_ModuleName, PlainModule),
     (str authz_ModuleName, PlainModule),
     (str upgradetypes_ModuleName, PlainModule),
     (str distrtypes_ModuleName, PlainModule),
     (str evidencetypes_ModuleName, PlainModule),
     (str minttypes_ModuleName, PlainModule),
     (str group_ModuleName, GroupModule 1209600 255),
     (str nft_ModuleName, PlainModule),
     (str feegrant_ModuleName, PlainModule),
     (str govtypes_ModuleName, PlainModule)] @ last_configs str"

lemmas appConfig_unfold = appConfig_def runtime_config_def last_configs_def

section \<open>Address prefixes\<close>

text \<open>
  The \<open>init\<close> of \<open>app/config.go\<close>: the bond denomination, the coin type and the bech32 prefixes.
  Sealing the configuration, which happens last, makes it final.
\<close>

record SdkConfig =
  DefaultBondDenom :: string
  CoinType :: nat
  PrefixAccount :: "string \<times> string"
  PrefixValidator :: "string \<times> string"
  PrefixConsensusNode :: "string \<times> string"
  Sealed :: bool

definition config_init :: "SdkConfig \<Rightarrow> SdkConfig" where
  "config_init config =
     (let accountPubKeyPrefix = AccountAddressPrefix @ ''pub'';
          validatorAddressPrefix = AccountAddressPrefix @ ''valoper'';
          validatorPubKeyPrefix = AccountAddressPrefix @ ''valoperpub'';
          consNodeAddressPrefix = AccountAddressPrefix @ ''valcons'';
          consNodePubKeyPrefix = AccountAddressPrefix @ ''valconspub'' in
      config\<lparr>DefaultBondDenom := ''utfl'', CoinType := ChainCoinType,
        PrefixAccount := (AccountAddressPrefix, accountPubKeyPrefix),
        PrefixValidator := (validatorAddressPrefix, validatorPubKeyPrefix),
        PrefixConsensusNode := (consNodeAddressPrefix, consNodePubKeyPrefix), Sealed := True\<rparr>)"

section \<open>Permissions and blocked accounts\<close>

text \<open>A Go map is a partial function; an assignment in the loop overrides an earlier one.\<close>

definition GetMaccPerms :: "(modname \<Rightarrow> string) \<Rightarrow> (string \<rightharpoonup> string list)" where
  "GetMaccPerms str = fold (\<lambda>perms dup. dup(str (Account perms) \<mapsto> map str (Permissions perms))) moduleAccPerms Map.empty"

text \<open>
  \<open>BlockedAddresses\<close>. The loop over the keys of \<open>GetMaccPerms()\<close> of the other branch sets every
  key to true, in whatever order.
\<close>

definition BlockedAddresses :: "(modname \<Rightarrow> string) \<Rightarrow> (string \<rightharpoonup> bool)" where
  "BlockedAddresses str =
     (if length blockAccAddrs > 0 then fold (\<lambda>addr result. result(str addr \<mapsto> True)) blockAccAddrs Map.empty
      else (\<lambda>a. if a \<in> dom (GetMaccPerms str) then Some True else None))"

section \<open>Simulation accounts\<close>

text \<open>
  \<open>GenesisAccount\<close>: the embedded base account and its validation, and that of a module account,
  are parameters, as is \<open>Coins.IsZero\<close>.
\<close>

record 'ba GenesisAccount =
  BaseAccount :: 'ba
  OriginalVesting :: Coins
  StartTime :: i64
  EndTime :: i64
  gaModuleName :: string
  ModulePermissions :: "string list"

definition GenesisAccount_Validate ::
  "(Coins \<Rightarrow> bool) \<Rightarrow> ('ba \<Rightarrow> string \<Rightarrow> string list \<Rightarrow> error option) \<Rightarrow> ('ba \<Rightarrow> error option) \<Rightarrow>
   'ba GenesisAccount \<Rightarrow> error option" where
  "GenesisAccount_Validate coins_IsZero ma_Validate ba_Validate sga =
     (if \<not> coins_IsZero (OriginalVesting sga) \<and> EndTime sga <=s StartTime sga then
        Some (Errorf ''vesting start-time cannot be before end-time'')
      else
        (case (if gaModuleName sga \<noteq> []
               then ma_Validate (BaseAccount sga) (gaModuleName sga) (ModulePermissions sga) else None) of
           Some e \<Rightarrow> Some e
         | None \<Rightarrow> ba_Validate (BaseAccount sga)))"

section \<open>Properties\<close>

lemma fold_assign:
  assumes "inj str" and "distinct (map key xs)"
  shows "fold (\<lambda>x m. m(str (key x) \<mapsto> val x)) xs m0 (str k) =
    (case find (\<lambda>x. key x = k) xs of None \<Rightarrow> m0 (str k) | Some x \<Rightarrow> Some (val x))"
  using assms(2)
proof (induction xs arbitrary: m0)
  case (Cons x xs)
  have "str (key x) = str k \<longleftrightarrow> key x = k" using assms(1) by (auto dest: injD)
  moreover have "find (\<lambda>y. key y = key x) xs = None"
    using Cons.prems by (auto simp: find_None_iff image_iff)
  ultimately show ?case using Cons by (auto split: option.split)
qed simp

lemma GetMaccPerms_entry:
  assumes "inj str"
  shows "GetMaccPerms str (str m) = map_option (\<lambda>e. map str (Permissions e)) (find (\<lambda>e. Account e = m) moduleAccPerms)"
proof -
  have "distinct (map Account moduleAccPerms)" by code_simp
  from fold_assign [OF assms this, where val = "\<lambda>e. map str (Permissions e)" and k = m and ?m0.0 = Map.empty]
  show ?thesis by (simp add: GetMaccPerms_def split: option.split)
qed

lemma registered_not_blocked:
  "find (\<lambda>e. Account e = m) moduleAccPerms \<noteq> None \<and> m \<notin> set blockAccAddrs \<longleftrightarrow>
     m \<in> {govtypes_ModuleName, ibctransfertypes_ModuleName, icatypes_ModuleName, undomoduletypes_ModuleName}"
proof -
  have "\<forall>m\<in>set all_modnames. (find (\<lambda>e. Account e = m) moduleAccPerms \<noteq> None \<and> m \<notin> set blockAccAddrs) =
     (m \<in> {govtypes_ModuleName, ibctransfertypes_ModuleName, icatypes_ModuleName, undomoduletypes_ModuleName})"
    by code_simp
  then show ?thesis using all_modnames by blast
qed

lemma blocked_registered: "\<forall>m\<in>set blockAccAddrs. find (\<lambda>e. Account e = m) moduleAccPerms \<noteq> None"
  by code_simp

text \<open>
  The holding account is set up as a pure holder: with distinct module names, the undo
  module's account is registered and has no permission to mint or burn; the blocked accounts
  are exactly the six of \<open>blockAccAddrs\<close>, every one of them a registered module account, and
  the holding account is not one of them (so it, like the gov, transfer and interchain
  accounts, may receive coins from users).
\<close>

theorem holding_account_config:
  assumes "inj str"
  shows "GetMaccPerms str (str undomoduletypes_ModuleName) = Some [] \<and>
    (\<forall>a. BlockedAddresses str a = (if a \<in> str ` set blockAccAddrs then Some True else None)) \<and>
    (\<forall>m \<in> set blockAccAddrs. GetMaccPerms str (str m) \<noteq> None) \<and>
    {m. GetMaccPerms str (str m) \<noteq> None \<and> BlockedAddresses str (str m) = None} =
      {govtypes_ModuleName, ibctransfertypes_ModuleName, icatypes_ModuleName, undomoduletypes_ModuleName}"
proof (intro conjI)
  have eq: "str x = str y \<longleftrightarrow> x = y" for x y using assms by (auto dest: injD)
  have "find (\<lambda>e. Account e = undomoduletypes_ModuleName) moduleAccPerms =
      Some \<lparr>Account = undomoduletypes_ModuleName, Permissions = []\<rparr>" by code_simp
  then show "GetMaccPerms str (str undomoduletypes_ModuleName) = Some []"
    by (simp add: GetMaccPerms_entry [OF assms])
  show blocked: "\<forall>a. BlockedAddresses str a = (if a \<in> str ` set blockAccAddrs then Some True else None)"
    by (auto simp: BlockedAddresses_def blockAccAddrs_def)
  show "\<forall>m \<in> set blockAccAddrs. GetMaccPerms str (str m) \<noteq> None"
    using blocked_registered by (auto simp: GetMaccPerms_entry [OF assms])
  have "BlockedAddresses str (str m) = None \<longleftrightarrow> m \<notin> set blockAccAddrs" for m
    using blocked eq by (auto simp: image_iff)
  then show "{m. GetMaccPerms str (str m) \<noteq> None \<and> BlockedAddresses str (str m) = None} =
      {govtypes_ModuleName, ibctransfertypes_ModuleName, icatypes_ModuleName, undomoduletypes_ModuleName}"
    using registered_not_blocked by (auto simp: GetMaccPerms_entry [OF assms])
qed

text \<open>The values the packages give these names.\<close>

fun demo_str :: "modname \<Rightarrow> string" where
  "demo_str authtypes_FeeCollectorName = ''fee_collector''"
| "demo_str authtypes_ModuleName = ''auth''"
| "demo_str distrtypes_ModuleName = ''distribution''"
| "demo_str minttypes_ModuleName = ''mint''"
| "demo_str stakingtypes_BondedPoolName = ''bonded_tokens_pool''"
| "demo_str stakingtypes_NotBondedPoolName = ''not_bonded_tokens_pool''"
| "demo_str stakingtypes_ModuleName = ''staking''"
| "demo_str govtypes_ModuleName = ''gov''"
| "demo_str nft_ModuleName = ''nft''"
| "demo_str ibctransfertypes_ModuleName = ''transfer''"
| "demo_str icatypes_ModuleName = ''interchainaccounts''"
| "demo_str undomoduletypes_ModuleName = ModuleName"
| "demo_str upgradetypes_ModuleName = ''upgrade''"
| "demo_str slashingtypes_ModuleName = ''slashing''"
| "demo_str evidencetypes_ModuleName = ''evidence''"
| "demo_str authz_ModuleName = ''authz''"
| "demo_str epochstypes_ModuleName = ''epochs''"
| "demo_str ibcexported_ModuleName = ''ibc''"
| "demo_str feegrant_ModuleName = ''feegrant''"
| "demo_str group_ModuleName = ''group''"
| "demo_str consensustypes_ModuleName = ''consensus''"
| "demo_str banktypes_ModuleName = ''bank''"
| "demo_str genutiltypes_ModuleName = ''genutil''"
| "demo_str vestingtypes_ModuleName = ''vesting''"
| "demo_str circuittypes_ModuleName = ''circuit''"
| "demo_str authtypes_Minter = ''minter''"
| "demo_str authtypes_Burner = ''burner''"
| "demo_str runtime_ModuleName = ''runtime''"
| "demo_str paramstypes_ModuleName = ''params''"
| "demo_str ibctm_ModuleName = ''07-tendermint''"
| "demo_str solomachine_ModuleName = ''06-solomachine''"

lemma demo_str_inj: "inj demo_str"
proof -
  have "distinct (map demo_str all_modnames)" by (simp add: all_modnames_def ModuleName_def)
  moreover have "set all_modnames = UNIV" using all_modnames by blast
  ultimately show ?thesis by (simp add: distinct_map)
qed

theorem holding_account_config_witness:
  "GetMaccPerms demo_str (demo_str undomoduletypes_ModuleName) = Some [] \<and>
   BlockedAddresses demo_str (demo_str undomoduletypes_ModuleName) = None"
proof -
  have "{m. GetMaccPerms demo_str (demo_str m) \<noteq> None \<and> BlockedAddresses demo_str (demo_str m) = None} =
      {govtypes_ModuleName, ibctransfertypes_ModuleName, icatypes_ModuleName, undomoduletypes_ModuleName}"
    using holding_account_config [OF demo_str_inj] by (elim conjE)
  then show ?thesis using holding_account_config [OF demo_str_inj] by blast
qed

text \<open>
  Every block and every genesis runs the module once: undo is the last end-blocker, after
  gov and staking, so the payouts see the block's final balances; it has exactly one place in
  each order, and its genesis is read after those of auth and bank, whose accounts it pays.
\<close>

lemma undo_runs_last:
  "last EndBlockers = undomoduletypes_ModuleName \<and> distinct EndBlockers \<and>
   last InitGenesisOrder = undomoduletypes_ModuleName \<and> distinct InitGenesisOrder \<and> distinct BeginBlockers \<and>
   {authtypes_ModuleName, banktypes_ModuleName} \<subseteq> set (butlast InitGenesisOrder) \<and>
   set EndBlockers \<union> set BeginBlockers \<union> set PreBlockers \<subseteq> set InitGenesisOrder"
  by (simp add: EndBlockers_def InitGenesisOrder_def BeginBlockers_def PreBlockers_def)

text \<open>
  \<open>GenesisAccount.Validate\<close> accepts an account precisely when vesting coins end strictly
  after they start, a named module account is valid, and the base account is valid.
\<close>

lemma GenesisAccount_Validate_spec:
  "GenesisAccount_Validate z mv bv sga = None \<longleftrightarrow>
     (z (OriginalVesting sga) \<or> sint (StartTime sga) < sint (EndTime sga)) \<and>
     (gaModuleName sga = [] \<or> mv (BaseAccount sga) (gaModuleName sga) (ModulePermissions sga) = None) \<and>
     bv (BaseAccount sga) = None"
  by (auto simp: GenesisAccount_Validate_def word_sle_eq first_error_None split: option.splits)

text \<open>The six prefixes are different, and the addresses of accounts are those of the auth module.\<close>

lemma prefixes_distinct:
  fixes c :: SdkConfig
  defines "c' \<equiv> config_init c"
  shows "distinct [fst (PrefixAccount c'), snd (PrefixAccount c'), fst (PrefixValidator c'), snd (PrefixValidator c'),
      fst (PrefixConsensusNode c'), snd (PrefixConsensusNode c')]"
    and "map_of (appConfig demo_str) (demo_str authtypes_ModuleName) =
      Some (AuthModule (fst (PrefixAccount c')) moduleAccPerms True)"
  by (simp_all add: c'_def config_init_def AccountAddressPrefix_def appConfig_unfold)

end
