(* ===== verification/Daemon.thy ===== *)
theory Daemon
  imports Export Testnet
begin

text \<open>
  The export command of the daemon (\<open>appExport\<close> in \<open>cmd/trefoild/cmd/commands.go\<close>) on top of the
  application's export, and the keys the application hands out (\<open>app/app.go\<close>). Building the
  application and loading a height are parameters.
\<close>

section \<open>Exporting from the command line\<close>

text \<open>The options the command is given: a home directory of any type, and whether they are viper's.\<close>

record ExportOptions =
  xoHome :: opt_value
  xoIsViper :: bool

text \<open>
  \<open>mk\<close> is \<open>app.New\<close> with the flag that says whether to load the latest height, \<open>LoadHeight\<close> loads
  one. The error of the result is nil only when the whole export went well.
\<close>

definition appExport ::
  "(bool \<Rightarrow> ('st, 'st ExportApp) go) \<Rightarrow> ('st ExportApp \<Rightarrow> i64 \<Rightarrow> ('st, unit) go) \<Rightarrow>
   i64 \<Rightarrow> bool \<Rightarrow> string list \<Rightarrow> ExportOptions \<Rightarrow> string list \<Rightarrow> ('st, ExportedApp \<times> error option) go" where
  "appExport mk LoadHeight height forZeroHeight jailAllowedAddrs appOpts modulesToExport =
     (case xoHome appOpts of
        StringValue (c # cs) \<Rightarrow>
          (if \<not> xoIsViper appOpts then ret (no_export, Some (Errorf ''appOpts is not viper.Viper''))
           else if height \<noteq> - 1 then
             bind (mk False) (\<lambda>bApp s.
               case LoadHeight bApp height s of
                 (Err e, s') \<Rightarrow> (Ok (no_export, Some e), s')
               | (Panic t, s') \<Rightarrow> (Panic t, s')
               | (Ok _, s') \<Rightarrow> ExportAppStateAndValidators bApp forZeroHeight jailAllowedAddrs modulesToExport s')
           else
             bind (mk True) (\<lambda>bApp. ExportAppStateAndValidators bApp forZeroHeight jailAllowedAddrs modulesToExport))
      | _ \<Rightarrow> ret (no_export, Some (Errorf ''application home not set'')))"

text \<open>Without a home directory nothing is built, loaded or exported.\<close>

lemma appExport_needs_home:
  assumes "\<And>h. h \<noteq> [] \<Longrightarrow> xoHome appOpts \<noteq> StringValue h"
  shows "appExport mk LoadHeight height z allowed appOpts modules s =
    (Ok (no_export, Some (Errorf ''application home not set'')), s)"
  using assms by (auto simp: appExport_def split: opt_value.split list.split)

text \<open>A height that does not load is reported, and nothing is exported.\<close>

lemma appExport_bad_height:
  assumes "xoHome appOpts = StringValue (c # cs)" and "xoIsViper appOpts" and "height \<noteq> - 1"
    and "mk False s = (Ok app, s1)" and "LoadHeight app height s1 = (Err e, s2)"
  shows "appExport mk LoadHeight height z allowed appOpts modules s = (Ok (no_export, Some e), s2)"
  using assms by (simp add: appExport_def bind_def)

section \<open>Store keys and subspaces\<close>

text \<open>A store key is of some kind; \<open>GetKey\<close> gives it back only if it is a KV store's.\<close>

datatype 'k store_key = KVStoreKey 'k | OtherStoreKey | NoStoreKey

definition GetKey :: "(string \<Rightarrow> 'k store_key) \<Rightarrow> string \<Rightarrow> 'k option" where
  "GetKey UnsafeFindStoreKey storeKey =
     (case UnsafeFindStoreKey storeKey of KVStoreKey k \<Rightarrow> Some k | _ \<Rightarrow> None)"

definition GetSubspace :: "(string \<Rightarrow> 'sub \<times> bool) \<Rightarrow> string \<Rightarrow> 'sub" where
  "GetSubspace params_GetSubspace moduleName = fst (params_GetSubspace moduleName)"

end
