(* ===== verification/Ibc.thy ===== *)
theory Ibc
  imports App Daemon
begin

text \<open>
  The IBC modules, which the application builds by hand (\<open>app/ibc.go\<close>): their stores, parameter
  subspaces, keepers, the routers that lead a packet to its module, and the modules themselves.
  Values of types of other packages are opaque (\<open>'v\<close>); what makes or changes them is a
  parameter.
\<close>

section \<open>Names\<close>

text \<open>
  The other constants of IBC packages; \<open>istr\<close>, a parameter, gives their values. (A store key may
  have the value of a module name.)
\<close>

datatype ibcname =
    ibcexported_StoreKey | ibctransfertypes_StoreKey | icahosttypes_StoreKey | icacontrollertypes_StoreKey
  | icacontrollertypes_SubModuleName | icahosttypes_SubModuleName | ibctransfertypes_PortID

section \<open>What the code calls\<close>

record ('st, 'v) IbcOps =
  RegisterStores :: "string list \<Rightarrow> ('st, unit) go"
  UnsafeFindStoreKey :: "'st \<Rightarrow> string \<Rightarrow> 'v store_key"
  \<comment> \<open>legacy parameters\<close>
  ibcclient_ParamKeyTable :: 'v
  ibcconnection_Params :: 'v
  ibctransfer_ParamKeyTable :: 'v
  icacontroller_ParamKeyTable :: 'v
  icahost_ParamKeyTable :: 'v
  RegisterParamSet :: "'v \<Rightarrow> 'v \<Rightarrow> ('st, unit) go"
  Subspace :: "string \<Rightarrow> ('st, 'v) go"
  WithKeyTable :: "'v \<Rightarrow> 'v \<Rightarrow> ('st, unit) go"
  ParamsKeeper_GetSubspace :: "'st \<Rightarrow> string \<Rightarrow> 'v \<times> bool"
  \<comment> \<open>addresses, routers and stores of the runtime\<close>
  NewModuleAddr :: "string \<Rightarrow> bytes"
  AddressCodec_BytesToString :: "bytes \<Rightarrow> error + string"
  NewKVStoreService :: "'v option \<Rightarrow> 'v"
  MsgServiceRouter :: "'st \<Rightarrow> 'v"
  GRPCQueryRouter :: "'st \<Rightarrow> 'v"
  \<comment> \<open>keepers\<close>
  ibckeeper_NewKeeper :: "'v \<Rightarrow> 'v \<Rightarrow> 'v \<Rightarrow> 'v \<Rightarrow> string \<Rightarrow> ('st, 'v) go"
  ChannelKeeper :: "'v \<Rightarrow> 'v"
  ClientKeeper :: "'v \<Rightarrow> 'v"
  ibctransferkeeper_NewKeeper :: "'v \<Rightarrow> 'v \<Rightarrow> 'v \<Rightarrow> 'v \<Rightarrow> 'v \<Rightarrow> 'v \<Rightarrow> 'v \<Rightarrow> 'v \<Rightarrow> string \<Rightarrow> ('st, 'v) go"
  icahostkeeper_NewKeeper :: "'v \<Rightarrow> 'v \<Rightarrow> 'v \<Rightarrow> 'v \<Rightarrow> 'v \<Rightarrow> 'v \<Rightarrow> 'v \<Rightarrow> 'v \<Rightarrow> string \<Rightarrow> ('st, 'v) go"
  icacontrollerkeeper_NewKeeper :: "'v \<Rightarrow> 'v \<Rightarrow> 'v \<Rightarrow> 'v \<Rightarrow> 'v \<Rightarrow> 'v \<Rightarrow> string \<Rightarrow> ('st, 'v) go"
  \<comment> \<open>stacks and routers\<close>
  ibctransfer_NewIBCModule :: "'v \<Rightarrow> 'v"
  ibctransferv2_NewIBCModule :: "'v \<Rightarrow> 'v"
  icacontroller_NewIBCMiddleware :: "'v \<Rightarrow> 'v"
  icahost_NewIBCModule :: "'v \<Rightarrow> 'v"
  porttypes_NewRouter :: 'v
  port_AddRoute :: "'v \<Rightarrow> string \<Rightarrow> 'v \<Rightarrow> ('st, 'v) go"
  ibcapi_NewRouter :: 'v
  ibcapi_AddRoute :: "'v \<Rightarrow> string \<Rightarrow> 'v \<Rightarrow> ('st, 'v) go"
  SetRouter :: "'v \<Rightarrow> 'v \<Rightarrow> ('st, unit) go"
  SetRouterV2 :: "'v \<Rightarrow> 'v \<Rightarrow> ('st, unit) go"
  GetStoreProvider :: "'v \<Rightarrow> 'v"
  ibctm_NewLightClientModule :: "'v \<Rightarrow> 'v \<Rightarrow> 'v"
  solomachine_NewLightClientModule :: "'v \<Rightarrow> 'v \<Rightarrow> 'v"
  client_AddRoute :: "'v \<Rightarrow> string \<Rightarrow> 'v \<Rightarrow> ('st, unit) go"
  \<comment> \<open>modules\<close>
  ibc_NewAppModule :: "'v \<Rightarrow> 'v"
  ibctransfer_NewAppModule :: "'v \<Rightarrow> 'v"
  icamodule_NewAppModule :: "'v \<Rightarrow> 'v \<Rightarrow> 'v"
  ibctm_NewAppModule :: "'v \<Rightarrow> 'v"
  solomachine_NewAppModule :: "'v \<Rightarrow> 'v"
  RegisterModules :: "'v list \<Rightarrow> ('st, unit) go"

text \<open>
  The struct \<open>App\<close>: what dependency injection fills in, the IBC keepers and the simulation
  manager, which are set later, and the runtime below it (\<open>rt\<close>, with the stores and modules).
\<close>

record 'v Injected =
  appBuilder :: 'v
  appModules :: 'v
  appCodec :: 'v
  legacyAmino :: 'v
  txConfig :: 'v
  interfaceRegistry :: 'v
  AuthKeeper :: 'v
  xBankKeeper :: 'v
  StakingKeeper :: 'v
  SlashingKeeper :: 'v
  MintKeeper :: 'v
  DistrKeeper :: 'v
  GovKeeper :: 'v
  UpgradeKeeper :: 'v
  AuthzKeeper :: 'v
  ConsensusParamsKeeper :: 'v
  CircuitBreakerKeeper :: 'v
  ParamsKeeper :: 'v
  UndoKeeper :: 'v

record ('st, 'v) Application =
  rt :: 'st
  injected :: "'v Injected option"
  IBCKeeper :: "'v option"
  ICAControllerKeeper :: "'v option"
  ICAHostKeeper :: "'v option"
  TransferKeeper :: "'v option"
  sm :: "'v option"

definition GetIBCKeeper :: "('st, 'v) Application \<Rightarrow> 'v option" where
  "GetIBCKeeper app = IBCKeeper app"

text \<open>A call of the runtime from the application, and an assignment to a field.\<close>

definition on_rt :: "('st, 'a) go \<Rightarrow> (('st, 'v) Application, 'a) go" where
  "on_rt m app = (case m (rt app) of (r, s') \<Rightarrow> (r, app\<lparr>rt := s'\<rparr>))"

definition assign :: "('s \<Rightarrow> 's) \<Rightarrow> ('s, unit) go" where
  "assign f s = (Ok (), f s)"

section \<open>Registration\<close>

text \<open>The key tables of the legacy subspaces.\<close>

definition ibc_subspaces :: "('st, 'v) IbcOps \<Rightarrow> (modname \<Rightarrow> string) \<Rightarrow> (ibcname \<Rightarrow> string) \<Rightarrow> ('st, unit) go" where
  "ibc_subspaces X str istr =
     (let keyTable = ibcclient_ParamKeyTable X in
      bind (RegisterParamSet X keyTable (ibcconnection_Params X)) (\<lambda>_.
      bind (Subspace X (str ibcexported_ModuleName)) (\<lambda>sub.
      bind (WithKeyTable X sub keyTable) (\<lambda>_.
      bind (Subspace X (str ibctransfertypes_ModuleName)) (\<lambda>sub.
      bind (WithKeyTable X sub (ibctransfer_ParamKeyTable X)) (\<lambda>_.
      bind (Subspace X (istr icacontrollertypes_SubModuleName)) (\<lambda>sub.
      bind (WithKeyTable X sub (icacontroller_ParamKeyTable X)) (\<lambda>_.
      bind (Subspace X (istr icahosttypes_SubModuleName)) (\<lambda>sub.
      WithKeyTable X sub (icahost_ParamKeyTable X))))))))))"

text \<open>
  What a keeper is built on: the store service of a key and the subspace of a name, as the
  application finds them now.
\<close>

definition kv_service :: "('st, 'v) IbcOps \<Rightarrow> string \<Rightarrow> 'st \<Rightarrow> 'v" where
  "kv_service X key s = NewKVStoreService X (GetKey (UnsafeFindStoreKey X s) key)"

definition subspace_of :: "('st, 'v) IbcOps \<Rightarrow> string \<Rightarrow> 'st \<Rightarrow> 'v" where
  "subspace_of X name s = GetSubspace (ParamsKeeper_GetSubspace X s) name"

text \<open>The four keepers, each assigned to its field once it is built.\<close>

definition ibc_keepers ::
  "('st, 'v) IbcOps \<Rightarrow> (modname \<Rightarrow> string) \<Rightarrow> (ibcname \<Rightarrow> string) \<Rightarrow> 'v Injected \<Rightarrow> string \<Rightarrow>
   (('st, 'v) Application, 'v \<times> 'v \<times> 'v \<times> 'v) go" where
  "ibc_keepers X str istr deps govModuleAddr =
     bind (on_rt (\<lambda>s. ibckeeper_NewKeeper X (appCodec deps) (kv_service X (istr ibcexported_StoreKey) s)
            (subspace_of X (str ibcexported_ModuleName) s) (UpgradeKeeper deps) govModuleAddr s)) (\<lambda>ibc.
     bind (assign (\<lambda>app. app\<lparr>IBCKeeper := Some ibc\<rparr>)) (\<lambda>_.
     bind (on_rt (\<lambda>s. ibctransferkeeper_NewKeeper X (appCodec deps) (kv_service X (istr ibctransfertypes_StoreKey) s)
            (subspace_of X (str ibctransfertypes_ModuleName) s) (ChannelKeeper X ibc) (ChannelKeeper X ibc)
            (MsgServiceRouter X s) (AuthKeeper deps) (xBankKeeper deps) govModuleAddr s)) (\<lambda>transfer.
     bind (assign (\<lambda>app. app\<lparr>TransferKeeper := Some transfer\<rparr>)) (\<lambda>_.
     bind (on_rt (\<lambda>s. icahostkeeper_NewKeeper X (appCodec deps) (kv_service X (istr icahosttypes_StoreKey) s)
            (subspace_of X (istr icahosttypes_SubModuleName) s) (ChannelKeeper X ibc) (ChannelKeeper X ibc)
            (AuthKeeper deps) (MsgServiceRouter X s) (GRPCQueryRouter X s) govModuleAddr s)) (\<lambda>host.
     bind (assign (\<lambda>app. app\<lparr>ICAHostKeeper := Some host\<rparr>)) (\<lambda>_.
     bind (on_rt (\<lambda>s. icacontrollerkeeper_NewKeeper X (appCodec deps) (kv_service X (istr icacontrollertypes_StoreKey) s)
            (subspace_of X (istr icacontrollertypes_SubModuleName) s) (ChannelKeeper X ibc) (ChannelKeeper X ibc)
            (MsgServiceRouter X s) govModuleAddr s)) (\<lambda>controller.
     bind (assign (\<lambda>app. app\<lparr>ICAControllerKeeper := Some controller\<rparr>)) (\<lambda>_.
     ret (ibc, transfer, host, controller)))))))))"

text \<open>The routers, of both versions, set on the keeper.\<close>

definition ibc_routers ::
  "('st, 'v) IbcOps \<Rightarrow> (modname \<Rightarrow> string) \<Rightarrow> (ibcname \<Rightarrow> string) \<Rightarrow> 'v \<times> 'v \<times> 'v \<times> 'v \<Rightarrow> ('st, unit) go" where
  "ibc_routers X str istr = (\<lambda>(ibc, transfer, host, controller).
     let transferStack = ibctransfer_NewIBCModule X transfer;
         transferStackV2 = ibctransferv2_NewIBCModule X transfer;
         icaControllerStack = icacontroller_NewIBCMiddleware X controller;
         icaHostStack = icahost_NewIBCModule X host in
     bind (port_AddRoute X (porttypes_NewRouter X) (str ibctransfertypes_ModuleName) transferStack) (\<lambda>r.
     bind (port_AddRoute X r (istr icacontrollertypes_SubModuleName) icaControllerStack) (\<lambda>r.
     bind (port_AddRoute X r (istr icahosttypes_SubModuleName) icaHostStack) (\<lambda>ibcRouter.
     bind (ibcapi_AddRoute X (ibcapi_NewRouter X) (istr ibctransfertypes_PortID) transferStackV2) (\<lambda>ibcv2Router.
     bind (SetRouter X ibc ibcRouter) (\<lambda>_.
     SetRouterV2 X ibc ibcv2Router))))))"

text \<open>The light clients and the modules.\<close>

definition ibc_modules ::
  "('st, 'v) IbcOps \<Rightarrow> (modname \<Rightarrow> string) \<Rightarrow> 'v Injected \<Rightarrow> 'v \<times> 'v \<times> 'v \<times> 'v \<Rightarrow> ('st, unit) go" where
  "ibc_modules X str deps = (\<lambda>(ibc, transfer, host, controller).
     let clientKeeper = ClientKeeper X ibc;
         storeProvider = GetStoreProvider X clientKeeper;
         tmLightClientModule = ibctm_NewLightClientModule X (appCodec deps) storeProvider;
         soloLightClientModule = solomachine_NewLightClientModule X (appCodec deps) storeProvider in
     bind (client_AddRoute X clientKeeper (str ibctm_ModuleName) tmLightClientModule) (\<lambda>_.
     bind (client_AddRoute X clientKeeper (str solomachine_ModuleName) soloLightClientModule) (\<lambda>_.
     RegisterModules X
       [ibc_NewAppModule X ibc, ibctransfer_NewAppModule X transfer, icamodule_NewAppModule X controller host,
        ibctm_NewAppModule X tmLightClientModule, solomachine_NewAppModule X soloLightClientModule])))"

text \<open>The error of \<open>BytesToString\<close> is dropped: the address is empty then.\<close>

definition registerIBCModules ::
  "('st, 'v) IbcOps \<Rightarrow> (modname \<Rightarrow> string) \<Rightarrow> (ibcname \<Rightarrow> string) \<Rightarrow> 'v Injected \<Rightarrow> (('st, 'v) Application, unit) go" where
  "registerIBCModules X str istr deps =
     bind (on_rt (RegisterStores X [istr ibcexported_StoreKey, istr ibctransfertypes_StoreKey,
            istr icahosttypes_StoreKey, istr icacontrollertypes_StoreKey])) (\<lambda>_.
     bind (on_rt (ibc_subspaces X str istr)) (\<lambda>_.
     let govModuleAddr = (case AddressCodec_BytesToString X (NewModuleAddr X (str govtypes_ModuleName)) of
                            Inl _ \<Rightarrow> '''' | Inr a \<Rightarrow> a) in
     bind (ibc_keepers X str istr deps govModuleAddr) (\<lambda>keepers.
     bind (on_rt (ibc_routers X str istr keepers)) (\<lambda>_.
     on_rt (ibc_modules X str deps keepers)))))"

section \<open>The modules on the client's side\<close>

text \<open>
  \<open>RegisterIBC\<close>: modules over empty keepers, by name, each asked to register its interfaces if it
  can (\<open>RegisterInterfaces\<close> is None for a module that is no \<open>AppModuleBasic\<close>). Go visits a map in
  any order; the order of the list stands for it.
\<close>

record ('st, 'v) ClientOps =
  ibc_zero :: 'v
  transfer_zero :: 'v
  controller_zero :: 'v
  host_zero :: 'v
  store_provider_zero :: 'v
  RegisterInterfaces :: "'v \<Rightarrow> (('v \<Rightarrow> ('st, unit) go)) option"
  InterfaceRegistryOf :: "'v \<Rightarrow> 'v"

definition ibc_client_modules ::
  "('st, 'v) IbcOps \<Rightarrow> ('st, 'v) ClientOps \<Rightarrow> (modname \<Rightarrow> string) \<Rightarrow> 'v \<Rightarrow> (string \<times> 'v) list" where
  "ibc_client_modules X Y str codec =
     [(str ibcexported_ModuleName, ibc_NewAppModule X (ibc_zero Y)),
      (str ibctransfertypes_ModuleName, ibctransfer_NewAppModule X (transfer_zero Y)),
      (str icatypes_ModuleName, icamodule_NewAppModule X (controller_zero Y) (host_zero Y)),
      (str ibctm_ModuleName, ibctm_NewAppModule X (ibctm_NewLightClientModule X codec (store_provider_zero Y))),
      (str solomachine_ModuleName,
       solomachine_NewAppModule X (solomachine_NewLightClientModule X codec (store_provider_zero Y)))]"

definition RegisterIBC ::
  "('st, 'v) IbcOps \<Rightarrow> ('st, 'v) ClientOps \<Rightarrow> (modname \<Rightarrow> string) \<Rightarrow> 'v \<Rightarrow> ('st, (string \<times> 'v) list) go" where
  "RegisterIBC X Y str codec =
     (let modules = ibc_client_modules X Y str codec in
      bind (go_for (\<lambda>(name, m). case RegisterInterfaces Y m of
              Some register \<Rightarrow> register (InterfaceRegistryOf Y codec) | None \<Rightarrow> ret ()) modules) (\<lambda>_.
      ret modules))"

end
