(* ===== verification/NewApp.thy ===== *)
theory NewApp
  imports Ibc
begin

text \<open>
  The application itself (\<open>app/app.go\<close>): its configuration for dependency injection, \<open>New\<close>, what it
  runs when a chain starts, and the HTTP routes it adds (\<open>RegisterAPIRoutes\<close>, \<open>docs/docs.go\<close>).
\<close>

section \<open>Configuration\<close>

record 'v DiConfig =
  diModules :: "(string \<times> module_config) list"
  diBasics :: "(string \<times> 'v) list"

text \<open>\<open>AppConfig\<close>: the modules, and genutil's basic module with the default message validator.\<close>

definition AppConfig :: "(modname \<Rightarrow> string) \<Rightarrow> ('v \<Rightarrow> 'v) \<Rightarrow> 'v \<Rightarrow> 'v DiConfig" where
  "AppConfig str genutil_NewAppModuleBasic DefaultMessageValidator =
     \<lparr>diModules = appConfig str,
      diBasics = [(str genutiltypes_ModuleName, genutil_NewAppModuleBasic DefaultMessageValidator)]\<rparr>"

text \<open>
  What \<open>New\<close> calls. \<open>'cx\<close> is the state a started chain has (\<open>sdk.Context\<close>). \<open>Inject\<close> is given the
  configuration, the options, the logger and the getter of the IBC keeper; \<open>auth_NewAppModule\<close> is
  auth's module with random genesis accounts and no legacy subspace.
\<close>

record ('st, 'v, 'cx, 'req, 'resp) AppOps =
  Inject :: "'v DiConfig \<Rightarrow> 'v \<Rightarrow> 'v \<Rightarrow> (('st, 'v) Application \<Rightarrow> 'v option) \<Rightarrow> ('st, 'v Injected) go"
  genutil_NewAppModuleBasic :: "'v \<Rightarrow> 'v"
  DefaultMessageValidator :: 'v
  SetOptimisticExecution :: 'v
  Build :: "'v \<Rightarrow> 'v \<Rightarrow> 'v \<Rightarrow> 'v list \<Rightarrow> ('st, unit) go"
  auth_NewAppModule :: "'v \<Rightarrow> 'v \<Rightarrow> 'v"
  ModuleManager_Modules :: "'st \<Rightarrow> 'v"
  NewSimulationManagerFromAppModules :: "'v \<Rightarrow> (string \<times> 'v) list \<Rightarrow> ('st, 'v) go"
  RegisterStoreDecoders :: "'v \<Rightarrow> ('st, unit) go"
  SetInitChainer :: "('req \<Rightarrow> ('cx, 'resp) go) \<Rightarrow> ('st, unit) go"
  Load :: "bool \<Rightarrow> ('st, unit) go"
  UpgradeKeeper_SetModuleVersionMap :: "'v \<Rightarrow> 'v \<Rightarrow> ('cx, unit) go"
  ModuleManager_GetVersionMap :: "'cx \<Rightarrow> 'v"
  runtime_InitChainer :: "'req \<Rightarrow> ('cx, 'resp) go"

text \<open>The start of a chain: the versions of the modules are recorded, then the runtime starts it.\<close>

definition init_chainer :: "('st, 'v, 'cx, 'req, 'resp) AppOps \<Rightarrow> 'v Injected \<Rightarrow> 'req \<Rightarrow> ('cx, 'resp) go" where
  "init_chainer Z deps req =
     bind (\<lambda>ctx. UpgradeKeeper_SetModuleVersionMap Z (UpgradeKeeper deps) (ModuleManager_GetVersionMap Z ctx) ctx) (\<lambda>_.
     runtime_InitChainer Z req)"

section \<open>New\<close>

definition zero_app :: "'st \<Rightarrow> ('st, 'v) Application" where
  "zero_app s = \<lparr>rt = s, injected = None, IBCKeeper = None, ICAControllerKeeper = None, ICAHostKeeper = None,
     TransferKeeper = None, sm = None\<rparr>"

text \<open>
  \<open>New\<close> works on the zero application. The simulation manager takes every module as it is, with
  auth's random genesis accounts in place of auth's own.
\<close>

definition New ::
  "('st, 'v, 'cx, 'req, 'resp) AppOps \<Rightarrow> ('st, 'v) IbcOps \<Rightarrow> (modname \<Rightarrow> string) \<Rightarrow> (ibcname \<Rightarrow> string) \<Rightarrow>
   'v \<Rightarrow> 'v \<Rightarrow> 'v \<Rightarrow> bool \<Rightarrow> 'v \<Rightarrow> 'v list \<Rightarrow> (('st, 'v) Application, unit) go" where
  "New Z X str istr logger db traceStore loadLatest appOpts baseAppOptions =
     bind (go_must (on_rt (Inject Z (AppConfig str (genutil_NewAppModuleBasic Z) (DefaultMessageValidator Z))
             appOpts logger GetIBCKeeper))) (\<lambda>deps.
     bind (assign (\<lambda>app. app\<lparr>injected := Some deps\<rparr>)) (\<lambda>_.
     let baseAppOptions = baseAppOptions @ [SetOptimisticExecution Z] in
     bind (on_rt (Build Z (appBuilder deps) db traceStore baseAppOptions)) (\<lambda>_.
     bind (go_must (registerIBCModules X str istr deps)) (\<lambda>_.
     let overrideModules = [(str authtypes_ModuleName, auth_NewAppModule Z (appCodec deps) (AuthKeeper deps))] in
     bind (on_rt (\<lambda>s. NewSimulationManagerFromAppModules Z (ModuleManager_Modules Z s) overrideModules s)) (\<lambda>manager.
     bind (assign (\<lambda>app. app\<lparr>sm := Some manager\<rparr>)) (\<lambda>_.
     bind (on_rt (RegisterStoreDecoders Z manager)) (\<lambda>_.
     bind (on_rt (SetInitChainer Z (init_chainer Z deps))) (\<lambda>_.
     go_must (on_rt (Load Z loadLatest))))))))))"

definition SimulationManager :: "('st, 'v) Application \<Rightarrow> 'v option" where
  "SimulationManager app = sm app"

definition LegacyAmino :: "('st, 'v) Application \<Rightarrow> 'v option" where
  "LegacyAmino app = map_option legacyAmino (injected app)"

definition AppCodec :: "('st, 'v) Application \<Rightarrow> 'v option" where
  "AppCodec app = map_option appCodec (injected app)"

definition InterfaceRegistry :: "('st, 'v) Application \<Rightarrow> 'v option" where
  "InterfaceRegistry app = map_option interfaceRegistry (injected app)"

definition TxConfig :: "('st, 'v) Application \<Rightarrow> 'v option" where
  "TxConfig app = map_option txConfig (injected app)"

section \<open>HTTP routes\<close>

text \<open>
  The router is the list of its routes, in the order in which they were added. The template is
  parsed when the handler is made, and executed on every request; the errors of both are
  dropped, but executing a template that did not parse is a nil dereference.
\<close>

datatype ('w, 'v) docs_handler = FileServer 'v | HandlerFunc "('w, unit) go"

definition apiFile :: string where
  "apiFile = ''/static/openapi.json''"

definition indexFile :: string where
  "indexFile = ''template/index.tpl''"

record ('w, 'v, 'tpl) DocsOps =
  Static :: 'v
  ParseFS :: "string \<Rightarrow> error + 'tpl"
  Execute :: "'tpl \<Rightarrow> string \<Rightarrow> string \<Rightarrow> ('w, unit) go"

definition docs_handler :: "('w, 'v, 'tpl) DocsOps \<Rightarrow> string \<Rightarrow> ('w, unit) go" where
  "docs_handler H title =
     (case ParseFS H indexFile of
        Inl _ \<Rightarrow> go_lift (Panic ''nil template'')
      | Inr t \<Rightarrow> go_drop (Execute H t title apiFile))"

definition RegisterOpenAPIService ::
  "('w, 'v, 'tpl) DocsOps \<Rightarrow> string \<Rightarrow> (string \<times> ('w, 'v) docs_handler) list \<Rightarrow> (string \<times> ('w, 'v) docs_handler) list" where
  "RegisterOpenAPIService H appName rtr =
     rtr @ [(apiFile, FileServer (Static H)), (''/'', HandlerFunc (docs_handler H appName))]"

text \<open>
  \<open>RegisterAPIRoutes\<close> on a state with a router: the runtime's routes, then swagger's, whose error
  panics, then the OpenAPI console.
\<close>

definition RegisterAPIRoutes ::
  "('w, 'v, 'tpl) DocsOps \<Rightarrow> ('srv \<Rightarrow> 'cfg \<Rightarrow> ((string \<times> ('w, 'v) docs_handler) list, unit) go) \<Rightarrow>
   ('srv \<Rightarrow> 'cfg \<Rightarrow> ((string \<times> ('w, 'v) docs_handler) list, unit) go) \<Rightarrow> 'srv \<Rightarrow> 'cfg \<Rightarrow>
   ((string \<times> ('w, 'v) docs_handler) list, unit) go" where
  "RegisterAPIRoutes H runtime_RegisterAPIRoutes RegisterSwaggerAPI apiSvr apiConfig =
     bind (runtime_RegisterAPIRoutes apiSvr apiConfig) (\<lambda>_.
     bind (go_must (RegisterSwaggerAPI apiSvr apiConfig)) (\<lambda>_.
     assign (RegisterOpenAPIService H Name)))"


section \<open>Start-up\<close>

text \<open>
  The \<open>init\<close> of \<open>app.go\<close>: the prefix of environment variables, and the home directory the
  helper finds for the dotted name, or a panic.
\<close>

definition app_init :: "(string \<Rightarrow> string \<Rightarrow> error + string) \<Rightarrow> (string \<times> string) res" where
  "app_init GetNodeHomeDirectory =
     (let EnvPrefix = Name in
      case GetNodeHomeDirectory EnvPrefix (''.'' @ Name) of
        Inl e \<Rightarrow> Panic (error_text e)
      | Inr DefaultNodeHome \<Rightarrow> Ok (EnvPrefix, DefaultNodeHome))"

end
