(* ===== verification/ConfigCodec.thy ===== *)
theory ConfigCodec
  imports TxCodec Module
begin

text \<open>
  The message that configures the module (\<open>x/undo/types/module.pb.go\<close>). The application puts it into
  its configuration as bytes, and dependency injection reads it from them; one optional string.
\<close>

definition sovModule :: "u64 \<Rightarrow> nat" where
  "sovModule = sov"

definition skipModule :: "bytes \<Rightarrow> int rd" where
  "skipModule = proto_skip"

definition Module_puts :: "ModuleConfig \<Rightarrow> bufop list" where
  "Module_puts m = [put_string 0xa (Authority m)]"

definition Module_MarshalToSizedBuffer :: "ModuleConfig \<Rightarrow> bytes \<Rightarrow> (bytes \<times> nat) res" where
  "Module_MarshalToSizedBuffer m = to_sized_buffer (ops (Module_puts m))"

definition Module_Size :: "ModuleConfig \<Rightarrow> nat" where
  "Module_Size m = (let l = length (Authority m) in if l > 0 then 1 + l + sovModule (of_nat l) else 0)"

definition Module_Marshal :: "ModuleConfig \<Rightarrow> bytes res" where
  "Module_Marshal = proto_marshal Module_Size Module_MarshalToSizedBuffer"

definition Module_field :: "int \<Rightarrow> nat \<Rightarrow> bytes \<Rightarrow> ModuleConfig \<Rightarrow> int \<Rightarrow> (ModuleConfig \<times> int) rd option" where
  "Module_field fieldNum wireType dAtA m iNdEx =
     (if fieldNum = 1 then Some (string_field ''Authority'' wireType dAtA iNdEx (\<lambda>v. m\<lparr>Authority := v\<rparr>)) else None)"

definition Module_Unmarshal :: "ModuleConfig \<Rightarrow> bytes \<Rightarrow> ModuleConfig rd" where
  "Module_Unmarshal = proto_unmarshal (proto_step ''Module'' skipModule Module_field)"

definition Module_zero :: ModuleConfig where
  "Module_zero = \<lparr>Authority = []\<rparr>"

definition Module_fields :: "ModuleConfig \<Rightarrow> ModuleConfig fields" where
  "Module_fields m = string_f 0xa (Authority m) (Authority_update (\<lambda>_. Authority m))"

interpretation config: field_codec Module_fields "\<lambda>m. length (Authority m) < 2 ^ 63" Module_Size Module_puts "''Module''"
  skipModule Module_field Module_zero
proof unfold_locales
  fix m :: ModuleConfig
  assume len: "length (Authority m) < 2 ^ 63"
  show "Module_Size m = length (enc_of (Module_fields m))"
    unfolding Module_fields_def field_sizes(3) [OF len] by (simp add: Module_Size_def sovTx_def sovModule_def Let_def)
  show "writes (ops (Module_puts m)) (enc_of (Module_fields m))"
    unfolding Module_puts_def Module_fields_def by (intro writes_last writes_string63 len)
  show "read_through (proto_step ''Module'' proto_skip Module_field) (Module_fields m) Module_zero"
    unfolding Module_fields_def
    by (intro read_string reads_fieldI [OF tags(6)]) (simp add: Module_field_def string_field_reads)
qed (auto simp: Module_fields_def Module_field_def Module_zero_def skipModule_def string_f_def fields_move_def
    split: if_splits intro: field_moves)

text \<open>What is written of a configuration is read back, and the empty one is no bytes at all.\<close>

lemma config_back:
  assumes "length (enc_of (Module_fields m)) < 2 ^ 63"
  shows "Module_Marshal m = Ok (enc_of (Module_fields m))" and "Module_Unmarshal Module_zero (enc_of (Module_fields m)) = Got m"
proof -
  from assms have "length (Authority m) < 2 ^ 63"
    by (auto simp: Module_fields_def string_f_def enc_of_def delimited_def split: if_splits)
  from config.roundtrip [OF this assms] show "Module_Marshal m = Ok (enc_of (Module_fields m))"
    and "Module_Unmarshal Module_zero (enc_of (Module_fields m)) = Got m"
    by (simp_all add: Module_Marshal_def Module_MarshalToSizedBuffer_def [abs_def] Module_Unmarshal_def)
qed

lemma config_default: "Module_Marshal \<lparr>Authority = []\<rparr> = Ok []" "Module_Unmarshal Module_zero [] = Got \<lparr>Authority = []\<rparr>"
  using config_back [of "\<lparr>Authority = []\<rparr>"] by (simp_all add: Module_fields_def string_f_def enc_of_def)

end
