(* ===== verification/Wiring.thy ===== *)
theory Wiring
  imports NewApp ConfigCodec
begin

text \<open>
  What \<open>New\<close> leaves behind: the contract of the runtime and of the IBC packages (stores that are
  registered are found, a router refuses a name it has), the state of a new application under
  it, a small runtime that meets it; and the configuration of the application read as a whole.
\<close>

section \<open>Contract\<close>

record 'v wiring_view =
  wvStores :: "string set"
  wvRouters :: "'v \<Rightarrow> 'v option"
  wvModules :: "'v list"

locale ibc_contract =
  fixes X :: "('st, 'v) IbcOps" and view :: "'st \<Rightarrow> 'v wiring_view" and routes :: "'v \<Rightarrow> (string \<times> 'v) list"
  assumes register_stores: "acts view (RegisterStores X ks) (\<lambda>v v'. v' = v\<lparr>wvStores := wvStores v \<union> set ks\<rparr>)"
    and find_store: "k \<in> wvStores (view s) \<Longrightarrow> \<exists>key. UnsafeFindStoreKey X s k = KVStoreKey key"
    and new_router: "routes (porttypes_NewRouter X) = []"
    and add_route: "port_AddRoute X r n m s = (Ok r', s') \<Longrightarrow>
      n \<notin> fst ` set (routes r) \<and> routes r' = routes r @ [(n, m)] \<and> view s' = view s"
    and set_router: "acts view (SetRouter X a r) (\<lambda>v v'. v' = v\<lparr>wvRouters := (wvRouters v)(a \<mapsto> r)\<rparr>)"
    and register_modules: "acts view (RegisterModules X ms) (\<lambda>v v'. v' = v\<lparr>wvModules := wvModules v @ ms\<rparr>)"
    and parameters: "keeps view (RegisterParamSet X a b)" "keeps view (Subspace X n)" "keeps view (WithKeyTable X a b)"
    and keepers: "keeps view (ibckeeper_NewKeeper X a1 a2 a3 a4 t)"
      "keeps view (ibctransferkeeper_NewKeeper X a1 a2 a3 a4 a5 a6 a7 a8 t)"
      "keeps view (icahostkeeper_NewKeeper X a1 a2 a3 a4 a5 a6 a7 a8 t)"
      "keeps view (icacontrollerkeeper_NewKeeper X a1 a2 a3 a4 a5 a6 t)"
    and other_routes: "keeps view (ibcapi_AddRoute X a n b)" "keeps view (SetRouterV2 X a b)" "keeps view (client_AddRoute X a n b)"

text \<open>The application's own calls after the IBC modules are registered.\<close>

locale app_contract = ibc_contract X view routes
  for X :: "('st, 'v) IbcOps" and view :: "'st \<Rightarrow> 'v wiring_view" and routes :: "'v \<Rightarrow> (string \<times> 'v) list" +
  fixes Z :: "('st, 'v, 'cx, 'req, 'resp) AppOps"
  assumes later: "keeps view (NewSimulationManagerFromAppModules Z a os)" "keeps view (RegisterStoreDecoders Z a)"
    "keeps view (SetInitChainer Z f)" "keeps view (Load Z b)"

text \<open>The stores, and the routes of version 1, in the order of the code.\<close>

definition ibc_stores :: "(ibcname \<Rightarrow> string) \<Rightarrow> string set" where
  "ibc_stores istr = {istr ibcexported_StoreKey, istr ibctransfertypes_StoreKey,
     istr icahosttypes_StoreKey, istr icacontrollertypes_StoreKey}"

text \<open>
  A wired application: the IBC keepers are in their fields, the IBC keeper has a router that
  leads the three ports to the stacks over those keepers, their stores are registered, and the five
  modules are registered last.
\<close>

definition wired ::
  "('st, 'v) IbcOps \<Rightarrow> ('st \<Rightarrow> 'v wiring_view) \<Rightarrow> ('v \<Rightarrow> (string \<times> 'v) list) \<Rightarrow> (modname \<Rightarrow> string) \<Rightarrow>
   (ibcname \<Rightarrow> string) \<Rightarrow> 'v Injected \<Rightarrow> ('st, 'v) Application \<Rightarrow> bool" where
  "wired X view routes str istr deps app \<longleftrightarrow>
     (\<exists>ibc transfer host controller r ms.
        GetIBCKeeper app = Some ibc \<and> TransferKeeper app = Some transfer \<and>
        ICAHostKeeper app = Some host \<and> ICAControllerKeeper app = Some controller \<and>
        wvRouters (view (rt app)) ibc = Some r \<and>
        routes r = [(str ibctransfertypes_ModuleName, ibctransfer_NewIBCModule X transfer),
          (istr icacontrollertypes_SubModuleName, icacontroller_NewIBCMiddleware X controller),
          (istr icahosttypes_SubModuleName, icahost_NewIBCModule X host)] \<and>
        distinct (map fst (routes r)) \<and>
        ibc_stores istr \<subseteq> wvStores (view (rt app)) \<and>
        wvModules (view (rt app)) = ms @
          [ibc_NewAppModule X ibc, ibctransfer_NewAppModule X transfer, icamodule_NewAppModule X controller host,
           ibctm_NewAppModule X (ibctm_NewLightClientModule X (appCodec deps) (GetStoreProvider X (ClientKeeper X ibc))),
           solomachine_NewAppModule X (solomachine_NewLightClientModule X (appCodec deps) (GetStoreProvider X (ClientKeeper X ibc)))])"

lemma on_rt_Ok [simp]: "on_rt m app = (Ok a, app') \<longleftrightarrow> (\<exists>s'. m (rt app) = (Ok a, s') \<and> app' = app\<lparr>rt := s'\<rparr>)"
  by (auto simp: on_rt_def split: prod.splits)

lemma assign_Ok [simp]: "assign f s = (Ok a, s') \<longleftrightarrow> s' = f s"
  by (auto simp: assign_def)

lemma go_must_Ok [simp]: "go_must m s = (Ok a, s') \<longleftrightarrow> m s = (Ok a, s')"
  by (auto simp: go_must_def split: prod.splits res.splits)

section \<open>The IBC modules\<close>

context ibc_contract
begin

lemma subspaces_keep: "keeps view (ibc_subspaces X str istr)"
  by (simp add: ibc_subspaces_def Let_def keeps_intros parameters)

lemma keepers_set:
  assumes "ibc_keepers X str istr deps t app = (Ok (ibc, transfer, host, controller), app')"
  shows "view (rt app') = view (rt app) \<and> IBCKeeper app' = Some ibc \<and> TransferKeeper app' = Some transfer \<and>
    ICAHostKeeper app' = Some host \<and> ICAControllerKeeper app' = Some controller"
  using assms
  by (auto simp: ibc_keepers_def elim!: bind_OkE dest!: keepers [THEN keepsD])

lemma routers_set:
  assumes "ibc_routers X str istr (ibc, transfer, host, controller) s = (Ok (), s')"
  obtains r where "view s' = (view s)\<lparr>wvRouters := (wvRouters (view s))(ibc \<mapsto> r)\<rparr>"
    and "routes r = [(str ibctransfertypes_ModuleName, ibctransfer_NewIBCModule X transfer),
          (istr icacontrollertypes_SubModuleName, icacontroller_NewIBCMiddleware X controller),
          (istr icahosttypes_SubModuleName, icahost_NewIBCModule X host)]"
    and "distinct (map fst (routes r))"
  using assms
  by (auto simp: ibc_routers_def new_router elim!: bind_OkE
      dest!: add_route other_routes [THEN keepsD] set_router [THEN actsD])

lemma modules_set:
  assumes "ibc_modules X str deps (ibc, transfer, host, controller) s = (Ok (), s')"
  shows "view s' = (view s)\<lparr>wvModules := wvModules (view s) @
    [ibc_NewAppModule X ibc, ibctransfer_NewAppModule X transfer, icamodule_NewAppModule X controller host,
     ibctm_NewAppModule X (ibctm_NewLightClientModule X (appCodec deps) (GetStoreProvider X (ClientKeeper X ibc))),
     solomachine_NewAppModule X (solomachine_NewLightClientModule X (appCodec deps) (GetStoreProvider X (ClientKeeper X ibc)))]\<rparr>"
  using assms
  by (auto simp: ibc_modules_def Let_def elim!: bind_OkE dest!: other_routes [THEN keepsD] register_modules [THEN actsD])

lemma registered:
  assumes "registerIBCModules X str istr deps app = (Ok (), app')"
  shows "wired X view routes str istr deps app'"
proof -
  obtain s1 s2 app3 s4 s5 ibc transfer host controller t where
    1: "RegisterStores X [istr ibcexported_StoreKey, istr ibctransfertypes_StoreKey,
            istr icahosttypes_StoreKey, istr icacontrollertypes_StoreKey] (rt app) = (Ok (), s1)"
    and 2: "ibc_subspaces X str istr s1 = (Ok (), s2)"
    and 3: "ibc_keepers X str istr deps t (app\<lparr>rt := s2\<rparr>) = (Ok (ibc, transfer, host, controller), app3)"
    and 4: "ibc_routers X str istr (ibc, transfer, host, controller) (rt app3) = (Ok (), s4)"
    and 5: "ibc_modules X str deps (ibc, transfer, host, controller) s4 = (Ok (), s5)"
    and 6: "app' = app3\<lparr>rt := s5\<rparr>"
    using assms by (auto simp: registerIBCModules_def Let_def elim!: bind_OkE)
  obtain r where r: "view s4 = (view (rt app3))\<lparr>wvRouters := (wvRouters (view (rt app3)))(ibc \<mapsto> r)\<rparr>"
      "routes r = [(str ibctransfertypes_ModuleName, ibctransfer_NewIBCModule X transfer),
          (istr icacontrollertypes_SubModuleName, icacontroller_NewIBCMiddleware X controller),
          (istr icahosttypes_SubModuleName, icahost_NewIBCModule X host)]" "distinct (map fst (routes r))"
    using 4 by (rule routers_set)
  have "ibc_stores istr \<subseteq> wvStores (view s5)"
    using actsD [OF register_stores 1] keepsD [OF subspaces_keep 2] keepers_set [OF 3] modules_set [OF 5] r(1)
    by (simp add: ibc_stores_def)
  then show ?thesis
    using keepers_set [OF 3] modules_set [OF 5] r by (auto simp: wired_def GetIBCKeeper_def 6)
qed

end

lemma wired_keep:
  assumes "wired X view routes str istr deps app" and "view (rt app') = view (rt app)"
    and "IBCKeeper app' = IBCKeeper app" and "TransferKeeper app' = TransferKeeper app"
    and "ICAHostKeeper app' = ICAHostKeeper app" and "ICAControllerKeeper app' = ICAControllerKeeper app"
  shows "wired X view routes str istr deps app'"
  using assms by (simp add: wired_def GetIBCKeeper_def)

section \<open>The application\<close>

context app_contract
begin

lemma stores_found: "wired X view routes str istr deps app \<Longrightarrow> k \<in> ibc_stores istr \<Longrightarrow>
    GetKey (UnsafeFindStoreKey X (rt app)) k \<noteq> None"
  using find_store by (fastforce simp: GetKey_def wired_def)

lemma New_wired:
  assumes "New Z X str istr logger db ts latest appOpts options app0 = (Ok (), app)"
  obtains deps where "injected app = Some deps" and "SimulationManager app \<noteq> None"
    and "wired X view routes str istr deps app"
proof -
  from assms obtain deps app1 app2 manager s3 s4 s5 s6 where
    1: "registerIBCModules X str istr deps app1 = (Ok (), app2)" and 2: "injected app1 = Some deps"
    and 3: "NewSimulationManagerFromAppModules Z (ModuleManager_Modules Z (rt app2))
        [(str authtypes_ModuleName, auth_NewAppModule Z (appCodec deps) (AuthKeeper deps))] (rt app2) = (Ok manager, s3)"
    and 4: "RegisterStoreDecoders Z manager s3 = (Ok (), s4)"
    and 5: "SetInitChainer Z (init_chainer Z deps) s4 = (Ok (), s5)"
    and 6: "Load Z latest s5 = (Ok (), s6)" and 7: "app = app2\<lparr>rt := s6, sm := Some manager\<rparr>"
    by (auto simp: New_def Let_def elim!: bind_OkE)
  have "wired X view routes str istr deps app"
    by (rule wired_keep [OF registered [OF 1]]) (simp_all add: 7 keepsD [OF later(1) 3]
      keepsD [OF later(2) 4] keepsD [OF later(3) 5] keepsD [OF later(4) 6])
  moreover have "injected app2 = injected app1"
    using 1 by (auto simp: registerIBCModules_def ibc_keepers_def Let_def elim!: bind_OkE)
  ultimately show ?thesis
    using that 2 by (simp add: SimulationManager_def 7)
qed

end

text \<open>A chain whose module versions cannot be recorded does not start.\<close>

lemma init_chainer_error:
  assumes "UpgradeKeeper_SetModuleVersionMap Z (UpgradeKeeper deps) (ModuleManager_GetVersionMap Z ctx) ctx = (Err e, ctx')"
  shows "init_chainer Z deps req ctx = (Err e, ctx')"
  using assms by (simp add: init_chainer_def bind_def)

section \<open>A small runtime\<close>

text \<open>Opaque values are terms: what made them, from what. Strings are leaves.\<close>

datatype obj = Obj string "obj list"

definition Leaf :: "string \<Rightarrow> obj" where
  "Leaf t = Obj t []"

text \<open>A router is its routes, names and stacks alternating.\<close>

fun demo_routes :: "obj \<Rightarrow> (string \<times> obj) list" where
  "demo_routes (Obj t (Obj n _ # m # rest)) = (n, m) # demo_routes (Obj t rest)"
| "demo_routes _ = []"

fun demo_AddRoute :: "obj \<Rightarrow> string \<Rightarrow> obj \<Rightarrow> ('s, obj) go" where
  "demo_AddRoute (Obj t args) n m s =
     (if t = ''router'' \<and> even (length args) then
        (if n \<in> fst ` set (demo_routes (Obj t args)) then (Panic ''route has already been registered'', s)
         else (Ok (Obj t (args @ [Leaf n, m])), s))
      else (Panic ''no router'', s))"

definition demo_ibc :: "(obj wiring_view, obj) IbcOps" where
  "demo_ibc = \<lparr>
     RegisterStores = (\<lambda>ks v. (Ok (), v\<lparr>wvStores := wvStores v \<union> set ks\<rparr>)),
     UnsafeFindStoreKey = (\<lambda>v k. if k \<in> wvStores v then KVStoreKey (Leaf k) else NoStoreKey),
     ibcclient_ParamKeyTable = Leaf ''clients'', ibcconnection_Params = Leaf ''connections'',
     ibctransfer_ParamKeyTable = Leaf ''transfers'', icacontroller_ParamKeyTable = Leaf ''controllers'',
     icahost_ParamKeyTable = Leaf ''hosts'',
     RegisterParamSet = (\<lambda>a b. ret ()), Subspace = (\<lambda>n. ret (Leaf n)), WithKeyTable = (\<lambda>a b. ret ()),
     ParamsKeeper_GetSubspace = (\<lambda>v n. (Leaf n, True)),
     NewModuleAddr = (\<lambda>n. []), AddressCodec_BytesToString = (\<lambda>b. Inr ''gov address''),
     NewKVStoreService = (\<lambda>k. Obj ''service'' (case k of None \<Rightarrow> [] | Some x \<Rightarrow> [x])),
     MsgServiceRouter = (\<lambda>v. Leaf ''messages''), GRPCQueryRouter = (\<lambda>v. Leaf ''queries''),
     ibckeeper_NewKeeper = (\<lambda>a b c d t. ret (Obj ''ibc'' [b, c])),
     ChannelKeeper = (\<lambda>a. Obj ''channels'' [a]), ClientKeeper = (\<lambda>a. Obj ''clients'' [a]),
     ibctransferkeeper_NewKeeper = (\<lambda>a b c d e f g h t. ret (Obj ''transfer'' [b, c, d])),
     icahostkeeper_NewKeeper = (\<lambda>a b c d e f g h t. ret (Obj ''host'' [b, c, d])),
     icacontrollerkeeper_NewKeeper = (\<lambda>a b c d e f t. ret (Obj ''controller'' [b, c, d])),
     ibctransfer_NewIBCModule = (\<lambda>a. Obj ''transfer stack'' [a]),
     ibctransferv2_NewIBCModule = (\<lambda>a. Obj ''transfer stack 2'' [a]),
     icacontroller_NewIBCMiddleware = (\<lambda>a. Obj ''controller stack'' [a]),
     icahost_NewIBCModule = (\<lambda>a. Obj ''host stack'' [a]),
     porttypes_NewRouter = Leaf ''router'', port_AddRoute = demo_AddRoute,
     ibcapi_NewRouter = Leaf ''router'', ibcapi_AddRoute = demo_AddRoute,
     SetRouter = (\<lambda>k r v. (Ok (), v\<lparr>wvRouters := (wvRouters v)(k \<mapsto> r)\<rparr>)),
     SetRouterV2 = (\<lambda>k r. ret ()), GetStoreProvider = (\<lambda>a. Obj ''provider'' [a]),
     ibctm_NewLightClientModule = (\<lambda>a b. Obj ''tendermint'' [a, b]),
     solomachine_NewLightClientModule = (\<lambda>a b. Obj ''solomachine'' [a, b]),
     client_AddRoute = (\<lambda>a n b. ret ()),
     ibc_NewAppModule = (\<lambda>a. Obj ''module'' [a]), ibctransfer_NewAppModule = (\<lambda>a. Obj ''module'' [a]),
     icamodule_NewAppModule = (\<lambda>a b. Obj ''module'' [a, b]), ibctm_NewAppModule = (\<lambda>a. Obj ''module'' [a]),
     solomachine_NewAppModule = (\<lambda>a. Obj ''module'' [a]),
     RegisterModules = (\<lambda>ms v. (Ok (), v\<lparr>wvModules := wvModules v @ ms\<rparr>))\<rparr>"

definition demo_deps :: "obj Injected" where
  "demo_deps = \<lparr>appBuilder = Leaf ''builder'', appModules = Leaf ''modules'', appCodec = Leaf ''codec'',
     legacyAmino = Leaf ''amino'', txConfig = Leaf ''tx config'', interfaceRegistry = Leaf ''interfaces'',
     AuthKeeper = Leaf ''auth'', xBankKeeper = Leaf ''bank'', StakingKeeper = Leaf ''staking'',
     SlashingKeeper = Leaf ''slashing'', MintKeeper = Leaf ''mint'', DistrKeeper = Leaf ''distribution'',
     GovKeeper = Leaf ''gov'', UpgradeKeeper = Leaf ''upgrade'', AuthzKeeper = Leaf ''authz'',
     ConsensusParamsKeeper = Leaf ''consensus'', CircuitBreakerKeeper = Leaf ''circuit'',
     ParamsKeeper = Leaf ''params'', UndoKeeper = Leaf ''undo''\<rparr>"

definition demo_app_ops :: "(obj wiring_view, obj, unit, unit, unit) AppOps" where
  "demo_app_ops = \<lparr>Inject = (\<lambda>c opts l g. ret demo_deps), genutil_NewAppModuleBasic = (\<lambda>a. a),
     DefaultMessageValidator = Leaf ''validator'', SetOptimisticExecution = Leaf ''optimistic'',
     Build = (\<lambda>a b c os. ret ()), auth_NewAppModule = (\<lambda>a b. Obj ''auth module'' [a, b]),
     ModuleManager_Modules = (\<lambda>v. Obj ''modules'' (wvModules v)),
     NewSimulationManagerFromAppModules = (\<lambda>a os. ret (Obj ''simulation'' [a])),
     RegisterStoreDecoders = (\<lambda>a. ret ()), SetInitChainer = (\<lambda>f. ret ()), Load = (\<lambda>b. ret ()),
     UpgradeKeeper_SetModuleVersionMap = (\<lambda>a b. ret ()), ModuleManager_GetVersionMap = (\<lambda>c. Leaf ''versions''),
     runtime_InitChainer = (\<lambda>r. ret ())\<rparr>"

lemma demo_ops:
  shows "RegisterStores demo_ibc = (\<lambda>ks v. (Ok (), v\<lparr>wvStores := wvStores v \<union> set ks\<rparr>))"
    and "UnsafeFindStoreKey demo_ibc = (\<lambda>v k. if k \<in> wvStores v then KVStoreKey (Leaf k) else NoStoreKey)"
    and "ibcclient_ParamKeyTable demo_ibc = Leaf ''clients''"
    and "ibcconnection_Params demo_ibc = Leaf ''connections''"
    and "ibctransfer_ParamKeyTable demo_ibc = Leaf ''transfers''"
    and "icacontroller_ParamKeyTable demo_ibc = Leaf ''controllers''"
    and "icahost_ParamKeyTable demo_ibc = Leaf ''hosts''"
    and "RegisterParamSet demo_ibc = (\<lambda>a b. ret ())"
    and "Subspace demo_ibc = (\<lambda>n. ret (Leaf n))"
    and "WithKeyTable demo_ibc = (\<lambda>a b. ret ())"
    and "ParamsKeeper_GetSubspace demo_ibc = (\<lambda>v n. (Leaf n, True))"
    and "NewModuleAddr demo_ibc = (\<lambda>n. [])"
    and "AddressCodec_BytesToString demo_ibc = (\<lambda>b. Inr ''gov address'')"
    and "NewKVStoreService demo_ibc = (\<lambda>k. Obj ''service'' (case k of None \<Rightarrow> [] | Some x \<Rightarrow> [x]))"
    and "MsgServiceRouter demo_ibc = (\<lambda>v. Leaf ''messages'')"
    and "GRPCQueryRouter demo_ibc = (\<lambda>v. Leaf ''queries'')"
    and "ibckeeper_NewKeeper demo_ibc = (\<lambda>a b c d t. ret (Obj ''ibc'' [b, c]))"
    and "ChannelKeeper demo_ibc = (\<lambda>a. Obj ''channels'' [a])"
    and "ClientKeeper demo_ibc = (\<lambda>a. Obj ''clients'' [a])"
    and "ibctransferkeeper_NewKeeper demo_ibc = (\<lambda>a b c d e f g h t. ret (Obj ''transfer'' [b, c, d]))"
    and "icahostkeeper_NewKeeper demo_ibc = (\<lambda>a b c d e f g h t. ret (Obj ''host'' [b, c, d]))"
    and "icacontrollerkeeper_NewKeeper demo_ibc = (\<lambda>a b c d e f t. ret (Obj ''controller'' [b, c, d]))"
    and "ibctransfer_NewIBCModule demo_ibc = (\<lambda>a. Obj ''transfer stack'' [a])"
    and "ibctransferv2_NewIBCModule demo_ibc = (\<lambda>a. Obj ''transfer stack 2'' [a])"
    and "icacontroller_NewIBCMiddleware demo_ibc = (\<lambda>a. Obj ''controller stack'' [a])"
    and "icahost_NewIBCModule demo_ibc = (\<lambda>a. Obj ''host stack'' [a])"
    and "porttypes_NewRouter demo_ibc = Leaf ''router''"
    and "port_AddRoute demo_ibc = demo_AddRoute"
    and "ibcapi_NewRouter demo_ibc = Leaf ''router''"
    and "ibcapi_AddRoute demo_ibc = demo_AddRoute"
    and "SetRouter demo_ibc = (\<lambda>k r v. (Ok (), v\<lparr>wvRouters := (wvRouters v)(k \<mapsto> r)\<rparr>))"
    and "SetRouterV2 demo_ibc = (\<lambda>k r. ret ())"
    and "GetStoreProvider demo_ibc = (\<lambda>a. Obj ''provider'' [a])"
    and "ibctm_NewLightClientModule demo_ibc = (\<lambda>a b. Obj ''tendermint'' [a, b])"
    and "solomachine_NewLightClientModule demo_ibc = (\<lambda>a b. Obj ''solomachine'' [a, b])"
    and "client_AddRoute demo_ibc = (\<lambda>a n b. ret ())"
    and "ibc_NewAppModule demo_ibc = (\<lambda>a. Obj ''module'' [a])"
    and "ibctransfer_NewAppModule demo_ibc = (\<lambda>a. Obj ''module'' [a])"
    and "icamodule_NewAppModule demo_ibc = (\<lambda>a b. Obj ''module'' [a, b])"
    and "ibctm_NewAppModule demo_ibc = (\<lambda>a. Obj ''module'' [a])"
    and "solomachine_NewAppModule demo_ibc = (\<lambda>a. Obj ''module'' [a])"
    and "RegisterModules demo_ibc = (\<lambda>ms v. (Ok (), v\<lparr>wvModules := wvModules v @ ms\<rparr>))"
    and "Inject demo_app_ops = (\<lambda>c opts l g. ret demo_deps)"
    and "genutil_NewAppModuleBasic demo_app_ops = (\<lambda>a. a)"
    and "DefaultMessageValidator demo_app_ops = Leaf ''validator''"
    and "SetOptimisticExecution demo_app_ops = Leaf ''optimistic''"
    and "Build demo_app_ops = (\<lambda>a b c os. ret ())"
    and "auth_NewAppModule demo_app_ops = (\<lambda>a b. Obj ''auth module'' [a, b])"
    and "ModuleManager_Modules demo_app_ops = (\<lambda>v. Obj ''modules'' (wvModules v))"
    and "NewSimulationManagerFromAppModules demo_app_ops = (\<lambda>a os. ret (Obj ''simulation'' [a]))"
    and "RegisterStoreDecoders demo_app_ops = (\<lambda>a. ret ())"
    and "SetInitChainer demo_app_ops = (\<lambda>f. ret ())"
    and "Load demo_app_ops = (\<lambda>b. ret ())"
    and "UpgradeKeeper_SetModuleVersionMap demo_app_ops = (\<lambda>a b. ret ())"
    and "ModuleManager_GetVersionMap demo_app_ops = (\<lambda>c. Leaf ''versions'')"
    and "runtime_InitChainer demo_app_ops = (\<lambda>r. ret ())"
  by (simp_all add: demo_ibc_def demo_app_ops_def)

fun demo_istr :: "ibcname \<Rightarrow> string" where
  "demo_istr ibcexported_StoreKey = ''ibc''"
| "demo_istr ibctransfertypes_StoreKey = ''transfer''"
| "demo_istr icahosttypes_StoreKey = ''icahost''"
| "demo_istr icacontrollertypes_StoreKey = ''icacontroller''"
| "demo_istr icacontrollertypes_SubModuleName = ''icacontroller''"
| "demo_istr icahosttypes_SubModuleName = ''icahost''"
| "demo_istr ibctransfertypes_PortID = ''transfer''"

lemma demo_routes_append: "even (length args) \<Longrightarrow> demo_routes (Obj t (args @ [Leaf n, m])) = demo_routes (Obj t args) @ [(n, m)]"
proof (induction "Obj t args" arbitrary: args rule: demo_routes.induct)
  case (1 n' u m' rest)
  then show ?case by simp
qed (auto simp: Leaf_def neq_Nil_conv)

lemma demo_AddRoute_Ok: "demo_AddRoute r n m s = (Ok r', s') \<Longrightarrow>
    n \<notin> fst ` set (demo_routes r) \<and> demo_routes r' = demo_routes r @ [(n, m)] \<and> s' = s"
  by (cases r) (auto simp: demo_routes_append split: if_splits)

text \<open>Running the demo: a step that returns hands its result on.\<close>

lemma demo_ran:
  "m s = (Ok a, s') \<Longrightarrow> bind m f s = f a s'"
  "m (rt app) = (Ok a, t) \<Longrightarrow> on_rt m app = (Ok a, app\<lparr>rt := t\<rparr>)"
  "m s = (Ok a, s') \<Longrightarrow> go_must m s = (Ok a, s')"
  "assign g s = (Ok (), g s)"
  by (simp_all add: bind_def on_rt_def go_must_def assign_def)

lemma demo_AddRoute_keeps: "keeps (\<lambda>v. v) (demo_AddRoute r n m)"
  by (cases r) (simp add: keeps_def)

interpretation demo_wiring: app_contract demo_ibc "\<lambda>v. v" demo_routes demo_app_ops
  by unfold_locales
    (simp_all add: demo_ops acts_def Leaf_def demo_AddRoute_keeps keeps_ret
      keeps_def [where m = "\<lambda>v. (x, f v)" for x f] demo_AddRoute_Ok)

section \<open>Names of modules\<close>

lemma names_eq:
  assumes "inj str" and "''tx'' \<notin> range str"
  shows "str x = str y \<longleftrightarrow> x = y" and "str x \<noteq> ''tx''" and "''tx'' \<noteq> str x"
  using assms(1) by (simp add: inj_eq) (use assms(2) in \<open>metis rangeI\<close>)+

lemma demo_tx: "''tx'' \<notin> range demo_str"
proof -
  have "''tx'' \<noteq> demo_str m" for m by (cases m) (simp_all add: ModuleName_def)
  then show ?thesis by blast
qed

section \<open>Properties\<close>

text \<open>
  C36: Every application that \<open>New\<close> returns is wired: the four IBC keepers and the simulation
  manager are in their fields (so the getter that was handed to dependency injection before
  they existed now finds the IBC keeper), the keeper's router leads the transfer, controller
  and host ports, which are different, to the stacks built over those very keepers, the four
  IBC stores are registered and \<open>GetKey\<close> finds each, and the five IBC modules are registered
  last, over the same keepers.
\<close>

theorem New_wires_ibc:
  assumes "app_contract X view routes Z"
    and "New Z X str istr logger db ts latest appOpts options (zero_app s) = (Ok (), app)"
  shows "\<exists>deps. injected app = Some deps \<and> SimulationManager app \<noteq> None \<and>
    wired X view routes str istr deps app \<and>
    (\<forall>k\<in>ibc_stores istr. GetKey (UnsafeFindStoreKey X (rt app)) k \<noteq> None)"
  using app_contract.New_wired [OF assms] app_contract.stores_found [OF assms(1)] by metis

theorem New_wires_ibc_witness:
  "\<exists>app deps. New demo_app_ops demo_ibc demo_str demo_istr (Leaf ''log'') (Leaf ''db'') (Leaf ''trace'') True
      (Leaf ''options'') [] (zero_app \<lparr>wvStores = {''bank''}, wvRouters = Map.empty, wvModules = []\<rparr>) = (Ok (), app) \<and>
    injected app = Some deps \<and> wired demo_ibc (\<lambda>v. v) demo_routes demo_str demo_istr deps app"
proof -
  obtain app where 1: "New demo_app_ops demo_ibc demo_str demo_istr (Leaf ''log'') (Leaf ''db'') (Leaf ''trace'') True
      (Leaf ''options'') [] (zero_app \<lparr>wvStores = {''bank''}, wvRouters = Map.empty, wvModules = []\<rparr>) = (Ok (), app)"
    by (simp add: New_def registerIBCModules_def ibc_subspaces_def ibc_keepers_def ibc_routers_def ibc_modules_def
      demo_ops demo_ran Let_def Leaf_def)
  with New_wires_ibc [OF demo_wiring.app_contract_axioms 1] show ?thesis by blast
qed


text \<open>
  C28: The configuration is closed: with distinct names of modules, no module is configured
  twice; every module that an order names (pre-block, begin-block, end-block, genesis) is
  configured or one of the IBC modules that are registered by hand, under the names the
  client knows them by; and the only modules without a place in the order of genesis are
  runtime, tx and params and the two light clients, which have no genesis state.
\<close>

theorem configured_modules:
  assumes "inj str" and "''tx'' \<notin> range str"
  shows "distinct (map fst (appConfig str) @ map fst (ibc_client_modules X Y str codec)) \<and>
    str ` (set PreBlockers \<union> set BeginBlockers \<union> set EndBlockers \<union> set InitGenesisOrder) \<subseteq>
      fst ` set (appConfig str) \<union> fst ` set (ibc_client_modules X Y str codec) \<and>
    (fst ` set (appConfig str) \<union> fst ` set (ibc_client_modules X Y str codec)) - str ` set InitGenesisOrder =
      {str runtime_ModuleName, ''tx'', str paramstypes_ModuleName, str ibctm_ModuleName, str solomachine_ModuleName}"
  by (simp add: appConfig_unfold ibc_client_modules_def PreBlockers_def BeginBlockers_def EndBlockers_def
    InitGenesisOrder_def names_eq [OF assms] insert_Diff_if insert_commute)

theorem configured_modules_witness:
  "set (map demo_str EndBlockers) \<subseteq> fst ` set (appConfig demo_str) \<union> fst ` set (ibc_client_modules demo_ibc
     \<lparr>ibc_zero = Leaf ''0'', transfer_zero = Leaf ''0'', controller_zero = Leaf ''0'', host_zero = Leaf ''0'',
      store_provider_zero = Leaf ''0'', RegisterInterfaces = (\<lambda>m. None), InterfaceRegistryOf = (\<lambda>c. c)\<rparr> demo_str (Leaf ''codec''))"
  unfolding set_map
  by (rule subset_trans [OF image_mono configured_modules [OF demo_str_inj demo_tx, THEN conjunct2, THEN conjunct1]]) blast

text \<open>
  C25: The application's own configuration puts the undo module under governance. The entry of
  undo in the configuration has an encoding, and whatever \<open>ProvideModule\<close> is handed that was read
  from these bytes, the keeper it builds refuses, with \<open>ErrInvalidSigner\<close> and without a change,
  every parameter change whose signer decodes to another address than that of the governance
  module.
\<close>

theorem application_authority:
  assumes "inj str" and "''tx'' \<notin> range str"
    and "map_of (appConfig str) (str undomoduletypes_ModuleName) = Some (UndoModule config)"
    and "StringToBytes (in_AddressCodec inp) (upAuthority req) = Inr a"
    and "a \<noteq> NewModuleAddress A GovModuleName"
  shows "\<exists>b. Module_Marshal config = Ok b \<and>
    (\<forall>out. Module_Unmarshal Module_zero b = Got (in_Config inp) \<longrightarrow> ProvideModule A inp = Ok out \<longrightarrow>
      keeper (out_Module out) = out_UndoKeeper out \<and>
      (\<exists>m. UpdateParams (out_UndoKeeper out) req c = (Err (Wrapped ErrInvalidSigner m), c)))"
proof -
  have config: "config = \<lparr>Authority = []\<rparr>"
    using assms(3) by (simp add: appConfig_unfold names_eq [OF assms(1,2)])
  have refuses: "keeper (out_Module out) = out_UndoKeeper out \<and>
      (\<exists>m. UpdateParams (out_UndoKeeper out) req c = (Err (Wrapped ErrInvalidSigner m), c))"
    if "Module_Unmarshal Module_zero [] = Got (in_Config inp)" "ProvideModule A inp = Ok out" for out
  proof -
    from that(1) have "in_Config inp = \<lparr>Authority = []\<rparr>" by (simp add: config_default)
    with authority_from_config [OF that(2) assms(4)] assms(5) show ?thesis by simp
  qed
  then show ?thesis unfolding config config_default(1) by blast
qed

theorem application_authority_witness:
  "\<exists>out m. ProvideModule demo_auth (demo_inputs \<lparr>Authority = []\<rparr>) = Ok out \<and>
     UpdateParams (out_UndoKeeper out) \<lparr>upAuthority = alice, upParams = DefaultParams\<rparr> demo0
       = (Err (Wrapped ErrInvalidSigner m), demo0)"
proof -
  obtain out where out: "ProvideModule demo_auth (demo_inputs \<lparr>Authority = []\<rparr>) = Ok out" by (rule demo_provided)
  have "alice_bytes \<noteq> mem_maddr GovModuleName" by code_simp
  moreover have "map_of (appConfig demo_str) (demo_str undomoduletypes_ModuleName) = Some (UndoModule \<lparr>Authority = []\<rparr>)"
    by (simp add: appConfig_unfold ModuleName_def)
  ultimately show ?thesis
    using application_authority [OF demo_str_inj demo_tx, where inp = "demo_inputs \<lparr>Authority = []\<rparr>" and A = demo_auth
        and req = "\<lparr>upAuthority = alice, upParams = DefaultParams\<rparr>" and a = alice_bytes and c = demo0] out
    by (auto simp: demo_auth_def demo_inputs_def config_default)
qed

end
