(* ===== verification/Commands.thy ===== *)
theory Commands
  imports NewApp
begin

text \<open>
  The daemon's command line: the tree of commands (\<open>cmd/trefoild/cmd/commands.go\<close>), the root
  command with what it runs before every other one (\<open>root.go\<close>, \<open>config.go\<close>), and \<open>main.go\<close>.
  Commands of other packages, contexts and configurations are opaque values.
\<close>

section \<open>The tree of commands\<close>

datatype 'v command =
    Foreign_Command 'v
  | Command (Use: string) (Aliases: "string list") (Short: string) (DisableFlagParsing: bool)
      (SuggestionsMinimumDistance: nat) (SilenceErrors: bool) (RunE: "'v option") (subcommands: "'v command list")

fun AddCommand :: "'v command \<Rightarrow> 'v command list \<Rightarrow> 'v command" where
  "AddCommand (Command u a s d m q r subs) cmds = Command u a s d m q r (subs @ cmds)"
| "AddCommand c cmds = c"

text \<open>The makers of the commands of other packages.\<close>

record ('v, 'mk, 'ex) CommandOps =
  ValidateCmd :: 'v
  rpc_WaitTxCmd :: 'v
  rpc_ValidatorCommand :: 'v
  server_QueryBlockCmd :: 'v
  authcmd_QueryTxsByEventsCmd :: 'v
  server_QueryBlocksCmd :: 'v
  authcmd_QueryTxCmd :: 'v
  server_QueryBlockResultsCmd :: 'v
  authcmd_GetSignCommand :: 'v
  authcmd_GetSignBatchCommand :: 'v
  authcmd_GetMultiSignCommand :: 'v
  authcmd_GetMultiSignBatchCmd :: 'v
  authcmd_GetValidateSignaturesCommand :: 'v
  flags_LineBreak :: 'v
  authcmd_GetBroadcastCommand :: 'v
  authcmd_GetEncodeCommand :: 'v
  authcmd_GetDecodeCommand :: 'v
  authcmd_GetSimulateCmd :: 'v
  genutilcli_InitCmd :: "'v \<Rightarrow> string \<Rightarrow> 'v"
  testnet_InPlaceCmd :: 'v
  testnet_MultiNodeCmd :: "'v \<Rightarrow> 'v \<Rightarrow> 'v"
  GenesisBalancesIterator :: 'v
  debug_Cmd :: 'v
  confixcmd_ConfigCommand :: 'v
  pruning_Cmd :: "'mk \<Rightarrow> string \<Rightarrow> 'v"
  snapshot_Cmd :: "'mk \<Rightarrow> 'v"
  server_Commands :: "string \<Rightarrow> 'mk \<Rightarrow> 'ex \<Rightarrow> ('v \<Rightarrow> 'v) \<Rightarrow> 'v command list"
  server_StatusCommand :: 'v
  genutilcli_Commands :: "'v \<Rightarrow> 'v \<Rightarrow> string \<Rightarrow> 'v"
  keys_Commands :: 'v

definition queryCommand :: "('v, 'mk, 'ex) CommandOps \<Rightarrow> 'v command" where
  "queryCommand C =
     (let cmd = Command ''query'' [''q''] ''Querying subcommands'' False 2 False (Some (ValidateCmd C)) [] in
      AddCommand cmd (map Foreign_Command
        [rpc_WaitTxCmd C, rpc_ValidatorCommand C, server_QueryBlockCmd C, authcmd_QueryTxsByEventsCmd C,
         server_QueryBlocksCmd C, authcmd_QueryTxCmd C, server_QueryBlockResultsCmd C]))"

definition txCommand :: "('v, 'mk, 'ex) CommandOps \<Rightarrow> 'v command" where
  "txCommand C =
     (let cmd = Command ''tx'' [] ''Transactions subcommands'' False 2 False (Some (ValidateCmd C)) [] in
      AddCommand cmd (map Foreign_Command
        [authcmd_GetSignCommand C, authcmd_GetSignBatchCommand C, authcmd_GetMultiSignCommand C,
         authcmd_GetMultiSignBatchCmd C, authcmd_GetValidateSignaturesCommand C, flags_LineBreak C,
         authcmd_GetBroadcastCommand C, authcmd_GetEncodeCommand C, authcmd_GetDecodeCommand C,
         authcmd_GetSimulateCmd C]))"

definition addModuleInitFlags :: "'v \<Rightarrow> 'v" where
  "addModuleInitFlags startCmd = startCmd"

text \<open>
  \<open>initRootCmd\<close>: \<open>newApp\<close> and \<open>appExport\<close> are handed to the commands that need them. What the
  server adds on its own (start, export and others) is \<open>server_Commands\<close>.
\<close>

definition initRootCmd ::
  "('v, 'mk, 'ex) CommandOps \<Rightarrow> string \<Rightarrow> 'mk \<Rightarrow> 'ex \<Rightarrow> 'v command \<Rightarrow> 'v \<Rightarrow> 'v \<Rightarrow> 'v command" where
  "initRootCmd C DefaultNodeHome mk ex rootCmd txCfg basicManager =
     (let rootCmd = AddCommand rootCmd (map Foreign_Command
        [genutilcli_InitCmd C basicManager DefaultNodeHome, testnet_InPlaceCmd C,
         testnet_MultiNodeCmd C basicManager (GenesisBalancesIterator C), debug_Cmd C, confixcmd_ConfigCommand C,
         pruning_Cmd C mk DefaultNodeHome, snapshot_Cmd C mk]);
      rootCmd = AddCommand rootCmd (server_Commands C DefaultNodeHome mk ex addModuleInitFlags) in
      AddCommand rootCmd
        [Foreign_Command (server_StatusCommand C),
         Foreign_Command (genutilcli_Commands C txCfg basicManager DefaultNodeHome),
         queryCommand C, txCommand C, Foreign_Command (keys_Commands C)])"

text \<open>\<open>newApp\<close>: always the latest height.\<close>

definition newApp ::
  "('st, 'v, 'cx, 'req, 'resp) AppOps \<Rightarrow> ('st, 'v) IbcOps \<Rightarrow> (modname \<Rightarrow> string) \<Rightarrow> (ibcname \<Rightarrow> string) \<Rightarrow>
   ('v \<Rightarrow> 'v list) \<Rightarrow> 'v \<Rightarrow> 'v \<Rightarrow> 'v \<Rightarrow> 'v \<Rightarrow> (('st, 'v) Application, unit) go" where
  "newApp Z X str istr DefaultBaseappOptions logger db traceStore appOpts =
     (let baseappOptions = DefaultBaseappOptions appOpts in
      New Z X str istr logger db traceStore True appOpts baseappOptions)"

section \<open>The root command\<close>

text \<open>
  What runs before every command. The variable \<open>clientCtx\<close> of \<open>NewRootCmd\<close> is captured: the
  first assignment keeps the command's context and the viper in it, the later ones shadow it.
  The state has the variable and the world.
\<close>

record ('w, 'v) root_state =
  clientCtx :: 'v
  world :: 'w

record ('w, 'v) RootOps =
  SetOut :: "'v \<Rightarrow> 'v \<Rightarrow> ('w, unit) go"
  SetErr :: "'v \<Rightarrow> 'v \<Rightarrow> ('w, unit) go"
  OutOrStdout :: "'v \<Rightarrow> 'v"
  ErrOrStderr :: "'v \<Rightarrow> 'v"
  cmd_Context :: "'v \<Rightarrow> 'v"
  cmd_Flags :: "'v \<Rightarrow> 'v"
  WithCmdContext :: "'v \<Rightarrow> 'v \<Rightarrow> 'v"
  WithViper :: "'v \<Rightarrow> string \<Rightarrow> 'v"
  ReadPersistentCommandFlags :: "'v \<Rightarrow> 'v \<Rightarrow> ('w, 'v) go"
  ReadFromClientConfig :: "'v \<Rightarrow> ('w, 'v) go"
  SetCmdClientContextHandler :: "'v \<Rightarrow> 'v \<Rightarrow> ('w, unit) go"
  DefaultConfigTemplate :: string
  server_DefaultConfig :: 'v
  cmt_DefaultConfig :: 'v
  InterceptConfigsPreRunHandler :: "'v \<Rightarrow> string \<Rightarrow> 'v \<Rightarrow> 'v \<Rightarrow> ('w, unit) go"

definition initCometBFTConfig :: "('w, 'v) RootOps \<Rightarrow> 'v" where
  "initCometBFTConfig R = (let cfg = cmt_DefaultConfig R in cfg)"

text \<open>The custom configuration squashes the server's own: it has nothing else.\<close>

definition initAppConfig :: "('w, 'v) RootOps \<Rightarrow> string \<times> 'v" where
  "initAppConfig R =
     (let srvCfg = server_DefaultConfig R; customAppConfig = srvCfg; customAppTemplate = DefaultConfigTemplate R in
      (customAppTemplate, customAppConfig))"

definition on_world :: "('w, 'a) go \<Rightarrow> (('w, 'v) root_state, 'a) go" where
  "on_world m s = (case m (world s) of (r, w') \<Rightarrow> (r, s\<lparr>world := w'\<rparr>))"

definition PersistentPreRunE :: "('w, 'v) RootOps \<Rightarrow> 'v \<Rightarrow> (('w, 'v) root_state, unit) go" where
  "PersistentPreRunE R cmd =
     bind (on_world (SetOut R cmd (OutOrStdout R cmd))) (\<lambda>_.
     bind (on_world (SetErr R cmd (ErrOrStderr R cmd))) (\<lambda>_.
     bind (assign (\<lambda>s. s\<lparr>clientCtx := WithViper R (WithCmdContext R (clientCtx s) (cmd_Context R cmd)) Name\<rparr>)) (\<lambda>_ s.
     bind (on_world (ReadPersistentCommandFlags R (clientCtx s) (cmd_Flags R cmd))) (\<lambda>ctx.
     bind (on_world (ReadFromClientConfig R ctx)) (\<lambda>ctx.
     bind (on_world (SetCmdClientContextHandler R ctx cmd)) (\<lambda>_.
     let (customAppTemplate, customAppConfig) = initAppConfig R; customCMTConfig = initCometBFTConfig R in
     on_world (InterceptConfigsPreRunHandler R cmd customAppTemplate customAppConfig customCMTConfig)))) s)))"

section \<open>The client's context\<close>

record ('w, 'v) ContextOps =
  empty_Context :: 'v
  WithCodec :: "'v \<Rightarrow> 'v \<Rightarrow> 'v"
  WithInterfaceRegistry :: "'v \<Rightarrow> 'v \<Rightarrow> 'v"
  WithLegacyAmino :: "'v \<Rightarrow> 'v \<Rightarrow> 'v"
  WithInput :: "'v \<Rightarrow> 'v \<Rightarrow> 'v"
  os_Stdin :: 'v
  WithAccountRetriever :: "'v \<Rightarrow> 'v \<Rightarrow> 'v"
  AccountRetriever :: 'v
  WithHomeDir :: "'v \<Rightarrow> string \<Rightarrow> 'v"
  pWithViper :: "'v \<Rightarrow> string \<Rightarrow> 'v"
  pReadFromClientConfig :: "'v \<Rightarrow> 'w \<Rightarrow> ('v \<times> error option) \<times> 'w"
  NewGRPCCoinMetadataQueryFn :: "'v \<Rightarrow> 'v"
  set_TextualCoinMetadataQueryFn :: "'v \<Rightarrow> 'v \<Rightarrow> 'v"
  context_Codec :: "'v \<Rightarrow> 'v"
  NewTxConfigWithOptions :: "'v \<Rightarrow> 'v \<Rightarrow> ('w, 'v) go"
  WithTxConfig :: "'v \<Rightarrow> 'v \<Rightarrow> 'v"

text \<open>
  The error of reading the client's configuration is dropped, and the context that comes with
  it is taken; an error of the transaction configuration panics.
\<close>

definition ProvideClientContext ::
  "('w, 'v) ContextOps \<Rightarrow> string \<Rightarrow> 'v \<Rightarrow> 'v \<Rightarrow> 'v \<Rightarrow> 'v \<Rightarrow> ('w, 'v) go" where
  "ProvideClientContext P DefaultNodeHome codec registry txConfigOpts amino w =
     (let ctx = pWithViper P (WithHomeDir P (WithAccountRetriever P (WithInput P (WithLegacyAmino P
            (WithInterfaceRegistry P (WithCodec P (empty_Context P) codec) registry) amino) (os_Stdin P))
            (AccountRetriever P)) DefaultNodeHome) Name;
          ((ctx, _), w) = pReadFromClientConfig P ctx w;
          txConfigOpts = set_TextualCoinMetadataQueryFn P txConfigOpts (NewGRPCCoinMetadataQueryFn P ctx) in
      bind (go_must (NewTxConfigWithOptions P (context_Codec P ctx) txConfigOpts)) (\<lambda>txCfg.
      ret (WithTxConfig P ctx txCfg)) w)"

section \<open>The whole\<close>

text \<open>
  \<open>NewRootCmd\<close>. Injection yields the options of the automatic command line, the basic modules and
  the context; the IBC modules are added to both maps, whatever was there under their names.
  A Go map is a partial function. With the root command comes the context that its
  \<open>PersistentPreRunE\<close> captures.
\<close>

record 'v cli_parts =
  cliModules :: "string \<rightharpoonup> 'v"
  basicModules :: "string \<rightharpoonup> 'v"
  cliContext :: 'v

record ('w, 'v) NewRootOps =
  root_Inject :: "'v DiConfig \<Rightarrow> ('w, 'v cli_parts) go"
  root_AppConfig :: "'v DiConfig"
  root_RegisterIBC :: "'v \<Rightarrow> ('w, (string \<times> 'v) list) go"
  CoreAppModuleBasicAdaptor :: "string \<Rightarrow> 'v \<Rightarrow> 'v"
  root_Codec :: "'v \<Rightarrow> 'v"
  root_TxConfig :: "'v \<Rightarrow> 'v"
  basic_manager :: "(string \<rightharpoonup> 'v) \<Rightarrow> 'v"
  EnhanceRootCommand :: "(string \<rightharpoonup> 'v) \<Rightarrow> 'v command \<Rightarrow> ('w, 'v command) go"

definition add_modules :: "('w, 'v) NewRootOps \<Rightarrow> (string \<times> 'v) list \<Rightarrow> 'v cli_parts \<Rightarrow> 'v cli_parts" where
  "add_modules N mods parts = fold (\<lambda>(name, m) p.
     p\<lparr>basicModules := (basicModules p)(name \<mapsto> CoreAppModuleBasicAdaptor N name m),
       cliModules := (cliModules p)(name \<mapsto> m)\<rparr>) mods parts"

definition NewRootCmd ::
  "('w, 'v) NewRootOps \<Rightarrow> ('v, 'mk, 'ex) CommandOps \<Rightarrow> string \<Rightarrow> 'mk \<Rightarrow> 'ex \<Rightarrow> ('w, 'v command \<times> 'v) go" where
  "NewRootCmd N C DefaultNodeHome mk ex =
     bind (go_must (root_Inject N (root_AppConfig N))) (\<lambda>parts.
     let rootCmd = Command (Name @ ''d'') [] ''trefoil node'' False 0 True None [] in
     bind (root_RegisterIBC N (root_Codec N (cliContext parts))) (\<lambda>ibcModules.
     let parts = add_modules N ibcModules parts;
         rootCmd = initRootCmd C DefaultNodeHome mk ex rootCmd (root_TxConfig N (cliContext parts))
           (basic_manager N (basicModules parts)) in
     bind (go_must (EnhanceRootCommand N (cliModules parts) rootCmd)) (\<lambda>rootCmd.
     ret (rootCmd, cliContext parts))))"

text \<open>\<open>main\<close>: an error of the command is printed, and the process exits with status 1.\<close>

definition main_go ::
  "('w, 'v command \<times> 'v) go \<Rightarrow> ('v command \<times> 'v \<Rightarrow> string \<Rightarrow> string \<Rightarrow> ('w, unit) go) \<Rightarrow>
   (string \<Rightarrow> 'w \<Rightarrow> 'w) \<Rightarrow> string \<Rightarrow> string \<Rightarrow> 'w \<Rightarrow> nat res \<times> 'w" where
  "main_go newRoot svrcmd_Execute Fprintln EnvPrefix DefaultNodeHome w =
     bind newRoot (\<lambda>rootCmd w. case svrcmd_Execute rootCmd EnvPrefix DefaultNodeHome w of
        (Err e, w') \<Rightarrow> (Ok 1, Fprintln (error_text e) w')
      | (Panic t, w') \<Rightarrow> (Panic t, w')
      | (Ok _, w') \<Rightarrow> (Ok 0, w')) w"

section \<open>Properties\<close>

text \<open>
  An IBC module is known to both maps under its name, and what they had under other names
  stays.
\<close>

lemma add_modules_spec:
  assumes "distinct (map fst mods)"
  shows "cliModules (add_modules N mods parts) n =
      (case map_of mods n of Some m \<Rightarrow> Some m | None \<Rightarrow> cliModules parts n) \<and>
    basicModules (add_modules N mods parts) n =
      (case map_of mods n of Some m \<Rightarrow> Some (CoreAppModuleBasicAdaptor N n m) | None \<Rightarrow> basicModules parts n)"
  using assms unfolding add_modules_def
proof (induction mods arbitrary: parts)
  case (Cons x mods)
  then have "fst x = n \<Longrightarrow> map_of mods n = None" by (auto simp: map_of_eq_None_iff)
  with Cons show ?case by (auto simp: split_beta split: option.split)
qed simp

text \<open>A command that fails before it runs: the first error is the one returned.\<close>

lemma preRun_bad_flags:
  assumes "SetOut R cmd (OutOrStdout R cmd) w = (Ok (), w1)" and "SetErr R cmd (ErrOrStderr R cmd) w1 = (Ok (), w2)"
    and "ReadPersistentCommandFlags R (WithViper R (WithCmdContext R ctx (cmd_Context R cmd)) Name) (cmd_Flags R cmd) w2
      = (Err e, w3)"
  shows "PersistentPreRunE R cmd \<lparr>clientCtx = ctx, world = w\<rparr> =
    (Err e, \<lparr>clientCtx = WithViper R (WithCmdContext R ctx (cmd_Context R cmd)) Name, world = w3\<rparr>)"
  using assms by (simp add: PersistentPreRunE_def on_world_def assign_def bind_def)

text \<open>The query and transaction commands, reached under their names, are children of the root.\<close>

lemma root_has_query_and_tx:
  "initRootCmd C home mk ex (Command u a s d m q r []) tx bm = root \<Longrightarrow>
   queryCommand C \<in> set (subcommands root) \<and> txCommand C \<in> set (subcommands root)"
  by (auto simp: initRootCmd_def Let_def)

end
