(* ===== verification/QueryCodec.thy ===== *)
theory QueryCodec
  imports TxCodec CoinWire Query
begin

text \<open>
  The codecs of the queries' requests and responses (\<open>query.pb.go\<close>). They come in three shapes,
  each proved once to be a codec by fields: one embedded message, an optional page, and a list
  with an optional page. A pointer that may be nil is an option; decoding into a nil page makes
  a new one. The codecs of the SDK's pages (\<open>query.PageRequest\<close>, \<open>query.PageResponse\<close>), which the
  generated code calls, are parameters.
\<close>

definition sovQuery :: "u64 \<Rightarrow> nat" where
  "sovQuery = sov"

definition skipQuery :: "bytes \<Rightarrow> int rd" where
  "skipQuery = proto_skip"

section \<open>Optional embedded messages\<close>

definition put_opt :: "byte \<Rightarrow> ('a \<Rightarrow> bytes \<Rightarrow> (bytes \<times> nat) res) \<Rightarrow> 'a option \<Rightarrow> bufop" where
  "put_opt k marshal x = (case x of None \<Rightarrow> ops [] | Some p \<Rightarrow> put_sub k (marshal p))"

definition opt_f :: "byte \<Rightarrow> ('a \<Rightarrow> bytes) \<Rightarrow> 'a option \<Rightarrow> ('m \<Rightarrow> 'm) \<Rightarrow> 'm fields" where
  "opt_f k enc x f = (case x of None \<Rightarrow> [] | Some p \<Rightarrow> sub_f k (enc p) f)"

definition size_opt :: "('a \<Rightarrow> nat) \<Rightarrow> 'a option \<Rightarrow> nat" where
  "size_opt sz x = (case x of None \<Rightarrow> 0 | Some p \<Rightarrow> let l = sz p in 1 + l + sovQuery (of_nat l))"

text \<open>The page that is read into: the one there, or a new one.\<close>

definition page_of :: "'a \<Rightarrow> 'a option \<Rightarrow> 'a" where
  "page_of zero x = (case x of None \<Rightarrow> zero | Some p \<Rightarrow> p)"

definition opt_good :: "('a \<Rightarrow> bytes) \<Rightarrow> ('a \<Rightarrow> bool) \<Rightarrow> 'a option \<Rightarrow> bool" where
  "opt_good enc good x \<longleftrightarrow> (\<forall>p. x = Some p \<longrightarrow> good p \<and> fits enc p)"

lemma sub_size:
  "length e < 2 ^ 63 \<Longrightarrow> length (enc_of (sub_f k e f)) = (let l = length e in 1 + l + sovQuery (of_nat l))"
  using field_sizes(4) [of e k f] by (simp add: sovTx_def sovQuery_def)

context msg_codec
begin

lemma writes_opt: "opt_good enc good x \<Longrightarrow> writes (put_opt k marshal x) (enc_of (opt_f k enc x f))"
  by (cases x) (auto simp: put_opt_def opt_f_def opt_good_def fits_def writes_ops_Nil intro!: writes_sub writes_msg)

lemma size_opt: "opt_good enc good x \<Longrightarrow> size_opt msize x = length (enc_of (opt_f k enc x f))"
  by (cases x) (auto simp: size_opt_def opt_f_def opt_good_def fits_def sub_size msize)

text \<open>A list, written from its last element to its first.\<close>

lemma writes_list:
  "\<forall>x\<in>set xs. good x \<and> fits enc x \<Longrightarrow>
   writes (ops (map (\<lambda>x. put_sub k (marshal x)) (rev xs))) (enc_of (repeated_f k enc add xs))"
  by (intro writes_repeated writes_msg) (auto simp: fits_def)

lemma size_list:
  assumes "\<forall>x\<in>set xs. good x \<and> fits enc x"
  shows "(\<Sum>e\<leftarrow>xs. let l = msize e in 1 + l + sovQuery (of_nat l)) = length (enc_of (repeated_f k enc add xs))"
  using assms
proof (induction xs)
  case (Cons x xs)
  then have "good x" "length (enc x) < 2 ^ 63" by (simp_all add: fits_def)
  with Cons.IH [of ] Cons.prems sub_size [of "enc x" k "add x"] show ?case
    by (simp add: repeated_f_Cons msize)
qed simp

end

section \<open>The three shapes\<close>

text \<open>One embedded message, always written.\<close>

locale sub_message = item: msg_codec ienc igood isize imarshal iunmarshal izero
  for ienc :: "'a \<Rightarrow> bytes" and igood isize imarshal iunmarshal izero +
  fixes get :: "'m \<Rightarrow> 'a" and set_item :: "'m \<Rightarrow> 'a \<Rightarrow> 'm" and fname :: string
    and msize :: "'m \<Rightarrow> nat" and puts :: "'m \<Rightarrow> bufop list" and name :: string
    and skip_unknown :: "bytes \<Rightarrow> int rd"
    and switch :: "int \<Rightarrow> nat \<Rightarrow> bytes \<Rightarrow> 'm \<Rightarrow> int \<Rightarrow> ('m \<times> int) rd option" and zero :: 'm
  assumes item_size: "msize m = (let l = isize (get m) in 1 + l + sovQuery (of_nat l))"
    and item_puts: "puts m = [put_sub 0xa (imarshal (get m))]"
    and item_switch: "switch n w d m i =
      (if n = 1 then Some (msg_field fname w d i (iunmarshal (get m)) (set_item m)) else None)"
    and item_zero: "get zero = izero" and item_set: "set_item zero (get m) = m"
    and item_skip: "skip_unknown = proto_skip"

sublocale sub_message < field_codec "\<lambda>m. sub_f 0xa (ienc (get m)) (\<lambda>z. set_item z (get m))"
  "\<lambda>m. igood (get m) \<and> fits ienc (get m)" msize puts name skip_unknown switch zero
proof unfold_locales
  fix m
  assume "igood (get m) \<and> fits ienc (get m)"
  then have good: "igood (get m)" and len: "length (ienc (get m)) < 2 ^ 63" by (simp_all add: fits_def)
  show "msize m = length (enc_of (sub_f 0xa (ienc (get m)) (\<lambda>z. set_item z (get m))))"
    using len by (simp add: item_size sub_size item.msize [OF good])
  show "writes (ops (puts m)) (enc_of (sub_f 0xa (ienc (get m)) (\<lambda>z. set_item z (get m))))"
    unfolding item_puts using len by (intro writes_last writes_sub item.writes_msg good) simp
  show "read_through (proto_step name proto_skip switch) (sub_f 0xa (ienc (get m)) (\<lambda>z. set_item z (get m))) zero"
    by (intro read_sub reads_fieldI [OF tags(6)])
      (simp add: item_switch item_zero msg_field_reads item.unmarshal [OF good len])
qed (auto simp: sub_f_def item_set item_skip item_switch fields_move_def split: if_splits intro!: field_moves item.total)

text \<open>An optional page in field 1.\<close>

locale page_message = page: msg_codec penc pgood psize pmarshal punmarshal pzero
  for penc :: "'a \<Rightarrow> bytes" and pgood psize pmarshal punmarshal pzero +
  fixes get :: "'m \<Rightarrow> 'a option" and set_page :: "'m \<Rightarrow> 'a \<Rightarrow> 'm" and fname :: string
    and msize :: "'m \<Rightarrow> nat" and puts :: "'m \<Rightarrow> bufop list" and name :: string
    and skip_unknown :: "bytes \<Rightarrow> int rd"
    and switch :: "int \<Rightarrow> nat \<Rightarrow> bytes \<Rightarrow> 'm \<Rightarrow> int \<Rightarrow> ('m \<times> int) rd option" and zero :: 'm
  assumes page_size: "msize m = size_opt psize (get m)"
    and page_puts: "puts m = [put_opt 0xa pmarshal (get m)]"
    and page_switch: "switch n w d m i =
      (if n = 1 then Some (msg_field fname w d i (punmarshal (page_of pzero (get m))) (set_page m)) else None)"
    and page_zero: "get zero = None" and page_none: "get m = None \<Longrightarrow> m = zero"
    and page_set: "get m = Some p \<Longrightarrow> set_page zero p = m"
    and page_skip: "skip_unknown = proto_skip"

sublocale page_message < field_codec "\<lambda>m. opt_f 0xa penc (get m) (\<lambda>z. case get m of None \<Rightarrow> z | Some p \<Rightarrow> set_page z p)"
  "\<lambda>m. opt_good penc pgood (get m)" msize puts name skip_unknown switch zero
proof unfold_locales
  fix m
  let ?fs = "opt_f 0xa penc (get m) (\<lambda>z. case get m of None \<Rightarrow> z | Some p \<Rightarrow> set_page z p)"
  assume good: "opt_good penc pgood (get m)"
  show "msize m = length (enc_of ?fs)" unfolding page_size by (rule page.size_opt [OF good])
  show "writes (ops (puts m)) (enc_of ?fs)" unfolding page_puts by (intro writes_last page.writes_opt good)
  show "read_through (proto_step name proto_skip switch) ?fs zero"
  proof (cases "get m")
    case (Some p)
    with good have p: "pgood p" "length (penc p) < 2 ^ 63" by (simp_all add: opt_good_def fits_def)
    show ?thesis unfolding Some opt_f_def option.case
      by (intro read_sub reads_fieldI [OF tags(6)])
        (simp add: page_switch page_zero page_of_def msg_field_reads page.unmarshal [OF p])
  qed (simp add: opt_f_def)
  show "fold snd ?fs zero = m"
    using page_none [of m] page_set [of m] by (cases "get m") (simp_all add: opt_f_def sub_f_def)
qed (auto simp: page_skip page_switch fields_move_def split: if_splits intro!: field_moves page.total)

text \<open>A list in field 1 and an optional page in field 2.\<close>

locale list_message = item: msg_codec ienc igood isize imarshal iunmarshal izero +
  page: msg_codec penc pgood psize pmarshal punmarshal pzero
  for ienc :: "'a \<Rightarrow> bytes" and igood isize imarshal iunmarshal izero
    and penc :: "'b \<Rightarrow> bytes" and pgood psize pmarshal punmarshal pzero +
  fixes items :: "'m \<Rightarrow> 'a list" and get :: "'m \<Rightarrow> 'b option" and make :: "'a list \<Rightarrow> 'b option \<Rightarrow> 'm"
    and iname pname :: string
    and msize :: "'m \<Rightarrow> nat" and puts :: "'m \<Rightarrow> bufop list" and name :: string
    and skip_unknown :: "bytes \<Rightarrow> int rd"
    and switch :: "int \<Rightarrow> nat \<Rightarrow> bytes \<Rightarrow> 'm \<Rightarrow> int \<Rightarrow> ('m \<times> int) rd option" and zero :: 'm
  assumes list_size: "msize m = (\<Sum>e\<leftarrow>items m. let l = isize e in 1 + l + sovQuery (of_nat l)) + size_opt psize (get m)"
    and list_puts: "puts m =
      [put_opt 0x12 pmarshal (get m), ops (map (\<lambda>x. put_sub 0xa (imarshal x)) (rev (items m)))]"
    and list_switch: "switch n w d m i =
      (if n = 1 then Some (msg_field iname w d i (iunmarshal izero) (\<lambda>x. make (items m @ [x]) (get m)))
       else if n = 2 then Some (msg_field pname w d i (punmarshal (page_of pzero (get m))) (\<lambda>p. make (items m) (Some p)))
       else None)"
    and list_make: "items (make xs p) = xs" "get (make xs p) = p" "make (items m) (get m) = m"
    and list_zero: "zero = make [] None"
    and list_skip: "skip_unknown = proto_skip"
begin

definition list_fields :: "'m \<Rightarrow> 'm fields" where
  "list_fields m = repeated_f 0xa ienc (\<lambda>x z. make (items z @ [x]) (get z)) (items m) @
     opt_f 0x12 penc (get m) (\<lambda>z. make (items z) (get m))"

definition list_good :: "'m \<Rightarrow> bool" where
  "list_good m \<longleftrightarrow> (\<forall>x\<in>set (items m). igood x \<and> fits ienc x) \<and> opt_good penc pgood (get m)"

lemma fold_items: "fold (\<lambda>x z. make (items z @ [x]) (get z)) xs z = make (items z @ xs) (get z)"
  by (induction xs arbitrary: z) (simp_all add: list_make)

end

sublocale list_message < field_codec list_fields list_good msize puts name skip_unknown switch zero
proof unfold_locales
  fix m
  assume "list_good m"
  then have good: "\<forall>x\<in>set (items m). igood x \<and> fits ienc x" "opt_good penc pgood (get m)"
    by (simp_all add: list_good_def)
  show "msize m = length (enc_of (list_fields m))"
    unfolding list_size list_fields_def enc_of_append length_append
    by (intro arg_cong2 [of _ _ _ _ "(+)"] item.size_list page.size_opt good)
  show "writes (ops (puts m)) (enc_of (list_fields m))"
    unfolding list_puts list_fields_def enc_of_append
    by (rule writes_eq, (rule writes_ops_Cons page.writes_opt [OF good(2)] item.writes_list [OF good(1)] writes_ops_Nil)+) simp
  show "read_through (proto_step name proto_skip switch) (list_fields m) zero"
    unfolding list_fields_def
  proof (intro read_append read_repeated reads_fieldI [OF tags(6)])
    fix x z and pre post :: bytes
    assume x: "x \<in> set (items m)" and len: "length (pre @ delimited (ienc x) @ post) < 2 ^ 63"
    from x good(1) have "iunmarshal izero (ienc x) = Got x" by (intro item.unmarshal) (simp_all add: fits_def)
    then show "switch 1 2 (pre @ delimited (ienc x) @ post) z (int (length pre)) =
        Some (Got (make (items z @ [x]) (get z), int (length (pre @ delimited (ienc x)))))"
      using len by (simp add: list_switch msg_field_reads)
  next
    show "read_through (proto_step name proto_skip switch) (opt_f 0x12 penc (get m) (\<lambda>z. make (items z) (get m)))
        (fold snd (repeated_f 0xa ienc (\<lambda>x z. make (items z @ [x]) (get z)) (items m)) zero)"
    proof (cases "get m")
      case (Some p)
      with good(2) have p: "pgood p" "length (penc p) < 2 ^ 63" by (simp_all add: opt_good_def fits_def)
      show ?thesis unfolding Some opt_f_def option.case
        by (intro read_sub reads_fieldI [OF tags(7)])
          (simp add: list_switch list_make list_zero fold_repeated fold_items page_of_def msg_field_reads page.unmarshal [OF p])
    qed (simp add: opt_f_def)
  qed
  show "fold snd (list_fields m) zero = m"
    using list_make(3) [of m]
    by (cases "get m") (simp_all add: list_fields_def fold_repeated fold_items list_zero list_make opt_f_def sub_f_def)
qed (auto simp: list_skip list_switch fields_move_def split: if_splits intro!: field_moves item.total page.total)

section \<open>The messages\<close>

text \<open>The codec of a page.\<close>

record 'a PageCodec =
  page_Size :: "'a \<Rightarrow> nat"
  page_MarshalToSizedBuffer :: "'a \<Rightarrow> bytes \<Rightarrow> (bytes \<times> nat) res"
  page_Unmarshal :: "'a \<Rightarrow> bytes \<Rightarrow> 'a rd"
  page_zero :: 'a

subsection \<open>\<open>QueryParamsRequest\<close>\<close>

text \<open>The empty message: nothing is written, and every field that is read is skipped.\<close>

definition QueryParamsRequest_puts :: "unit \<Rightarrow> bufop list" where
  "QueryParamsRequest_puts m = []"

definition QueryParamsRequest_Size :: "unit \<Rightarrow> nat" where
  "QueryParamsRequest_Size m = 0"

definition QueryParamsRequest_field :: "int \<Rightarrow> nat \<Rightarrow> bytes \<Rightarrow> unit \<Rightarrow> int \<Rightarrow> (unit \<times> int) rd option" where
  "QueryParamsRequest_field fieldNum wireType dAtA m iNdEx = None"

definition QueryParamsRequest_MarshalToSizedBuffer :: "unit \<Rightarrow> bytes \<Rightarrow> (bytes \<times> nat) res" where
  "QueryParamsRequest_MarshalToSizedBuffer m = to_sized_buffer (ops (QueryParamsRequest_puts m))"

definition QueryParamsRequest_Marshal :: "unit \<Rightarrow> bytes res" where
  "QueryParamsRequest_Marshal = proto_marshal (QueryParamsRequest_Size) (QueryParamsRequest_MarshalToSizedBuffer)"

definition QueryParamsRequest_Unmarshal :: "unit \<Rightarrow> bytes \<Rightarrow> unit rd" where
  "QueryParamsRequest_Unmarshal = proto_unmarshal (proto_step ''QueryParamsRequest'' skipQuery (QueryParamsRequest_field))"

subsection \<open>\<open>QueryParamsResponse\<close>\<close>

definition QueryParamsResponse_puts :: "QueryParamsResponse \<Rightarrow> bufop list" where
  "QueryParamsResponse_puts m = [put_sub 0xa (Params_MarshalToSizedBuffer (qpParams m))]"

definition QueryParamsResponse_Size :: "QueryParamsResponse \<Rightarrow> nat" where
  "QueryParamsResponse_Size m = (let l = Params_Size (qpParams m) in 1 + l + sovQuery (of_nat l))"

definition QueryParamsResponse_field :: "int \<Rightarrow> nat \<Rightarrow> bytes \<Rightarrow> QueryParamsResponse \<Rightarrow> int \<Rightarrow> (QueryParamsResponse \<times> int) rd option" where
  "QueryParamsResponse_field fieldNum wireType dAtA m iNdEx =
     (if fieldNum = 1 then Some (msg_field ''Params'' wireType dAtA iNdEx (Params_Unmarshal (qpParams m)) (\<lambda>v. m\<lparr>qpParams := v\<rparr>))
      else None)"

definition QueryParamsResponse_MarshalToSizedBuffer :: "QueryParamsResponse \<Rightarrow> bytes \<Rightarrow> (bytes \<times> nat) res" where
  "QueryParamsResponse_MarshalToSizedBuffer m = to_sized_buffer (ops (QueryParamsResponse_puts m))"

definition QueryParamsResponse_Marshal :: "QueryParamsResponse \<Rightarrow> bytes res" where
  "QueryParamsResponse_Marshal = proto_marshal (QueryParamsResponse_Size) (QueryParamsResponse_MarshalToSizedBuffer)"

definition QueryParamsResponse_Unmarshal :: "QueryParamsResponse \<Rightarrow> bytes \<Rightarrow> QueryParamsResponse rd" where
  "QueryParamsResponse_Unmarshal = proto_unmarshal (proto_step ''QueryParamsResponse'' skipQuery (QueryParamsResponse_field))"

definition QueryParamsResponse_zero :: QueryParamsResponse where
  "QueryParamsResponse_zero = \<lparr>qpParams = Params_zero\<rparr>"

lemmas QueryParamsResponse_defs = QueryParamsResponse_puts_def QueryParamsResponse_Size_def QueryParamsResponse_field_def QueryParamsResponse_zero_def

subsection \<open>\<open>QueryGetPendingRequest\<close>\<close>

definition QueryGetPendingRequest_puts :: "QueryGetPendingRequest \<Rightarrow> bufop list" where
  "QueryGetPendingRequest_puts m = [put_uint 0x8 (qgpId m)]"

definition QueryGetPendingRequest_Size :: "QueryGetPendingRequest \<Rightarrow> nat" where
  "QueryGetPendingRequest_Size m = (if qgpId m \<noteq> 0 then 1 + sovQuery (qgpId m) else 0)"

definition QueryGetPendingRequest_field :: "int \<Rightarrow> nat \<Rightarrow> bytes \<Rightarrow> QueryGetPendingRequest \<Rightarrow> int \<Rightarrow> (QueryGetPendingRequest \<times> int) rd option" where
  "QueryGetPendingRequest_field fieldNum wireType dAtA m iNdEx =
     (if fieldNum = 1 then Some (varint_field ''Id'' wireType dAtA iNdEx (\<lambda>v. m\<lparr>qgpId := v\<rparr>)) else None)"

definition QueryGetPendingRequest_MarshalToSizedBuffer :: "QueryGetPendingRequest \<Rightarrow> bytes \<Rightarrow> (bytes \<times> nat) res" where
  "QueryGetPendingRequest_MarshalToSizedBuffer m = to_sized_buffer (ops (QueryGetPendingRequest_puts m))"

definition QueryGetPendingRequest_Marshal :: "QueryGetPendingRequest \<Rightarrow> bytes res" where
  "QueryGetPendingRequest_Marshal = proto_marshal (QueryGetPendingRequest_Size) (QueryGetPendingRequest_MarshalToSizedBuffer)"

definition QueryGetPendingRequest_Unmarshal :: "QueryGetPendingRequest \<Rightarrow> bytes \<Rightarrow> QueryGetPendingRequest rd" where
  "QueryGetPendingRequest_Unmarshal = proto_unmarshal (proto_step ''QueryGetPendingRequest'' skipQuery (QueryGetPendingRequest_field))"

definition QueryGetPendingRequest_zero :: QueryGetPendingRequest where
  "QueryGetPendingRequest_zero = \<lparr>qgpId = 0\<rparr>"

definition QueryGetPendingRequest_fields :: "QueryGetPendingRequest \<Rightarrow> QueryGetPendingRequest fields" where
  "QueryGetPendingRequest_fields m = uint_f 0x8 (qgpId m) (qgpId_update (\<lambda>_. qgpId m))"

lemmas QueryGetPendingRequest_defs = QueryGetPendingRequest_puts_def QueryGetPendingRequest_Size_def QueryGetPendingRequest_field_def QueryGetPendingRequest_zero_def QueryGetPendingRequest_fields_def

subsection \<open>\<open>QueryGetPendingResponse\<close>\<close>

definition QueryGetPendingResponse_puts :: "CoinCodec \<Rightarrow> QueryGetPendingResponse \<Rightarrow> bufop list" where
  "QueryGetPendingResponse_puts C m = [put_sub 0xa (Pending_MarshalToSizedBuffer C (qgpPending m))]"

definition QueryGetPendingResponse_Size :: "CoinCodec \<Rightarrow> QueryGetPendingResponse \<Rightarrow> nat" where
  "QueryGetPendingResponse_Size C m = (let l = Pending_Size C (qgpPending m) in 1 + l + sovQuery (of_nat l))"

definition QueryGetPendingResponse_field :: "CoinCodec \<Rightarrow> int \<Rightarrow> nat \<Rightarrow> bytes \<Rightarrow> QueryGetPendingResponse \<Rightarrow> int \<Rightarrow> (QueryGetPendingResponse \<times> int) rd option" where
  "QueryGetPendingResponse_field C fieldNum wireType dAtA m iNdEx =
     (if fieldNum = 1 then Some (msg_field ''Pending'' wireType dAtA iNdEx (Pending_Unmarshal C (qgpPending m)) (\<lambda>v. m\<lparr>qgpPending := v\<rparr>))
      else None)"

definition QueryGetPendingResponse_MarshalToSizedBuffer :: "CoinCodec \<Rightarrow> QueryGetPendingResponse \<Rightarrow> bytes \<Rightarrow> (bytes \<times> nat) res" where
  "QueryGetPendingResponse_MarshalToSizedBuffer C m = to_sized_buffer (ops (QueryGetPendingResponse_puts C m))"

definition QueryGetPendingResponse_Marshal :: "CoinCodec \<Rightarrow> QueryGetPendingResponse \<Rightarrow> bytes res" where
  "QueryGetPendingResponse_Marshal C = proto_marshal (QueryGetPendingResponse_Size C) (QueryGetPendingResponse_MarshalToSizedBuffer C)"

definition QueryGetPendingResponse_Unmarshal :: "CoinCodec \<Rightarrow> QueryGetPendingResponse \<Rightarrow> bytes \<Rightarrow> QueryGetPendingResponse rd" where
  "QueryGetPendingResponse_Unmarshal C = proto_unmarshal (proto_step ''QueryGetPendingResponse'' skipQuery (QueryGetPendingResponse_field C))"

definition QueryGetPendingResponse_zero :: QueryGetPendingResponse where
  "QueryGetPendingResponse_zero = \<lparr>qgpPending = Pending_zero\<rparr>"

lemmas QueryGetPendingResponse_defs = QueryGetPendingResponse_puts_def QueryGetPendingResponse_Size_def QueryGetPendingResponse_field_def QueryGetPendingResponse_zero_def

subsection \<open>\<open>QueryAllPendingRequest\<close>\<close>

definition QueryAllPendingRequest_puts :: "'pg PageCodec \<Rightarrow> 'pg option QueryAllPendingRequest \<Rightarrow> bufop list" where
  "QueryAllPendingRequest_puts Q m = [put_opt 0xa (page_MarshalToSizedBuffer Q) (qapPagination m)]"

definition QueryAllPendingRequest_Size :: "'pg PageCodec \<Rightarrow> 'pg option QueryAllPendingRequest \<Rightarrow> nat" where
  "QueryAllPendingRequest_Size Q m = size_opt (page_Size Q) (qapPagination m)"

definition QueryAllPendingRequest_field ::
  "'pg PageCodec \<Rightarrow> int \<Rightarrow> nat \<Rightarrow> bytes \<Rightarrow> 'pg option QueryAllPendingRequest \<Rightarrow> int \<Rightarrow> ('pg option QueryAllPendingRequest \<times> int) rd option" where
  "QueryAllPendingRequest_field Q fieldNum wireType dAtA m iNdEx =
     (if fieldNum = 1 then Some (msg_field ''Pagination'' wireType dAtA iNdEx
        (page_Unmarshal Q (page_of (page_zero Q) (qapPagination m))) (\<lambda>v. m\<lparr>qapPagination := Some v\<rparr>))
      else None)"

definition QueryAllPendingRequest_MarshalToSizedBuffer :: "'pg PageCodec \<Rightarrow> 'pg option QueryAllPendingRequest \<Rightarrow> bytes \<Rightarrow> (bytes \<times> nat) res" where
  "QueryAllPendingRequest_MarshalToSizedBuffer Q m = to_sized_buffer (ops (QueryAllPendingRequest_puts Q m))"

definition QueryAllPendingRequest_Marshal :: "'pg PageCodec \<Rightarrow> 'pg option QueryAllPendingRequest \<Rightarrow> bytes res" where
  "QueryAllPendingRequest_Marshal Q = proto_marshal (QueryAllPendingRequest_Size Q) (QueryAllPendingRequest_MarshalToSizedBuffer Q)"

definition QueryAllPendingRequest_Unmarshal :: "'pg PageCodec \<Rightarrow> 'pg option QueryAllPendingRequest \<Rightarrow> bytes \<Rightarrow> 'pg option QueryAllPendingRequest rd" where
  "QueryAllPendingRequest_Unmarshal Q = proto_unmarshal (proto_step ''QueryAllPendingRequest'' skipQuery (QueryAllPendingRequest_field Q))"

definition QueryAllPendingRequest_zero :: "'pg option QueryAllPendingRequest" where
  "QueryAllPendingRequest_zero = \<lparr>qapPagination = None\<rparr>"

lemmas QueryAllPendingRequest_defs = QueryAllPendingRequest_puts_def QueryAllPendingRequest_Size_def QueryAllPendingRequest_field_def QueryAllPendingRequest_zero_def

subsection \<open>\<open>QueryAllPendingResponse\<close>\<close>

definition QueryAllPendingResponse_puts :: "CoinCodec \<Rightarrow> 'pr PageCodec \<Rightarrow> 'pr option QueryAllPendingResponse \<Rightarrow> bufop list" where
  "QueryAllPendingResponse_puts C R m = [
     put_opt 0x12 (page_MarshalToSizedBuffer R) (qapPage m),
     ops (map (\<lambda>x. put_sub 0xa (Pending_MarshalToSizedBuffer C x)) (rev (qapPending m)))]"

definition QueryAllPendingResponse_Size :: "CoinCodec \<Rightarrow> 'pr PageCodec \<Rightarrow> 'pr option QueryAllPendingResponse \<Rightarrow> nat" where
  "QueryAllPendingResponse_Size C R m =
     (\<Sum>e\<leftarrow>qapPending m. let l = Pending_Size C e in 1 + l + sovQuery (of_nat l)) + size_opt (page_Size R) (qapPage m)"

definition QueryAllPendingResponse_field ::
  "CoinCodec \<Rightarrow> 'pr PageCodec \<Rightarrow> int \<Rightarrow> nat \<Rightarrow> bytes \<Rightarrow> 'pr option QueryAllPendingResponse \<Rightarrow> int \<Rightarrow> ('pr option QueryAllPendingResponse \<times> int) rd option" where
  "QueryAllPendingResponse_field C R fieldNum wireType dAtA m iNdEx =
     (if fieldNum = 1 then Some (msg_field ''Pending'' wireType dAtA iNdEx (Pending_Unmarshal C Pending_zero)
        (\<lambda>v. m\<lparr>qapPending := qapPending m @ [v]\<rparr>))
      else if fieldNum = 2 then Some (msg_field ''Pagination'' wireType dAtA iNdEx
        (page_Unmarshal R (page_of (page_zero R) (qapPage m))) (\<lambda>v. m\<lparr>qapPage := Some v\<rparr>))
      else None)"

definition QueryAllPendingResponse_MarshalToSizedBuffer :: "CoinCodec \<Rightarrow> 'pr PageCodec \<Rightarrow> 'pr option QueryAllPendingResponse \<Rightarrow> bytes \<Rightarrow> (bytes \<times> nat) res" where
  "QueryAllPendingResponse_MarshalToSizedBuffer C R m = to_sized_buffer (ops (QueryAllPendingResponse_puts C R m))"

definition QueryAllPendingResponse_Marshal :: "CoinCodec \<Rightarrow> 'pr PageCodec \<Rightarrow> 'pr option QueryAllPendingResponse \<Rightarrow> bytes res" where
  "QueryAllPendingResponse_Marshal C R = proto_marshal (QueryAllPendingResponse_Size C R) (QueryAllPendingResponse_MarshalToSizedBuffer C R)"

definition QueryAllPendingResponse_Unmarshal :: "CoinCodec \<Rightarrow> 'pr PageCodec \<Rightarrow> 'pr option QueryAllPendingResponse \<Rightarrow> bytes \<Rightarrow> 'pr option QueryAllPendingResponse rd" where
  "QueryAllPendingResponse_Unmarshal C R = proto_unmarshal (proto_step ''QueryAllPendingResponse'' skipQuery (QueryAllPendingResponse_field C R))"

definition QueryAllPendingResponse_zero :: "'pr option QueryAllPendingResponse" where
  "QueryAllPendingResponse_zero = \<lparr>qapPending = [], qapPage = None\<rparr>"

lemmas QueryAllPendingResponse_defs = QueryAllPendingResponse_puts_def QueryAllPendingResponse_Size_def QueryAllPendingResponse_field_def QueryAllPendingResponse_zero_def

subsection \<open>\<open>QueryGetRecordRequest\<close>\<close>

definition QueryGetRecordRequest_puts :: "QueryGetRecordRequest \<Rightarrow> bufop list" where
  "QueryGetRecordRequest_puts m = [put_string 0xa (qgrIndex m)]"

definition QueryGetRecordRequest_Size :: "QueryGetRecordRequest \<Rightarrow> nat" where
  "QueryGetRecordRequest_Size m = (let l = length (qgrIndex m) in if l > 0 then 1 + l + sovQuery (of_nat l) else 0)"

definition QueryGetRecordRequest_field :: "int \<Rightarrow> nat \<Rightarrow> bytes \<Rightarrow> QueryGetRecordRequest \<Rightarrow> int \<Rightarrow> (QueryGetRecordRequest \<times> int) rd option" where
  "QueryGetRecordRequest_field fieldNum wireType dAtA m iNdEx =
     (if fieldNum = 1 then Some (string_field ''Index'' wireType dAtA iNdEx (\<lambda>v. m\<lparr>qgrIndex := v\<rparr>)) else None)"

definition QueryGetRecordRequest_MarshalToSizedBuffer :: "QueryGetRecordRequest \<Rightarrow> bytes \<Rightarrow> (bytes \<times> nat) res" where
  "QueryGetRecordRequest_MarshalToSizedBuffer m = to_sized_buffer (ops (QueryGetRecordRequest_puts m))"

definition QueryGetRecordRequest_Marshal :: "QueryGetRecordRequest \<Rightarrow> bytes res" where
  "QueryGetRecordRequest_Marshal = proto_marshal (QueryGetRecordRequest_Size) (QueryGetRecordRequest_MarshalToSizedBuffer)"

definition QueryGetRecordRequest_Unmarshal :: "QueryGetRecordRequest \<Rightarrow> bytes \<Rightarrow> QueryGetRecordRequest rd" where
  "QueryGetRecordRequest_Unmarshal = proto_unmarshal (proto_step ''QueryGetRecordRequest'' skipQuery (QueryGetRecordRequest_field))"

definition QueryGetRecordRequest_zero :: QueryGetRecordRequest where
  "QueryGetRecordRequest_zero = \<lparr>qgrIndex = []\<rparr>"

definition QueryGetRecordRequest_fields :: "QueryGetRecordRequest \<Rightarrow> QueryGetRecordRequest fields" where
  "QueryGetRecordRequest_fields m = string_f 0xa (qgrIndex m) (qgrIndex_update (\<lambda>_. qgrIndex m))"

lemmas QueryGetRecordRequest_defs = QueryGetRecordRequest_puts_def QueryGetRecordRequest_Size_def QueryGetRecordRequest_field_def QueryGetRecordRequest_zero_def QueryGetRecordRequest_fields_def

subsection \<open>\<open>QueryGetRecordResponse\<close>\<close>

definition QueryGetRecordResponse_puts :: "QueryGetRecordResponse \<Rightarrow> bufop list" where
  "QueryGetRecordResponse_puts m = [put_sub 0xa (Record_MarshalToSizedBuffer (qgrRecord m))]"

definition QueryGetRecordResponse_Size :: "QueryGetRecordResponse \<Rightarrow> nat" where
  "QueryGetRecordResponse_Size m = (let l = Record_Size (qgrRecord m) in 1 + l + sovQuery (of_nat l))"

definition QueryGetRecordResponse_field :: "int \<Rightarrow> nat \<Rightarrow> bytes \<Rightarrow> QueryGetRecordResponse \<Rightarrow> int \<Rightarrow> (QueryGetRecordResponse \<times> int) rd option" where
  "QueryGetRecordResponse_field fieldNum wireType dAtA m iNdEx =
     (if fieldNum = 1 then Some (msg_field ''Record'' wireType dAtA iNdEx (Record_Unmarshal (qgrRecord m)) (\<lambda>v. m\<lparr>qgrRecord := v\<rparr>))
      else None)"

definition QueryGetRecordResponse_MarshalToSizedBuffer :: "QueryGetRecordResponse \<Rightarrow> bytes \<Rightarrow> (bytes \<times> nat) res" where
  "QueryGetRecordResponse_MarshalToSizedBuffer m = to_sized_buffer (ops (QueryGetRecordResponse_puts m))"

definition QueryGetRecordResponse_Marshal :: "QueryGetRecordResponse \<Rightarrow> bytes res" where
  "QueryGetRecordResponse_Marshal = proto_marshal (QueryGetRecordResponse_Size) (QueryGetRecordResponse_MarshalToSizedBuffer)"

definition QueryGetRecordResponse_Unmarshal :: "QueryGetRecordResponse \<Rightarrow> bytes \<Rightarrow> QueryGetRecordResponse rd" where
  "QueryGetRecordResponse_Unmarshal = proto_unmarshal (proto_step ''QueryGetRecordResponse'' skipQuery (QueryGetRecordResponse_field))"

definition QueryGetRecordResponse_zero :: QueryGetRecordResponse where
  "QueryGetRecordResponse_zero = \<lparr>qgrRecord = Record_zero\<rparr>"

lemmas QueryGetRecordResponse_defs = QueryGetRecordResponse_puts_def QueryGetRecordResponse_Size_def QueryGetRecordResponse_field_def QueryGetRecordResponse_zero_def

subsection \<open>\<open>QueryAllRecordRequest\<close>\<close>

definition QueryAllRecordRequest_puts :: "'pg PageCodec \<Rightarrow> 'pg option QueryAllRecordRequest \<Rightarrow> bufop list" where
  "QueryAllRecordRequest_puts Q m = [put_opt 0xa (page_MarshalToSizedBuffer Q) (qarPagination m)]"

definition QueryAllRecordRequest_Size :: "'pg PageCodec \<Rightarrow> 'pg option QueryAllRecordRequest \<Rightarrow> nat" where
  "QueryAllRecordRequest_Size Q m = size_opt (page_Size Q) (qarPagination m)"

definition QueryAllRecordRequest_field ::
  "'pg PageCodec \<Rightarrow> int \<Rightarrow> nat \<Rightarrow> bytes \<Rightarrow> 'pg option QueryAllRecordRequest \<Rightarrow> int \<Rightarrow> ('pg option QueryAllRecordRequest \<times> int) rd option" where
  "QueryAllRecordRequest_field Q fieldNum wireType dAtA m iNdEx =
     (if fieldNum = 1 then Some (msg_field ''Pagination'' wireType dAtA iNdEx
        (page_Unmarshal Q (page_of (page_zero Q) (qarPagination m))) (\<lambda>v. m\<lparr>qarPagination := Some v\<rparr>))
      else None)"

definition QueryAllRecordRequest_MarshalToSizedBuffer :: "'pg PageCodec \<Rightarrow> 'pg option QueryAllRecordRequest \<Rightarrow> bytes \<Rightarrow> (bytes \<times> nat) res" where
  "QueryAllRecordRequest_MarshalToSizedBuffer Q m = to_sized_buffer (ops (QueryAllRecordRequest_puts Q m))"

definition QueryAllRecordRequest_Marshal :: "'pg PageCodec \<Rightarrow> 'pg option QueryAllRecordRequest \<Rightarrow> bytes res" where
  "QueryAllRecordRequest_Marshal Q = proto_marshal (QueryAllRecordRequest_Size Q) (QueryAllRecordRequest_MarshalToSizedBuffer Q)"

definition QueryAllRecordRequest_Unmarshal :: "'pg PageCodec \<Rightarrow> 'pg option QueryAllRecordRequest \<Rightarrow> bytes \<Rightarrow> 'pg option QueryAllRecordRequest rd" where
  "QueryAllRecordRequest_Unmarshal Q = proto_unmarshal (proto_step ''QueryAllRecordRequest'' skipQuery (QueryAllRecordRequest_field Q))"

definition QueryAllRecordRequest_zero :: "'pg option QueryAllRecordRequest" where
  "QueryAllRecordRequest_zero = \<lparr>qarPagination = None\<rparr>"

lemmas QueryAllRecordRequest_defs = QueryAllRecordRequest_puts_def QueryAllRecordRequest_Size_def QueryAllRecordRequest_field_def QueryAllRecordRequest_zero_def

subsection \<open>\<open>QueryAllRecordResponse\<close>\<close>

definition QueryAllRecordResponse_puts :: "'pr PageCodec \<Rightarrow> 'pr option QueryAllRecordResponse \<Rightarrow> bufop list" where
  "QueryAllRecordResponse_puts R m = [
     put_opt 0x12 (page_MarshalToSizedBuffer R) (qarPage m),
     ops (map (\<lambda>x. put_sub 0xa (Record_MarshalToSizedBuffer x)) (rev (qarRecord m)))]"

definition QueryAllRecordResponse_Size :: "'pr PageCodec \<Rightarrow> 'pr option QueryAllRecordResponse \<Rightarrow> nat" where
  "QueryAllRecordResponse_Size R m =
     (\<Sum>e\<leftarrow>qarRecord m. let l = Record_Size e in 1 + l + sovQuery (of_nat l)) + size_opt (page_Size R) (qarPage m)"

definition QueryAllRecordResponse_field ::
  "'pr PageCodec \<Rightarrow> int \<Rightarrow> nat \<Rightarrow> bytes \<Rightarrow> 'pr option QueryAllRecordResponse \<Rightarrow> int \<Rightarrow> ('pr option QueryAllRecordResponse \<times> int) rd option" where
  "QueryAllRecordResponse_field R fieldNum wireType dAtA m iNdEx =
     (if fieldNum = 1 then Some (msg_field ''Record'' wireType dAtA iNdEx (Record_Unmarshal Record_zero)
        (\<lambda>v. m\<lparr>qarRecord := qarRecord m @ [v]\<rparr>))
      else if fieldNum = 2 then Some (msg_field ''Pagination'' wireType dAtA iNdEx
        (page_Unmarshal R (page_of (page_zero R) (qarPage m))) (\<lambda>v. m\<lparr>qarPage := Some v\<rparr>))
      else None)"

definition QueryAllRecordResponse_MarshalToSizedBuffer :: "'pr PageCodec \<Rightarrow> 'pr option QueryAllRecordResponse \<Rightarrow> bytes \<Rightarrow> (bytes \<times> nat) res" where
  "QueryAllRecordResponse_MarshalToSizedBuffer R m = to_sized_buffer (ops (QueryAllRecordResponse_puts R m))"

definition QueryAllRecordResponse_Marshal :: "'pr PageCodec \<Rightarrow> 'pr option QueryAllRecordResponse \<Rightarrow> bytes res" where
  "QueryAllRecordResponse_Marshal R = proto_marshal (QueryAllRecordResponse_Size R) (QueryAllRecordResponse_MarshalToSizedBuffer R)"

definition QueryAllRecordResponse_Unmarshal :: "'pr PageCodec \<Rightarrow> 'pr option QueryAllRecordResponse \<Rightarrow> bytes \<Rightarrow> 'pr option QueryAllRecordResponse rd" where
  "QueryAllRecordResponse_Unmarshal R = proto_unmarshal (proto_step ''QueryAllRecordResponse'' skipQuery (QueryAllRecordResponse_field R))"

definition QueryAllRecordResponse_zero :: "'pr option QueryAllRecordResponse" where
  "QueryAllRecordResponse_zero = \<lparr>qarRecord = [], qarPage = None\<rparr>"

lemmas QueryAllRecordResponse_defs = QueryAllRecordResponse_puts_def QueryAllRecordResponse_Size_def QueryAllRecordResponse_field_def QueryAllRecordResponse_zero_def

section \<open>Contracts\<close>

interpretation params_request: field_codec "\<lambda>m. []" "\<lambda>m. True" QueryParamsRequest_Size QueryParamsRequest_puts
  "''QueryParamsRequest''" skipQuery QueryParamsRequest_field "()"
  by unfold_locales
    (simp_all add: QueryParamsRequest_Size_def QueryParamsRequest_puts_def QueryParamsRequest_field_def skipQuery_def
      fields_move_def writes_ops_Nil)

interpretation params_response: sub_message Params_enc "fits Params_enc" Params_Size Params_MarshalToSizedBuffer
  Params_Unmarshal Params_zero qpParams "\<lambda>m v. m\<lparr>qpParams := v\<rparr>" "''Params''" QueryParamsResponse_Size
  QueryParamsResponse_puts "''QueryParamsResponse''" skipQuery QueryParamsResponse_field QueryParamsResponse_zero
  by unfold_locales (simp_all add: QueryParamsResponse_defs skipQuery_def)

interpretation record_response: sub_message Record_enc "fits Record_enc" Record_Size Record_MarshalToSizedBuffer
  Record_Unmarshal Record_zero qgrRecord "\<lambda>m v. m\<lparr>qgrRecord := v\<rparr>" "''Record''" QueryGetRecordResponse_Size
  QueryGetRecordResponse_puts "''QueryGetRecordResponse''" skipQuery QueryGetRecordResponse_field QueryGetRecordResponse_zero
  by unfold_locales (simp_all add: QueryGetRecordResponse_defs skipQuery_def)

interpretation pending_request: field_codec QueryGetPendingRequest_fields "\<lambda>m. True" QueryGetPendingRequest_Size
  QueryGetPendingRequest_puts "''QueryGetPendingRequest''" skipQuery QueryGetPendingRequest_field QueryGetPendingRequest_zero
proof unfold_locales
  fix m :: QueryGetPendingRequest
  show "QueryGetPendingRequest_Size m = length (enc_of (QueryGetPendingRequest_fields m))"
    unfolding QueryGetPendingRequest_fields_def field_sizes(1) by (simp add: QueryGetPendingRequest_Size_def sovTx_def sovQuery_def)
  show "read_through (proto_step ''QueryGetPendingRequest'' proto_skip QueryGetPendingRequest_field)
      (QueryGetPendingRequest_fields m) QueryGetPendingRequest_zero"
    unfolding QueryGetPendingRequest_fields_def
    by (intro read_uint reads_fieldI [OF tags(1)]) (simp add: QueryGetPendingRequest_field_def varint_field_reads)
  show "writes (ops (QueryGetPendingRequest_puts m)) (enc_of (QueryGetPendingRequest_fields m))"
    unfolding QueryGetPendingRequest_puts_def QueryGetPendingRequest_fields_def by (intro writes_last writes_uint)
qed (auto simp: QueryGetPendingRequest_defs skipQuery_def uint_f_def fields_move_def
  split: if_splits intro: field_moves)

interpretation record_request: field_codec QueryGetRecordRequest_fields "\<lambda>m. length (qgrIndex m) < 2 ^ 63" QueryGetRecordRequest_Size
  QueryGetRecordRequest_puts "''QueryGetRecordRequest''" skipQuery QueryGetRecordRequest_field QueryGetRecordRequest_zero
proof unfold_locales
  fix m :: QueryGetRecordRequest
  assume len: "length (qgrIndex m) < 2 ^ 63"
  show "QueryGetRecordRequest_Size m = length (enc_of (QueryGetRecordRequest_fields m))"
    unfolding QueryGetRecordRequest_fields_def field_sizes(3) [OF len]
    by (simp add: QueryGetRecordRequest_Size_def sovTx_def sovQuery_def Let_def)
  show "writes (ops (QueryGetRecordRequest_puts m)) (enc_of (QueryGetRecordRequest_fields m))"
    unfolding QueryGetRecordRequest_puts_def QueryGetRecordRequest_fields_def by (intro writes_last writes_string63 len)
  show "read_through (proto_step ''QueryGetRecordRequest'' proto_skip QueryGetRecordRequest_field)
      (QueryGetRecordRequest_fields m) QueryGetRecordRequest_zero"
    unfolding QueryGetRecordRequest_fields_def
    by (intro read_string reads_fieldI [OF tags(6)]) (simp add: QueryGetRecordRequest_field_def string_field_reads)
qed (auto simp: QueryGetRecordRequest_defs skipQuery_def string_f_def fields_move_def split: if_splits intro: field_moves)

text \<open>The codecs of coins and of the two kinds of pages, with their promises.\<close>

locale query_codecs = coin_codec C cenc cgood +
  pgq: msg_codec qenc qgood "page_Size Q" "page_MarshalToSizedBuffer Q" "page_Unmarshal Q" "page_zero Q" +
  pgr: msg_codec renc rgood "page_Size R" "page_MarshalToSizedBuffer R" "page_Unmarshal R" "page_zero R"
  for C :: CoinCodec and cenc cgood and Q :: "'pg PageCodec" and qenc qgood and R :: "'pr PageCodec" and renc rgood

sublocale query_codecs < pending_response: sub_message "Pending_enc cenc" "Pending_good cenc cgood" "Pending_Size C"
  "Pending_MarshalToSizedBuffer C" "Pending_Unmarshal C" Pending_zero qgpPending "\<lambda>m v. m\<lparr>qgpPending := v\<rparr>" "''Pending''"
  "QueryGetPendingResponse_Size C" "QueryGetPendingResponse_puts C" "''QueryGetPendingResponse''" skipQuery
  "QueryGetPendingResponse_field C" QueryGetPendingResponse_zero
  by unfold_locales (simp_all add: QueryGetPendingResponse_defs skipQuery_def)

sublocale query_codecs < pendings_request: page_message qenc qgood "page_Size Q" "page_MarshalToSizedBuffer Q" "page_Unmarshal Q"
  "page_zero Q" qapPagination "\<lambda>m v. m\<lparr>qapPagination := Some v\<rparr>" "''Pagination''" "QueryAllPendingRequest_Size Q"
  "QueryAllPendingRequest_puts Q" "''QueryAllPendingRequest''" skipQuery "QueryAllPendingRequest_field Q" QueryAllPendingRequest_zero
  by unfold_locales (simp_all add: QueryAllPendingRequest_defs skipQuery_def)

sublocale query_codecs < records_request: page_message qenc qgood "page_Size Q" "page_MarshalToSizedBuffer Q" "page_Unmarshal Q"
  "page_zero Q" qarPagination "\<lambda>m v. m\<lparr>qarPagination := Some v\<rparr>" "''Pagination''" "QueryAllRecordRequest_Size Q"
  "QueryAllRecordRequest_puts Q" "''QueryAllRecordRequest''" skipQuery "QueryAllRecordRequest_field Q" QueryAllRecordRequest_zero
  by unfold_locales (simp_all add: QueryAllRecordRequest_defs skipQuery_def)

lemma all_pending_updates:
  fixes m :: "'pr QueryAllPendingResponse"
  shows "m\<lparr>qapPending := xs\<rparr> = \<lparr>qapPending = xs, qapPage = qapPage m\<rparr>" "m\<lparr>qapPage := p\<rparr> = \<lparr>qapPending = qapPending m, qapPage = p\<rparr>"
  by simp_all

lemma all_record_updates:
  fixes m :: "'pr QueryAllRecordResponse"
  shows "m\<lparr>qarRecord := xs\<rparr> = \<lparr>qarRecord = xs, qarPage = qarPage m\<rparr>" "m\<lparr>qarPage := p\<rparr> = \<lparr>qarRecord = qarRecord m, qarPage = p\<rparr>"
  by simp_all

sublocale query_codecs < pendings_response: list_message "Pending_enc cenc" "Pending_good cenc cgood" "Pending_Size C"
  "Pending_MarshalToSizedBuffer C" "Pending_Unmarshal C" Pending_zero renc rgood "page_Size R" "page_MarshalToSizedBuffer R"
  "page_Unmarshal R" "page_zero R" qapPending qapPage "\<lambda>xs p. \<lparr>qapPending = xs, qapPage = p\<rparr>" "''Pending''" "''Pagination''"
  "QueryAllPendingResponse_Size C R" "QueryAllPendingResponse_puts C R" "''QueryAllPendingResponse''" skipQuery
  "QueryAllPendingResponse_field C R" QueryAllPendingResponse_zero
  by unfold_locales (simp_all add: QueryAllPendingResponse_defs skipQuery_def all_pending_updates)

sublocale query_codecs < records_response: list_message Record_enc "fits Record_enc" Record_Size
  Record_MarshalToSizedBuffer Record_Unmarshal Record_zero renc rgood "page_Size R" "page_MarshalToSizedBuffer R"
  "page_Unmarshal R" "page_zero R" qarRecord qarPage "\<lambda>xs p. \<lparr>qarRecord = xs, qarPage = p\<rparr>" "''Record''" "''Pagination''"
  "QueryAllRecordResponse_Size R" "QueryAllRecordResponse_puts R" "''QueryAllRecordResponse''" skipQuery
  "QueryAllRecordResponse_field R" QueryAllRecordResponse_zero
  by unfold_locales (simp_all add: QueryAllRecordResponse_defs skipQuery_def all_record_updates)

end
