(* ===== verification/QueryService.thy ===== *)
theory QueryService
  imports QueryCodec Routes Services
begin

text \<open>
  The service of queries (\<open>query.pb.go\<close>): the generated handlers with their descriptor, and the
  generated client. A connection (\<open>grpc.ClientConn\<close>) is a parameter; what gRPC documents of a
  unary call over one is \<open>grpc_Invoke\<close>.
\<close>

section \<open>Requests on the wire\<close>

text \<open>A request is a pointer, which may be nil.\<close>

datatype 'pg query_request =
    ParamsRequest "unit option"
  | GetPendingRequest "QueryGetPendingRequest option"
  | ListPendingRequest "('pg option QueryAllPendingRequest) option"
  | GetRecordRequest "QueryGetRecordRequest option"
  | ListRecordRequest "('pg option QueryAllRecordRequest) option"

text \<open>Writing a nil request with fields dereferences it.\<close>

definition of_pointer :: "('a \<Rightarrow> bytes res) \<Rightarrow> 'a option \<Rightarrow> bytes res" where
  "of_pointer marshal x = (case x of None \<Rightarrow> Panic ''nil pointer dereference'' | Some m \<Rightarrow> marshal m)"

fun request_Marshal :: "'pg PageCodec \<Rightarrow> 'pg query_request \<Rightarrow> bytes res" where
  "request_Marshal Q (ParamsRequest m) = QueryParamsRequest_Marshal ()"
| "request_Marshal Q (GetPendingRequest m) = of_pointer QueryGetPendingRequest_Marshal m"
| "request_Marshal Q (ListPendingRequest m) = of_pointer (QueryAllPendingRequest_Marshal Q) m"
| "request_Marshal Q (GetRecordRequest m) = of_pointer QueryGetRecordRequest_Marshal m"
| "request_Marshal Q (ListRecordRequest m) = of_pointer (QueryAllRecordRequest_Marshal Q) m"

text \<open>
  Decoding, as a generated handler asks for it: into the request it has made. (The decoders
  always return, so the last case of \<open>rd_sum\<close> does not occur.)
\<close>

definition rd_sum :: "'a rd \<Rightarrow> error + 'a" where
  "rd_sum r = (case r of Got m \<Rightarrow> Inr m | Failed e \<Rightarrow> Inl e | OutOfFuel \<Rightarrow> Inl (Errorf ''endless''))"

definition into_pointer :: "('a \<Rightarrow> bytes \<Rightarrow> 'a rd) \<Rightarrow> ('a option \<Rightarrow> 'b) \<Rightarrow> bytes \<Rightarrow> 'a option \<Rightarrow> error + 'b" where
  "into_pointer unmarshal con b x =
     (case x of None \<Rightarrow> Inl (Errorf ''nil pointer'') | Some m \<Rightarrow> map_sum id (\<lambda>m. con (Some m)) (rd_sum (unmarshal m b)))"

fun request_dec :: "'pg PageCodec \<Rightarrow> bytes \<Rightarrow> 'pg query_request \<Rightarrow> error + 'pg query_request" where
  "request_dec Q b (ParamsRequest m) = into_pointer QueryParamsRequest_Unmarshal ParamsRequest b m"
| "request_dec Q b (GetPendingRequest m) = into_pointer QueryGetPendingRequest_Unmarshal GetPendingRequest b m"
| "request_dec Q b (ListPendingRequest m) = into_pointer (QueryAllPendingRequest_Unmarshal Q) ListPendingRequest b m"
| "request_dec Q b (GetRecordRequest m) = into_pointer QueryGetRecordRequest_Unmarshal GetRecordRequest b m"
| "request_dec Q b (ListRecordRequest m) = into_pointer (QueryAllRecordRequest_Unmarshal Q) ListRecordRequest b m"

fun reply_Marshal :: "CoinCodec \<Rightarrow> 'pr PageCodec \<Rightarrow> 'pr option reply \<Rightarrow> bytes res" where
  "reply_Marshal C R (ParamsReply m) = QueryParamsResponse_Marshal m"
| "reply_Marshal C R (GetPendingReply m) = QueryGetPendingResponse_Marshal C m"
| "reply_Marshal C R (ListPendingReply m) = QueryAllPendingResponse_Marshal C R m"
| "reply_Marshal C R (GetRecordReply m) = QueryGetRecordResponse_Marshal m"
| "reply_Marshal C R (ListRecordReply m) = QueryAllRecordResponse_Marshal R m"

fun reply_dec :: "CoinCodec \<Rightarrow> 'pr PageCodec \<Rightarrow> bytes \<Rightarrow> 'pr option reply \<Rightarrow> error + 'pr option reply" where
  "reply_dec C R b (ParamsReply m) = map_sum id ParamsReply (rd_sum (QueryParamsResponse_Unmarshal m b))"
| "reply_dec C R b (GetPendingReply m) = map_sum id GetPendingReply (rd_sum (QueryGetPendingResponse_Unmarshal C m b))"
| "reply_dec C R b (ListPendingReply m) = map_sum id ListPendingReply (rd_sum (QueryAllPendingResponse_Unmarshal C R m b))"
| "reply_dec C R b (GetRecordReply m) = map_sum id GetRecordReply (rd_sum (QueryGetRecordResponse_Unmarshal m b))"
| "reply_dec C R b (ListRecordReply m) = map_sum id ListRecordReply (rd_sum (QueryAllRecordResponse_Unmarshal R m b))"

section \<open>The server side\<close>

type_synonym ('st, 'c, 'pg, 'pr) query_server = "('st, 'c, 'pg option, 'pr option) QueryServer"

type_synonym ('st, 'c, 'pg, 'pr) query_call =
  "'c \<Rightarrow> 'pg query_request \<Rightarrow> ('st \<times> ServerMetadata, 'pr option reply) go"

type_synonym ('st, 'c, 'pg, 'pr) query_interceptor =
  "'c \<Rightarrow> 'pg query_request \<Rightarrow> string \<Rightarrow> ('st, 'c, 'pg, 'pr) query_call \<Rightarrow> ('st \<times> ServerMetadata, 'pr option reply) go"

type_synonym ('st, 'c, 'pg, 'pr) query_handler =
  "('st, 'c, 'pg, 'pr) query_server \<Rightarrow> 'c \<Rightarrow> ('pg query_request \<Rightarrow> error + 'pg query_request) \<Rightarrow>
   ('st, 'c, 'pg, 'pr) query_interceptor option \<Rightarrow> ('st \<times> ServerMetadata, 'pr option reply) go"

definition query_unary ::
  "'pg query_request \<Rightarrow> string \<Rightarrow> (('st, 'c, 'pg, 'pr) query_server \<Rightarrow> ('st, 'c, 'pg, 'pr) query_call) \<Rightarrow>
   ('st, 'c, 'pg, 'pr) query_handler" where
  "query_unary new_req fullMethod call srv ctx dec interceptor =
     bind (pure_call (dec new_req)) (\<lambda>req.
     case interceptor of
       None \<Rightarrow> call srv ctx req
     | Some intercept \<Rightarrow> intercept ctx req fullMethod (call srv))"

text \<open>The call of the server; the type assertion panics on a request of another type.\<close>

fun call_Params :: "('st, 'c, 'pg, 'pr) query_server \<Rightarrow> ('st, 'c, 'pg, 'pr) query_call" where
  "call_Params srv ctx (ParamsRequest r) = bind (srv_Params srv ctx r) (\<lambda>x. ret (ParamsReply x))"
| "call_Params srv ctx _ = go_lift (Panic ''interface conversion'')"

fun call_GetPending :: "('st, 'c, 'pg, 'pr) query_server \<Rightarrow> ('st, 'c, 'pg, 'pr) query_call" where
  "call_GetPending srv ctx (GetPendingRequest r) = bind (srv_GetPending srv ctx r) (\<lambda>x. ret (GetPendingReply x))"
| "call_GetPending srv ctx _ = go_lift (Panic ''interface conversion'')"

fun call_ListPending :: "('st, 'c, 'pg, 'pr) query_server \<Rightarrow> ('st, 'c, 'pg, 'pr) query_call" where
  "call_ListPending srv ctx (ListPendingRequest r) = bind (srv_ListPending srv ctx r) (\<lambda>x. ret (ListPendingReply x))"
| "call_ListPending srv ctx _ = go_lift (Panic ''interface conversion'')"

fun call_GetRecord :: "('st, 'c, 'pg, 'pr) query_server \<Rightarrow> ('st, 'c, 'pg, 'pr) query_call" where
  "call_GetRecord srv ctx (GetRecordRequest r) = bind (srv_GetRecord srv ctx r) (\<lambda>x. ret (GetRecordReply x))"
| "call_GetRecord srv ctx _ = go_lift (Panic ''interface conversion'')"

fun call_ListRecord :: "('st, 'c, 'pg, 'pr) query_server \<Rightarrow> ('st, 'c, 'pg, 'pr) query_call" where
  "call_ListRecord srv ctx (ListRecordRequest r) = bind (srv_ListRecord srv ctx r) (\<lambda>x. ret (ListRecordReply x))"
| "call_ListRecord srv ctx _ = go_lift (Panic ''interface conversion'')"

definition Query_Params_Handler :: "('st, 'c, 'pg, 'pr) query_handler" where
  "Query_Params_Handler = query_unary (ParamsRequest (Some ())) ''/trefoil.undo.v1.Query/Params'' call_Params"

definition Query_GetPending_Handler :: "('st, 'c, 'pg, 'pr) query_handler" where
  "Query_GetPending_Handler = query_unary (GetPendingRequest (Some QueryGetPendingRequest_zero)) ''/trefoil.undo.v1.Query/GetPending'' call_GetPending"

definition Query_ListPending_Handler :: "('st, 'c, 'pg, 'pr) query_handler" where
  "Query_ListPending_Handler = query_unary (ListPendingRequest (Some QueryAllPendingRequest_zero)) ''/trefoil.undo.v1.Query/ListPending'' call_ListPending"

definition Query_GetRecord_Handler :: "('st, 'c, 'pg, 'pr) query_handler" where
  "Query_GetRecord_Handler = query_unary (GetRecordRequest (Some QueryGetRecordRequest_zero)) ''/trefoil.undo.v1.Query/GetRecord'' call_GetRecord"

definition Query_ListRecord_Handler :: "('st, 'c, 'pg, 'pr) query_handler" where
  "Query_ListRecord_Handler = query_unary (ListRecordRequest (Some QueryAllRecordRequest_zero)) ''/trefoil.undo.v1.Query/ListRecord'' call_ListRecord"

definition Query_serviceDesc :: "('st, 'c, 'pg, 'pr) query_handler ServiceDesc" where
  "Query_serviceDesc = \<lparr>ServiceName = ''trefoil.undo.v1.Query'',
     Methods = [(''Params'', Query_Params_Handler),
       (''GetPending'', Query_GetPending_Handler),
       (''ListPending'', Query_ListPending_Handler),
       (''GetRecord'', Query_GetRecord_Handler),
       (''ListRecord'', Query_ListRecord_Handler)]\<rparr>"

definition RegisterQueryServer ::
  "(('st, 'c, 'pg, 'pr) query_handler ServiceDesc \<Rightarrow> ('st, 'c, 'pg, 'pr) query_server \<Rightarrow> 'reg \<Rightarrow> 'reg) \<Rightarrow>
   'reg \<Rightarrow> ('st, 'c, 'pg, 'pr) query_server \<Rightarrow> 'reg" where
  "RegisterQueryServer RegisterService s srv = RegisterService Query_serviceDesc srv s"

section \<open>The client side\<close>

text \<open>\<open>Invoke\<close> is given the response to decode into, and returns it.\<close>

record ('st, 'c, 'pg, 'pr) ClientConn =
  Invoke :: "'c \<Rightarrow> string \<Rightarrow> 'pg query_request \<Rightarrow> 'pr option reply \<Rightarrow> ('st, 'pr option reply) rpc"

definition map_rpc :: "('a res \<Rightarrow> 'b res) \<Rightarrow> ('st, 'a) rpc \<Rightarrow> ('st, 'b) rpc" where
  "map_rpc f call st = (case call st of ((r, md), st') \<Rightarrow> ((f r, md), st'))"

text \<open>\<open>out\<close> keeps the type it was made with.\<close>

definition typed_out :: "('pr option reply \<Rightarrow> 'a option) \<Rightarrow> 'pr option reply res \<Rightarrow> 'a res" where
  "typed_out proj r = (case r of
     Ok x \<Rightarrow> (case proj x of Some a \<Rightarrow> Ok a | None \<Rightarrow> Panic ''interface conversion'')
   | Err e \<Rightarrow> Err e
   | Panic t \<Rightarrow> Panic t)"

definition client_Params :: "('st, 'c, 'pg, 'pr) ClientConn \<Rightarrow> 'c \<Rightarrow> unit option \<Rightarrow> ('st, QueryParamsResponse) rpc" where
  "client_Params cc ctx inp =
     (let out = ParamsReply QueryParamsResponse_zero in
      map_rpc (typed_out (\<lambda>r. case r of ParamsReply x \<Rightarrow> Some x | _ \<Rightarrow> None))
        (Invoke cc ctx ''/trefoil.undo.v1.Query/Params'' (ParamsRequest inp) out))"

definition client_GetPending :: "('st, 'c, 'pg, 'pr) ClientConn \<Rightarrow> 'c \<Rightarrow> QueryGetPendingRequest option \<Rightarrow> ('st, QueryGetPendingResponse) rpc" where
  "client_GetPending cc ctx inp =
     (let out = GetPendingReply QueryGetPendingResponse_zero in
      map_rpc (typed_out (\<lambda>r. case r of GetPendingReply x \<Rightarrow> Some x | _ \<Rightarrow> None))
        (Invoke cc ctx ''/trefoil.undo.v1.Query/GetPending'' (GetPendingRequest inp) out))"

definition client_ListPending :: "('st, 'c, 'pg, 'pr) ClientConn \<Rightarrow> 'c \<Rightarrow> ('pg option QueryAllPendingRequest) option \<Rightarrow> ('st, 'pr option QueryAllPendingResponse) rpc" where
  "client_ListPending cc ctx inp =
     (let out = ListPendingReply QueryAllPendingResponse_zero in
      map_rpc (typed_out (\<lambda>r. case r of ListPendingReply x \<Rightarrow> Some x | _ \<Rightarrow> None))
        (Invoke cc ctx ''/trefoil.undo.v1.Query/ListPending'' (ListPendingRequest inp) out))"

definition client_GetRecord :: "('st, 'c, 'pg, 'pr) ClientConn \<Rightarrow> 'c \<Rightarrow> QueryGetRecordRequest option \<Rightarrow> ('st, QueryGetRecordResponse) rpc" where
  "client_GetRecord cc ctx inp =
     (let out = GetRecordReply QueryGetRecordResponse_zero in
      map_rpc (typed_out (\<lambda>r. case r of GetRecordReply x \<Rightarrow> Some x | _ \<Rightarrow> None))
        (Invoke cc ctx ''/trefoil.undo.v1.Query/GetRecord'' (GetRecordRequest inp) out))"

definition client_ListRecord :: "('st, 'c, 'pg, 'pr) ClientConn \<Rightarrow> 'c \<Rightarrow> ('pg option QueryAllRecordRequest) option \<Rightarrow> ('st, 'pr option QueryAllRecordResponse) rpc" where
  "client_ListRecord cc ctx inp =
     (let out = ListRecordReply QueryAllRecordResponse_zero in
      map_rpc (typed_out (\<lambda>r. case r of ListRecordReply x \<Rightarrow> Some x | _ \<Rightarrow> None))
        (Invoke cc ctx ''/trefoil.undo.v1.Query/ListRecord'' (ListRecordRequest inp) out))"

definition NewQueryClient :: "('st, 'c, 'pg, 'pr) ClientConn \<Rightarrow> ('st, 'c, 'pg option, 'pr option) QueryClient" where
  "NewQueryClient cc = \<lparr>cl_Params = client_Params cc, cl_GetPending = client_GetPending cc, cl_ListPending = client_ListPending cc, cl_GetRecord = client_GetRecord cc, cl_ListRecord = client_ListRecord cc\<rparr>"

section \<open>A call over a connection\<close>

text \<open>
  What gRPC documents of a unary call to a server that registered the service: the request is
  written, the method of that name decodes it and runs on the context that arrives, its reply
  is written and decoded into the client's response; an error of the method arrives as its
  status. The metadata the method has set comes back with the answer.
\<close>

definition grpc_Invoke ::
  "(error \<Rightarrow> error) \<Rightarrow> CoinCodec \<Rightarrow> 'pg PageCodec \<Rightarrow> 'pr PageCodec \<Rightarrow> ('st, 'c, 'pg, 'pr) query_server \<Rightarrow> ('c \<Rightarrow> 'c) \<Rightarrow>
   'c \<Rightarrow> string \<Rightarrow> 'pg query_request \<Rightarrow> 'pr option reply \<Rightarrow> ('st, 'pr option reply) rpc" where
  "grpc_Invoke status C Q R server carry ctx full req out st =
     (case request_Marshal Q req of
        Err e \<Rightarrow> ((Err (status e), no_metadata), st)
      | Panic t \<Rightarrow> ((Panic t, no_metadata), st)
      | Ok b \<Rightarrow>
         (case method_named Query_serviceDesc full of
            None \<Rightarrow> ((Err (Foreign ''unknown method''), no_metadata), st)
          | Some handler \<Rightarrow>
             (case handler server (carry ctx) (request_dec Q b) None (st, no_metadata) of
                (Err e, (st', md)) \<Rightarrow> ((Err (status e), md), st')
              | (Panic t, (st', md)) \<Rightarrow> ((Panic t, md), st')
              | (Ok reply, (st', md)) \<Rightarrow>
                 (case reply_Marshal C R reply of
                    Err e \<Rightarrow> ((Err (status e), md), st')
                  | Panic t \<Rightarrow> ((Panic t, md), st')
                  | Ok b' \<Rightarrow> (case reply_dec C R b' out of
                        Inl e \<Rightarrow> ((Err (status e), md), st')
                      | Inr reply' \<Rightarrow> ((Ok reply', md), st'))))))"

text \<open>A query by its request: what the server answers, and what the client gets.\<close>

fun answer_query :: "('st, 'c, 'pg, 'pr) query_server \<Rightarrow> ('st, 'c, 'pg, 'pr) query_call" where
  "answer_query srv ctx (ParamsRequest r) = bind (srv_Params srv ctx r) (\<lambda>x. ret (ParamsReply x))"
| "answer_query srv ctx (GetPendingRequest r) = bind (srv_GetPending srv ctx r) (\<lambda>x. ret (GetPendingReply x))"
| "answer_query srv ctx (ListPendingRequest r) = bind (srv_ListPending srv ctx r) (\<lambda>x. ret (ListPendingReply x))"
| "answer_query srv ctx (GetRecordRequest r) = bind (srv_GetRecord srv ctx r) (\<lambda>x. ret (GetRecordReply x))"
| "answer_query srv ctx (ListRecordRequest r) = bind (srv_ListRecord srv ctx r) (\<lambda>x. ret (ListRecordReply x))"

fun ask_query :: "('st, 'c, 'pg option, 'pr option) QueryClient \<Rightarrow> 'c \<Rightarrow> 'pg query_request \<Rightarrow> ('st, 'pr option reply) rpc" where
  "ask_query cl ctx (ParamsRequest r) = map_rpc (map_res ParamsReply) (cl_Params cl ctx r)"
| "ask_query cl ctx (GetPendingRequest r) = map_rpc (map_res GetPendingReply) (cl_GetPending cl ctx r)"
| "ask_query cl ctx (ListPendingRequest r) = map_rpc (map_res ListPendingReply) (cl_ListPending cl ctx r)"
| "ask_query cl ctx (GetRecordRequest r) = map_rpc (map_res GetRecordReply) (cl_GetRecord cl ctx r)"
| "ask_query cl ctx (ListRecordRequest r) = map_rpc (map_res ListRecordReply) (cl_ListRecord cl ctx r)"

section \<open>What arrives\<close>

text \<open>The bytes of requests and replies, and what the codecs they embed ask of them.\<close>

definition page_enc :: "byte \<Rightarrow> ('a \<Rightarrow> bytes) \<Rightarrow> 'a option \<Rightarrow> bytes" where
  "page_enc k enc x = (case x of None \<Rightarrow> [] | Some p \<Rightarrow> k # delimited (enc p))"

definition list_enc :: "('a \<Rightarrow> bytes) \<Rightarrow> 'a list \<Rightarrow> bytes" where
  "list_enc enc xs = concat (map (\<lambda>x. 0xa # delimited (enc x)) xs)"

fun request_enc :: "('pg \<Rightarrow> bytes) \<Rightarrow> 'pg query_request \<Rightarrow> bytes" where
  "request_enc qenc (GetPendingRequest (Some m)) = enc_of (QueryGetPendingRequest_fields m)"
| "request_enc qenc (ListPendingRequest (Some m)) = page_enc 0xa qenc (qapPagination m)"
| "request_enc qenc (GetRecordRequest (Some m)) = enc_of (QueryGetRecordRequest_fields m)"
| "request_enc qenc (ListRecordRequest (Some m)) = page_enc 0xa qenc (qarPagination m)"
| "request_enc qenc _ = []"

fun request_good :: "('pg \<Rightarrow> bool) \<Rightarrow> 'pg query_request \<Rightarrow> bool" where
  "request_good qgood (ParamsRequest m) = (m \<noteq> None)"
| "request_good qgood (GetPendingRequest m) = (m \<noteq> None)"
| "request_good qgood (ListPendingRequest m) =
     (case m of None \<Rightarrow> False | Some r \<Rightarrow> (case qapPagination r of None \<Rightarrow> True | Some p \<Rightarrow> qgood p))"
| "request_good qgood (GetRecordRequest m) = (m \<noteq> None)"
| "request_good qgood (ListRecordRequest m) =
     (case m of None \<Rightarrow> False | Some r \<Rightarrow> (case qarPagination r of None \<Rightarrow> True | Some p \<Rightarrow> qgood p))"

fun reply_enc :: "(Coin \<Rightarrow> bytes) \<Rightarrow> ('pr \<Rightarrow> bytes) \<Rightarrow> 'pr option reply \<Rightarrow> bytes" where
  "reply_enc cenc renc (ParamsReply m) = 0xa # delimited (Params_enc (qpParams m))"
| "reply_enc cenc renc (GetPendingReply m) = 0xa # delimited (Pending_enc cenc (qgpPending m))"
| "reply_enc cenc renc (ListPendingReply m) = list_enc (Pending_enc cenc) (qapPending m) @ page_enc 0x12 renc (qapPage m)"
| "reply_enc cenc renc (GetRecordReply m) = 0xa # delimited (Record_enc (qgrRecord m))"
| "reply_enc cenc renc (ListRecordReply m) = list_enc Record_enc (qarRecord m) @ page_enc 0x12 renc (qarPage m)"

fun reply_good :: "(Coin \<Rightarrow> bool) \<Rightarrow> ('pr \<Rightarrow> bool) \<Rightarrow> 'pr option reply \<Rightarrow> bool" where
  "reply_good cgood rgood (GetPendingReply m) = cgood (pAmount (qgpPending m))"
| "reply_good cgood rgood (ListPendingReply m) =
     ((\<forall>x\<in>set (qapPending m). cgood (pAmount x)) \<and> (case qapPage m of None \<Rightarrow> True | Some p \<Rightarrow> rgood p))"
| "reply_good cgood rgood (ListRecordReply m) = (case qarPage m of None \<Rightarrow> True | Some p \<Rightarrow> rgood p)"
| "reply_good cgood rgood _ = True"

fun full_method :: "'pg query_request \<Rightarrow> string" where
  "full_method (ParamsRequest _) = ''/trefoil.undo.v1.Query/Params''"
| "full_method (GetPendingRequest _) = ''/trefoil.undo.v1.Query/GetPending''"
| "full_method (ListPendingRequest _) = ''/trefoil.undo.v1.Query/ListPending''"
| "full_method (GetRecordRequest _) = ''/trefoil.undo.v1.Query/GetRecord''"
| "full_method (ListRecordRequest _) = ''/trefoil.undo.v1.Query/ListRecord''"

fun zero_reply :: "'pg query_request \<Rightarrow> 'pr option reply" where
  "zero_reply (ParamsRequest _) = ParamsReply QueryParamsResponse_zero"
| "zero_reply (GetPendingRequest _) = GetPendingReply QueryGetPendingResponse_zero"
| "zero_reply (ListPendingRequest _) = ListPendingReply QueryAllPendingResponse_zero"
| "zero_reply (GetRecordRequest _) = GetRecordReply QueryGetRecordResponse_zero"
| "zero_reply (ListRecordRequest _) = ListRecordReply QueryAllRecordResponse_zero"

fun new_request :: "'pg query_request \<Rightarrow> 'pg query_request" where
  "new_request (ParamsRequest _) = ParamsRequest (Some ())"
| "new_request (GetPendingRequest _) = GetPendingRequest (Some QueryGetPendingRequest_zero)"
| "new_request (ListPendingRequest _) = ListPendingRequest (Some QueryAllPendingRequest_zero)"
| "new_request (GetRecordRequest _) = GetRecordRequest (Some QueryGetRecordRequest_zero)"
| "new_request (ListRecordRequest _) = ListRecordRequest (Some QueryAllRecordRequest_zero)"

fun replies_to :: "'pg query_request \<Rightarrow> 'pr option reply \<Rightarrow> bool" where
  "replies_to (ParamsRequest _) (ParamsReply _) = True"
| "replies_to (GetPendingRequest _) (GetPendingReply _) = True"
| "replies_to (ListPendingRequest _) (ListPendingReply _) = True"
| "replies_to (GetRecordRequest _) (GetRecordReply _) = True"
| "replies_to (ListRecordRequest _) (ListRecordReply _) = True"
| "replies_to _ _ = False"

lemma page_enc_opt: "enc_of (opt_f k enc x f) = page_enc k enc x"
  by (cases x) (simp_all add: opt_f_def sub_f_def enc_of_def page_enc_def)

lemma list_enc_repeated: "enc_of (repeated_f 0xa enc add xs) = list_enc enc xs"
  by (simp add: enc_repeated list_enc_def)

lemma enc_sub: "enc_of (sub_f k e f) = k # delimited e"
  by (simp add: sub_f_def enc_of_def)

lemma in_delimited: "length (k # delimited e) < n \<Longrightarrow> length e < n"
  by (simp add: delimited_def)

lemma in_list_enc: "x \<in> set xs \<Longrightarrow> length (enc x) \<le> length (list_enc enc xs)"
  by (induction xs) (auto simp: list_enc_def delimited_def)

lemma page_fits:
  assumes "length (page_enc k enc x) < 2 ^ 63" and "case x of None \<Rightarrow> True | Some p \<Rightarrow> good p"
  shows "opt_good enc good x"
  using assms in_delimited [of k "enc (the x)" "2 ^ 63"] by (cases x) (auto simp: opt_good_def page_enc_def fits_def)

context query_codecs
begin

lemmas query_marshal_defs = QueryParamsRequest_Marshal_def QueryGetPendingRequest_Marshal_def QueryAllPendingRequest_Marshal_def
  QueryGetRecordRequest_Marshal_def QueryAllRecordRequest_Marshal_def
  QueryParamsRequest_MarshalToSizedBuffer_def [abs_def] QueryGetPendingRequest_MarshalToSizedBuffer_def [abs_def]
  QueryAllPendingRequest_MarshalToSizedBuffer_def [abs_def] QueryGetRecordRequest_MarshalToSizedBuffer_def [abs_def]
  QueryAllRecordRequest_MarshalToSizedBuffer_def [abs_def]
  QueryParamsResponse_Marshal_def QueryGetPendingResponse_Marshal_def QueryAllPendingResponse_Marshal_def
  QueryGetRecordResponse_Marshal_def QueryAllRecordResponse_Marshal_def
  QueryParamsResponse_MarshalToSizedBuffer_def [abs_def] QueryGetPendingResponse_MarshalToSizedBuffer_def [abs_def]
  QueryAllPendingResponse_MarshalToSizedBuffer_def [abs_def] QueryGetRecordResponse_MarshalToSizedBuffer_def [abs_def]
  QueryAllRecordResponse_MarshalToSizedBuffer_def [abs_def]

lemmas query_unmarshal_defs = QueryParamsRequest_Unmarshal_def QueryGetPendingRequest_Unmarshal_def QueryAllPendingRequest_Unmarshal_def
  QueryGetRecordRequest_Unmarshal_def QueryAllRecordRequest_Unmarshal_def
  QueryParamsResponse_Unmarshal_def QueryGetPendingResponse_Unmarshal_def QueryAllPendingResponse_Unmarshal_def
  QueryGetRecordResponse_Unmarshal_def QueryAllRecordResponse_Unmarshal_def

text \<open>A request is read as it was written, and a reply.\<close>

lemma request_bytes:
  assumes "request_good qgood req" and "length (request_enc qenc req) < 2 ^ 63"
  shows "request_Marshal Q req = Ok (request_enc qenc req)"
    and "request_dec Q (request_enc qenc req) (new_request req) = Inr req"
proof -
  have "request_Marshal Q req = Ok (request_enc qenc req) \<and> request_dec Q (request_enc qenc req) (new_request req) = Inr req"
  proof (cases req)
    case (ParamsRequest m)
    with assms(1) obtain r where r: "m = Some r" by auto
    show ?thesis using params_request.roundtrip [of r]
      by (simp add: ParamsRequest r query_marshal_defs query_unmarshal_defs into_pointer_def rd_sum_def)
  next
    case (GetPendingRequest m)
    with assms obtain r where r: "m = Some r" "length (enc_of (QueryGetPendingRequest_fields r)) < 2 ^ 63" by auto
    show ?thesis using pending_request.roundtrip [OF TrueI r(2)]
      by (simp add: GetPendingRequest r(1) query_marshal_defs query_unmarshal_defs of_pointer_def into_pointer_def rd_sum_def)
  next
    case (ListPendingRequest m)
    with assms obtain r where r: "m = Some r" and len: "length (page_enc 0xa qenc (qapPagination r)) < 2 ^ 63"
      and page: "case qapPagination r of None \<Rightarrow> True | Some p \<Rightarrow> qgood p"
      by (cases m) simp_all
    from page_fits [OF len page] have good: "opt_good qenc qgood (qapPagination r)" .
    show ?thesis using pendings_request.roundtrip [OF good] len
      by (simp add: ListPendingRequest r(1) page_enc_opt query_marshal_defs query_unmarshal_defs of_pointer_def
          into_pointer_def rd_sum_def)
  next
    case (GetRecordRequest m)
    with assms obtain r where r: "m = Some r" "length (enc_of (QueryGetRecordRequest_fields r)) < 2 ^ 63" by auto
    then have "length (qgrIndex r) < 2 ^ 63"
      by (auto simp: QueryGetRecordRequest_fields_def string_f_def enc_of_def delimited_def split: if_splits)
    from record_request.roundtrip [OF this r(2)] show ?thesis
      by (simp add: GetRecordRequest r(1) query_marshal_defs query_unmarshal_defs of_pointer_def into_pointer_def rd_sum_def)
  next
    case (ListRecordRequest m)
    with assms obtain r where r: "m = Some r" and len: "length (page_enc 0xa qenc (qarPagination r)) < 2 ^ 63"
      and page: "case qarPagination r of None \<Rightarrow> True | Some p \<Rightarrow> qgood p"
      by (cases m) simp_all
    from page_fits [OF len page] have good: "opt_good qenc qgood (qarPagination r)" .
    show ?thesis using records_request.roundtrip [OF good] len
      by (simp add: ListRecordRequest r(1) page_enc_opt query_marshal_defs query_unmarshal_defs of_pointer_def
          into_pointer_def rd_sum_def)
  qed
  then show "request_Marshal Q req = Ok (request_enc qenc req)"
    and "request_dec Q (request_enc qenc req) (new_request req) = Inr req" by simp_all
qed

text \<open>Each reply, read into an empty one of its kind.\<close>

definition reply_back :: "'pr option reply \<Rightarrow> 'pr option reply \<Rightarrow> bool" where
  "reply_back x zero \<longleftrightarrow> reply_Marshal C R x = Ok (reply_enc cenc renc x) \<and>
     reply_dec C R (reply_enc cenc renc x) zero = Inr x"

lemmas reply_defs = reply_back_def query_marshal_defs query_unmarshal_defs rd_sum_def

lemma params_back:
  assumes "length (reply_enc cenc renc (ParamsReply m)) < 2 ^ 63"
  shows "reply_back (ParamsReply m) (ParamsReply QueryParamsResponse_zero)"
proof -
  from assms have len: "length (0xa # delimited (Params_enc (qpParams m))) < 2 ^ 63" by simp
  then have "fits Params_enc (qpParams m)" unfolding fits_def by (rule in_delimited)
  with params_response.roundtrip [of m] len show ?thesis by (simp add: reply_defs enc_sub)
qed

lemma pending_back:
  assumes "length (reply_enc cenc renc (GetPendingReply m)) < 2 ^ 63" and "cgood (pAmount (qgpPending m))"
  shows "reply_back (GetPendingReply m) (GetPendingReply QueryGetPendingResponse_zero)"
proof -
  from assms(1) have len: "length (0xa # delimited (Pending_enc cenc (qgpPending m))) < 2 ^ 63" by simp
  then have "fits (Pending_enc cenc) (qgpPending m)" unfolding fits_def by (rule in_delimited)
  with pending_response.roundtrip [of m] len assms(2) show ?thesis by (simp add: reply_defs Pending_good_def enc_sub)
qed

lemma record_back:
  assumes "length (reply_enc cenc renc (GetRecordReply m)) < 2 ^ 63"
  shows "reply_back (GetRecordReply m) (GetRecordReply QueryGetRecordResponse_zero)"
proof -
  from assms have len: "length (0xa # delimited (Record_enc (qgrRecord m))) < 2 ^ 63" by simp
  then have "fits Record_enc (qgrRecord m)" unfolding fits_def by (rule in_delimited)
  with record_response.roundtrip [of m] len show ?thesis by (simp add: reply_defs enc_sub)
qed

lemma pendings_back:
  assumes "length (reply_enc cenc renc (ListPendingReply m)) < 2 ^ 63" and "reply_good cgood rgood (ListPendingReply m)"
  shows "reply_back (ListPendingReply m) (ListPendingReply QueryAllPendingResponse_zero)"
proof -
  from assms(1) have len: "length (list_enc (Pending_enc cenc) (qapPending m)) + length (page_enc 0x12 renc (qapPage m)) < 2 ^ 63"
    by simp
  then have page: "length (page_enc 0x12 renc (qapPage m)) < 2 ^ 63" by linarith
  have "fits (Pending_enc cenc) p" if "p \<in> set (qapPending m)" for p
    using in_list_enc [OF that, of "Pending_enc cenc"] len unfolding fits_def by linarith
  then have "pendings_response.list_good m"
    unfolding pendings_response.list_good_def using assms(2) page_fits [OF page]
    by (simp add: Pending_good_def)
  from pendings_response.roundtrip [OF this] len show ?thesis
    by (simp add: reply_defs pendings_response.list_fields_def page_enc_opt list_enc_repeated)
qed

lemma records_back:
  assumes "length (reply_enc cenc renc (ListRecordReply m)) < 2 ^ 63" and "reply_good cgood rgood (ListRecordReply m)"
  shows "reply_back (ListRecordReply m) (ListRecordReply QueryAllRecordResponse_zero)"
proof -
  from assms(1) have len: "length (list_enc Record_enc (qarRecord m)) + length (page_enc 0x12 renc (qarPage m)) < 2 ^ 63"
    by simp
  then have page: "length (page_enc 0x12 renc (qarPage m)) < 2 ^ 63" by linarith
  have "fits Record_enc r" if "r \<in> set (qarRecord m)" for r
    using in_list_enc [OF that, of Record_enc] len unfolding fits_def by linarith
  then have "records_response.list_good m"
    unfolding records_response.list_good_def using assms(2) page_fits [OF page] by simp
  from records_response.roundtrip [OF this] len show ?thesis
    by (simp add: reply_defs records_response.list_fields_def page_enc_opt list_enc_repeated)
qed

lemma reply_bytes:
  assumes "reply_good cgood rgood x" and "length (reply_enc cenc renc x) < 2 ^ 63" and "replies_to req x"
  shows "reply_Marshal C R x = Ok (reply_enc cenc renc x)"
    and "reply_dec C R (reply_enc cenc renc x) (zero_reply req) = Inr x"
proof -
  have "reply_back x (zero_reply req)"
    using assms by (cases x; cases req) (auto intro: params_back pending_back record_back pendings_back records_back)
  then show "reply_Marshal C R x = Ok (reply_enc cenc renc x)"
    and "reply_dec C R (reply_enc cenc renc x) (zero_reply req) = Inr x" by (simp_all add: reply_back_def)
qed

end

text \<open>The method of a request's name, and the reply it gives.\<close>

lemma method_of_request:
  "\<exists>call. method_named Query_serviceDesc (full_method req) = Some (query_unary (new_request req) (full_method req) call) \<and>
     (\<forall>server ctx. call server ctx req = answer_query server ctx req)"
  by (cases req)
    (auto simp: method_named_def Query_serviceDesc_def Query_Params_Handler_def Query_GetPending_Handler_def
      Query_ListPending_Handler_def Query_GetRecord_Handler_def Query_ListRecord_Handler_def)

lemma answer_replies: "answer_query server ctx req s = (Ok x, s') \<Longrightarrow> replies_to req x"
  by (cases req) (auto elim!: bind_OkE)

text \<open>The client's method is \<open>Invoke\<close> with a new response of the right type.\<close>

lemma ask_query_Invoke:
  "ask_query (NewQueryClient cc) ctx req st =
     map_rpc (\<lambda>r. case r of Ok x \<Rightarrow> (if replies_to req x then Ok x else Panic ''interface conversion'') | r \<Rightarrow> r)
       (Invoke cc ctx (full_method req) req (zero_reply req)) st"
  by (cases req)
    (auto simp: NewQueryClient_def client_Params_def client_GetPending_def client_ListPending_def client_GetRecord_def
      client_ListRecord_def map_rpc_def typed_out_def Let_def split: prod.split res.split reply.split)

text \<open>
  A query over the wire is answered as the server answers it: over a connection that does what
  gRPC documents, for every request that is not nil and fits a slice (its page one the page
  codec can write), the client gets the reply, the metadata and the store that the server's
  method of that name leaves, as long as the reply fits a slice and its amounts and page can
  be written; an error of the method arrives as its status.
\<close>

lemma wire_answer:
  fixes server :: "('st, 'c, 'pg, 'pr) query_server"
  assumes codecs: "query_codecs C cenc cgood Q qenc qgood R renc rgood"
    and conn: "Invoke cc = grpc_Invoke status C Q R server carry"
    and req: "request_good qgood req" "length (request_enc qenc req) < 2 ^ 63"
    and answer: "answer_query server (carry ctx) req (st, no_metadata) = (r, (st', md))"
    and fits: "\<And>x. r = Ok x \<Longrightarrow> reply_good cgood rgood x \<and> length (reply_enc cenc renc x) < 2 ^ 63"
  shows "ask_query (NewQueryClient cc) ctx req st =
    ((case r of Ok x \<Rightarrow> Ok x | Err e \<Rightarrow> Err (status e) | Panic t \<Rightarrow> Panic t, md), st')"
proof -
  obtain call :: "('st, 'c, 'pg, 'pr) query_server \<Rightarrow> ('st, 'c, 'pg, 'pr) query_call" where
    found: "method_named Query_serviceDesc (full_method req) =
      Some (query_unary (new_request req) (full_method req) call)"
    and call: "\<And>server ctx. call server ctx req = answer_query server ctx req"
    using method_of_request [of req] by blast
  have runs: "query_unary (new_request req) (full_method req) call server (carry ctx)
      (request_dec Q (request_enc qenc req)) None (st, no_metadata) = (r, (st', md))"
    by (simp add: query_unary_def query_codecs.request_bytes(2) [OF codecs req] call answer)
  show ?thesis
  proof (cases r)
    case (Ok x)
    have reply: "replies_to req x" using answer Ok by (auto intro: answer_replies)
    from fits [OF Ok] have "reply_good cgood rgood x" "length (reply_enc cenc renc x) < 2 ^ 63" by simp_all
    from query_codecs.reply_bytes [OF codecs this reply] show ?thesis
      by (simp add: ask_query_Invoke conn grpc_Invoke_def query_codecs.request_bytes(1) [OF codecs req] found runs Ok
          map_rpc_def reply)
  qed (simp_all add: ask_query_Invoke conn grpc_Invoke_def query_codecs.request_bytes(1) [OF codecs req] found runs map_rpc_def)
qed

text \<open>The single-item queries of the module, over the wire.\<close>

lemma small_number: "n \<le> (33 :: nat) \<Longrightarrow> n < 2 ^ 63"
  by simp

lemma params_delimited: "length (0xa # delimited (Params_enc p)) < 2 ^ 63"
proof -
  have "length (Params_enc p) \<le> 11 + (11 + 11)"
    unfolding Params_enc_def Params_fields_def enc_of_append length_append by (intro add_mono uint_short)
  then have short: "length (Params_enc p) \<le> 33" by simp
  then have "length (delimited (Params_enc p)) = Suc (length (Params_enc p))"
    by (simp add: delimited_def varint_len_small)
  with short show ?thesis by simp
qed

lemma wire_GetPending:
  fixes K :: "'st Keeper"
  assumes codecs: "query_codecs C cenc cgood Q qenc qgood R renc rgood"
    and contracts: "undo_contracts S K view maddr blocked denom_ok" and unwrap: "\<And>c st. store (unwrap c st) = st"
    and conn: "Invoke cc = grpc_Invoke status C Q R (NewQueryServerImpl pg pg' unwrap K) carry"
    and fits: "\<And>p. lPending (view st) i = Some p \<Longrightarrow> cgood (pAmount p) \<and> length (0xa # delimited (Pending_enc cenc p)) < 2 ^ 63"
  shows "cl_GetPending (NewQueryClient cc) ctx (Some \<lparr>qgpId = i\<rparr>) st =
    ((case lPending (view st) i of None \<Rightarrow> Err (status ErrKeyNotFound) | Some p \<Rightarrow> Ok \<lparr>qgpPending = p\<rparr>, no_metadata), st)"
proof -
  let ?server = "NewQueryServerImpl pg pg' unwrap K" and ?req = "GetPendingRequest (Some \<lparr>qgpId = i\<rparr>)"
  let ?r = "case lPending (view st) i of None \<Rightarrow> Err ErrKeyNotFound | Some p \<Rightarrow> Ok (GetPendingReply \<lparr>qgpPending = p\<rparr>)"
  have "answer_query ?server (carry ctx) ?req (st, no_metadata) = (?r, (st, no_metadata))"
    by (simp add: NewQueryServerImpl_def over_store_def bind_def unwrap
        undo_contracts.query_GetPending_eval [OF contracts] split: option.split)
  moreover have "reply_good cgood rgood x \<and> length (reply_enc cenc renc x) < 2 ^ 63" if "?r = Ok x" for x
    using that fits by (auto split: option.splits)
  moreover have "length (enc_of (QueryGetPendingRequest_fields \<lparr>qgpId = i\<rparr>)) \<le> 33"
    unfolding QueryGetPendingRequest_fields_def using uint_short by (rule order_trans) simp
  ultimately have "ask_query (NewQueryClient cc) ctx ?req st =
      ((case ?r of Ok x \<Rightarrow> Ok x | Err e \<Rightarrow> Err (status e) | Panic t \<Rightarrow> Panic t, no_metadata), st)"
    by (intro wire_answer [OF codecs conn]) (auto intro: small_number)
  then show ?thesis
    by (cases "cl_GetPending (NewQueryClient cc) ctx (Some \<lparr>qgpId = i\<rparr>) st")
      (auto simp: map_rpc_def split: option.splits elim: map_res.elims)
qed

lemma wire_GetRecord:
  fixes K :: "'st Keeper"
  assumes codecs: "query_codecs C cenc cgood Q qenc qgood R renc rgood"
    and contracts: "undo_contracts S K view maddr blocked denom_ok" and unwrap: "\<And>c st. store (unwrap c st) = st"
    and conn: "Invoke cc = grpc_Invoke status C Q R (NewQueryServerImpl pg pg' unwrap K) carry"
    and fits: "\<And>v. lRecord (view st) a = Some v \<Longrightarrow> length (0xa # delimited (Record_enc v)) < 2 ^ 63"
    and address: "length (enc_of (QueryGetRecordRequest_fields \<lparr>qgrIndex = a\<rparr>)) < 2 ^ 63"
  shows "cl_GetRecord (NewQueryClient cc) ctx (Some \<lparr>qgrIndex = a\<rparr>) st =
    ((case lRecord (view st) a of None \<Rightarrow> Err (status (StatusError NotFound ''not found'')) | Some v \<Rightarrow> Ok \<lparr>qgrRecord = v\<rparr>,
      no_metadata), st)"
proof -
  let ?server = "NewQueryServerImpl pg pg' unwrap K" and ?req = "GetRecordRequest (Some \<lparr>qgrIndex = a\<rparr>)"
  let ?r = "case lRecord (view st) a of None \<Rightarrow> Err (StatusError NotFound ''not found'') | Some v \<Rightarrow> Ok (GetRecordReply \<lparr>qgrRecord = v\<rparr>)"
  have "answer_query ?server (carry ctx) ?req (st, no_metadata) = (?r, (st, no_metadata))"
    by (simp add: NewQueryServerImpl_def over_store_def bind_def unwrap
        undo_contracts.query_GetRecord_eval [OF contracts] split: option.split)
  moreover have "reply_good cgood rgood x \<and> length (reply_enc cenc renc x) < 2 ^ 63" if "?r = Ok x" for x
    using that fits by (auto split: option.splits)
  ultimately have "ask_query (NewQueryClient cc) ctx ?req st =
      ((case ?r of Ok x \<Rightarrow> Ok x | Err e \<Rightarrow> Err (status e) | Panic t \<Rightarrow> Panic t, no_metadata), st)"
    using address by (intro wire_answer [OF codecs conn]) auto
  then show ?thesis
    by (cases "cl_GetRecord (NewQueryClient cc) ctx (Some \<lparr>qgrIndex = a\<rparr>) st")
      (auto simp: map_rpc_def split: option.splits elim: map_res.elims)
qed

lemma wire_Params:
  fixes K :: "'st Keeper"
  assumes codecs: "query_codecs C cenc cgood Q qenc qgood R renc rgood"
    and contracts: "undo_contracts S K view maddr blocked denom_ok" and unwrap: "\<And>c st. store (unwrap c st) = st"
    and conn: "Invoke cc = grpc_Invoke status C Q R (NewQueryServerImpl pg pg' unwrap K) carry"
  shows "cl_Params (NewQueryClient cc) ctx (Some ()) st =
    ((Ok \<lparr>qpParams = (case lParams (view st) of None \<Rightarrow> zero_params | Some p \<Rightarrow> p)\<rparr>, no_metadata), st)"
proof -
  let ?server = "NewQueryServerImpl pg pg' unwrap K" and ?req = "ParamsRequest (Some ())"
  let ?r = "Ok (ParamsReply \<lparr>qpParams = (case lParams (view st) of None \<Rightarrow> zero_params | Some p \<Rightarrow> p)\<rparr>)"
  have "answer_query ?server (carry ctx) ?req (st, no_metadata) = (?r, (st, no_metadata))"
    by (simp add: NewQueryServerImpl_def over_store_def bind_def unwrap undo_contracts.query_Params_eval [OF contracts])
  then have "ask_query (NewQueryClient cc) ctx ?req st =
      ((case ?r of Ok x \<Rightarrow> Ok x | Err e \<Rightarrow> Err (status e) | Panic t \<Rightarrow> Panic t, no_metadata), st)"
    using params_delimited by (intro wire_answer [OF codecs conn]) auto
  then show ?thesis
    by (cases "cl_Params (NewQueryClient cc) ctx (Some ()) st") (auto simp: map_rpc_def elim: map_res.elims)
qed

section \<open>Properties\<close>

text \<open>
  C23: Asked over the wire, the module tells what its store holds. Over a connection that does
  what gRPC documents, to the module's server over its keeper, and with codecs of coins and
  pages that keep their promise: the generated client's \<open>GetPending\<close> gives the payment in flight
  under the id, or the status of \<open>ErrKeyNotFound\<close>; \<open>GetRecord\<close> the tally of the address, or the
  status of a NotFound error; \<open>Params\<close> the parameters, or zeros; no metadata comes with it and
  the store stays. What is asked and answered has to fit a byte slice, and the amount of the
  payment to be one the coin codec can write.
\<close>

theorem store_over_wire:
  assumes codecs: "query_codecs C cenc cgood Q qenc qgood R renc rgood"
    and contracts: "undo_contracts S K view maddr blocked denom_ok" and unwrap: "\<And>c st. store (unwrap c st) = st"
    and conn: "Invoke cc = grpc_Invoke status C Q R (NewQueryServerImpl pg pg' unwrap K) carry"
    and pending: "\<And>p. lPending (view st) i = Some p \<Longrightarrow> cgood (pAmount p) \<and> length (0xa # delimited (Pending_enc cenc p)) < 2 ^ 63"
    and tally: "\<And>v. lRecord (view st) a = Some v \<Longrightarrow> length (0xa # delimited (Record_enc v)) < 2 ^ 63"
    and address: "length (enc_of (QueryGetRecordRequest_fields \<lparr>qgrIndex = a\<rparr>)) < 2 ^ 63"
  shows "cl_GetPending (NewQueryClient cc) ctx (Some \<lparr>qgpId = i\<rparr>) st =
      ((case lPending (view st) i of None \<Rightarrow> Err (status ErrKeyNotFound) | Some p \<Rightarrow> Ok \<lparr>qgpPending = p\<rparr>, no_metadata), st) \<and>
    cl_GetRecord (NewQueryClient cc) ctx (Some \<lparr>qgrIndex = a\<rparr>) st =
      ((case lRecord (view st) a of None \<Rightarrow> Err (status (StatusError NotFound ''not found'')) | Some v \<Rightarrow> Ok \<lparr>qgrRecord = v\<rparr>, no_metadata), st) \<and>
    cl_Params (NewQueryClient cc) ctx (Some ()) st =
      ((Ok \<lparr>qpParams = (case lParams (view st) of None \<Rightarrow> zero_params | Some p \<Rightarrow> p)\<rparr>, no_metadata), st)"
  using wire_GetPending [OF codecs contracts unwrap conn pending] wire_GetRecord [OF codecs contracts unwrap conn tally address]
    wire_Params [OF codecs contracts unwrap conn] by (intro conjI) simp_all

section \<open>The demo chain over the wire\<close>

text \<open>
  The codecs of the SDK's pages by their published schema
  (\<open>cosmos.base.query.v1beta1\<close>): \<open>PageRequest\<close> has a key, an offset, a limit and two flags,
  \<open>PageResponse\<close> the next key and a total.
\<close>

record PageRequest =
  pgKey :: string
  pgOffset :: u64
  pgLimit :: u64
  pgCountTotal :: bool
  pgReverse :: bool

record PageResponse =
  pgNextKey :: string
  pgTotal :: u64

definition PageRequest_puts :: "PageRequest \<Rightarrow> bufop list" where
  "PageRequest_puts m = [put_bool 0x28 (pgReverse m), put_bool 0x20 (pgCountTotal m), put_uint 0x18 (pgLimit m),
     put_uint 0x10 (pgOffset m), put_string 0xa (pgKey m)]"

definition PageRequest_Size :: "PageRequest \<Rightarrow> nat" where
  "PageRequest_Size m =
     (let l = length (pgKey m) in if l > 0 then 1 + l + sov (of_nat l) else 0) +
     (if pgOffset m \<noteq> 0 then 1 + sov (pgOffset m) else 0) + (if pgLimit m \<noteq> 0 then 1 + sov (pgLimit m) else 0) +
     (if pgCountTotal m then 2 else 0) + (if pgReverse m then 2 else 0)"

definition PageRequest_field :: "int \<Rightarrow> nat \<Rightarrow> bytes \<Rightarrow> PageRequest \<Rightarrow> int \<Rightarrow> (PageRequest \<times> int) rd option" where
  "PageRequest_field n w d m i =
     (if n = 1 then Some (string_field ''Key'' w d i (\<lambda>v. m\<lparr>pgKey := v\<rparr>))
      else if n = 2 then Some (varint_field ''Offset'' w d i (\<lambda>v. m\<lparr>pgOffset := v\<rparr>))
      else if n = 3 then Some (varint_field ''Limit'' w d i (\<lambda>v. m\<lparr>pgLimit := v\<rparr>))
      else if n = 4 then Some (varint_field ''CountTotal'' w d i (\<lambda>v. m\<lparr>pgCountTotal := (v \<noteq> 0)\<rparr>))
      else if n = 5 then Some (varint_field ''Reverse'' w d i (\<lambda>v. m\<lparr>pgReverse := (v \<noteq> 0)\<rparr>))
      else None)"

definition PageRequest_zero :: PageRequest where
  "PageRequest_zero = \<lparr>pgKey = [], pgOffset = 0, pgLimit = 0, pgCountTotal = False, pgReverse = False\<rparr>"

definition PageRequest_fields :: "PageRequest \<Rightarrow> PageRequest fields" where
  "PageRequest_fields m =
     string_f 0xa (pgKey m) (pgKey_update (\<lambda>_. pgKey m)) @
     uint_f 0x10 (pgOffset m) (pgOffset_update (\<lambda>_. pgOffset m)) @
     uint_f 0x18 (pgLimit m) (pgLimit_update (\<lambda>_. pgLimit m)) @
     bool_f 0x20 (pgCountTotal m) (pgCountTotal_update (\<lambda>_. True)) @
     bool_f 0x28 (pgReverse m) (pgReverse_update (\<lambda>_. True))"

interpretation page_request: field_codec PageRequest_fields "\<lambda>m. length (pgKey m) < 2 ^ 63" PageRequest_Size PageRequest_puts
  "''PageRequest''" proto_skip PageRequest_field PageRequest_zero
proof unfold_locales
  fix m :: PageRequest
  assume len: "length (pgKey m) < 2 ^ 63"
  show "PageRequest_Size m = length (enc_of (PageRequest_fields m))"
    using len by (simp add: PageRequest_Size_def PageRequest_fields_def field_sizes sovTx_def Let_def)
  show "writes (ops (PageRequest_puts m)) (enc_of (PageRequest_fields m))"
    unfolding PageRequest_puts_def PageRequest_fields_def enc_of_append
    by (rule writes_eq, (rule put_rules | use len in \<open>simp; fail\<close>)+)
  show "read_through (proto_step ''PageRequest'' proto_skip PageRequest_field) (PageRequest_fields m) PageRequest_zero"
    unfolding PageRequest_fields_def
    by (intro read_rules reads_fieldI [OF tags(6)] reads_fieldI [OF tags(2)] reads_fieldI [OF tags(3)] reads_fieldI [OF tags(4)]
        reads_fieldI [OF tags(5)])
      (simp_all add: PageRequest_field_def varint_field_reads string_field_reads del: unsigned_1)
  show "fold snd (PageRequest_fields m) PageRequest_zero = m"
    by (auto simp: PageRequest_fields_def field_defs PageRequest_zero_def)
qed (auto simp: PageRequest_field_def fields_move_def split: if_splits intro: field_moves)

definition PageResponse_puts :: "PageResponse \<Rightarrow> bufop list" where
  "PageResponse_puts m = [put_uint 0x10 (pgTotal m), put_string 0xa (pgNextKey m)]"

definition PageResponse_Size :: "PageResponse \<Rightarrow> nat" where
  "PageResponse_Size m =
     (let l = length (pgNextKey m) in if l > 0 then 1 + l + sov (of_nat l) else 0) +
     (if pgTotal m \<noteq> 0 then 1 + sov (pgTotal m) else 0)"

definition PageResponse_field :: "int \<Rightarrow> nat \<Rightarrow> bytes \<Rightarrow> PageResponse \<Rightarrow> int \<Rightarrow> (PageResponse \<times> int) rd option" where
  "PageResponse_field n w d m i =
     (if n = 1 then Some (string_field ''NextKey'' w d i (\<lambda>v. m\<lparr>pgNextKey := v\<rparr>))
      else if n = 2 then Some (varint_field ''Total'' w d i (\<lambda>v. m\<lparr>pgTotal := v\<rparr>))
      else None)"

definition PageResponse_zero :: PageResponse where
  "PageResponse_zero = \<lparr>pgNextKey = [], pgTotal = 0\<rparr>"

definition PageResponse_fields :: "PageResponse \<Rightarrow> PageResponse fields" where
  "PageResponse_fields m =
     string_f 0xa (pgNextKey m) (pgNextKey_update (\<lambda>_. pgNextKey m)) @ uint_f 0x10 (pgTotal m) (pgTotal_update (\<lambda>_. pgTotal m))"

interpretation page_response: field_codec PageResponse_fields "\<lambda>m. length (pgNextKey m) < 2 ^ 63" PageResponse_Size PageResponse_puts
  "''PageResponse''" proto_skip PageResponse_field PageResponse_zero
proof unfold_locales
  fix m :: PageResponse
  assume len: "length (pgNextKey m) < 2 ^ 63"
  show "PageResponse_Size m = length (enc_of (PageResponse_fields m))"
    using len by (simp add: PageResponse_Size_def PageResponse_fields_def field_sizes sovTx_def Let_def)
  show "writes (ops (PageResponse_puts m)) (enc_of (PageResponse_fields m))"
    unfolding PageResponse_puts_def PageResponse_fields_def enc_of_append
    by (rule writes_eq, (rule put_rules | use len in \<open>simp; fail\<close>)+)
  show "read_through (proto_step ''PageResponse'' proto_skip PageResponse_field) (PageResponse_fields m) PageResponse_zero"
    unfolding PageResponse_fields_def
    by (intro read_rules reads_fieldI [OF tags(6)] reads_fieldI [OF tags(2)])
      (simp_all add: PageResponse_field_def varint_field_reads string_field_reads)
  show "fold snd (PageResponse_fields m) PageResponse_zero = m"
    by (auto simp: PageResponse_fields_def field_defs PageResponse_zero_def)
qed (auto simp: PageResponse_field_def fields_move_def split: if_splits intro: field_moves)

definition wire_page_request :: "PageRequest PageCodec" where
  "wire_page_request = \<lparr>page_Size = PageRequest_Size,
     page_MarshalToSizedBuffer = (\<lambda>m. to_sized_buffer (ops (PageRequest_puts m))),
     page_Unmarshal = proto_unmarshal (proto_step ''PageRequest'' proto_skip PageRequest_field), page_zero = PageRequest_zero\<rparr>"

definition wire_page_response :: "PageResponse PageCodec" where
  "wire_page_response = \<lparr>page_Size = PageResponse_Size,
     page_MarshalToSizedBuffer = (\<lambda>m. to_sized_buffer (ops (PageResponse_puts m))),
     page_Unmarshal = proto_unmarshal (proto_step ''PageResponse'' proto_skip PageResponse_field), page_zero = PageResponse_zero\<rparr>"

interpretation wire_queries: query_codecs wire_coin wire_coin_enc wire_coin_good wire_page_request
  "\<lambda>m. enc_of (PageRequest_fields m)" "\<lambda>m. length (pgKey m) < 2 ^ 63" wire_page_response
  "\<lambda>m. enc_of (PageResponse_fields m)" "\<lambda>m. length (pgNextKey m) < 2 ^ 63"
  by (intro query_codecs.intro wire.coin_codec_axioms)
    (simp_all only: wire_page_request_def wire_page_response_def PageCodec.select_convs page_request.msg_codec_axioms page_response.msg_codec_axioms)

definition no_pages :: "(mem, 'k, 'v, PageRequest option, PageResponse option) paginate" where
  "no_pages M q f st = Inr ([], None)"

definition demo_conn :: "(mem, unit, PageRequest, PageResponse) ClientConn" where
  "demo_conn = \<lparr>Invoke = grpc_Invoke (\<lambda>e. e) wire_coin wire_page_request wire_page_response
     (NewQueryServerImpl no_pages no_pages (\<lambda>c. demo_ctx) mem_keeper) (\<lambda>c. c)\<rparr>"

theorem store_over_wire_witness:
  "cl_GetPending (NewQueryClient demo_conn) () (Some \<lparr>qgpId = 0\<rparr>) (store demo1) =
      ((Ok \<lparr>qgpPending = demo_payment\<rparr>, no_metadata), store demo1) \<and>
   cl_GetRecord (NewQueryClient demo_conn) () (Some \<lparr>qgrIndex = alice\<rparr>) (store demo1) =
      ((Ok \<lparr>qgrRecord = \<lparr>rIndex = alice, rSent = 1, rCancelled = 0, rFinalonly = False\<rparr>\<rparr>, no_metadata), store demo1)"
proof -
  let ?tally = "\<lparr>rIndex = alice, rSent = 1, rCancelled = 0, rFinalonly = False\<rparr>"
  have conn: "Invoke demo_conn = grpc_Invoke (\<lambda>e. e) wire_coin wire_page_request wire_page_response
      (NewQueryServerImpl no_pages no_pages (\<lambda>c. demo_ctx) mem_keeper) (\<lambda>c. c)" by (simp add: demo_conn_def)
  have unwrap: "store (demo_ctx st) = st" for st by (simp add: demo_ctx_def)
  have p: "lPending (mem_view (store demo1)) 0 = Some demo_payment" and r: "lRecord (mem_view (store demo1)) alice = Some ?tally"
    by (rule demo1_view, simp add: demo1_view demo_tally_def)
  have "Amount (pAmount demo_payment) \<noteq> None" "length (wire_coin_enc (pAmount demo_payment)) < 100"
    "length (0xa # delimited (Pending_enc wire_coin_enc demo_payment)) < 1000"
    "length (0xa # delimited (Record_enc ?tally)) < 1000" "length (enc_of (QueryGetRecordRequest_fields \<lparr>qgrIndex = alice\<rparr>)) < 1000"
    by code_simp+
  then have good: "wire_coin_good (pAmount demo_payment)"
    and sizes: "length (0xa # delimited (Pending_enc wire_coin_enc demo_payment)) < 2 ^ 63"
      "length (0xa # delimited (Record_enc ?tally)) < 2 ^ 63" "length (enc_of (QueryGetRecordRequest_fields \<lparr>qgrIndex = alice\<rparr>)) < 2 ^ 63"
    by (simp_all add: wire_coin_good_def fits_def)
  from store_over_wire [OF wire_queries.query_codecs_axioms mem_contracts unwrap conn, of "store demo1" 0 alice "()"] good sizes
  show ?thesis by (simp add: p r)
qed

end
