(* ===== verification/MsgClient.thy ===== *)
theory MsgClient
  imports QueryService
begin

text \<open>
  The client side of the messages' service (\<open>tx.pb.go\<close>): the empty answers and their codecs, the
  client stub, the registration of a server, and the servers that implement nothing
  (\<open>UnimplementedMsgServer\<close>, \<open>UnimplementedQueryServer\<close>). A message that is sent through the stub to
  the server over the keeper runs the keeper's handler, and its answer comes back as it was.
\<close>

section \<open>The empty answers\<close>

text \<open>An answer without fields is the unit; every field of its input is an unknown one.\<close>

definition empty_puts :: "bufop list" where
  "empty_puts = []"

definition empty_field :: "int \<Rightarrow> nat \<Rightarrow> bytes \<Rightarrow> unit \<Rightarrow> int \<Rightarrow> (unit \<times> int) rd option" where
  "empty_field fieldNum wireType dAtA m iNdEx = None"

definition MsgUpdateParamsResponse_Size :: "unit \<Rightarrow> nat" where
  "MsgUpdateParamsResponse_Size m = 0"

definition MsgUpdateParamsResponse_MarshalToSizedBuffer :: "unit \<Rightarrow> bytes \<Rightarrow> (bytes \<times> nat) res" where
  "MsgUpdateParamsResponse_MarshalToSizedBuffer m = to_sized_buffer (ops empty_puts)"

definition MsgUpdateParamsResponse_Marshal :: "unit \<Rightarrow> bytes res" where
  "MsgUpdateParamsResponse_Marshal = proto_marshal MsgUpdateParamsResponse_Size MsgUpdateParamsResponse_MarshalToSizedBuffer"

definition MsgUpdateParamsResponse_Unmarshal :: "unit \<Rightarrow> bytes \<Rightarrow> unit rd" where
  "MsgUpdateParamsResponse_Unmarshal = proto_unmarshal (proto_step ''MsgUpdateParamsResponse'' skipTx empty_field)"

definition MsgCancelSendResponse_Size :: "unit \<Rightarrow> nat" where
  "MsgCancelSendResponse_Size m = 0"

definition MsgCancelSendResponse_MarshalToSizedBuffer :: "unit \<Rightarrow> bytes \<Rightarrow> (bytes \<times> nat) res" where
  "MsgCancelSendResponse_MarshalToSizedBuffer m = to_sized_buffer (ops empty_puts)"

definition MsgCancelSendResponse_Marshal :: "unit \<Rightarrow> bytes res" where
  "MsgCancelSendResponse_Marshal = proto_marshal MsgCancelSendResponse_Size MsgCancelSendResponse_MarshalToSizedBuffer"

definition MsgCancelSendResponse_Unmarshal :: "unit \<Rightarrow> bytes \<Rightarrow> unit rd" where
  "MsgCancelSendResponse_Unmarshal = proto_unmarshal (proto_step ''MsgCancelSendResponse'' skipTx empty_field)"

definition MsgSetFinalOnlyResponse_Size :: "unit \<Rightarrow> nat" where
  "MsgSetFinalOnlyResponse_Size m = 0"

definition MsgSetFinalOnlyResponse_MarshalToSizedBuffer :: "unit \<Rightarrow> bytes \<Rightarrow> (bytes \<times> nat) res" where
  "MsgSetFinalOnlyResponse_MarshalToSizedBuffer m = to_sized_buffer (ops empty_puts)"

definition MsgSetFinalOnlyResponse_Marshal :: "unit \<Rightarrow> bytes res" where
  "MsgSetFinalOnlyResponse_Marshal = proto_marshal MsgSetFinalOnlyResponse_Size MsgSetFinalOnlyResponse_MarshalToSizedBuffer"

definition MsgSetFinalOnlyResponse_Unmarshal :: "unit \<Rightarrow> bytes \<Rightarrow> unit rd" where
  "MsgSetFinalOnlyResponse_Unmarshal = proto_unmarshal (proto_step ''MsgSetFinalOnlyResponse'' skipTx empty_field)"

interpretation empty_answer: field_codec "\<lambda>m. []" "\<lambda>m. True" "\<lambda>m. 0" "\<lambda>m. empty_puts" name skipTx empty_field "()"
  for name
  by unfold_locales (simp_all add: empty_puts_def empty_field_def skipTx_def fields_move_def writes_ops_Nil)

lemmas empty_defs = MsgUpdateParamsResponse_Size_def MsgUpdateParamsResponse_MarshalToSizedBuffer_def
  MsgCancelSendResponse_Size_def MsgCancelSendResponse_MarshalToSizedBuffer_def
  MsgSetFinalOnlyResponse_Size_def MsgSetFinalOnlyResponse_MarshalToSizedBuffer_def

lemma empty_answers:
  "MsgUpdateParamsResponse_Marshal () = Ok []" "MsgUpdateParamsResponse_Unmarshal () [] = Got ()"
  "MsgCancelSendResponse_Marshal () = Ok []" "MsgCancelSendResponse_Unmarshal () [] = Got ()"
  "MsgSetFinalOnlyResponse_Marshal () = Ok []" "MsgSetFinalOnlyResponse_Unmarshal () [] = Got ()"
  using empty_answer.roundtrip [of "()"]
  by (simp_all add: MsgUpdateParamsResponse_Marshal_def MsgUpdateParamsResponse_Unmarshal_def
    MsgCancelSendResponse_Marshal_def MsgCancelSendResponse_Unmarshal_def MsgSetFinalOnlyResponse_Marshal_def
    MsgSetFinalOnlyResponse_Unmarshal_def empty_defs [abs_def])

text \<open>An answer is written and read as the type of its method; another type panics.\<close>

fun answer_Marshal :: "undo_msg \<Rightarrow> msg_reply \<Rightarrow> bytes res" where
  "answer_Marshal (UpdateParamsMsg m) NoReply = MsgUpdateParamsResponse_Marshal ()"
| "answer_Marshal (DelayedSendMsg m) (DelayedSendReply r) = MsgDelayedSendResponse_Marshal r"
| "answer_Marshal (CancelSendMsg m) NoReply = MsgCancelSendResponse_Marshal ()"
| "answer_Marshal (SetFinalOnlyMsg m) NoReply = MsgSetFinalOnlyResponse_Marshal ()"
| "answer_Marshal _ _ = Panic ''interface conversion''"

text \<open>What \<open>out\<close> is decoded into, by the method that is called.\<close>

fun answer_dec :: "undo_msg \<Rightarrow> bytes \<Rightarrow> error + msg_reply" where
  "answer_dec (UpdateParamsMsg m) b = map_sum id (\<lambda>_. NoReply) (rd_sum (MsgUpdateParamsResponse_Unmarshal () b))"
| "answer_dec (DelayedSendMsg m) b = map_sum id DelayedSendReply (rd_sum (MsgDelayedSendResponse_Unmarshal MsgDelayedSendResponse_zero b))"
| "answer_dec (CancelSendMsg m) b = map_sum id (\<lambda>_. NoReply) (rd_sum (MsgCancelSendResponse_Unmarshal () b))"
| "answer_dec (SetFinalOnlyMsg m) b = map_sum id (\<lambda>_. NoReply) (rd_sum (MsgSetFinalOnlyResponse_Unmarshal () b))"

section \<open>The client\<close>

text \<open>A connection: the full name of a method, the message, and the answer that was decoded into \<open>out\<close>.\<close>

record 'st MsgConn =
  msg_Invoke :: "string \<Rightarrow> undo_msg \<Rightarrow> ('st ctx, msg_reply) go"

record 'st MsgClient =
  mc_UpdateParams :: "MsgUpdateParams \<Rightarrow> ('st ctx, unit) go"
  mc_DelayedSend :: "MsgDelayedSend \<Rightarrow> ('st ctx, MsgDelayedSendResponse) go"
  mc_CancelSend :: "MsgCancelSend \<Rightarrow> ('st ctx, unit) go"
  mc_SetFinalOnly :: "MsgSetFinalOnly \<Rightarrow> ('st ctx, unit) go"

definition msgClient_UpdateParams :: "'st MsgConn \<Rightarrow> MsgUpdateParams \<Rightarrow> ('st ctx, unit) go" where
  "msgClient_UpdateParams cc inp =
     bind (msg_Invoke cc ''/trefoil.undo.v1.Msg/UpdateParams'' (UpdateParamsMsg inp)) (\<lambda>out. ret ())"

definition msgClient_DelayedSend :: "'st MsgConn \<Rightarrow> MsgDelayedSend \<Rightarrow> ('st ctx, MsgDelayedSendResponse) go" where
  "msgClient_DelayedSend cc inp =
     bind (msg_Invoke cc ''/trefoil.undo.v1.Msg/DelayedSend'' (DelayedSendMsg inp)) (\<lambda>out.
     case out of DelayedSendReply r \<Rightarrow> ret r | NoReply \<Rightarrow> go_lift (Panic ''interface conversion''))"

definition msgClient_CancelSend :: "'st MsgConn \<Rightarrow> MsgCancelSend \<Rightarrow> ('st ctx, unit) go" where
  "msgClient_CancelSend cc inp =
     bind (msg_Invoke cc ''/trefoil.undo.v1.Msg/CancelSend'' (CancelSendMsg inp)) (\<lambda>out. ret ())"

definition msgClient_SetFinalOnly :: "'st MsgConn \<Rightarrow> MsgSetFinalOnly \<Rightarrow> ('st ctx, unit) go" where
  "msgClient_SetFinalOnly cc inp =
     bind (msg_Invoke cc ''/trefoil.undo.v1.Msg/SetFinalOnly'' (SetFinalOnlyMsg inp)) (\<lambda>out. ret ())"

definition NewMsgClient :: "'st MsgConn \<Rightarrow> 'st MsgClient" where
  "NewMsgClient cc = \<lparr>mc_UpdateParams = msgClient_UpdateParams cc, mc_DelayedSend = msgClient_DelayedSend cc,
     mc_CancelSend = msgClient_CancelSend cc, mc_SetFinalOnly = msgClient_SetFinalOnly cc\<rparr>"

section \<open>The servers\<close>

definition RegisterMsgServer ::
  "('st msg_handler ServiceDesc \<Rightarrow> 'st MsgServer \<Rightarrow> 'reg \<Rightarrow> 'reg) \<Rightarrow> 'reg \<Rightarrow> 'st MsgServer \<Rightarrow> 'reg" where
  "RegisterMsgServer RegisterService s srv = RegisterService Msg_serviceDesc srv s"

text \<open>A server that implements nothing answers every call with its status.\<close>

definition not_implemented :: "string \<Rightarrow> ('s, 'a) go" where
  "not_implemented name = fail (StatusError Unimplemented (''method '' @ name @ '' not implemented''))"

definition UnimplementedMsgServer :: "'st MsgServer" where
  "UnimplementedMsgServer = \<lparr>ms_UpdateParams = (\<lambda>req. not_implemented ''UpdateParams''),
     ms_DelayedSend = (\<lambda>req. not_implemented ''DelayedSend''), ms_CancelSend = (\<lambda>req. not_implemented ''CancelSend''),
     ms_SetFinalOnly = (\<lambda>req. not_implemented ''SetFinalOnly'')\<rparr>"

definition UnimplementedQueryServer :: "('st, 'c, 'pq, 'pr) QueryServer" where
  "UnimplementedQueryServer = \<lparr>srv_Params = (\<lambda>ctx req. not_implemented ''Params''),
     srv_GetPending = (\<lambda>ctx req. not_implemented ''GetPending''), srv_ListPending = (\<lambda>ctx req. not_implemented ''ListPending''),
     srv_GetRecord = (\<lambda>ctx req. not_implemented ''GetRecord''), srv_ListRecord = (\<lambda>ctx req. not_implemented ''ListRecord'')\<rparr>"

section \<open>Over a connection\<close>

text \<open>
  As for the queries: the message is written, the method of that name decodes it and runs, its
  answer is written and decoded; an error of the method arrives as its status.
\<close>

definition msg_over ::
  "(error \<Rightarrow> error) \<Rightarrow> CoinCodec \<Rightarrow> 'st MsgServer \<Rightarrow> string \<Rightarrow> undo_msg \<Rightarrow> ('st ctx, msg_reply) go" where
  "msg_over status C server full msg =
     bind (on_err status (go_lift (undo_Marshal C msg))) (\<lambda>b.
     case method_named Msg_serviceDesc full of
       None \<Rightarrow> fail (Foreign ''unknown method'')
     | Some handler \<Rightarrow>
         on_err status
           (bind (handler server (wire_dec C b) None) (\<lambda>reply.
            bind (go_lift (answer_Marshal msg reply)) (\<lambda>b'.
            pure_call (answer_dec msg b')))))"

fun ask_msg :: "'st MsgClient \<Rightarrow> 'st msg_call" where
  "ask_msg cl (UpdateParamsMsg m) = bind (mc_UpdateParams cl m) (\<lambda>_. ret NoReply)"
| "ask_msg cl (DelayedSendMsg m) = bind (mc_DelayedSend cl m) (\<lambda>r. ret (DelayedSendReply r))"
| "ask_msg cl (CancelSendMsg m) = bind (mc_CancelSend cl m) (\<lambda>_. ret NoReply)"
| "ask_msg cl (SetFinalOnlyMsg m) = bind (mc_SetFinalOnly cl m) (\<lambda>_. ret NoReply)"

fun answers_to :: "undo_msg \<Rightarrow> msg_reply \<Rightarrow> bool" where
  "answers_to (DelayedSendMsg m) r \<longleftrightarrow> (\<exists>x. r = DelayedSendReply x)"
| "answers_to _ r \<longleftrightarrow> r = NoReply"

lemma send_answer_fits: "length (enc_of (MsgDelayedSendResponse_fields r)) < 2 ^ 63"
proof -
  have "length (enc_of (MsgDelayedSendResponse_fields r)) \<le> 11 + 2"
    unfolding MsgDelayedSendResponse_fields_def enc_of_append length_append
    by (intro add_mono uint_short) (simp add: bool_f_def enc_of_def)
  then show ?thesis by simp
qed

lemma answer_back:
  assumes "answers_to m r"
  shows "\<exists>b. answer_Marshal m r = Ok b \<and> answer_dec m b = Inr r"
proof (cases m)
  case (DelayedSendMsg d)
  with assms obtain x where r: "r = DelayedSendReply x" by auto
  have "fits (\<lambda>m. enc_of (MsgDelayedSendResponse_fields m)) x" using send_answer_fits by (simp add: fits_def)
  from send_response.roundtrip [OF this send_answer_fits] show ?thesis
    by (simp add: DelayedSendMsg r rd_sum_def MsgDelayedSendResponse_Marshal_def
        MsgDelayedSendResponse_MarshalToSizedBuffer_def [abs_def] MsgDelayedSendResponse_Unmarshal_def)
qed (use assms in \<open>simp_all add: empty_answers rd_sum_def\<close>)

lemma run_answers: "run_msg S k m c = (Ok r, c') \<Longrightarrow> answers_to m r"
  by (cases m) (auto simp: ret_def elim!: bind_OkE)

lemma named_by_method:
  "method_named Msg_serviceDesc (''/trefoil.undo.v1.Msg/'' @ method_of m) = map_of (Methods Msg_serviceDesc) (method_of m)"
  by (cases m) (simp_all add: method_named_def Msg_serviceDesc_def Msg_ServiceName_def)

lemma over_runs:
  assumes "coin_codec C cenc cgood" and "sendable cgood m" and "length (undo_enc cenc m) < 2 ^ 63"
    and full: "full = ''/trefoil.undo.v1.Msg/'' @ method_of m"
  shows "msg_over status C (NewMsgServerImpl S k) full m c = on_err status (run_msg S k m) c"
proof -
  obtain call :: "'a MsgServer \<Rightarrow> 'a msg_call" and new_msg where h: "map_of (Methods Msg_serviceDesc) (method_of m) =
        Some (unary_handler new_msg (''/trefoil.undo.v1.Msg/'' @ method_of m) call)"
      and dec: "wire_dec C (undo_enc cenc m) new_msg = Inr m" and run: "call (NewMsgServerImpl S k) m = run_msg S k m"
    using coin_codec.undo_decodes [OF assms(1-3)] by blast
  have found: "method_named Msg_serviceDesc full = Some (unary_handler new_msg full call)"
    unfolding full named_by_method by (rule h)
  obtain r c' where res: "run_msg S k m c = (r, c')" by fastforce
  show ?thesis
  proof (cases r)
    case (Ok x)
    with answer_back [OF run_answers] res obtain b where "answer_Marshal m x = Ok b" "answer_dec m b = Inr x" by blast
    with res Ok show ?thesis
      by (simp add: msg_over_def found coin_codec.undo_marshals [OF assms(1-3)] unary_handler_def dec run
          bind_def on_err_def go_lift_def pure_call_def)
  qed (use res in \<open>simp_all add: msg_over_def found coin_codec.undo_marshals [OF assms(1-3)] unary_handler_def dec
      run bind_def on_err_def go_lift_def pure_call_def\<close>)
qed

text \<open>
  Through the stub, over a connection to the server of the keeper, a message runs its handler
  once, and what the handler returns is what the stub returns.
\<close>

theorem client_runs_handler:
  assumes "coin_codec C cenc cgood" and "sendable cgood m" and "length (undo_enc cenc m) < 2 ^ 63"
    and "msg_Invoke cc = msg_over status C (NewMsgServerImpl S k)"
  shows "ask_msg (NewMsgClient cc) m c = on_err status (run_msg S k m) c"
proof -
  note over = over_runs [OF assms(1-3) refl, of status S k c]
  obtain r c' where res: "run_msg S k m c = (r, c')" by fastforce
  have typed: "r = Ok x \<Longrightarrow> answers_to m x" for x using run_answers res by blast
  show ?thesis
    using over typed res
    by (cases m; cases r)
      (auto simp: NewMsgClient_def msgClient_UpdateParams_def msgClient_DelayedSend_def msgClient_CancelSend_def
        msgClient_SetFinalOnly_def assms(4) bind_def on_err_def ret_def simp del: run_msg.simps)
qed

end
