(* ===== verification/Blocks.thy ===== *)
theory Blocks
  imports Services Payments Genesis
begin

text \<open>
  The chain in blocks, as it runs: transactions carry messages as bytes, the methods of the
  service descriptor decode and serve them, a transaction that fails leaves nothing behind, other
  modules move coins between transactions, and each block ends with the module's \<open>EndBlock\<close>. How
  blocks and transactions are run is baseapp's, which is not in the repository: what follows
  states what it documents (messages in order, all or nothing; signers are authenticated before a
  message runs). Every run in blocks is a run of the step relation of \<open>Machine\<close>, so its
  guarantees hold here, and its premise on the sequence becomes a bound on the number of messages.
\<close>

section \<open>Blocks\<close>

text \<open>A message on the wire: the full name of its method and its bytes.\<close>

type_synonym wire_msg = "string \<times> bytes"

fun deliver_msg :: "CoinOps \<Rightarrow> CoinCodec \<Rightarrow> 'st Keeper \<Rightarrow> wire_msg \<Rightarrow> ('st ctx, unit) go" where
  "deliver_msg S C k (full, b) =
     (case method_named Msg_serviceDesc full of
        None \<Rightarrow> fail (Foreign ''unknown message'')
      | Some handler \<Rightarrow> bind (handler (NewMsgServerImpl S k) (wire_dec C b) None) (\<lambda>_. ret ()))"

definition deliver_tx :: "CoinOps \<Rightarrow> CoinCodec \<Rightarrow> 'st Keeper \<Rightarrow> wire_msg list \<Rightarrow> ('st ctx, unit) go" where
  "deliver_tx S C k msgs c =
     (case go_for (deliver_msg S C k) msgs c of
        (Ok _, c') \<Rightarrow> (Ok (), c')
      | _ \<Rightarrow> (Ok (), c))"

datatype 'st item = Tx "wire_msg list" | OtherModule "'st \<Rightarrow> 'st"

fun run_item :: "CoinOps \<Rightarrow> CoinCodec \<Rightarrow> 'st Keeper \<Rightarrow> 'st item \<Rightarrow> ('st ctx, unit) go" where
  "run_item S C k (Tx msgs) c = deliver_tx S C k msgs c"
| "run_item S C k (OtherModule f) c = (Ok (), c\<lparr>store := f (store c)\<rparr>)"

record 'st block =
  bTime :: i64
  bItems :: "'st item list"

definition run_block :: "CoinOps \<Rightarrow> CoinCodec \<Rightarrow> 'st AppModule \<Rightarrow> 'st block \<Rightarrow> ('st ctx, unit) go" where
  "run_block S C am b c =
     bind (BeginBlock am) (\<lambda>_.
     bind (go_for (run_item S C (keeper am)) (bItems b)) (\<lambda>_.
     EndBlock S am)) (c\<lparr>blockTimeUnix := bTime b\<rparr>)"

text \<open>
  What the outside owes: nobody signs for the module's account, other modules touch nothing of
  the module but balances and take nothing from its account, and block times do not go back.
\<close>

definition signed_by_others :: "CoinCodec \<Rightarrow> AddressCodec \<Rightarrow> bytes \<Rightarrow> wire_msg \<Rightarrow> bool" where
  "signed_by_others C A h m =
     (case wire_dec C (snd m) (DelayedSendMsg MsgDelayedSend_zero) of
        Inr (DelayedSendMsg d) \<Rightarrow> StringToBytes A (dsCreator d) \<noteq> Inr h
      | _ \<Rightarrow> True)"

definition harmless :: "('st \<Rightarrow> ledger) \<Rightarrow> bytes \<Rightarrow> ('st \<Rightarrow> 'st) \<Rightarrow> bool" where
  "harmless view h f \<longleftrightarrow>
     (\<forall>st. \<exists>b. view (f st) = (view st)\<lparr>lBal := b\<rparr> \<and> (\<forall>d. lBal (view st) h d \<le> b h d))"

fun item_ok :: "CoinCodec \<Rightarrow> AddressCodec \<Rightarrow> ('st \<Rightarrow> ledger) \<Rightarrow> bytes \<Rightarrow> 'st item \<Rightarrow> bool" where
  "item_ok C A view h (Tx msgs) \<longleftrightarrow> (\<forall>m\<in>set msgs. signed_by_others C A h m)"
| "item_ok C A view h (OtherModule f) \<longleftrightarrow> harmless view h f"

fun in_order :: "i64 \<Rightarrow> 'st block list \<Rightarrow> bool" where
  "in_order t [] \<longleftrightarrow> True"
| "in_order t (b # bs) \<longleftrightarrow> sint t \<le> sint (bTime b) \<and> in_order (bTime b) bs"

definition blocks_ok :: "CoinCodec \<Rightarrow> AddressCodec \<Rightarrow> ('st \<Rightarrow> ledger) \<Rightarrow> bytes \<Rightarrow> i64 \<Rightarrow> 'st block list \<Rightarrow> bool" where
  "blocks_ok C A view h t bs \<longleftrightarrow> in_order t bs \<and> (\<forall>b\<in>set bs. \<forall>i\<in>set (bItems b). item_ok C A view h i)"

text \<open>How many messages there are.\<close>

fun item_msgs :: "'st item \<Rightarrow> nat" where
  "item_msgs (Tx msgs) = length msgs"
| "item_msgs (OtherModule f) = 0"

definition block_msgs :: "'st block \<Rightarrow> nat" where
  "block_msgs b = sum_list (map item_msgs (bItems b))"

definition all_msgs :: "'st block list \<Rightarrow> nat" where
  "all_msgs bs = sum_list (map block_msgs bs)"

section \<open>The clock\<close>

text \<open>Nothing the module runs touches the time of the block.\<close>

lemma keeps_calls [keeps_intros]:
  "keeps blockTimeUnix (call_read f)" "keeps blockTimeUnix (call_write g)" "keeps blockTimeUnix (call_update u)"
  "keeps blockTimeUnix (new_coins S cs)" "keeps blockTimeUnix (emit t as)" "keeps blockTimeUnix blockTime"
  "keeps blockTimeUnix (Walk M cb a)"
  by (auto simp: keeps_def call_defs emit_def blockTime_def Walk_def split: sum.splits prod.splits option.splits res.splits)

lemma keeps_getRecord [keeps_intros]: "keeps blockTimeUnix (getRecord k a)"
  by (auto simp: keeps_def getRecord_def call_read_def split: sum.splits)

lemma keeps_bump [keeps_intros]: "keeps blockTimeUnix (bump k a ch)"
  unfolding bump_def by (intro keeps_intros)

lemma keeps_if [keeps_intros]: "keeps view m \<Longrightarrow> keeps view m' \<Longrightarrow> keeps view (if b then m else m')"
  by simp

lemma DelayedSend_clock [keeps_intros]: "keeps blockTimeUnix (DelayedSend S k m)"
  unfolding DelayedSend_def Let_def countOpen_def by (intro keeps_intros)

lemma CancelSend_clock [keeps_intros]: "keeps blockTimeUnix (CancelSend S k m)"
  unfolding CancelSend_def by (intro keeps_intros)

lemma SetFinalOnly_clock [keeps_intros]: "keeps blockTimeUnix (SetFinalOnly k m)"
  unfolding SetFinalOnly_def by (intro keeps_intros)

lemma UpdateParams_clock [keeps_intros]: "keeps blockTimeUnix (UpdateParams k m)"
  unfolding UpdateParams_def by (intro keeps_intros)

lemma run_msg_clock: "keeps blockTimeUnix (run_msg S k m)"
  by (cases m) (auto intro!: keeps_intros)

section \<open>A message is a step\<close>

lemma dec_kind:
  "wire_dec C b (UpdateParamsMsg x) = Inr m \<Longrightarrow> \<exists>y. m = UpdateParamsMsg y"
  "wire_dec C b (DelayedSendMsg d) = Inr m \<Longrightarrow> \<exists>y. m = DelayedSendMsg y"
  "wire_dec C b (CancelSendMsg e) = Inr m \<Longrightarrow> \<exists>y. m = CancelSendMsg y"
  "wire_dec C b (SetFinalOnlyMsg f) = Inr m \<Longrightarrow> \<exists>y. m = SetFinalOnlyMsg y"
  by (auto simp: decoded_def split: rd.splits)

text \<open>A message is refused by the decoder, or runs as the message it decodes to.\<close>

lemma served_by:
  "method_named Msg_serviceDesc full = Some handler \<Longrightarrow>
     handler \<in> {Msg_UpdateParams_Handler, Msg_DelayedSend_Handler, Msg_CancelSend_Handler, Msg_SetFinalOnly_Handler}"
  by (auto simp: method_named_def Msg_serviceDesc_def split: if_splits)

lemma handler_run:
  "unary_handler new_msg full call srv dec None c = (case dec new_msg of Inl e \<Rightarrow> (Err e, c) | Inr m \<Rightarrow> call srv m c)"
  by (simp add: unary_handler_def bind_def pure_call_def split: sum.split)

text \<open>Each call, on a message of the kind its handler decodes.\<close>

lemma call_runs:
  "wire_dec C b (UpdateParamsMsg x) = Inr m \<Longrightarrow>
     call_UpdateParams (NewMsgServerImpl S k) m = run_msg S k m \<and> (\<forall>d. m \<noteq> DelayedSendMsg d)"
  "wire_dec C b (DelayedSendMsg d) = Inr m \<Longrightarrow> call_DelayedSend (NewMsgServerImpl S k) m = run_msg S k m"
  "wire_dec C b (CancelSendMsg e) = Inr m \<Longrightarrow>
     call_CancelSend (NewMsgServerImpl S k) m = run_msg S k m \<and> (\<forall>d. m \<noteq> DelayedSendMsg d)"
  "wire_dec C b (SetFinalOnlyMsg f) = Inr m \<Longrightarrow>
     call_SetFinalOnly (NewMsgServerImpl S k) m = run_msg S k m \<and> (\<forall>d. m \<noteq> DelayedSendMsg d)"
  by (auto dest!: dec_kind simp: NewMsgServerImpl_def simp del: wire_dec.simps)

lemma handler_cases:
  assumes "handler \<in> {Msg_UpdateParams_Handler, Msg_DelayedSend_Handler, Msg_CancelSend_Handler, Msg_SetFinalOnly_Handler}"
  shows "(\<exists>e. handler (NewMsgServerImpl S k) (wire_dec C b) None c = (Err e, c)) \<or>
    (\<exists>m. handler (NewMsgServerImpl S k) (wire_dec C b) None c = run_msg S k m c \<and>
       (\<forall>d. m = DelayedSendMsg d \<longrightarrow> wire_dec C b (DelayedSendMsg MsgDelayedSend_zero) = Inr m))"
proof -
  have each: "(\<exists>e. unary_handler new_msg full call (NewMsgServerImpl S k) (wire_dec C b) None c = (Err e, c)) \<or>
      (\<exists>m. unary_handler new_msg full call (NewMsgServerImpl S k) (wire_dec C b) None c = run_msg S k m c \<and>
         (\<forall>d. m = DelayedSendMsg d \<longrightarrow> wire_dec C b (DelayedSendMsg MsgDelayedSend_zero) = Inr m))"
    if "\<And>m. wire_dec C b new_msg = Inr m \<Longrightarrow> call (NewMsgServerImpl S k) m = run_msg S k m \<and>
        (\<forall>d. m = DelayedSendMsg d \<longrightarrow> new_msg = DelayedSendMsg MsgDelayedSend_zero)"
    for new_msg full and call :: "'a MsgServer \<Rightarrow> 'a msg_call"
    using that by (cases "wire_dec C b new_msg") (auto simp: handler_run simp del: wire_dec.simps)
  from assms show ?thesis
  proof (elim insertE emptyE)
    assume "handler = Msg_UpdateParams_Handler"
    then show ?thesis unfolding Msg_UpdateParams_Handler_def
      by (rule ssubst) (rule each, use call_runs(1) in blast)
  next
    assume "handler = Msg_DelayedSend_Handler"
    then show ?thesis unfolding Msg_DelayedSend_Handler_def
      by (rule ssubst) (rule each, use call_runs(2) in blast)
  next
    assume "handler = Msg_CancelSend_Handler"
    then show ?thesis unfolding Msg_CancelSend_Handler_def
      by (rule ssubst) (rule each, use call_runs(3) in blast)
  next
    assume "handler = Msg_SetFinalOnly_Handler"
    then show ?thesis unfolding Msg_SetFinalOnly_Handler_def
      by (rule ssubst) (rule each, use call_runs(4) in blast)
  qed
qed

lemma deliver_msg_cases:
  assumes "deliver_msg S C k (full, b) c = (r, c')" and "signed_by_others C A h (full, b)"
  shows "c' = c \<or> (\<exists>m r'. run_msg S k m c = (r', c') \<and> (\<forall>d. m = DelayedSendMsg d \<longrightarrow> StringToBytes A (dsCreator d) \<noteq> Inr h))"
proof (cases "method_named Msg_serviceDesc full :: 'a msg_handler option")
  case None
  with assms(1) show ?thesis by (simp add: fail_def)
next
  case (Some handler)
  with assms(1) have "bind (handler (NewMsgServerImpl S k) (wire_dec C b) None) (\<lambda>_. ret ()) c = (r, c')" by simp
  then obtain r' where run: "handler (NewMsgServerImpl S k) (wire_dec C b) None c = (r', c')"
    by (auto simp: bind_def ret_def split: prod.splits res.splits)
  from handler_cases [OF served_by [OF Some], of S k C b c] show ?thesis
  proof (elim disjE exE conjE)
    fix m assume "handler (NewMsgServerImpl S k) (wire_dec C b) None c = run_msg S k m c"
      "\<forall>d. m = DelayedSendMsg d \<longrightarrow> wire_dec C b (DelayedSendMsg MsgDelayedSend_zero) = Inr m"
    moreover from this assms(2) have "\<forall>d. m = DelayedSendMsg d \<longrightarrow> StringToBytes A (dsCreator d) \<noteq> Inr h"
      by (auto simp: signed_by_others_def simp del: wire_dec.simps)
    ultimately show ?thesis using run by metis
  qed (use run in simp)
qed

section \<open>Blocks are runs\<close>

text \<open>From one context to another by steps, with the clock standing and at most \<open>n\<close> new payments.\<close>

definition advances :: "CoinOps \<Rightarrow> 'st Keeper \<Rightarrow> ('st \<Rightarrow> ledger) \<Rightarrow> bytes \<Rightarrow> nat \<Rightarrow> 'st ctx \<Rightarrow> 'st ctx \<Rightarrow> bool" where
  "advances S K view h n c c' \<longleftrightarrow> chain_steps S K view h c c' \<and> blockTimeUnix c' = blockTimeUnix c \<and>
     unat (lSeq (view (store c'))) \<le> unat (lSeq (view (store c))) + n"

lemma steps_trans:
  "chain_steps S K view h c' c'' \<Longrightarrow> chain_steps S K view h c c' \<Longrightarrow> chain_steps S K view h c c''"
  by (induction rule: chain_steps.induct) (auto intro: chain_steps.more)

lemma advances_refl [simp]: "advances S K view h n c c"
  by (simp add: advances_def chain_steps.here)

lemma advances_trans:
  "advances S K view h n c c' \<Longrightarrow> advances S K view h m c' c'' \<Longrightarrow> advances S K view h (n + m) c c''"
  by (auto simp: advances_def intro: steps_trans)

lemma one_step: "chain_step S K view h c c' \<Longrightarrow> chain_steps S K view h c c'"
  by (rule chain_steps.more [OF chain_steps.here])

lemma effect_seq_most:
  assumes "ledger_inv A denom_ok h l" and "enabled A denom_ok h e l"
  shows "unat (lSeq (apply_effect A blkd h now e l)) \<le> unat (lSeq l) + 1"
proof (cases e)
  case (Parked msg src w)
  with assms(2) u64_succ(1) [of "lSeq l"] show ?thesis by (simp add: park_def)
next
  case BlockEnded
  then show ?thesis by (simp add: end_block_closed(2) [OF assms(1)])
qed (simp_all add: pay_now_def switch_final_def take_back_def release_def)

text \<open>A message is one call of a handler.\<close>

lemma run_step:
  assumes "run_msg S K m c = (r, c')" and "lSeq (view (store c)) \<noteq> -1"
    and "\<forall>d. m = DelayedSendMsg d \<longrightarrow> StringToBytes (addressCodec K) (dsCreator d) \<noteq> Inr h"
  shows "chain_step S K view h c c'"
proof -
  have call: "\<exists>r'. f c = (r', c')" if "bind f (\<lambda>x. ret (g x)) c = (r, c')" for f :: "('a ctx, 'x) go" and g
    using that by (auto simp: bind_def ret_def split: prod.splits res.splits)
  show ?thesis
  proof (cases m)
    case (DelayedSendMsg d)
    with call [of "DelayedSend S K d" DelayedSendReply] assms show ?thesis by (auto intro: chain_step.send)
  next
    case (CancelSendMsg e)
    with call [of "CancelSend S K e" "\<lambda>_. NoReply"] assms(1) show ?thesis by (auto intro: chain_step.cancel)
  next
    case (SetFinalOnlyMsg f)
    with call [of "SetFinalOnly K f" "\<lambda>_. NoReply"] assms(1) show ?thesis by (auto intro: chain_step.switch)
  next
    case (UpdateParamsMsg p)
    with call [of "UpdateParams K p" "\<lambda>_. NoReply"] assms(1) show ?thesis by (auto intro: chain_step.params)
  qed
qed

context undo_contracts
begin

lemma step_advances:
  assumes "chain_step S K view hold c c'" and "ledger_inv (addressCodec K) denom_ok hold (view (store c))"
    and "blockTimeUnix c' = blockTimeUnix c"
  shows "advances S K view hold 1 c c'"
  using step_effect [OF assms(1,2)] effect_seq_most [OF assms(2)] assms(1,3)
  by (auto simp: advances_def one_step)

lemma msg_advances:
  assumes inv: "ledger_inv (addressCodec K) denom_ok hold (view (store c))"
    and signed: "signed_by_others C (addressCodec K) hold m"
    and room: "unat (lSeq (view (store c))) + 1 < 2 ^ 64"
    and run: "deliver_msg S C K m c = (r, c')"
  shows "advances S K view hold 1 c c'"
proof -
  obtain full b where m: "m = (full, b)" by (cases m)
  have "unat (-1 :: u64) + 1 = 2 ^ 64" by (simp add: unsigned_minus_1_eq_mask mask_eq_exp_minus_1)
  then have "unat (lSeq (view (store c))) \<noteq> unat (-1 :: u64)" using room by linarith
  then have "lSeq (view (store c)) \<noteq> -1" by (rule contrapos_nn) simp
  moreover from deliver_msg_cases [OF run [unfolded m] signed [unfolded m]]
  have "c' = c \<or> (\<exists>m r'. run_msg S K m c = (r', c') \<and>
      (\<forall>d. m = DelayedSendMsg d \<longrightarrow> StringToBytes (addressCodec K) (dsCreator d) \<noteq> Inr hold))" .
  ultimately have "c' = c \<or> (chain_step S K view hold c c' \<and> blockTimeUnix c' = blockTimeUnix c)"
    by (auto intro: run_step keepsD [OF run_msg_clock])
  then show ?thesis using step_advances [OF _ inv] by auto
qed

lemma advances_inv:
  "advances S K view hold n c c' \<Longrightarrow> ledger_inv (addressCodec K) denom_ok hold (view (store c)) \<Longrightarrow>
     ledger_inv (addressCodec K) denom_ok hold (view (store c'))"
  by (auto simp: advances_def intro: steps_inv)

lemma msgs_advance:
  assumes "ledger_inv (addressCodec K) denom_ok hold (view (store c))"
    and "\<forall>m\<in>set msgs. signed_by_others C (addressCodec K) hold m"
    and "unat (lSeq (view (store c))) + length msgs < 2 ^ 64"
    and "go_for (deliver_msg S C K) msgs c = (r, c')"
  shows "advances S K view hold (length msgs) c c'"
  using assms
proof (induction msgs arbitrary: c)
  case (Cons m msgs)
  obtain r1 c1 where first: "deliver_msg S C K m c = (r1, c1)" by fastforce
  have one: "advances S K view hold 1 c c1"
    using msg_advances [OF Cons.prems(1) _ _ first] Cons.prems(2,3) by simp
  show ?case
  proof (cases r1)
    case (Ok u)
    with Cons.prems(4) first have rest: "go_for (deliver_msg S C K) msgs c1 = (r, c')" by (simp add: bind_def)
    have "unat (lSeq (view (store c1))) + length msgs < 2 ^ 64"
      using one Cons.prems(3) by (simp add: advances_def)
    with Cons.IH [OF advances_inv [OF one Cons.prems(1)] _ _ rest] Cons.prems(2)
    have "advances S K view hold (length msgs) c1 c'" by simp
    from advances_trans [OF one this] show ?thesis by simp
  qed (use Cons.prems(4) first one in \<open>auto simp: bind_def advances_def\<close>)
qed (simp add: ret_def)

lemma tx_advances:
  assumes "ledger_inv (addressCodec K) denom_ok hold (view (store c))"
    and "\<forall>m\<in>set msgs. signed_by_others C (addressCodec K) hold m"
    and "unat (lSeq (view (store c))) + length msgs < 2 ^ 64"
  shows "\<exists>c'. deliver_tx S C K msgs c = (Ok (), c') \<and> advances S K view hold (length msgs) c c'"
proof -
  obtain r c' where run: "go_for (deliver_msg S C K) msgs c = (r, c')" by fastforce
  from msgs_advance [OF assms run] run show ?thesis
    by (cases r) (simp_all add: deliver_tx_def)
qed

lemma item_advances:
  assumes "ledger_inv (addressCodec K) denom_ok hold (view (store c))"
    and "item_ok C (addressCodec K) view hold i" and "unat (lSeq (view (store c))) + item_msgs i < 2 ^ 64"
  shows "\<exists>c'. run_item S C K i c = (Ok (), c') \<and> advances S K view hold (item_msgs i) c c'"
proof (cases i)
  case (Tx msgs)
  with tx_advances [OF assms(1), of msgs C] assms(2,3) show ?thesis by simp
next
  case (OtherModule f)
  with assms(2) obtain b where b: "view (f (store c)) = (view (store c))\<lparr>lBal := b\<rparr>"
      "\<forall>d. lBal (view (store c)) hold d \<le> b hold d"
    by (auto simp: harmless_def)
  with chain_step.others [OF b] show ?thesis by (simp add: OtherModule advances_def one_step)
qed

lemma items_advance:
  assumes "ledger_inv (addressCodec K) denom_ok hold (view (store c))"
    and "\<forall>i\<in>set is. item_ok C (addressCodec K) view hold i"
    and "unat (lSeq (view (store c))) + sum_list (map item_msgs is) < 2 ^ 64"
  shows "\<exists>c'. go_for (run_item S C K) is c = (Ok (), c') \<and> advances S K view hold (sum_list (map item_msgs is)) c c'"
  using assms
proof (induction "is" arbitrary: c)
  case (Cons i "is")
  then obtain c1 where one: "run_item S C K i c = (Ok (), c1)" "advances S K view hold (item_msgs i) c c1"
    using item_advances [OF Cons.prems(1), of C i] by auto
  with Cons.prems(3) have "unat (lSeq (view (store c1))) + sum_list (map item_msgs is) < 2 ^ 64"
    by (simp add: advances_def)
  with Cons.IH [OF advances_inv [OF one(2) Cons.prems(1)]] Cons.prems(2) obtain c2 where
    "go_for (run_item S C K) is c1 = (Ok (), c2)" "advances S K view hold (sum_list (map item_msgs is)) c1 c2"
    by auto
  with one show ?case by (auto simp: bind_def intro: advances_trans)
qed (simp add: ret_def)

text \<open>A block returns, is a run, and leaves nothing overdue that could be delivered.\<close>

lemma block_runs:
  assumes inv: "ledger_inv (addressCodec (keeper am)) denom_ok hold (view (store c))" and K: "keeper am = K"
    and ok: "\<forall>i\<in>set (bItems b). item_ok C (addressCodec K) view hold i" and time: "sint (blockTimeUnix c) \<le> sint (bTime b)"
    and room: "unat (lSeq (view (store c))) + block_msgs b < 2 ^ 64"
  shows "\<exists>c'. run_block S C am b c = (Ok (), c') \<and> chain_steps S K view hold c c' \<and> blockTimeUnix c' = bTime b \<and>
    unat (lSeq (view (store c'))) \<le> unat (lSeq (view (store c))) + block_msgs b \<and>
    (\<forall>i p. lPending (view (store c')) i = Some p \<longrightarrow> due (bTime b) p \<longrightarrow> payee (addressCodec K) blocked p = None)"
proof -
  let ?c0 = "c\<lparr>blockTimeUnix := bTime b\<rparr>"
  have tick: "chain_step S K view hold c ?c0" by (rule chain_step.tick [OF time])
  obtain c1 where items: "go_for (run_item S C K) (bItems b) ?c0 = (Ok (), c1)"
      "advances S K view hold (block_msgs b) ?c0 c1"
    using items_advance [of ?c0 "bItems b" C] inv K ok room by (auto simp: block_msgs_def)
  have inv1: "ledger_inv (addressCodec K) denom_ok hold (view (store c1))"
    using advances_inv [OF items(2)] inv K by simp
  obtain c2 where fin: "EndBlocker S K c1 = (Ok (), c2)" "blockTimeUnix c2 = blockTimeUnix c1"
      "view (store c2) = end_block (addressCodec K) blocked hold (blockTimeUnix c1) (view (store c1))"
    using EndBlocker_refines [of c1] inv1 by (auto simp: ledger_inv_def dest: wf_payable)
  have "run_block S C am b c = (Ok (), c2)"
    using items(1) fin(1) by (simp add: run_block_def BeginBlock_def EndBlock_def K bind_def ret_def)
  moreover have "chain_steps S K view hold c c2"
    using items(2) steps_trans [OF _ one_step [OF tick]] chain_step.end_block [OF fin(1)]
    by (auto simp: advances_def intro: chain_steps.more)
  moreover note after = fin(3) [unfolded end_block_closed(2) [OF inv1]]
  moreover have "\<forall>i p. lPending (view (store c2)) i = Some p \<longrightarrow> due (bTime b) p \<longrightarrow> payee (addressCodec K) blocked p = None"
    using items(2) by (auto simp: after paid_ids_def advances_def split: if_splits)
  moreover have "unat (lSeq (view (store c2))) \<le> unat (lSeq (view (store c))) + block_msgs b"
    using items(2) by (simp add: after advances_def)
  moreover have "blockTimeUnix c2 = bTime b" using items(2) fin(2) by (simp add: advances_def)
  ultimately show ?thesis by blast
qed

lemma blocks_run:
  assumes "ledger_inv (addressCodec (keeper am)) denom_ok hold (view (store c))" and K: "keeper am = K"
    and "blocks_ok C (addressCodec K) view hold (blockTimeUnix c) bs"
    and "unat (lSeq (view (store c))) + all_msgs bs < 2 ^ 64"
  shows "\<exists>c'. go_for (run_block S C am) bs c = (Ok (), c') \<and> chain_steps S K view hold c c' \<and>
    (bs \<noteq> [] \<longrightarrow> blockTimeUnix c' = bTime (last bs)) \<and>
    (bs \<noteq> [] \<longrightarrow> (\<forall>i p. lPending (view (store c')) i = Some p \<longrightarrow> due (blockTimeUnix c') p \<longrightarrow>
      payee (addressCodec K) blocked p = None))"
  using assms(1,3,4)
proof (induction bs arbitrary: c)
  case Nil
  then show ?case by (simp add: ret_def chain_steps.here)
next
  case (Cons b bs)
  note ok = Cons.prems(2) [unfolded blocks_ok_def]
  obtain c1 where one: "run_block S C am b c = (Ok (), c1)" "chain_steps S K view hold c c1" "blockTimeUnix c1 = bTime b"
    "unat (lSeq (view (store c1))) \<le> unat (lSeq (view (store c))) + block_msgs b"
    "\<forall>i p. lPending (view (store c1)) i = Some p \<longrightarrow> due (bTime b) p \<longrightarrow> payee (addressCodec K) blocked p = None"
    using block_runs [OF Cons.prems(1) K, of b C] ok Cons.prems(3) by (auto simp: all_msgs_def)
  have inv1: "ledger_inv (addressCodec (keeper am)) denom_ok hold (view (store c1))"
    using steps_inv [OF one(2)] Cons.prems(1) K by simp
  obtain c2 where rest: "go_for (run_block S C am) bs c1 = (Ok (), c2)" "chain_steps S K view hold c1 c2"
    "bs \<noteq> [] \<longrightarrow> blockTimeUnix c2 = bTime (last bs)"
    "bs \<noteq> [] \<longrightarrow> (\<forall>i p. lPending (view (store c2)) i = Some p \<longrightarrow> due (blockTimeUnix c2) p \<longrightarrow>
      payee (addressCodec K) blocked p = None)"
    using Cons.IH [OF inv1] ok one(3,4) Cons.prems(3) by (auto simp: blocks_ok_def all_msgs_def)
  have "go_for (run_block S C am) (b # bs) c = (Ok (), c2)" using one(1) rest(1) by (simp add: bind_def)
  moreover have "c2 = c1" if "bs = []" using that rest(1) by (simp add: ret_def)
  ultimately show ?case using steps_trans [OF rest(2) one(2)] rest(3,4) one(3,5)
    by (cases "bs = []") auto
qed

end

section \<open>The property\<close>

text \<open>
  C29: The module keeps its promises in blocks of bytes: started by its \<open>InitGenesis\<close> on the
  default genesis, whatever transactions follow, as long as there are fewer than $2^{64}$
  messages, nobody signs for the module's account, other modules take nothing from it and block
  times do not go back: every block returns from its \<open>EndBlock\<close> (the chain never halts), the
  state reached is one of the step relation, the module's account covers every payment in
  flight, nobody has more than 20 of them, and after every block a payment that is still in
  flight is not due yet or cannot be delivered.
\<close>

theorem blocks_from_genesis:
  assumes "undo_contracts S (keeper am) view maddr blocked denom_ok"
    and "UnmarshalJSON (cdc am) gs = Inr DefaultGenesis"
    and "lPending (view (store c)) = Map.empty" and "lRecord (view (store c)) = Map.empty"
    and "\<forall>d. 0 \<le> lBal (view (store c)) (maddr ModuleName) d"
    and "blocks_ok C (addressCodec (keeper am)) view (maddr ModuleName) (blockTimeUnix c) bs" and "all_msgs bs < 2 ^ 64"
  shows "\<exists>c0 c'. AppModule_InitGenesis am gs c = (Ok (), c0) \<and> go_for (run_block S C am) bs c0 = (Ok (), c') \<and>
    chain_steps S (keeper am) view (maddr ModuleName) c0 c' \<and>
    (\<forall>d. pending_total (lPending (view (store c'))) d \<le> lBal (view (store c')) (maddr ModuleName) d) \<and>
    (\<forall>s. open_count (view (store c')) s \<le> MaxOpenPerSender) \<and>
    (bs \<noteq> [] \<longrightarrow> (\<forall>i p. lPending (view (store c')) i = Some p \<longrightarrow> due (blockTimeUnix c') p \<longrightarrow>
      payee (addressCodec (keeper am)) blocked p = None))"
proof -
  let ?h = "maddr ModuleName" and ?A = "addressCodec (keeper am)"
  obtain st where i: "InitGenesis (keeper am) DefaultGenesis c = (Ok (), c\<lparr>store := st\<rparr>)"
    and v: "view st = (view (store c))\<lparr>lPending := Map.empty, lRecord := Map.empty, lSeq := 0, lParams := Some DefaultParams\<rparr>"
    using undo_contracts.InitGenesis_eval [OF assms(1), of DefaultGenesis c] assms(3,4)
    by (auto simp: DefaultGenesis_def load_pendings_def load_records_def)
  let ?c0 = "c\<lparr>store := st\<rparr>"
  have inv: "ledger_inv ?A denom_ok ?h (view (store ?c0))"
    using assms(5) by (intro fresh_inv) (simp add: fresh_ledger_def v Params_Validate_None)
  have "AppModule_InitGenesis am gs c = (Ok (), ?c0)" by (simp add: AppModule_InitGenesis_def assms(2) i)
  moreover obtain c' where run: "go_for (run_block S C am) bs ?c0 = (Ok (), c')"
      "chain_steps S (keeper am) view ?h ?c0 c'"
      "bs \<noteq> [] \<longrightarrow> (\<forall>i p. lPending (view (store c')) i = Some p \<longrightarrow> due (blockTimeUnix c') p \<longrightarrow> payee ?A blocked p = None)"
    using undo_contracts.blocks_run [OF assms(1) inv refl, of C bs] assms(6,7) by (auto simp: v)
  moreover have "ledger_inv ?A denom_ok ?h (view (store c'))"
    by (rule undo_contracts.steps_inv [OF assms(1) run(2) inv])
  ultimately show ?thesis by (auto simp: ledger_inv_def solvent_def capped_def)
qed

text \<open>
  Two blocks on the in-memory keeper: coins are minted for alice, her payment to bob arrives as
  bytes with a message nobody can decode in a transaction of its own, and the second block is
  past the window.
\<close>

definition genesis_json :: JSONCodec where
  "genesis_json = \<lparr>MarshalJSON = (\<lambda>_. Inr ''{}''), UnmarshalJSON = (\<lambda>_. Inr DefaultGenesis)\<rparr>"

definition demo_app :: "mem AppModule" where
  "demo_app = NewAppModule genesis_json mem_keeper demo_auth_keeper mem_bank"

definition mint_alice :: "mem \<Rightarrow> mem" where
  "mint_alice st = st\<lparr>mBal := (mBal st)(alice_bytes := (\<lambda>_. 100))\<rparr>"

definition wire_send :: bytes where
  "wire_send = undo_enc wire_coin_enc (DelayedSendMsg (demo_send bob 300))"

definition demo_blocks :: "mem block list" where
  "demo_blocks = [
     \<lparr>bTime = 1000, bItems = [OtherModule mint_alice, Tx [(''/trefoil.undo.v1.Msg/DelayedSend'', wire_send)],
        Tx [(''/trefoil.undo.v1.Msg/CancelSend'', [0xff])]]\<rparr>,
     \<lparr>bTime = 1300, bItems = []\<rparr>]"

context coin_codec
begin

lemma send_decodes:
  "cgood (dsAmount d) \<Longrightarrow> length (undo_enc cenc (DelayedSendMsg d)) < 2 ^ 63 \<Longrightarrow>
     wire_dec C (undo_enc cenc (DelayedSendMsg d)) (DelayedSendMsg MsgDelayedSend_zero) = Inr (DelayedSendMsg d)"
  using delayed_send.roundtrip by (simp add: unmarshal_defs decoded_def fits_def MsgDelayedSend_good_def)

end

lemma mint_harmless: "harmless mem_view (mem_maddr ModuleName) mint_alice"
proof -
  have "mem_view (mint_alice st) = (mem_view st)\<lparr>lBal := (mBal st)(alice_bytes := (\<lambda>_. 100))\<rparr>" for st
    by (simp add: mem_view_def mint_alice_def)
  then show ?thesis unfolding harmless_def
    using demo_others(1) demo_others(1) [symmetric] by (auto simp: mem_view_def)
qed

theorem blocks_from_genesis_witness:
  "\<exists>c0 c'. AppModule_InitGenesis demo_app ''{}'' demo_empty = (Ok (), c0) \<and>
    go_for (run_block mem_coins wire_coin demo_app) demo_blocks c0 = (Ok (), c') \<and>
    (\<forall>s. open_count (mem_view (store c')) s \<le> MaxOpenPerSender) \<and>
    (\<forall>i p. lPending (mem_view (store c')) i = Some p \<longrightarrow> due (blockTimeUnix c') p \<longrightarrow> payee mem_codec mem_blocked p = None)"
proof -
  have keep: "keeper demo_app = mem_keeper" "cdc demo_app = genesis_json" by (simp_all add: demo_app_def)
  have "Amount (dsAmount (demo_send bob 300)) \<noteq> None" "length (wire_coin_enc (dsAmount (demo_send bob 300))) < 100"
    "length (undo_enc wire_coin_enc (DelayedSendMsg (demo_send bob 300))) < 1000"
    by code_simp+
  then have good: "wire_coin_good (dsAmount (demo_send bob 300))"
    "length (undo_enc wire_coin_enc (DelayedSendMsg (demo_send bob 300))) < 2 ^ 63"
    by (simp_all add: wire_coin_good_def fits_def)
  from wire.send_decodes [OF this]
  have send: "signed_by_others wire_coin mem_codec (mem_maddr ModuleName) (full, wire_send)" for full
    by (simp add: signed_by_others_def wire_send_def demo_send_def del: wire_dec.simps undo_enc.simps)
  have junk: "signed_by_others wire_coin mem_codec (mem_maddr ModuleName) (full, [0xff])" for full
    by code_simp
  have "blocks_ok wire_coin mem_codec mem_view (mem_maddr ModuleName) (blockTimeUnix demo_empty) demo_blocks"
    using mint_harmless send junk
    by (simp add: blocks_ok_def demo_blocks_def demo_empty_def demo_ctx_def)
  moreover have "all_msgs demo_blocks < 2 ^ 64" by (simp add: all_msgs_def block_msgs_def demo_blocks_def)
  moreover have "demo_blocks \<noteq> []" by (simp add: demo_blocks_def)
  ultimately show ?thesis
    using blocks_from_genesis [of mem_coins demo_app mem_view mem_maddr mem_blocked mem_denom_ok "''{}''" demo_empty wire_coin demo_blocks]
      mem_contracts demo_empty_view
    by (auto simp: keep genesis_json_def)
qed

end
