(* ===== verification/Delivery.thy ===== *)
theory Delivery
  imports Blocks
begin

text \<open>
  A payment in flight on a chain of blocks is settled: once a block has a time at or after its
  own, it has left the table, and the point at which it left can be traced back. The module ends
  the block it falls due in, whatever the transactions of the blocks do.
\<close>

section \<open>Tracing back\<close>

text \<open>
  A run at whose end a payment is gone has a step that took it out, and it is one of two kinds.
\<close>

definition taken_back :: "CoinOps \<Rightarrow> 'st Keeper \<Rightarrow> u64 \<Rightarrow> Pending \<Rightarrow> 'st ctx \<Rightarrow> 'st ctx \<Rightarrow> bool" where
  "taken_back S K i p c c' \<longleftrightarrow>
     (\<exists>msg. CancelSend S K msg c = (Ok (), c') \<and> csId msg = i \<and> csCreator msg = pSender p)"

definition handed_over :: "CoinOps \<Rightarrow> 'st Keeper \<Rightarrow> Pending \<Rightarrow> 'st ctx \<Rightarrow> 'st ctx \<Rightarrow> bool" where
  "handed_over S K p c c' \<longleftrightarrow> EndBlocker S K c = (Ok (), c') \<and> due (blockTimeUnix c) p"

context undo_contracts
begin

lemma traceback:
  assumes "chain_steps S K view hold c c'" and "ledger_inv (addressCodec K) denom_ok hold (view (store c))"
    and "lPending (view (store c)) i = Some p" and "lPending (view (store c')) i \<noteq> Some p"
  shows "\<exists>c1 c2. chain_steps S K view hold c c1 \<and> chain_steps S K view hold c2 c' \<and>
    lPending (view (store c1)) i = Some p \<and> lPending (view (store c2)) i = None \<and>
    (taken_back S K i p c1 c2 \<or> handed_over S K p c1 c2)"
  using assms
proof (induction rule: chain_steps.induct)
  case (more c c' c'')
  show ?case
  proof (cases "lPending (view (store c')) i = Some p")
    case True
    have inv: "ledger_inv (addressCodec K) denom_ok hold (view (store c'))"
      using more by (auto intro: steps_inv)
    from step_leaves [OF more.hyps(2) inv True more.prems(3)]
    have "lPending (view (store c'')) i = None" "taken_back S K i p c' c'' \<or> handed_over S K p c' c''"
      by (auto simp: taken_back_def handed_over_def due_def)
    with True more.hyps(1) chain_steps.here show ?thesis by blast
  next
    case False
    with more.IH [OF more.prems(1,2)] more.hyps(2) show ?thesis by (blast intro: chain_steps.more)
  qed
qed simp

end

section \<open>The property\<close>

text \<open>
  C31: Every payment is settled by its time. Take a payment in flight whose recipient can be paid
  and blocks of transactions as bytes, the last of them at or after the payment's time: the
  blocks run through, the payment is no longer in the table, and the run has the point where it
  left: its sender took it back by a \<open>CancelSend\<close>, or the end of a block at or after its time
  handed it over, and the recipient's balance grew by at least its amount.
\<close>

theorem settled_by_its_time:
  assumes "undo_contracts S (keeper am) view maddr blocked denom_ok"
    and "ledger_inv (addressCodec (keeper am)) denom_ok (maddr ModuleName) (view (store c))"
    and "lPending (view (store c)) i = Some p"
    and "payee (addressCodec (keeper am)) blocked p = Some to" and "to \<noteq> maddr ModuleName"
    and "blocks_ok C (addressCodec (keeper am)) view (maddr ModuleName) (blockTimeUnix c) bs"
    and "unat (lSeq (view (store c))) + all_msgs bs < 2 ^ 64"
    and "bs \<noteq> []" and "due (bTime (last bs)) p"
  shows "\<exists>c' c1 c2. go_for (run_block S C am) bs c = (Ok (), c') \<and> lPending (view (store c')) i = None \<and>
    chain_steps S (keeper am) view (maddr ModuleName) c c1 \<and> chain_steps S (keeper am) view (maddr ModuleName) c2 c' \<and>
    lPending (view (store c1)) i = Some p \<and> lPending (view (store c2)) i = None \<and>
    (taken_back S (keeper am) i p c1 c2 \<or>
     (handed_over S (keeper am) p c1 c2 \<and>
      (\<forall>d. lBal (view (store c1)) to d + coin_units (pAmount p) d \<le> lBal (view (store c2)) to d)))"
proof -
  note chain = undo_contracts.blocks_run [OF assms(1,2) refl assms(6,7)]
  obtain c' where run: "go_for (run_block S C am) bs c = (Ok (), c')"
      "chain_steps S (keeper am) view (maddr ModuleName) c c'" "blockTimeUnix c' = bTime (last bs)"
      "\<forall>i p. lPending (view (store c')) i = Some p \<longrightarrow> due (blockTimeUnix c') p \<longrightarrow> payee (addressCodec (keeper am)) blocked p = None"
    using chain assms(8) by blast
  have gone: "lPending (view (store c')) i \<noteq> Some p" using run(3,4) assms(4,9) by auto
  with undo_contracts.steps_same [OF assms(1) run(2) assms(2,3)] have "lPending (view (store c')) i = None" by simp
  moreover obtain c1 c2 where mid: "chain_steps S (keeper am) view (maddr ModuleName) c c1"
      "chain_steps S (keeper am) view (maddr ModuleName) c2 c'" "lPending (view (store c1)) i = Some p"
      "lPending (view (store c2)) i = None" "taken_back S (keeper am) i p c1 c2 \<or> handed_over S (keeper am) p c1 c2"
    using undo_contracts.traceback [OF assms(1) run(2) assms(2,3) gone] by blast
  moreover have "\<forall>d. lBal (view (store c1)) to d + coin_units (pAmount p) d \<le> lBal (view (store c2)) to d"
    if "handed_over S (keeper am) p c1 c2"
    using undo_contracts.block_pays [OF assms(1) undo_contracts.steps_inv [OF assms(1) mid(1) assms(2)] mid(3) _ _ assms(4,5)] that
    unfolding handed_over_def by blast
  ultimately show ?thesis using run(1) by blast
qed

text \<open>The payment of the small chain, with a block before its time and one at its time.\<close>

definition waiting_blocks :: "mem block list" where
  "waiting_blocks = [\<lparr>bTime = 1100, bItems = [Tx [(''/trefoil.undo.v1.Msg/CancelSend'', [0xff])]]\<rparr>, \<lparr>bTime = 1300, bItems = []\<rparr>]"

theorem settled_by_its_time_witness:
  "\<exists>c' c1 c2. go_for (run_block mem_coins wire_coin demo_app) waiting_blocks demo1 = (Ok (), c') \<and>
    lPending (mem_view (store c')) 0 = None \<and> lPending (mem_view (store c1)) 0 = Some demo_payment \<and>
    (taken_back mem_coins mem_keeper 0 demo_payment c1 c2 \<or>
     handed_over mem_coins mem_keeper demo_payment c1 c2 \<and>
     lBal (mem_view (store c1)) bob_bytes ''utre'' + 40 \<le> lBal (mem_view (store c2)) bob_bytes ''utre'')"
proof -
  have keep: "keeper demo_app = mem_keeper" by (simp add: demo_app_def)
  have pay: "payee mem_codec mem_blocked demo_payment = Some bob_bytes" by (simp add: payee_def demo_payment_def)
  have junk: "signed_by_others wire_coin mem_codec (mem_maddr ModuleName) (full, [0xff])" for full by code_simp
  have ok: "blocks_ok wire_coin mem_codec mem_view (mem_maddr ModuleName) (blockTimeUnix demo1) waiting_blocks"
    using junk by (simp add: blocks_ok_def waiting_blocks_def)
  have rest: "unat (lSeq (mem_view (store demo1))) + all_msgs waiting_blocks < 2 ^ 64" "waiting_blocks \<noteq> []"
    "due (bTime (last waiting_blocks)) demo_payment"
    by (simp_all add: demo1_view all_msgs_def block_msgs_def waiting_blocks_def due_def demo_payment_def)
  from settled_by_its_time [of mem_coins demo_app mem_view mem_maddr mem_blocked mem_denom_ok demo1 0 demo_payment bob_bytes wire_coin waiting_blocks]
  obtain c' c1 c2 where "go_for (run_block mem_coins wire_coin demo_app) waiting_blocks demo1 = (Ok (), c')"
      "lPending (mem_view (store c')) 0 = None" "lPending (mem_view (store c1)) 0 = Some demo_payment"
      "taken_back mem_coins mem_keeper 0 demo_payment c1 c2 \<or> (handed_over mem_coins mem_keeper demo_payment c1 c2 \<and>
         (\<forall>d. lBal (mem_view (store c1)) bob_bytes d + coin_units (pAmount demo_payment) d \<le> lBal (mem_view (store c2)) bob_bytes d))"
    using mem_contracts demo_invs(1) pay ok rest by (auto simp: keep)
  moreover have "coin_units (pAmount demo_payment) ''utre'' = 40" by (simp add: demo_payment_def utre_def coin_units_def)
  ultimately show ?thesis by metis
qed

end
