(* ===== verification/Serving.thy ===== *)
theory Serving
  imports QueryService
begin

text \<open>
  The two ways to serve the queries over HTTP, compared: in process, by handlers that call the
  server (\<open>RegisterQueryHandlerServer\<close>), and through the generated client over a connection to
  the same server (\<open>RegisterQueryHandler\<close>, \<open>NewQueryClient\<close>, \<open>grpc_Invoke\<close>). The source warns that in
  process many features of the gRPC library do not work: there is no connection whose
  interceptors would run. What agrees is what is left without them.
\<close>

section \<open>What the handlers ask\<close>












section \<open>Contract\<close>




section \<open>The property\<close>


section \<open>The demo chain behind both\<close>



lemma demo_status_twice [simp]: "demo_status (demo_status e) = demo_status e"
  by (cases e) (simp_all add: demo_status_def)




end
