(* ===== verification/Decoding.thy ===== *)
theory Decoding
  imports MsgClient ConfigCodec
begin

text \<open>
  Every decoder of the module returns: the stored data, the messages of transactions and their
  answers, the requests and replies of the queries, and the configuration. The loops run with
  fuel, and here it is shown that it is enough on whatever input.
\<close>

context coin_codec
begin

lemma stored_return:
  assumes "length d < 2 ^ 63"
  shows "Params_Unmarshal p d \<noteq> OutOfFuel" "Record_Unmarshal r d \<noteq> OutOfFuel"
    "Pending_Unmarshal C q d \<noteq> OutOfFuel" "GenesisState_Unmarshal C g d \<noteq> OutOfFuel" "proto_skip d \<noteq> OutOfFuel"
  using params.total [OF assms] recrd.total [OF assms] pending.total [OF assms] genesis.total [OF assms]
    proto_skip_total [OF assms] by blast+

lemma messages_return:
  assumes "length d < 2 ^ 63"
  shows "MsgUpdateParams_Unmarshal m1 d \<noteq> OutOfFuel" "MsgDelayedSend_Unmarshal C m2 d \<noteq> OutOfFuel"
    "MsgDelayedSendResponse_Unmarshal m3 d \<noteq> OutOfFuel" "MsgCancelSend_Unmarshal m4 d \<noteq> OutOfFuel"
    "MsgSetFinalOnly_Unmarshal m5 d \<noteq> OutOfFuel" "MsgUpdateParamsResponse_Unmarshal u1 d \<noteq> OutOfFuel"
    "MsgCancelSendResponse_Unmarshal u2 d \<noteq> OutOfFuel" "MsgSetFinalOnlyResponse_Unmarshal u3 d \<noteq> OutOfFuel"
    "Module_Unmarshal m6 d \<noteq> OutOfFuel"
  using update_params.total [OF assms] delayed_send.total [OF assms] send_response.total [OF assms]
    cancel_send.total [OF assms] set_final_only.total [OF assms] empty_answer.total [OF assms] config.total [OF assms]
  by (simp_all add: MsgUpdateParams_Unmarshal_def MsgDelayedSend_Unmarshal_def MsgDelayedSendResponse_Unmarshal_def
    MsgCancelSend_Unmarshal_def MsgSetFinalOnly_Unmarshal_def MsgUpdateParamsResponse_Unmarshal_def
    MsgCancelSendResponse_Unmarshal_def MsgSetFinalOnlyResponse_Unmarshal_def Module_Unmarshal_def)

end

context query_codecs
begin

lemma queries_return:
  assumes "length d < 2 ^ 63"
  shows "QueryParamsRequest_Unmarshal u d \<noteq> OutOfFuel" "QueryParamsResponse_Unmarshal m1 d \<noteq> OutOfFuel"
    "QueryGetPendingRequest_Unmarshal m2 d \<noteq> OutOfFuel" "QueryGetPendingResponse_Unmarshal C m3 d \<noteq> OutOfFuel"
    "QueryAllPendingRequest_Unmarshal Q m4 d \<noteq> OutOfFuel" "QueryAllPendingResponse_Unmarshal C R m5 d \<noteq> OutOfFuel"
    "QueryGetRecordRequest_Unmarshal m6 d \<noteq> OutOfFuel" "QueryGetRecordResponse_Unmarshal m7 d \<noteq> OutOfFuel"
    "QueryAllRecordRequest_Unmarshal Q m8 d \<noteq> OutOfFuel" "QueryAllRecordResponse_Unmarshal R m9 d \<noteq> OutOfFuel"
  using params_request.total [OF assms] params_response.total [OF assms] pending_request.total [OF assms]
    pending_response.total [OF assms] pendings_request.total [OF assms] pendings_response.total [OF assms]
    record_request.total [OF assms] record_response.total [OF assms] records_request.total [OF assms]
    records_response.total [OF assms]
  by (simp_all add: query_unmarshal_defs)

end

section \<open>The property\<close>

text \<open>
  C33: Decoding always returns: on any input a Go slice can hold, however malformed, every
  \<open>Unmarshal\<close> of the module and the skipping of an unknown field end with a value or an error;
  no input makes a loop over fields, varints or nested groups run forever. That is for the
  stored messages, the messages of transactions with their answers, the messages of the
  queries, and the configuration, given coins and pages whose decoders return.
\<close>

theorem Unmarshal_returns:
  assumes "query_codecs C cenc cgood Q qenc qgood R renc rgood" and "length d < 2 ^ 63"
  shows "Params_Unmarshal p d \<noteq> OutOfFuel \<and> Record_Unmarshal r d \<noteq> OutOfFuel \<and>
    Pending_Unmarshal C q d \<noteq> OutOfFuel \<and> GenesisState_Unmarshal C g d \<noteq> OutOfFuel \<and> proto_skip d \<noteq> OutOfFuel \<and>
    MsgUpdateParams_Unmarshal m1 d \<noteq> OutOfFuel \<and> MsgUpdateParamsResponse_Unmarshal u1 d \<noteq> OutOfFuel \<and>
    MsgDelayedSend_Unmarshal C m2 d \<noteq> OutOfFuel \<and> MsgDelayedSendResponse_Unmarshal m3 d \<noteq> OutOfFuel \<and>
    MsgCancelSend_Unmarshal m4 d \<noteq> OutOfFuel \<and> MsgCancelSendResponse_Unmarshal u2 d \<noteq> OutOfFuel \<and>
    MsgSetFinalOnly_Unmarshal m5 d \<noteq> OutOfFuel \<and> MsgSetFinalOnlyResponse_Unmarshal u3 d \<noteq> OutOfFuel \<and>
    QueryParamsRequest_Unmarshal u4 d \<noteq> OutOfFuel \<and> QueryParamsResponse_Unmarshal q1 d \<noteq> OutOfFuel \<and>
    QueryGetPendingRequest_Unmarshal q2 d \<noteq> OutOfFuel \<and> QueryGetPendingResponse_Unmarshal C q3 d \<noteq> OutOfFuel \<and>
    QueryAllPendingRequest_Unmarshal Q q4 d \<noteq> OutOfFuel \<and> QueryAllPendingResponse_Unmarshal C R q5 d \<noteq> OutOfFuel \<and>
    QueryGetRecordRequest_Unmarshal q6 d \<noteq> OutOfFuel \<and> QueryGetRecordResponse_Unmarshal q7 d \<noteq> OutOfFuel \<and>
    QueryAllRecordRequest_Unmarshal Q q8 d \<noteq> OutOfFuel \<and> QueryAllRecordResponse_Unmarshal R q9 d \<noteq> OutOfFuel \<and>
    Module_Unmarshal m6 d \<noteq> OutOfFuel"
  by (intro conjI coin_codec.stored_return [OF query_codecs.axioms(1) [OF assms(1)] assms(2)]
    coin_codec.messages_return [OF query_codecs.axioms(1) [OF assms(1)] assms(2)] query_codecs.queries_return [OF assms])

theorem Unmarshal_returns_witness:
  "Pending_Unmarshal wire_coin Pending_zero [0x12, 0xff, 0xff, 0xff, 0xff, 0xff, 0xff, 0xff, 0xff, 0x7f] \<noteq> OutOfFuel \<and>
   Params_Unmarshal Params_zero [0x0b, 0x0b, 0x0c] \<noteq> OutOfFuel \<and>
   QueryAllPendingRequest_Unmarshal wire_page_request QueryAllPendingRequest_zero [0x0a, 0x03, 0x08] \<noteq> OutOfFuel"
  using Unmarshal_returns [OF wire_queries.query_codecs_axioms, where d = "[0x12, 0xff, 0xff, 0xff, 0xff, 0xff, 0xff, 0xff, 0xff, 0x7f]"]
    Unmarshal_returns [OF wire_queries.query_codecs_axioms, where d = "[0x0b, 0x0b, 0x0c]"]
    Unmarshal_returns [OF wire_queries.query_codecs_axioms, where d = "[0x0a, 0x03, 0x08]"] by simp

end
