(* ===== verification/Spec2Isabelle.thy ===== *)
theory Spec2Isabelle
  imports Payments Handlers Settlement Query Services Restart Routes Takeover Nodes NodeGenesis
    TestnetCmds Wiring Commands MsgClient Delivery Serving Decoding
begin

text \<open>
  Trefoil is a Cosmos SDK chain with one module of its own, \<open>x/undo\<close>: a payment is parked in the
  module's account for a while, and until it is handed over its sender may take it back. This
  development models that module, the codecs of what it stores, and the parts of the application
  and of the daemon that have logic of their own, and proves what makes them correct.

  \<^bold>\<open>How the program is modelled.\<close> A Go function that may fail or panic is a call
  \<open>('s, 'a) go = 's \<Rightarrow> 'a res \<times> 's\<close> (theory \<open>Prelude\<close>): it returns a value, an error or a panic, with
  the state as it is by then, so that an early return leaves the writes made before it. Structs
  are records, \<open>uint64\<close> and \<open>int64\<close> are 64-bit words (comparisons of \<open>int64\<close> are signed),
  \<open>math.Int\<close> is \<open>int option\<close> (None is the nil integer), strings are lists of characters, addresses
  lists of bytes. Code that is not in the repository (collections, bank, address codecs, gateway
  runtime, keepers of other modules, key and genesis tools) is a parameter: a record of functions
  over an opaque store \<open>'st\<close>. What the code relies on of it is a locale, and every locale is
  interpreted on a concrete implementation, on which the witnesses run.

  \<^bold>\<open>The module.\<close>
    \<^item> \<open>Types\<close>: keys, errors, messages, parameters, genesis and their validation (\<open>x/undo/types\<close>).
    \<^item> \<open>Sdk\<close>: the interfaces the keeper uses, \<open>sdk.Context\<close> among them.
    \<^item> \<open>Keeper\<close>: \<open>x/undo/keeper/keeper.go\<close>, \<open>helpers.go\<close>, the four message handlers and the end of a
      block (\<open>abci.go\<close>), statement by statement; \<open>Genesis\<close>: import and export of the state
      (\<open>genesis.go\<close>); \<open>Query\<close>: the queries; \<open>Module\<close>: \<open>x/undo/module/module.go\<close> and
      \<open>depinject.go\<close>, what dependency injection is handed and hands on;
      \<open>Simulation\<close>: \<open>simulation.go\<close>, the simulation operations and the command line table.
    \<^item> \<open>Contracts\<close>: the abstract state \<open>ledger\<close> (payments in flight, tallies, sequence, parameters,
      balances) and the laws of collections, bank and coins; what a collection returns is what its
      codec reads back, so a nil amount comes back as zero. \<open>Ledger\<close>: the abstract specification of
      every operation. \<open>Refinement\<close>: the handlers and the end of a block implement it, branch by
      branch. \<open>MemStore\<close>: an in-memory store, bank and address codec that meet the laws.
    \<^item> \<open>Machine\<close>: the chain as a step relation (transactions, ends of blocks, time passing, other
      modules moving coins they may move), with an effect for every step. \<open>Invariants\<close>: what every
      step keeps (\<open>ledger_inv\<close>). \<open>Guarantees\<close>: consequences for runs. \<open>Demo\<close>: a chain of a few
      steps with two users.
    \<^item> \<open>Payments\<close>, \<open>Handlers\<close>, \<open>Settlement\<close>, \<open>Genesis\<close>, \<open>Query\<close>, \<open>Module\<close>: the properties. The
      holding account covers what is in flight; a payment leaves the table only to its recipient
      or back to its sender, unaltered and once; windows are exact, with the overflow of windows
      of 2^63 seconds and more; a payment that cannot be delivered stays undoable; a failed
      handler changes nothing; export and import are inverse.

  \<^bold>\<open>The codecs\<close> (\<open>x/undo/types/params.pb.go\<close>, \<open>record.pb.go\<close>, \<open>pending.pb.go\<close>, \<open>genesis.pb.go\<close>, \<open>tx.pb.go\<close>).
  \<open>Wire\<close>: writing varints and fields backwards into a sized buffer; \<open>WireRead\<close>: reading varints and
  lengths with 64-bit arithmetic; \<open>Message\<close>: the field loop, the skipping of unknown fields and the
  locale \<open>msg_codec\<close> that turns a message's parts into a round trip; \<open>Codec\<close> and \<open>CodecGenesis\<close>: what the
  module stores; \<open>CoinWire\<close>: a concrete coin codec and the properties; \<open>TxCodec\<close>: the messages of
  transactions, through the locale \<open>field_codec\<close>. \<open>Services\<close>: the service descriptor, the handlers that
  decode a message, the server over the keeper, what the module registers; a message is
  executed as it was sent. \<open>QueryCodec\<close>: the ten messages of the queries (\<open>query.pb.go\<close>), through
  three locales for their three shapes; \<open>QueryService\<close>: handlers, descriptor and client stub of the
  query service; what the store holds reaches the client unaltered. \<open>Blocks\<close>: the chain in blocks of
  transactions whose messages are bytes; every such run is a run of \<open>Machine\<close>. \<open>Delivery\<close>: every
  payment is settled by its time. \<open>MsgClient\<close>: the client stub of messages and the empty answers.
  \<open>ConfigCodec\<close>: the message that configures the module (\<open>module.pb.go\<close>). The
  loops of \<open>Unmarshal\<close> and \<open>skip\<close> run with fuel: one more than the length of the input. Every
  round consumes at least one byte or fails, so the fuel never runs out on any input of less than
  2^63 bytes, which is every input Go can hold; \<open>Decoding\<close> states it for every decoder.

  \<^bold>\<open>The application and the daemon.\<close>
    \<^item> \<open>App\<close>: the configuration of every module, the tables of accounts and orders
      (\<open>app/app_config.go\<close>), the functions of \<open>app.go\<close> and \<open>genesis_account.go\<close> that read them, and the
      address prefixes (\<open>config.go\<close>).
    \<^item> \<open>Ibc\<close>, \<open>NewApp\<close>, \<open>Wiring\<close>: \<open>app/ibc.go\<close>, \<open>app.go\<close> and \<open>docs/docs.go\<close>. \<open>New\<close> is modelled call by call
      over opaque values; every application it returns is wired, and the configuration is closed
      and puts the module under governance.
    \<^item> \<open>Commands\<close>: the command tree, the root command, \<open>main\<close> (\<open>cmd/trefoild\<close>).
    \<^item> \<open>Calls\<close>: loops, \<open>panic(err)\<close> and dropped results, and the rules \<open>keeps\<close> and \<open>acts\<close> for reasoning about
      long procedures on a view of the state.
    \<^item> \<open>Export\<close>, \<open>Restart\<close>: \<open>app/export.go\<close>, the zero-height preparation step by step, and what it has
      reset when it returns; \<open>Daemon\<close>: the export command.
    \<^item> \<open>Gateway\<close>, \<open>Routes\<close>: \<open>x/undo/types/query.pb.gw.go\<close>, handlers, patterns and registration; a path
      with an id answers from the store. \<open>Serving\<close>: serving in process and through the generated
      client over a connection agree, as far as no interceptors are involved.
    \<^item> \<open>GoText\<close>: \<open>strings\<close>, \<open>strconv\<close> and \<open>path/filepath\<close> as far as the commands use them. \<open>Testnet\<close>,
      \<open>Takeover\<close>: \<open>cmd/trefoild/cmd/testnet.go\<close>, the validator set replaced by one validator.
      \<open>MultiNode\<close>, \<open>NodeFiles\<close>, \<open>Nodes\<close>: \<open>testnet_multi_node.go\<close>, arguments, addresses, files;
      \<open>NodeGenesis\<close>: every node starts from the same genesis. \<open>TestnetCmds\<close>: the two testnet commands
      with their flags, and how a command reads its flags.

  \<^bold>\<open>Bounds.\<close> The only bounds are the program's own: 64-bit words, and the index space of the
  sequence, which the invariant takes to be below 2^64 payments. Go's \<open>int\<close> counts list entries, ports
  and node numbers and is \<open>nat\<close> or \<open>int\<close> here, without its 64 bits. Files are under their cleaned
  paths. The roll-back of a failed transaction (\<open>Blocks\<close>) is baseapp's, as documented.

  \<^bold>\<open>Not modelled.\<close> Dependency injection, cobra, the gateway runtime and every other package that the
  repository only imports are parameters. The getters, \<open>XXX_\<close> methods and file descriptors of the
  generated files carry no logic. The browser wallet is JavaScript and keeps no state the chain
  relies on. Gas is not counted, and of the gateway's goroutine that closes a connection only the
  fact that it is scheduled is modelled. What is left of the Go files beyond that is package
  clauses, imports and comments.
\<close>

section \<open>From genesis on\<close>

text \<open>
  C34: The chain as a whole keeps its promises from its first block: \<open>InitGenesis\<close> of the default
  genesis into an empty store succeeds, and after any run of the chain from there the holding
  account covers every payment in flight, nobody has more than 20 of them, every end of a
  block returns without error or panic, and the exported state passes \<open>Validate\<close>.
\<close>

theorem chain_from_default_genesis:
  assumes "undo_contracts S K view maddr blocked denom_ok"
    and "lPending (view (store c)) = Map.empty" and "lRecord (view (store c)) = Map.empty"
    and "\<forall>d. 0 \<le> lBal (view (store c)) (maddr ModuleName) d"
  shows "\<exists>c0. InitGenesis K DefaultGenesis c = (Ok (), c0) \<and>
    (\<forall>c'. chain_steps S K view (maddr ModuleName) c0 c' \<longrightarrow>
       (\<forall>d. pending_total (lPending (view (store c'))) d \<le> lBal (view (store c')) (maddr ModuleName) d) \<and>
       (\<forall>s. open_count (view (store c')) s \<le> MaxOpenPerSender) \<and>
       (\<exists>c2. EndBlocker S K c' = (Ok (), c2)) \<and>
       (\<forall>g c2. ExportGenesis K c' = (Ok g, c2) \<longrightarrow> GenesisState_Validate g = None))"
proof -
  obtain st where i: "InitGenesis K DefaultGenesis c = (Ok (), c\<lparr>store := st\<rparr>)"
    and v: "view st = (view (store c))\<lparr>lPending := Map.empty, lRecord := Map.empty, lSeq := 0, lParams := Some DefaultParams\<rparr>"
    using undo_contracts.InitGenesis_eval [OF assms(1), of DefaultGenesis c] assms(2,3)
    by (auto simp: DefaultGenesis_def load_pendings_def load_records_def)
  have fresh: "ledger_inv (addressCodec K) denom_ok (maddr ModuleName) (view (store (c\<lparr>store := st\<rparr>)))"
    using assms(4) by (intro fresh_inv) (simp add: fresh_ledger_def v Params_Validate_None)
  have run: "(\<forall>d. pending_total (lPending (view (store c'))) d \<le> lBal (view (store c')) (maddr ModuleName) d) \<and>
       (\<forall>s. open_count (view (store c')) s \<le> MaxOpenPerSender) \<and> (\<exists>c2. EndBlocker S K c' = (Ok (), c2)) \<and>
       (\<forall>g c2. ExportGenesis K c' = (Ok g, c2) \<longrightarrow> GenesisState_Validate g = None)"
    if "chain_steps S K view (maddr ModuleName) (c\<lparr>store := st\<rparr>) c'" for c'
  proof -
    have inv: "ledger_inv (addressCodec K) denom_ok (maddr ModuleName) (view (store c'))"
      by (rule undo_contracts.steps_inv [OF assms(1) that fresh])
    have "GenesisState_Validate g = None" if "ExportGenesis K c' = (Ok g, c2)" for g c2
      using that undo_contracts.ExportGenesis_eval [OF assms(1), of c'] export_valid [OF inv]
        undo_contracts.finite_records [OF assms(1)]
      by (auto split: option.splits)
    with inv undo_contracts.block_ends [OF assms(1) inv] show ?thesis
      by (auto simp: ledger_inv_def solvent_def capped_def)
  qed
  with i show ?thesis by blast
qed

theorem chain_from_default_genesis_witness:
  "\<exists>c0. InitGenesis mem_keeper DefaultGenesis demo_empty = (Ok (), c0) \<and>
    (\<forall>c'. demo_steps c0 c' \<longrightarrow> (\<forall>s. open_count (mem_view (store c')) s \<le> MaxOpenPerSender))"
  using chain_from_default_genesis [OF mem_contracts demo_empty_view(1,2)] by (auto simp: demo_empty_view)

end
